(* ===== verification/Prelude.thy ===== *)
theory Prelude
  imports Main "HOL-Library.Word" "HOL-Library.AList" "HOL-Library.Multiset"
    "HOL-Library.Monad_Syntax" "HOL-Library.Sublist"
begin

unbundle bit_operations_syntax

text \<open>
  Shared vocabulary of the development: the machine integers the Go code uses, byte strings and
  their little/big endian readings, Go maps as association lists with distinct keys, the result
  type of fallible Go functions, and the library lemmas the component theories rest on.

  Conventions. A Go function that returns \<^verbatim>\<open>(T, error)\<close> returns a value of type
  \<open>'e + 'a\<close> here, \<open>Inl\<close> the error. A Go map is an association list
  whose keys are distinct; lookup is \<^const>\<open>map_of\<close>, assignment is \<^const>\<open>AList.update\<close>,
  \<^verbatim>\<open>delete\<close> is \<^const>\<open>AList.delete\<close>. A \<^verbatim>\<open>range\<close> loop over a map visits the pairs in an
  order Go leaves open: such a loop takes the order as an argument (a function that permutes the
  list), and the lemmas hold for every permutation (\<open>go_order\<close>).
\<close>

section \<open>Types\<close>

type_synonym u8 = "8 word"
type_synonym u16 = "16 word"
type_synonym u32 = "32 word"
type_synonym u64 = "64 word"
type_synonym bytes = "u8 list"

type_synonym ('k, 'v) gomap = "('k \<times> 'v) list"

named_theorems wire_simps \<open>unfolding of wire-format definitions\<close>
named_theorems str_simps \<open>rewriting of the Go string functions\<close>

section \<open>Iteration order of Go maps\<close>

definition go_order :: "('a list \<Rightarrow> 'a list) \<Rightarrow> bool" where
  "go_order ord \<longleftrightarrow> (\<forall>xs. mset (ord xs) = mset xs)"

lemma go_order_id [simp, intro]: "go_order id" "go_order (\<lambda>xs. xs)"
  by (simp_all add: go_order_def)

lemma go_order_rev [simp, intro]: "go_order rev"
  by (simp add: go_order_def)

lemma go_order_mset [simp]: "go_order ord \<Longrightarrow> mset (ord xs) = mset xs"
  by (simp add: go_order_def)

lemma go_order_set [simp]: "go_order ord \<Longrightarrow> set (ord xs) = set xs"
  by (metis go_order_def mset_eq_setD)

lemma go_order_length [simp]: "go_order ord \<Longrightarrow> length (ord xs) = length xs"
  by (metis go_order_def mset_eq_length)

lemma go_order_distinct [simp]: "go_order ord \<Longrightarrow> distinct (ord xs) = distinct xs"
  by (metis go_order_def mset_eq_imp_distinct_iff)

lemma go_order_distinct_fst:
  assumes "go_order ord" shows "distinct (map fst (ord xs)) = distinct (map fst xs)"
proof -
  have "mset (map fst (ord xs)) = mset (map fst xs)"
    using assms by (simp add: go_order_def)
  then show ?thesis by (rule mset_eq_imp_distinct_iff)
qed

lemma go_order_map_of:
  assumes "go_order ord" "distinct (map fst xs)"
  shows "map_of (ord xs) = map_of xs"
proof -
  have "distinct (map fst (ord xs))"
    using assms by (simp add: go_order_distinct_fst)
  then show ?thesis
    using assms by (intro map_of_inject_set [THEN iffD2]) auto
qed

lemma go_order_Nil [simp]: "go_order ord \<Longrightarrow> ord [] = []"
  by (metis go_order_length length_0_conv list.size(3))

section \<open>Go maps\<close>

lemma map_of_AList_update [simp]: "map_of (AList.update k v m) = (map_of m)(k \<mapsto> v)"
  by (rule update_conv')

lemma map_of_AList_delete [simp]: "map_of (AList.delete k m) = (map_of m)(k := None)"
  by (rule delete_conv')

lemma distinct_fst_update [simp]:
  "distinct (map fst m) \<Longrightarrow> distinct (map fst (AList.update k v m))"
  by (rule distinct_update)

lemma distinct_fst_delete [simp]:
  "distinct (map fst m) \<Longrightarrow> distinct (map fst (AList.delete k m))"
  by (rule distinct_delete)

lemma set_update_distinct:
  "distinct (map fst m) \<Longrightarrow>
   set (AList.update k v m) = insert (k, v) {(k', v') \<in> set m. k' \<noteq> k}"
  by (induction m) (force simp: image_iff)+

lemma set_delete_filter: "set (AList.delete k m) = {(k', v') \<in> set m. k' \<noteq> k}"
  by (auto simp: AList.delete_eq)

lemma map_of_eq_Some_iff_set:
  "distinct (map fst m) \<Longrightarrow> map_of m k = Some v \<longleftrightarrow> (k, v) \<in> set m"
  by (rule map_of_eq_Some_iff)

section \<open>Little and big endian readings\<close>

primrec nat_to_le :: "nat \<Rightarrow> nat \<Rightarrow> bytes" where
  "nat_to_le 0 v = []"
| "nat_to_le (Suc k) v = of_nat (v mod 256) # nat_to_le k (v div 256)"

primrec le_to_nat :: "bytes \<Rightarrow> nat" where
  "le_to_nat [] = 0"
| "le_to_nat (b # bs) = unat b + 256 * le_to_nat bs"

lemma length_nat_to_le [simp]: "length (nat_to_le k v) = k"
  by (induction k arbitrary: v) auto

lemma le_to_nat_bound: "le_to_nat bs < 256 ^ length bs"
proof (induction bs)
  case (Cons b bs)
  have "unat b < 256" using unsigned_less [of b] by simp
  with Cons show ?case by simp
qed simp

lemma unat_of_nat_mod_256 [simp]: "unat (of_nat (v mod 256) :: u8) = v mod 256"
  by (simp add: unat_of_nat)

lemma le_to_nat_nat_to_le: "le_to_nat (nat_to_le k v) = v mod 256 ^ k"
proof (induction k arbitrary: v)
  case (Suc k)
  show ?case
    by (simp add: Suc.IH mod_mult2_eq [of v 256 "256 ^ k"])
qed simp

lemma le_to_nat_nat_to_le_small [simp]: "v < 256 ^ k \<Longrightarrow> le_to_nat (nat_to_le k v) = v"
  by (simp add: le_to_nat_nat_to_le)

lemma nat_to_le_le_to_nat [simp]: "nat_to_le (length bs) (le_to_nat bs) = bs"
proof (induction bs)
  case (Cons b bs)
  have b: "unat b < 256" using unsigned_less [of b] by simp
  then have "(unat b + 256 * le_to_nat bs) mod 256 = unat b"
    and "(unat b + 256 * le_to_nat bs) div 256 = le_to_nat bs"
    by simp_all
  with Cons show ?case by simp
qed simp

lemma nat_to_le_eq_mod: "nat_to_le k (v mod 256 ^ k) = nat_to_le k v"
  by (metis le_to_nat_nat_to_le length_nat_to_le nat_to_le_le_to_nat)

lemma le_to_nat_append: "le_to_nat (xs @ ys) = le_to_nat xs + 256 ^ length xs * le_to_nat ys"
  by (induction xs) (simp_all add: algebra_simps)

lemma le_to_nat_replicate_0 [simp]: "le_to_nat (replicate n 0) = 0"
  by (induction n) auto

lemma nat_to_le_0 [simp]: "nat_to_le k 0 = replicate k 0"
  by (induction k) auto

section \<open>Branches of a long switch\<close>

text \<open>Case analysis on the value of a switch that drops the conditions of the branches.\<close>

lemma if_branchE:
  "(if b then x else y) = z \<Longrightarrow> (x = z \<Longrightarrow> P) \<Longrightarrow> (y = z \<Longrightarrow> P) \<Longrightarrow> P"
  by (simp split: if_splits)

lemma if_errE:
  "(if b then Inl x else y) = Inr z \<Longrightarrow> (\<not> b \<Longrightarrow> y = Inr z \<Longrightarrow> P) \<Longrightarrow> P"
  by (simp split: if_splits)

text \<open>The same for loop bodies that return early with an empty list.\<close>

lemma in_case_optionE:
  "x \<in> set (case v of None \<Rightarrow> [] | Some y \<Rightarrow> f y) \<Longrightarrow> (\<And>y. v = Some y \<Longrightarrow> x \<in> set (f y) \<Longrightarrow> P) \<Longrightarrow> P"
  by (cases v) auto

lemma in_case_sumE:
  "x \<in> set (case v of Inl _ \<Rightarrow> [] | Inr y \<Rightarrow> f y) \<Longrightarrow> (\<And>y. v = Inr y \<Longrightarrow> x \<in> set (f y) \<Longrightarrow> P) \<Longrightarrow> P"
  by (cases v) auto

lemma in_if_emptyE:
  "x \<in> set (if b then [] else ys) \<Longrightarrow> (\<not> b \<Longrightarrow> x \<in> set ys \<Longrightarrow> P) \<Longrightarrow> P"
  by (simp split: if_splits)

lemma length_delete_distinct:
  "distinct (map fst m) \<Longrightarrow> k \<in> fst ` set m \<Longrightarrow> Suc (length (AList.delete k m)) = length m"
proof (induction m)
  case (Cons x m)
  show ?case
  proof (cases "fst x = k")
    case True
    with Cons.prems have "k \<notin> fst ` set m" by auto
    then have "AList.delete k m = m"
      by (rule AList.delete_id)
    with True show ?thesis by (cases x) simp
  next
    case False
    with Cons show ?thesis by (cases x) auto
  qed
qed simp

end
