(* ===== verification/Collections.thy ===== *)
theory Collections
  imports Prelude
begin

text \<open>
  The string-slice helpers of \<^verbatim>\<open>src/pkg/collections/functions.go\<close>: one definition per Go
  function, then its specification in terms of the list library. Every function works on
  \<open>string list\<close>; \<open>Index\<close> returns an \<^typ>\<open>int\<close> because Go returns -1 for a missing string.
\<close>

section \<open>Definitions\<close>

primrec Index_from :: "int \<Rightarrow> string list \<Rightarrow> string \<Rightarrow> int" where
  "Index_from i [] t = -1"
| "Index_from i (v # vs) t = (if v = t then i else Index_from (i + 1) vs t)"

definition Index :: "string list \<Rightarrow> string \<Rightarrow> int" where
  "Index vs t = Index_from 0 vs t"

definition Include :: "string list \<Rightarrow> string \<Rightarrow> bool" where
  "Include vs t \<longleftrightarrow> Index vs t \<ge> 0"

primrec Any :: "string list \<Rightarrow> (string \<Rightarrow> bool) \<Rightarrow> bool" where
  "Any [] f = False"
| "Any (v # vs) f = (if f v then True else Any vs f)"

primrec All :: "string list \<Rightarrow> (string \<Rightarrow> bool) \<Rightarrow> bool" where
  "All [] f = True"
| "All (v # vs) f = (if \<not> f v then False else All vs f)"

primrec Filter_loop :: "string list \<Rightarrow> (string \<Rightarrow> bool) \<Rightarrow> string list \<Rightarrow> string list" where
  "Filter_loop [] f vsf = vsf"
| "Filter_loop (v # vs) f vsf = Filter_loop vs f (if f v then vsf @ [v] else vsf)"

definition Filter :: "string list \<Rightarrow> (string \<Rightarrow> bool) \<Rightarrow> string list" where
  "Filter vs f = Filter_loop vs f []"

text \<open>The maps \<^verbatim>\<open>m[item] = true\<close> used as sets.\<close>

primrec mark_all :: "string list \<Rightarrow> (string, bool) gomap \<Rightarrow> (string, bool) gomap" where
  "mark_all [] m = m"
| "mark_all (x # xs) m = mark_all xs (AList.update x True m)"

primrec keep_known :: "(string, bool) gomap \<Rightarrow> string list \<Rightarrow> string list \<Rightarrow> string list" where
  "keep_known m [] c = c"
| "keep_known m (x # xs) c =
     keep_known m xs (case map_of m x of Some _ \<Rightarrow> c @ [x] | None \<Rightarrow> c)"

definition Intersection :: "string list \<Rightarrow> string list \<Rightarrow> string list" where
  "Intersection a b = keep_known (mark_all a []) b []"

text \<open>
  \<^verbatim>\<open>Remove\<close> shifts the tail one place to the left in the shared backing array, clears the last
  cell and returns the slice without it. The model returns both the slice and the backing array
  (the caller's own slice, which sees the writes).
\<close>

definition Remove :: "string list \<Rightarrow> string \<Rightarrow> string list \<times> string list" where
  "Remove vs t =
     (let idx = Index vs t in
      if idx \<ge> 0 then
        (let i = nat idx;
             shifted = (if idx \<noteq> int (length vs) - 1
                        then take i vs @ drop (i + 1) vs @ [last vs] else vs);
             cleared = shifted[length vs - 1 := '''']
         in (take (length vs - 1) cleared, cleared))
      else (vs, vs))"

primrec drop_known :: "(string, bool) gomap \<Rightarrow> string list \<Rightarrow> string list \<Rightarrow> string list" where
  "drop_known m [] d = d"
| "drop_known m (x # xs) d =
     drop_known m xs (case map_of m x of Some _ \<Rightarrow> d | None \<Rightarrow> d @ [x])"

definition Difference :: "string list \<Rightarrow> string list \<Rightarrow> string list" where
  "Difference a b = drop_known (mark_all b []) a []"

primrec RemoveDuplications_loop ::
    "string list \<Rightarrow> (string, bool) gomap \<Rightarrow> string list \<Rightarrow> string list" where
  "RemoveDuplications_loop [] d l = l"
| "RemoveDuplications_loop (x # xs) d l =
     (case map_of d x of
        None \<Rightarrow> RemoveDuplications_loop xs (AList.update x True d) (l @ [x])
      | Some _ \<Rightarrow> RemoveDuplications_loop xs d l)"

definition RemoveDuplications :: "string list \<Rightarrow> string list" where
  "RemoveDuplications xs = RemoveDuplications_loop xs [] []"

definition Equal :: "string list \<Rightarrow> string list \<Rightarrow> bool" where
  "Equal a b = (if length a \<noteq> length b then False else All a (Include b))"

section \<open>Specifications\<close>

lemma Index_from_ge: "0 \<le> i \<Longrightarrow> Index_from i vs t = -1 \<or> Index_from i vs t \<ge> i"
proof (induction vs arbitrary: i)
  case (Cons v vs)
  from Cons.IH [of "i + 1"] Cons.prems show ?case by auto
qed simp

lemma Index_from_cases:
  assumes "0 \<le> i"
  shows "Index_from i vs t = -1 \<and> t \<notin> set vs
    \<or> (\<exists>n < length vs. Index_from i vs t = i + int n \<and> vs ! n = t \<and> t \<notin> set (take n vs))"
  using assms
proof (induction vs arbitrary: i)
  case (Cons v vs)
  show ?case
  proof (cases "v = t")
    case True
    then show ?thesis by (auto intro: exI [of _ 0])
  next
    case False
    from Cons.prems have "0 \<le> i + 1" by simp
    from Cons.IH [OF this] show ?thesis
    proof
      assume "Index_from (i + 1) vs t = -1 \<and> t \<notin> set vs"
      with False show ?thesis by auto
    next
      assume "\<exists>n < length vs. Index_from (i + 1) vs t = i + 1 + int n \<and> vs ! n = t
        \<and> t \<notin> set (take n vs)"
      then obtain n where n: "n < length vs" "Index_from (i + 1) vs t = i + 1 + int n"
        "vs ! n = t" "t \<notin> set (take n vs)" by blast
      with False show ?thesis by (auto intro!: exI [of _ "Suc n"])
    qed
  qed
qed simp

lemma Index_cases:
  obtains (absent) "Index vs t = -1" "t \<notin> set vs"
  | (found) n where "n < length vs" "Index vs t = int n" "vs ! n = t" "t \<notin> set (take n vs)"
  using Index_from_cases [of 0 vs t] unfolding Index_def by auto

lemma Include_iff [simp]: "Include vs t \<longleftrightarrow> t \<in> set vs"
  by (cases rule: Index_cases [of vs t]) (auto simp: Include_def)

lemma Any_iff [simp]: "Any vs f \<longleftrightarrow> (\<exists>v \<in> set vs. f v)"
  by (induction vs) auto

lemma All_iff [simp]: "All vs f \<longleftrightarrow> (\<forall>v \<in> set vs. f v)"
  by (induction vs) auto

lemma Filter_loop_eq: "Filter_loop vs f acc = acc @ filter f vs"
  by (induction vs arbitrary: acc) auto

lemma Filter_eq: "Filter vs f = filter f vs"
  by (simp add: Filter_def Filter_loop_eq)

lemma map_of_mark_all: "map_of (mark_all xs m) x = (if x \<in> set xs then Some True else map_of m x)"
  by (induction xs arbitrary: m) auto

lemma keep_known_eq: "keep_known m xs c = c @ filter (\<lambda>x. map_of m x \<noteq> None) xs"
  by (induction xs arbitrary: c) (auto split: option.splits)

lemma drop_known_eq: "drop_known m xs d = d @ filter (\<lambda>x. map_of m x = None) xs"
  by (induction xs arbitrary: d) (auto split: option.splits)

lemma Intersection_eq: "Intersection a b = filter (\<lambda>x. x \<in> set a) b"
  by (auto simp: Intersection_def keep_known_eq map_of_mark_all intro: filter_cong)

lemma Difference_eq: "Difference a b = filter (\<lambda>x. x \<notin> set b) a"
  by (simp add: Difference_def drop_known_eq map_of_mark_all)

lemma butlast_remove1_shift:
  assumes "n < length vs" "vs ! n = t" "t \<notin> set (take n vs)"
  shows "take n vs @ drop (Suc n) vs = remove1 t vs"
proof -
  have "vs = take n vs @ t # drop (Suc n) vs"
    using assms(1,2) id_take_nth_drop by blast
  then have "remove1 t vs = remove1 t (take n vs @ t # drop (Suc n) vs)" by simp
  also have "\<dots> = take n vs @ drop (Suc n) vs"
    using assms(3) by (simp add: remove1_append)
  finally show ?thesis by simp
qed

lemma RemoveDuplications_loop_spec:
  assumes "\<And>x. map_of d x \<noteq> None \<longleftrightarrow> x \<in> set l" "distinct l"
  shows "distinct (RemoveDuplications_loop xs d l) \<and>
    set (RemoveDuplications_loop xs d l) = set l \<union> set xs \<and>
    (\<exists>ys. RemoveDuplications_loop xs d l = l @ ys \<and> subseq ys xs)"
  using assms
proof (induction xs arbitrary: d l)
  case (Cons x xs)
  show ?case
  proof (cases "map_of d x")
    case None
    with Cons.prems(1) [of x] have nx: "x \<notin> set l" by simp
    let ?r = "RemoveDuplications_loop xs (AList.update x True d) (l @ [x])"
    have "distinct ?r \<and> set ?r = set (l @ [x]) \<union> set xs \<and>
        (\<exists>ys. ?r = (l @ [x]) @ ys \<and> subseq ys xs)"
      using Cons.prems nx by (intro Cons.IH) auto
    then obtain ys where ys: "distinct ?r" "set ?r = insert x (set l \<union> set xs)"
      "?r = l @ x # ys" "subseq ys xs" by auto
    then have "subseq (x # ys) (x # xs)" by simp
    with ys None show ?thesis by auto
  next
    case (Some b)
    let ?r = "RemoveDuplications_loop xs d l"
    from Cons.IH [OF Cons.prems] obtain ys where ys: "distinct ?r" "set ?r = set l \<union> set xs"
      "?r = l @ ys" "subseq ys xs" by blast
    moreover have "x \<in> set l" using Some Cons.prems(1) by (metis option.distinct(1))
    moreover have "subseq ys (x # xs)" using ys(4) by auto
    ultimately show ?thesis using Some by auto
  qed
qed auto

text \<open>
  \<^verbatim>\<open>Remove\<close> returns the slice without the first occurrence of the string (and the slice
  itself when the string is absent), although it works in place on the backing array.
\<close>

theorem Remove_first_occurrence: "fst (Remove vs t) = remove1 t vs"
proof (cases rule: Index_cases [of vs t])
  case absent
  then show ?thesis by (simp add: Remove_def remove1_idem)
next
  case (found n)
  then have ne: "vs \<noteq> []" by auto
  have rem: "take n vs @ drop (Suc n) vs = remove1 t vs"
    using found by (intro butlast_remove1_shift) auto
  show ?thesis
  proof (cases "int n = int (length vs) - 1")
    case True
    then have n: "length vs - Suc 0 = n" "drop (Suc n) vs = []" by simp_all
    with found rem show ?thesis by (simp add: Remove_def Let_def)
  next
    case False
    have len: "length (take n vs @ drop (Suc n) vs) = length vs - 1"
      using found(1) by simp
    have "fst (Remove vs t) = take (length vs - 1) (take n vs @ drop (Suc n) vs @ [last vs])"
      using found(2) False by (simp add: Remove_def Let_def)
    also have "\<dots> = take n vs @ drop (Suc n) vs"
      using len by (metis append.assoc append_eq_conv_conj)
    finally show ?thesis using rem by simp
  qed
qed


text \<open>
  \<^verbatim>\<open>Equal\<close> compares the lengths and checks that every string of the first slice occurs in
  the second; it does not count occurrences, so it is not symmetric.
\<close>

theorem Equal_is_length_and_subset:
  "(Equal a b \<longleftrightarrow> length a = length b \<and> set a \<subseteq> set b) \<and>
   Equal [''x'', ''x''] [''x'', ''y''] \<and> \<not> Equal [''x'', ''y''] [''x'', ''x'']"
  by (auto simp: Equal_def)

end
