(* ===== verification/Go_Std.thy ===== *)
theory Go_Std
  imports Prelude
begin

text \<open>
  The part of the Go standard library the source calls: \<^verbatim>\<open>strings\<close>, \<^verbatim>\<open>strconv\<close>,
  \<^verbatim>\<open>bufio.Scanner\<close> and the pure functions of \<^verbatim>\<open>net\<close>. A Go string is a byte string, so it is a
  \<^typ>\<open>string\<close> (a list of 8-bit characters) here. \<^verbatim>\<open>unicode.IsSpace\<close> is modelled on the ASCII
  characters; the multi-byte UTF-8 spaces are treated as ordinary characters.
\<close>

section \<open>Package strings\<close>

definition IsSpace :: "char \<Rightarrow> bool" where
  "IsSpace c \<longleftrightarrow> c = CHR '' '' \<or> c = CHR 0x09 \<or> c = CHR 0x0A \<or> c = CHR 0x0B \<or> c = CHR 0x0C
     \<or> c = CHR 0x0D"

definition TrimRightFunc :: "(char \<Rightarrow> bool) \<Rightarrow> string \<Rightarrow> string" where
  "TrimRightFunc f s = rev (dropWhile f (rev s))"

definition TrimSpace :: "string \<Rightarrow> string" where
  "TrimSpace s = TrimRightFunc IsSpace (dropWhile IsSpace s)"

definition TrimRightNul :: "string \<Rightarrow> string" where
  "TrimRightNul s = TrimRightFunc (\<lambda>c. c = CHR 0x00) s"

primrec FieldsFunc_loop :: "(char \<Rightarrow> bool) \<Rightarrow> string \<Rightarrow> string \<Rightarrow> string list" where
  "FieldsFunc_loop f [] cur = (if cur = [] then [] else [cur])"
| "FieldsFunc_loop f (c # cs) cur =
     (if f c then (if cur = [] then FieldsFunc_loop f cs [] else cur # FieldsFunc_loop f cs [])
      else FieldsFunc_loop f cs (cur @ [c]))"

definition FieldsFunc :: "(char \<Rightarrow> bool) \<Rightarrow> string \<Rightarrow> string list" where
  "FieldsFunc f s = FieldsFunc_loop f s []"

definition HasPrefix :: "string \<Rightarrow> string \<Rightarrow> bool" where
  "HasPrefix s p \<longleftrightarrow> take (length p) s = p"

definition HasSuffix :: "string \<Rightarrow> string \<Rightarrow> bool" where
  "HasSuffix s p \<longleftrightarrow> HasPrefix (rev s) (rev p)"

fun Contains :: "string \<Rightarrow> string \<Rightarrow> bool" where
  "Contains [] p = HasPrefix [] p"
| "Contains (c # cs) p = (HasPrefix (c # cs) p \<or> Contains cs p)"

definition RemoveChar :: "char \<Rightarrow> string \<Rightarrow> string" where
  "RemoveChar d s = filter (\<lambda>c. c \<noteq> d) s"

definition IndexByte :: "string \<Rightarrow> char \<Rightarrow> nat option" where
  "IndexByte s c = (let n = length (takeWhile (\<lambda>x. x \<noteq> c) s) in if n < length s then Some n else None)"

definition LastIndexByte :: "string \<Rightarrow> char \<Rightarrow> nat option" where
  "LastIndexByte s c = map_option (\<lambda>n. length s - 1 - n) (IndexByte (rev s) c)"

section \<open>Package strconv\<close>

definition digit_char :: "nat \<Rightarrow> char" where
  "digit_char d = char_of (48 + d)"

definition char_digit :: "char \<Rightarrow> nat option" where
  "char_digit c = (let n = of_char c :: nat in if 48 \<le> n \<and> n < 58 then Some (n - 48) else None)"

fun show_nat :: "nat \<Rightarrow> string" where
  "show_nat n = (if n < 10 then [digit_char n] else show_nat (n div 10) @ [digit_char (n mod 10)])"

declare show_nat.simps [simp del]

definition Itoa :: "int \<Rightarrow> string" where
  "Itoa i = (if i < 0 then CHR ''-'' # show_nat (nat (- i)) else show_nat (nat i))"

primrec digits_acc :: "nat \<Rightarrow> string \<Rightarrow> nat option" where
  "digits_acc acc [] = Some acc"
| "digits_acc acc (c # cs) =
     (case char_digit c of None \<Rightarrow> None | Some d \<Rightarrow> digits_acc (10 * acc + d) cs)"

definition digits :: "string \<Rightarrow> nat option" where
  "digits s = (if s = [] then None else digits_acc 0 s)"

datatype num_error = ErrSyntax | ErrRange

text \<open>
  \<^verbatim>\<open>strconv.ParseInt(s, 10, bits)\<close> and \<^verbatim>\<open>strconv.ParseUint(s, 10, bits)\<close> return a value beside the
  error: 0 for a syntax error, the nearest representable value for a range error.
\<close>

definition ParseUint :: "nat \<Rightarrow> string \<Rightarrow> int \<times> num_error option" where
  "ParseUint bits s =
     (case digits s of
        None \<Rightarrow> (0, Some ErrSyntax)
      | Some n \<Rightarrow> if int n \<ge> 2 ^ bits then (2 ^ bits - 1, Some ErrRange) else (int n, None))"

definition split_sign :: "string \<Rightarrow> bool \<times> string" where
  "split_sign s = (case s of [] \<Rightarrow> (False, [])
     | c # cs \<Rightarrow> if c = CHR ''+'' then (False, cs) else if c = CHR ''-'' then (True, cs) else (False, s))"

definition ParseInt :: "nat \<Rightarrow> string \<Rightarrow> int \<times> num_error option" where
  "ParseInt bits s =
     (let (neg, ds) = split_sign s; cutoff = 2 ^ (bits - 1) in
      case digits ds of
        None \<Rightarrow> (0, Some ErrSyntax)
      | Some un \<Rightarrow>
          if \<not> neg \<and> int un \<ge> cutoff then (cutoff - 1, Some ErrRange)
          else if neg \<and> int un > cutoff then (- cutoff, Some ErrRange)
          else ((if neg then - int un else int un), None))"

abbreviation Atoi :: "string \<Rightarrow> int \<times> num_error option" where
  "Atoi \<equiv> ParseInt 64"

section \<open>Line scanner (bufio.Scanner)\<close>

primrec split_lines_acc :: "string \<Rightarrow> string \<Rightarrow> string list" where
  "split_lines_acc [] cur = (if cur = [] then [] else [cur])"
| "split_lines_acc (c # cs) cur =
     (if c = CHR 0x0A then cur # split_lines_acc cs [] else split_lines_acc cs (cur @ [c]))"

definition drop_cr :: "string \<Rightarrow> string" where
  "drop_cr s = (if s \<noteq> [] \<and> last s = CHR 0x0D then butlast s else s)"

text \<open>
  The raw lines of a file. \<^verbatim>\<open>Scan\<close> returns them one by one without a trailing carriage return, and
  stops with \<^verbatim>\<open>bufio.ErrTooLong\<close> at the first raw line that fills its 64 KiB buffer.
\<close>

definition raw_lines :: "string \<Rightarrow> string list" where
  "raw_lines content = split_lines_acc content []"

definition MaxScanTokenSize :: nat where
  "MaxScanTokenSize = 65536"

section \<open>Package net\<close>

datatype net_error = MissingPort | MissingBracket | TooManyColons | UnexpectedBracket

definition SplitHostPort :: "string \<Rightarrow> net_error + (string \<times> string)" where
  "SplitHostPort hp =
     (case LastIndexByte hp (CHR '':'') of
        None \<Rightarrow> Inl MissingPort
      | Some i \<Rightarrow>
          let bracketed =
            (if hd hp = CHR ''['' then
               (case IndexByte hp (CHR '']'') of
                  None \<Rightarrow> Inl MissingBracket
                | Some e \<Rightarrow>
                    if e + 1 = length hp then Inl MissingPort
                    else if e + 1 = i then Inr (drop 1 (take e hp), 1, e + 1)
                    else if hp ! (e + 1) = CHR '':'' then Inl TooManyColons
                    else Inl MissingPort)
             else if CHR '':'' \<in> set (take i hp) then Inl TooManyColons
             else Inr (take i hp, 0, 0))
          in case bracketed of
               Inl e \<Rightarrow> Inl e
             | Inr (host, j, k) \<Rightarrow>
                 if CHR ''['' \<in> set (drop j hp) then Inl UnexpectedBracket
                 else if CHR '']'' \<in> set (drop k hp) then Inl UnexpectedBracket
                 else Inr (host, drop (i + 1) hp))"

definition JoinHostPort :: "string \<Rightarrow> string \<Rightarrow> string" where
  "JoinHostPort host port =
     (if CHR '':'' \<in> set host then ''['' @ host @ '']:'' @ port else host @ '':'' @ port)"

text \<open>Textual IP addresses, as \<^verbatim>\<open>net.ParseIP\<close> accepts them (an IPv6 zone is refused).\<close>

primrec split_on_acc :: "char \<Rightarrow> string \<Rightarrow> string \<Rightarrow> string list" where
  "split_on_acc d [] cur = [cur]"
| "split_on_acc d (c # cs) cur =
     (if c = d then cur # split_on_acc d cs [] else split_on_acc d cs (cur @ [c]))"

definition ipv4_field :: "string \<Rightarrow> bool" where
  "ipv4_field s = (case digits s of None \<Rightarrow> False
     | Some n \<Rightarrow> n \<le> 255 \<and> length s \<le> 3 \<and> (length s > 1 \<longrightarrow> hd s \<noteq> CHR ''0''))"

definition is_ipv4 :: "string \<Rightarrow> bool" where
  "is_ipv4 s = (let fs = split_on_acc (CHR ''.'') s [] in length fs = 4 \<and> list_all ipv4_field fs)"

definition is_hex :: "char \<Rightarrow> bool" where
  "is_hex c = (let n = of_char c :: nat in
     48 \<le> n \<and> n \<le> 57 \<or> 97 \<le> n \<and> n \<le> 102 \<or> 65 \<le> n \<and> n \<le> 70)"

text \<open>
  The group loop of \<^verbatim>\<open>netip.parseIPv6\<close>: \<open>n\<close> is the number of 16-bit groups still to fill, \<open>ell\<close>
  whether an ellipsis was seen, and the string is what is left of the address.
\<close>

primrec ipv6_groups :: "nat \<Rightarrow> bool \<Rightarrow> string \<Rightarrow> bool" where
  "ipv6_groups 0 ell s = (s = [] \<and> \<not> ell)"
| "ipv6_groups (Suc n) ell s =
     (let g = takeWhile is_hex s; r = dropWhile is_hex s in
      if g = [] \<or> length g > 4 then False
      else case r of
          [] \<Rightarrow> (if n = 0 then \<not> ell else ell)
        | c # r1 \<Rightarrow>
            if c = CHR ''.'' then
              (ell \<or> n = 1) \<and> n \<ge> 1 \<and> is_ipv4 s \<and> (if n = 1 then \<not> ell else ell)
            else if c \<noteq> CHR '':'' then False
            else (case r1 of
                [] \<Rightarrow> False
              | d # r2 \<Rightarrow>
                  if d = CHR '':'' then
                    (if ell then False else if r2 = [] then n > 0 else ipv6_groups n True r2)
                  else ipv6_groups n ell r1))"

definition is_ipv6 :: "string \<Rightarrow> bool" where
  "is_ipv6 s =
     (if CHR ''%'' \<in> set s then False
      else if take 2 s = ''::'' then (drop 2 s = [] \<or> ipv6_groups 8 True (drop 2 s))
      else ipv6_groups 8 False s)"

text \<open>\<^verbatim>\<open>netip.ParseAddr\<close> decides the family by the first of the three characters it meets.\<close>

definition ParseIP :: "string \<Rightarrow> bool" where
  "ParseIP s = (case dropWhile (\<lambda>c. c \<noteq> CHR ''.'' \<and> c \<noteq> CHR '':'' \<and> c \<noteq> CHR ''%'') s of
     [] \<Rightarrow> False
   | c # _ \<Rightarrow> if c = CHR ''.'' then is_ipv4 s else if c = CHR '':'' then is_ipv6 s else False)"

section \<open>Lemmas\<close>

lemma char_digit_digit_char [simp]: "d < 10 \<Longrightarrow> char_digit (digit_char d) = Some d"
  by (simp add: char_digit_def digit_char_def)

lemma digits_acc_append:
  "digits_acc acc (xs @ ys) = Option.bind (digits_acc acc xs) (\<lambda>a. digits_acc a ys)"
  by (induction xs arbitrary: acc) (auto split: option.splits)

lemma show_nat_nonempty [simp]: "show_nat n \<noteq> []"
  by (subst show_nat.simps) simp

lemma digits_acc_show_nat: "digits_acc 0 (show_nat n) = Some n"
proof (induction n rule: show_nat.induct)
  case (1 n)
  show ?case
  proof (cases "n < 10")
    case True
    then show ?thesis by (subst show_nat.simps) simp
  next
    case False
    with "1.IH" have "digits_acc 0 (show_nat (n div 10)) = Some (n div 10)" by simp
    with False show ?thesis
      by (subst show_nat.simps) (simp add: digits_acc_append)
  qed
qed

lemma digits_show_nat [simp]: "digits (show_nat n) = Some n"
  by (simp add: digits_def digits_acc_show_nat)

lemma set_show_nat: "c \<in> set (show_nat n) \<Longrightarrow> \<exists>d < 10. c = digit_char d"
proof (induction n rule: show_nat.induct)
  case (1 n)
  show ?case
  proof (cases "n < 10")
    case True
    with "1.prems" show ?thesis by (subst (asm) show_nat.simps) auto
  next
    case False
    with "1.prems" have "c \<in> set (show_nat (n div 10)) \<or> c = digit_char (n mod 10)"
      by (subst (asm) show_nat.simps) auto
    moreover have "n mod 10 < 10" by simp
    ultimately show ?thesis using "1.IH" False by blast
  qed
qed

lemma digit_char_code: "d < 10 \<Longrightarrow> of_char (digit_char d) = 48 + d"
  by (simp add: digit_char_def)

lemma digit_char_neq:
  "d < 10 \<Longrightarrow> (of_char c :: nat) < 48 \<or> 58 \<le> (of_char c :: nat) \<Longrightarrow> digit_char d \<noteq> c"
  using digit_char_code [of d] by auto

lemma split_sign_show_nat [simp]: "split_sign (show_nat n) = (False, show_nat n)"
proof (cases "show_nat n")
  case (Cons c cs)
  then obtain d where "d < 10" "c = digit_char d"
    using set_show_nat [of c n] by auto
  then have "c \<noteq> CHR ''+''" "c \<noteq> CHR ''-''"
    using digit_char_neq [of d "CHR ''+''"] digit_char_neq [of d "CHR ''-''"] by simp_all
  with Cons show ?thesis by (simp add: split_sign_def)
qed simp

lemma ParseInt_Itoa:
  assumes "- (2 ^ (bits - 1)) \<le> i" "i < 2 ^ (bits - 1)"
  shows "ParseInt bits (Itoa i) = (i, None)"
proof (cases "i < 0")
  case True
  then have "split_sign (Itoa i) = (True, show_nat (nat (- i)))"
    by (simp add: Itoa_def split_sign_def)
  with True assms show ?thesis by (simp add: ParseInt_def)
next
  case False
  with assms show ?thesis by (simp add: Itoa_def ParseInt_def)
qed

lemma ParseUint_Itoa: "0 \<le> i \<Longrightarrow> i < 2 ^ bits \<Longrightarrow> ParseUint bits (Itoa i) = (i, None)"
  by (simp add: Itoa_def ParseUint_def)

lemma ParseInt_bounds:
  "- (2 ^ (bits - 1)) \<le> fst (ParseInt bits s) \<and> fst (ParseInt bits s) < 2 ^ (bits - 1)"
proof -
  obtain neg ds where sp: "split_sign s = (neg, ds)" by (cases "split_sign s")
  define p :: int where "p = 2 ^ (bits - 1)"
  have pos: "0 < p" by (simp add: p_def)
  have "- p \<le> fst (ParseInt bits s) \<and> fst (ParseInt bits s) < p"
    using pos unfolding ParseInt_def Let_def sp p_def [symmetric]
    by (cases "digits ds") auto
  then show ?thesis by (simp add: p_def)
qed

lemma ParseUint_bounds: "0 \<le> fst (ParseUint bits s) \<and> fst (ParseUint bits s) < 2 ^ bits"
  by (auto simp: ParseUint_def split: option.splits)

lemma Itoa_plain:
  assumes "c \<in> set (Itoa i)"
  shows "c = CHR ''-'' \<or> (\<exists>d < 10. c = digit_char d)"
  using assms set_show_nat by (auto simp: Itoa_def split: if_splits)

lemma Itoa_nonempty [simp]: "Itoa i \<noteq> []"
  by (simp add: Itoa_def)

lemma not_IsSpace_digit [simp]: "d < 10 \<Longrightarrow> \<not> IsSpace (digit_char d)"
  using digit_char_code [of d] by (auto simp: IsSpace_def)

lemma Itoa_not_space: "c \<in> set (Itoa i) \<Longrightarrow> \<not> IsSpace c"
  using Itoa_plain [of c i] by (auto simp: IsSpace_def [of "CHR ''-''"])

lemma TrimRightFunc_id: "s = [] \<or> \<not> f (last s) \<Longrightarrow> TrimRightFunc f s = s"
  by (cases s rule: rev_cases) (auto simp: TrimRightFunc_def)

lemma TrimRightFunc_append_all:
  "list_all f ys \<Longrightarrow> TrimRightFunc f (xs @ ys) = TrimRightFunc f xs"
  unfolding TrimRightFunc_def rev_append
  by (subst dropWhile_append2) (auto simp: list_all_iff)

lemma TrimRightFunc_all: "list_all f s \<Longrightarrow> TrimRightFunc f s = []"
  using TrimRightFunc_append_all [of f s "[]"] by (simp add: TrimRightFunc_def)

lemma TrimSpace_no_space: "(\<And>c. c \<in> set s \<Longrightarrow> \<not> IsSpace c) \<Longrightarrow> TrimSpace s = s"
  unfolding TrimSpace_def
  by (cases s) (auto simp: TrimRightFunc_id)

lemma TrimSpace_trim:
  assumes "s \<noteq> []" "\<not> IsSpace (hd s)" "\<not> IsSpace (last s)"
  shows "TrimSpace s = s"
  using assms unfolding TrimSpace_def by (cases s) (auto simp: TrimRightFunc_id)

lemma FieldsFunc_loop_word:
  "(\<And>c. c \<in> set w \<Longrightarrow> \<not> f c) \<Longrightarrow> FieldsFunc_loop f (w @ s) cur = FieldsFunc_loop f s (cur @ w)"
  by (induction w arbitrary: cur) auto

lemma FieldsFunc_word_sep:
  assumes "\<And>c. c \<in> set w \<Longrightarrow> \<not> f c" "w \<noteq> []" "f d"
  shows "FieldsFunc f (w @ d # s) = w # FieldsFunc f s"
  using assms by (simp add: FieldsFunc_def FieldsFunc_loop_word)

lemma FieldsFunc_single:
  assumes "\<And>c. c \<in> set w \<Longrightarrow> \<not> f c" "w \<noteq> []"
  shows "FieldsFunc f w = [w]"
  using assms FieldsFunc_loop_word [of w f "[]" "[]"] by (simp add: FieldsFunc_def)

lemma FieldsFunc_loop_no_sep:
  "\<forall>c \<in> set cur. \<not> f c \<Longrightarrow> \<forall>w \<in> set (FieldsFunc_loop f s cur). w \<noteq> [] \<and> (\<forall>c \<in> set w. \<not> f c)"
proof (induction s arbitrary: cur)
  case (Cons c cs)
  show ?case
  proof (cases "f c")
    case True
    have "\<forall>w \<in> set (FieldsFunc_loop f cs []). w \<noteq> [] \<and> (\<forall>c \<in> set w. \<not> f c)"
      by (rule Cons.IH) simp
    with True Cons.prems show ?thesis by simp
  next
    case False
    with Cons.prems have "\<forall>x \<in> set (cur @ [c]). \<not> f x" by auto
    from Cons.IH [OF this] False show ?thesis by simp
  qed
qed simp

lemma FieldsFunc_no_sep: "w \<in> set (FieldsFunc f s) \<Longrightarrow> w \<noteq> [] \<and> (\<forall>c \<in> set w. \<not> f c)"
  using FieldsFunc_loop_no_sep [of "[]" f s] by (simp add: FieldsFunc_def)

lemma split_lines_acc_line:
  "CHR 0x0A \<notin> set w \<Longrightarrow> split_lines_acc (w @ s) cur = split_lines_acc s (cur @ w)"
  by (induction w arbitrary: cur) auto

lemma raw_lines_line:
  "CHR 0x0A \<notin> set w \<Longrightarrow> raw_lines (w @ CHR 0x0A # s) = w # raw_lines s"
  by (simp add: raw_lines_def split_lines_acc_line)

lemma raw_lines_newline: "raw_lines (CHR 0x0A # s) = [] # raw_lines s"
  by (simp add: raw_lines_def)

lemma raw_lines_Nil [simp]: "raw_lines [] = []"
  by (simp add: raw_lines_def)

lemma takeWhile_all_id: "(\<And>c. c \<in> set s \<Longrightarrow> P c) \<Longrightarrow> takeWhile P s = s"
  by (simp add: takeWhile_eq_all_conv)

lemma LastIndexByte_append:
  assumes "c \<notin> set t"
  shows "LastIndexByte (s @ c # t) c = Some (length s)"
proof -
  have "takeWhile (\<lambda>x. x \<noteq> c) (rev t @ c # rev s) = rev t"
    using assms by (subst takeWhile_append2) auto
  then show ?thesis
    by (simp add: LastIndexByte_def IndexByte_def)
qed

lemma SplitHostPort_plain:
  assumes "CHR '':'' \<notin> set h" "CHR ''['' \<notin> set h" "CHR '']'' \<notin> set h"
    "CHR '':'' \<notin> set p" "CHR ''['' \<notin> set p" "CHR '']'' \<notin> set p"
  shows "SplitHostPort (h @ '':'' @ p) = Inr (h, p)"
proof -
  have "LastIndexByte (h @ '':'' @ p) (CHR '':'') = Some (length h)"
    using LastIndexByte_append [of "CHR '':''" p h] assms by simp
  moreover have "hd (h @ '':'' @ p) \<noteq> CHR ''[''"
    using assms(2) by (cases h) auto
  ultimately show ?thesis
    using assms by (simp add: SplitHostPort_def)
qed

lemma HasSuffix_append [simp]: "HasSuffix (s @ t) t"
  by (simp add: HasSuffix_def HasPrefix_def)

lemma HasPrefix_append [simp]: "HasPrefix (s @ t) s"
  by (simp add: HasPrefix_def)

end
