(* ===== verification/Nvme_Utils.thy ===== *)
theory Nvme_Utils
  imports Go_Std
begin

text \<open>
  \<^verbatim>\<open>src/pkg/nvme/utils.go\<close> and \<^verbatim>\<open>src/pkg/nvme/core.go\<close>: address adjustment, the host id file, and
  the small arithmetic helpers. What lies outside the program is an argument: the resolver
  (\<^verbatim>\<open>net.LookupIP\<close>), a fresh UUID, and whether the directory and the file can be written.
\<close>

section \<open>Definitions\<close>

definition minInt :: "int \<Rightarrow> int \<Rightarrow> int" where
  "minInt x y = (if x < y then x else y)"

definition maxUint32 :: "u32 \<Rightarrow> u32 \<Rightarrow> u32" where
  "maxUint32 x y = (if x > y then x else y)"

text \<open>\<^verbatim>\<open>nvmeVS\<close> packs a version number into one integer.\<close>

definition nvmeVS :: "int \<Rightarrow> int \<Rightarrow> int \<Rightarrow> int" where
  "nvmeVS major minor tertiary = push_bit 16 major OR push_bit 8 minor OR tertiary"

datatype addr_error = LookupFailed string | AddrIndexPanic

type_synonym resolver = "string \<Rightarrow> string list option"

text \<open>
  \<^verbatim>\<open>AdjustTraddr\<close>: an IP address is kept, a host name is replaced by the first address the resolver
  gives. An empty answer without an error would make \<^verbatim>\<open>addrs[0]\<close> panic.
\<close>

definition AdjustTraddr :: "resolver \<Rightarrow> string \<Rightarrow> addr_error + string" where
  "AdjustTraddr lookupIP traddr =
     (if ParseIP traddr then Inr traddr
      else case lookupIP traddr of
          Some (a # _) \<Rightarrow> Inr a
        | Some [] \<Rightarrow> Inl AddrIndexPanic
        | None \<Rightarrow> Inl (LookupFailed traddr))"

definition DefaultHostIDPath :: string where
  "DefaultHostIDPath = ''/etc/nvme/hostid''"

datatype hostid_error = MkdirFailed | WriteFailed

record hostid_env =
  he_uuid :: string
  he_mkdir_ok :: bool
  he_write_ok :: bool

text \<open>Files are a map from paths to contents; a path that is absent cannot be read.\<close>

type_synonym files = "(string, string) gomap"

definition GetOrCreateHostID ::
    "hostid_env \<Rightarrow> string \<Rightarrow> files \<Rightarrow> (hostid_error + string) \<times> files" where
  "GetOrCreateHostID env nvmeHostIDPath fs =
     (let path = (if nvmeHostIDPath = '''' then DefaultHostIDPath else nvmeHostIDPath);
          data = map_of fs path
      in if data = None \<or> data = Some '''' then
           (let hostid = he_uuid env @ [CHR 0x0A] in
            if \<not> he_mkdir_ok env then (Inl MkdirFailed, fs)
            else if \<not> he_write_ok env then (Inl WriteFailed, fs)
            else (Inr (TrimSpace hostid), AList.update path hostid fs))
         else (Inr (TrimSpace (the data)), fs))"

section \<open>Lemmas\<close>

lemma AdjustTraddr_ip [simp]: "ParseIP a \<Longrightarrow> AdjustTraddr r a = Inr a"
  by (simp add: AdjustTraddr_def)

lemma TrimSpace_newline:
  assumes "\<And>c. c \<in> set s \<Longrightarrow> \<not> IsSpace c"
  shows "TrimSpace (s @ [CHR 0x0A]) = s"
proof (cases s)
  case Nil
  then show ?thesis by (simp add: TrimSpace_def TrimRightFunc_def IsSpace_def)
next
  case (Cons c cs)
  have nl: "IsSpace (CHR 0x0A)" by (simp add: IsSpace_def)
  have hd: "\<not> IsSpace c" using assms Cons by simp
  then have "TrimSpace (s @ [CHR 0x0A]) = TrimRightFunc IsSpace (s @ [CHR 0x0A])"
    by (simp add: TrimSpace_def Cons)
  also have "\<dots> = TrimRightFunc IsSpace s"
    using nl by (intro TrimRightFunc_append_all) simp
  also have "\<dots> = s"
    using assms Cons by (intro TrimRightFunc_id) (metis last_in_set)
  finally show ?thesis .
qed

text \<open>
  C16. The host id is stable: once \<^verbatim>\<open>GetOrCreateHostID\<close> returned an id, a later call (whatever fresh
  UUID it would draw, whether or not the disk is writable) returns the same id and leaves the files
  unchanged.
\<close>

theorem GetOrCreateHostID_stable:
  assumes uuid: "he_uuid env \<noteq> ''''" "\<forall>c \<in> set (he_uuid env). \<not> IsSpace c"
    and first: "GetOrCreateHostID env p fs = (Inr h, fs')"
  shows "GetOrCreateHostID env' p fs' = (Inr h, fs')"
proof -
  let ?path = "if p = '''' then DefaultHostIDPath else p"
  show ?thesis
  proof (cases "map_of fs ?path = None \<or> map_of fs ?path = Some ''''")
    case True
    with first uuid have "h = he_uuid env" "fs' = AList.update ?path (he_uuid env @ [CHR 0x0A]) fs"
      by (auto simp: GetOrCreateHostID_def Let_def TrimSpace_newline split: if_splits)
    then show ?thesis
      using uuid by (simp add: GetOrCreateHostID_def Let_def TrimSpace_newline)
  next
    case False
    with first show ?thesis
      by (auto simp: GetOrCreateHostID_def Let_def split: if_splits)
  qed
qed

theorem GetOrCreateHostID_stable_witness:
  "GetOrCreateHostID \<lparr>he_uuid = ''ffff'', he_mkdir_ok = False, he_write_ok = False\<rparr> ''''
     [(''/etc/nvme/hostid'', ''abcd'' @ [CHR 0x0A])]
   = (Inr ''abcd'', [(''/etc/nvme/hostid'', ''abcd'' @ [CHR 0x0A])])"
  by (rule GetOrCreateHostID_stable
      [of "\<lparr>he_uuid = ''abcd'', he_mkdir_ok = True, he_write_ok = True\<rparr>" "''''" "[]"])
    (simp_all add: IsSpace_def GetOrCreateHostID_def Let_def DefaultHostIDPath_def
      TrimSpace_def TrimRightFunc_def)

end
