(* ===== verification/Conf_Parser.thy ===== *)
theory Conf_Parser
  imports Nvme_Utils
begin

text \<open>
  The configuration file parser of \<^verbatim>\<open>src/pkg/clientconfig/conf_parser.go\<close> and the entry printer of
  \<^verbatim>\<open>src/pkg/commonstructs/common_structs.go\<close>.

  \<^verbatim>\<open>CtrlLossTMO *int\<close> is an option. Nothing writes through the pointer, so its value is all that
  matters, with one exception: \<^verbatim>\<open>removeDupEntries\<close> uses the struct as a map key, which compares the
  pointer itself. Each parsed \<^verbatim>\<open>--ctrl-loss-tmo\<close> allocates its own integer, so two entries are the
  same key only if they are equal and the pointer is nil in both.
\<close>

section \<open>Entries\<close>

abbreviation EntrySourceUser :: string where "EntrySourceUser \<equiv> ''user''"
abbreviation EntrySourceReferral :: string where "EntrySourceReferral \<equiv> ''referral''"
abbreviation EntrySourceInternal :: string where "EntrySourceInternal \<equiv> ''internal''"

record Entry =
  Transport :: string
  Trsvcid :: int
  Traddr :: string
  Hostnqn :: string
  Hostid :: string
  Subsysnqn :: string
  Persistent :: bool
  Hostaddr :: string
  EntrySource :: string
  CtrlLossTMO :: "int option"
  EffectiveHostid :: string

definition empty_Entry :: Entry where
  "empty_Entry = \<lparr>Transport = '''', Trsvcid = 0, Traddr = '''', Hostnqn = '''', Hostid = '''',
     Subsysnqn = '''', Persistent = False, Hostaddr = '''', EntrySource = '''', CtrlLossTMO = None,
     EffectiveHostid = ''''\<rparr>"

text \<open>\<^verbatim>\<open>compare\<close>; a nil argument is \<open>None\<close>.\<close>

definition compare :: "Entry \<Rightarrow> Entry option \<Rightarrow> bool" where
  "compare e other =
     (case other of
        None \<Rightarrow> False
      | Some other \<Rightarrow>
          Traddr e = Traddr other \<and>
          Persistent e = Persistent other \<and>
          Hostnqn e = Hostnqn other \<and>
          Trsvcid e = Trsvcid other \<and>
          Transport e = Transport other \<and>
          Subsysnqn e = Subsysnqn other)"

datatype verify_error =
  NoSubsysnqn | NoTraddr | NoTrsvcid | NoTransport | NoHostnqn | BadTMO

definition verify :: "Entry \<Rightarrow> verify_error option" where
  "verify e =
     (if length (Subsysnqn e) = 0 then Some NoSubsysnqn
      else if length (Traddr e) = 0 then Some NoTraddr
      else if Trsvcid e = 0 then Some NoTrsvcid
      else if length (Transport e) = 0 then Some NoTransport
      else if length (Hostnqn e) = 0 then Some NoHostnqn
      else case CtrlLossTMO e of Some t \<Rightarrow> if t < -1 then Some BadTMO else None | None \<Rightarrow> None)"

definition GetEffectiveHostId :: "Entry \<Rightarrow> string" where
  "GetEffectiveHostId e = (if EffectiveHostid e \<noteq> '''' then EffectiveHostid e else Hostid e)"

section \<open>The parser\<close>

definition trimStringFromHashtag :: "string \<Rightarrow> string" where
  "trimStringFromHashtag s = (case IndexByte s (CHR ''#'') of Some idx \<Rightarrow> take idx s | None \<Rightarrow> s)"

definition splitSpacesAndEqualSign :: "char \<Rightarrow> bool" where
  "splitSpacesAndEqualSign c \<longleftrightarrow> IsSpace c \<or> c = CHR ''=''"

text \<open>
  \<open>IndexPanic\<close> is the run-time panic of \<^verbatim>\<open>s[i]\<close> when a flag that takes a value is the last field of
  its line.
\<close>

datatype parse_error =
    BadAddress string addr_error
  | BadTransport string
  | BadPort string num_error
  | BadCtrlLossTMO string num_error
  | UnknownFlag string
  | OpenFailed
  | ScanTooLong
  | IndexPanic

definition takes_value :: "string \<Rightarrow> bool" where
  "takes_value field \<longleftrightarrow> field \<in> set [''-a'', ''--traddr'', ''-t'', ''--transport'', ''-s'', ''--trsvcid'',
     ''-q'', ''--hostnqn'', ''-I'', ''--hostid'', ''-n'', ''--subsysnqn'', ''-l'', ''--ctrl-loss-tmo'']"

text \<open>The branch of the switch for a flag that takes the value \<open>v\<close> (the field after it).\<close>

definition set_value :: "resolver \<Rightarrow> string \<Rightarrow> string \<Rightarrow> Entry \<Rightarrow> parse_error + Entry" where
  "set_value net field v e =
     (let value = TrimSpace v in
      if field = ''-a'' \<or> field = ''--traddr'' then
        (case AdjustTraddr net value of
           Inl err \<Rightarrow> Inl (BadAddress v err)
         | Inr _ \<Rightarrow> Inr (e\<lparr>Traddr := value\<rparr>))
      else if field = ''-t'' \<or> field = ''--transport'' then
        (if value \<noteq> ''tcp'' then Inl (BadTransport v) else Inr (e\<lparr>Transport := value\<rparr>))
      else if field = ''-s'' \<or> field = ''--trsvcid'' then
        (case ParseInt 32 value of
           (_, Some err) \<Rightarrow> Inl (BadPort v err)
         | (port, None) \<Rightarrow> Inr (e\<lparr>Trsvcid := port\<rparr>))
      else if field = ''-q'' \<or> field = ''--hostnqn'' then Inr (e\<lparr>Hostnqn := value\<rparr>)
      else if field = ''-I'' \<or> field = ''--hostid'' then Inr (e\<lparr>Hostid := value\<rparr>)
      else if field = ''-n'' \<or> field = ''--subsysnqn'' then Inr (e\<lparr>Subsysnqn := value\<rparr>)
      else if field = ''-l'' \<or> field = ''--ctrl-loss-tmo'' then
        (case ParseInt 32 value of
           (_, Some err) \<Rightarrow> Inl (BadCtrlLossTMO v err)
         | (tmo, None) \<Rightarrow> Inr (e\<lparr>CtrlLossTMO := Some tmo\<rparr>))
      else Inl (UnknownFlag field))"

fun parse_fields :: "resolver \<Rightarrow> string list \<Rightarrow> Entry \<Rightarrow> parse_error + Entry" where
  "parse_fields net [] e = Inr e"
| "parse_fields net (f # s) e =
     (let field = TrimSpace f in
      if takes_value field then
        (case s of
           [] \<Rightarrow> Inl IndexPanic
         | v # s' \<Rightarrow>
             (case set_value net field v e of
                Inl err \<Rightarrow> Inl err
              | Inr e' \<Rightarrow> parse_fields net s' e'))
      else if field = ''-p'' \<or> field = ''--persistent'' then
        parse_fields net s (e\<lparr>Persistent := True\<rparr>)
      else Inl (UnknownFlag field))"

text \<open>One line: \<open>Inr None\<close> is a line that is skipped (empty, a comment, or not a valid entry).\<close>

definition parse_line :: "resolver \<Rightarrow> string \<Rightarrow> parse_error + Entry option" where
  "parse_line net text =
     (let line = trimStringFromHashtag (TrimSpace text) in
      if line = '''' then Inr None
      else case parse_fields net (FieldsFunc splitSpacesAndEqualSign line) empty_Entry of
          Inl err \<Rightarrow> Inl err
        | Inr e \<Rightarrow>
            (let e = e\<lparr>EntrySource := EntrySourceUser\<rparr> in
             case verify e of Some _ \<Rightarrow> Inr None | None \<Rightarrow> Inr (Some e)))"

primrec parse_lines :: "resolver \<Rightarrow> string list \<Rightarrow> Entry list \<Rightarrow> parse_error + Entry list" where
  "parse_lines net [] entries = Inr entries"
| "parse_lines net (raw # raws) entries =
     (if length raw \<ge> MaxScanTokenSize then Inl ScanTooLong
      else case parse_line net (drop_cr raw) of
          Inl err \<Rightarrow> Inl err
        | Inr None \<Rightarrow> parse_lines net raws entries
        | Inr (Some e) \<Rightarrow> parse_lines net raws (entries @ [e]))"

text \<open>
  \<^verbatim>\<open>removeDupEntries\<close>: the keys of \<^verbatim>\<open>entriesSet\<close>, in the order \<open>ord\<close> in which \<^verbatim>\<open>range\<close> visits them.
\<close>

definition same_map_key :: "Entry \<Rightarrow> Entry \<Rightarrow> bool" where
  "same_map_key a b \<longleftrightarrow> a = b \<and> CtrlLossTMO a = None"

primrec entriesSet :: "Entry list \<Rightarrow> Entry list \<Rightarrow> Entry list" where
  "entriesSet [] keys = keys"
| "entriesSet (e # es) keys =
     entriesSet es (if list_ex (same_map_key e) keys then keys else keys @ [e])"

definition removeDupEntries :: "(Entry list \<Rightarrow> Entry list) \<Rightarrow> Entry list \<Rightarrow> Entry list" where
  "removeDupEntries ord entries = ord (entriesSet entries [])"

definition parse ::
    "resolver \<Rightarrow> (Entry list \<Rightarrow> Entry list) \<Rightarrow> files \<Rightarrow> string \<Rightarrow> parse_error + Entry list" where
  "parse net ord fs filename =
     (case map_of fs filename of
        None \<Rightarrow> Inl OpenFailed
      | Some content \<Rightarrow>
          (case parse_lines net (raw_lines content) [] of
             Inl err \<Rightarrow> Inl err
           | Inr entries \<Rightarrow> Inr (removeDupEntries ord entries)))"

section \<open>The printer (package commonstructs)\<close>

record CommonEntry =
  ce_Transport :: string
  ce_Traddr :: string
  ce_Trsvcid :: int
  ce_Hostnqn :: string
  ce_Nqn :: string
  ce_HostID :: string

definition CommonEntry_String :: "CommonEntry \<Rightarrow> string" where
  "CommonEntry_String e =
     ''-t '' @ ce_Transport e @ '' -a '' @ ce_Traddr e @ '' -s '' @ Itoa (ce_Trsvcid e) @
     '' -q '' @ ce_Hostnqn e @ '' -n '' @ ce_Nqn e @ '' --hostid '' @ ce_HostID e @ [CHR 0x0A]"

definition EntriesToString :: "CommonEntry list \<Rightarrow> string" where
  "EntriesToString entries = concat (map (\<lambda>e. CommonEntry_String e @ [CHR 0x0A]) entries)"

section \<open>Lemmas\<close>

lemma compare_Some_iff:
  "compare a (Some b) \<longleftrightarrow>
     (Transport a, Traddr a, Trsvcid a, Subsysnqn a, Hostnqn a, Persistent a) =
     (Transport b, Traddr b, Trsvcid b, Subsysnqn b, Hostnqn b, Persistent b)"
  by (auto simp: compare_def)

lemma compare_None [simp]: "\<not> compare a None"
  by (simp add: compare_def)

lemma compare_refl [simp]: "compare a (Some a)"
  by (simp add: compare_Some_iff)

lemma compare_sym: "compare a (Some b) \<longleftrightarrow> compare b (Some a)"
  by (auto simp: compare_Some_iff)

lemma verify_ok_iff:
  "verify e = None \<longleftrightarrow> Subsysnqn e \<noteq> [] \<and> Traddr e \<noteq> [] \<and> Trsvcid e \<noteq> 0 \<and> Transport e \<noteq> [] \<and>
     Hostnqn e \<noteq> [] \<and> (\<forall>t. CtrlLossTMO e = Some t \<longrightarrow> t \<ge> -1)"
  by (auto simp: verify_def split: option.splits)

lemma entriesSet_props:
  "set (entriesSet es keys) = set keys \<union> set es \<and>
   (\<forall>e. CtrlLossTMO e = None \<longrightarrow> count_list keys e \<le> 1 \<longrightarrow> count_list (entriesSet es keys) e \<le> 1)"
proof (induction es arbitrary: keys)
  case (Cons e es)
  let ?k = "if list_ex (same_map_key e) keys then keys else keys @ [e]"
  have set: "set ?k = insert e (set keys)"
    by (auto simp: list_ex_iff same_map_key_def)
  have cnt: "count_list ?k x \<le> 1" if "CtrlLossTMO x = None" "count_list keys x \<le> 1" for x
    using that by (auto simp: list_ex_iff same_map_key_def count_list_0_iff)
  from Cons.IH [of ?k] set cnt show ?case by simp
qed simp

lemma set_removeDupEntries [simp]: "go_order ord \<Longrightarrow> set (removeDupEntries ord es) = set es"
  using entriesSet_props [of es "[]"] by (simp add: removeDupEntries_def)

text \<open>Every entry the parser returns passed \<^const>\<open>verify\<close> and is a user entry over tcp.\<close>

definition parsed_entry :: "Entry \<Rightarrow> bool" where
  "parsed_entry e \<longleftrightarrow> verify e = None \<and> EntrySource e = EntrySourceUser \<and> Transport e = ''tcp'' \<and>
     - (2 ^ 31) \<le> Trsvcid e \<and> Trsvcid e < 2 ^ 31 \<and> EffectiveHostid e = '''' \<and> Hostaddr e = ''''"

definition partial_entry :: "Entry \<Rightarrow> bool" where
  "partial_entry e \<longleftrightarrow> (Transport e = '''' \<or> Transport e = ''tcp'') \<and>
     - (2 ^ 31) \<le> Trsvcid e \<and> Trsvcid e < 2 ^ 31 \<and> EffectiveHostid e = '''' \<and> Hostaddr e = ''''"

lemma ParseInt32_ok: "ParseInt 32 s = (p, None) \<Longrightarrow> - (2 ^ 31) \<le> p \<and> p < 2 ^ 31"
  using ParseInt_bounds [of 32 s] by simp

lemma set_value_partial:
  "set_value net f v e = Inr e' \<Longrightarrow> partial_entry e \<Longrightarrow> partial_entry e'"
  unfolding set_value_def partial_entry_def Let_def
  by (elim if_errE if_branchE) (auto split: sum.splits prod.splits option.splits dest: ParseInt32_ok)

lemma parse_fields_partial:
  "parse_fields net fs e = Inr e' \<Longrightarrow> partial_entry e \<Longrightarrow> partial_entry e'"
proof (induction net fs e rule: parse_fields.induct)
  case (2 net f s e)
  have "partial_entry (e\<lparr>Persistent := True\<rparr>)"
    using 2(4) by (simp add: partial_entry_def)
  with 2 show ?case
    by (auto simp: Let_def split: if_splits list.splits sum.splits dest: set_value_partial)
qed simp

lemma parse_line_parsed: "parse_line net t = Inr (Some e) \<Longrightarrow> parsed_entry e"
proof -
  assume a: "parse_line net t = Inr (Some e)"
  then obtain e0 where e0: "parse_fields net (FieldsFunc splitSpacesAndEqualSign
        (trimStringFromHashtag (TrimSpace t))) empty_Entry = Inr e0"
    and e: "e = e0\<lparr>EntrySource := EntrySourceUser\<rparr>" and v: "verify e = None"
    by (auto simp: parse_line_def Let_def split: if_splits sum.splits option.splits)
  have "partial_entry e0"
    using e0 by (rule parse_fields_partial) (simp add: partial_entry_def empty_Entry_def)
  with e v show ?thesis
    by (auto simp: parsed_entry_def partial_entry_def verify_ok_iff)
qed

lemma parse_lines_parsed:
  "parse_lines net raws acc = Inr es \<Longrightarrow> list_all parsed_entry acc \<Longrightarrow> list_all parsed_entry es"
  by (induction raws arbitrary: acc)
    (auto split: if_splits sum.splits option.splits dest: parse_line_parsed)

section \<open>Printing then parsing\<close>

text \<open>
  A word that the printer can write and the parser reads back: not empty, and without blanks, equal
  signs and hash signs.
\<close>

definition plain_word :: "string \<Rightarrow> bool" where
  "plain_word w \<longleftrightarrow> w \<noteq> [] \<and> (\<forall>c \<in> set w. \<not> splitSpacesAndEqualSign c \<and> c \<noteq> CHR ''#'')"

definition entry_line :: "CommonEntry \<Rightarrow> string" where
  "entry_line e = ''-t'' @ CHR '' '' # ce_Transport e @ CHR '' '' # ''-a'' @ CHR '' '' # ce_Traddr e @
     CHR '' '' # ''-s'' @ CHR '' '' # Itoa (ce_Trsvcid e) @ CHR '' '' # ''-q'' @ CHR '' '' # ce_Hostnqn e @
     CHR '' '' # ''-n'' @ CHR '' '' # ce_Nqn e @ CHR '' '' # ''--hostid'' @ CHR '' '' # ce_HostID e"

definition printable :: "resolver \<Rightarrow> CommonEntry \<Rightarrow> bool" where
  "printable net e \<longleftrightarrow> ce_Transport e = ''tcp'' \<and> plain_word (ce_Traddr e) \<and>
     (\<exists>a. AdjustTraddr net (ce_Traddr e) = Inr a) \<and> 0 < ce_Trsvcid e \<and> ce_Trsvcid e < 2 ^ 31 \<and>
     plain_word (ce_Hostnqn e) \<and> plain_word (ce_Nqn e) \<and> plain_word (ce_HostID e) \<and>
     length (entry_line e) < MaxScanTokenSize"

definition of_CommonEntry :: "CommonEntry \<Rightarrow> Entry" where
  "of_CommonEntry e = empty_Entry\<lparr>Transport := ce_Transport e, Trsvcid := ce_Trsvcid e,
     Traddr := ce_Traddr e, Hostnqn := ce_Hostnqn e, Hostid := ce_HostID e, Subsysnqn := ce_Nqn e,
     EntrySource := EntrySourceUser\<rparr>"

lemma CommonEntry_String_line: "CommonEntry_String e = entry_line e @ [CHR 0x0A]"
  by (simp add: CommonEntry_String_def entry_line_def)

lemma plain_wordD:
  assumes "plain_word w"
  shows "w \<noteq> []" "\<And>c. c \<in> set w \<Longrightarrow> \<not> splitSpacesAndEqualSign c" "CHR ''#'' \<notin> set w"
    "\<And>c. c \<in> set w \<Longrightarrow> \<not> IsSpace c" "TrimSpace w = w"
  using assms by (auto simp: plain_word_def splitSpacesAndEqualSign_def intro!: TrimSpace_no_space)

lemma plain_word_Itoa [simp]: "plain_word (Itoa i)"
proof -
  have "\<not> splitSpacesAndEqualSign c \<and> c \<noteq> CHR ''#''" if c: "c \<in> set (Itoa i)" for c
    using Itoa_plain [OF c] Itoa_not_space [OF c]
  proof (elim disjE exE conjE)
    fix d :: nat
    assume "d < 10" "c = digit_char d" "\<not> IsSpace c"
    then show ?thesis
      using digit_char_code [of d] by (auto simp: splitSpacesAndEqualSign_def)
  qed (auto simp: splitSpacesAndEqualSign_def)
  then show ?thesis by (simp add: plain_word_def)
qed

lemma plain_flags [simp]:
  "plain_word ''-t''" "plain_word ''-a''" "plain_word ''-s''" "plain_word ''-q''" "plain_word ''-n''"
  "plain_word ''--hostid''" "plain_word ''tcp''"
  by (simp_all add: plain_word_def splitSpacesAndEqualSign_def IsSpace_def)

lemma sep_blank [simp]: "splitSpacesAndEqualSign (CHR '' '')"
  by (simp add: splitSpacesAndEqualSign_def IsSpace_def)

lemma fields_word:
  "plain_word w \<Longrightarrow> FieldsFunc splitSpacesAndEqualSign (w @ CHR '' '' # s) =
     w # FieldsFunc splitSpacesAndEqualSign s"
  by (rule FieldsFunc_word_sep) (auto dest: plain_wordD)

lemma fields_last: "plain_word w \<Longrightarrow> FieldsFunc splitSpacesAndEqualSign w = [w]"
  by (rule FieldsFunc_single) (auto dest: plain_wordD)

lemma fields_entry_line:
  "printable net e \<Longrightarrow> FieldsFunc splitSpacesAndEqualSign (entry_line e) =
     [''-t'', ce_Transport e, ''-a'', ce_Traddr e, ''-s'', Itoa (ce_Trsvcid e), ''-q'', ce_Hostnqn e,
      ''-n'', ce_Nqn e, ''--hostid'', ce_HostID e]"
  unfolding entry_line_def printable_def
  by (simp only: fields_word fields_last plain_flags plain_word_Itoa simp_thms)

lemma trimStringFromHashtag_id: "CHR ''#'' \<notin> set s \<Longrightarrow> trimStringFromHashtag s = s"
proof -
  assume "CHR ''#'' \<notin> set s"
  then have "takeWhile (\<lambda>x. x \<noteq> CHR ''#'') s = s"
    by (auto simp: takeWhile_eq_all_conv)
  then show ?thesis
    unfolding trimStringFromHashtag_def IndexByte_def Let_def by (simp only: less_irrefl) simp
qed

lemma entry_line_hash: "printable net e \<Longrightarrow> CHR ''#'' \<notin> set (entry_line e)"
  unfolding entry_line_def printable_def
  using plain_wordD(3) [OF plain_word_Itoa [of "ce_Trsvcid e"]]
  by (auto dest: plain_wordD(3))

lemma entry_line_newline:
  assumes "printable net e"
  shows "CHR 0x0A \<notin> set (entry_line e)"
proof -
  have nl: "plain_word w \<Longrightarrow> CHR 0x0A \<notin> set w" for w
    by (auto simp: plain_word_def splitSpacesAndEqualSign_def IsSpace_def)
  show ?thesis
    using assms nl [OF plain_word_Itoa [of "ce_Trsvcid e"]]
    unfolding entry_line_def printable_def by (auto dest: nl)
qed

lemma entry_line_ends:
  assumes "printable net e"
  shows "entry_line e \<noteq> []" "hd (entry_line e) = CHR ''-''" "\<not> IsSpace (last (entry_line e))"
proof -
  have id: "plain_word (ce_HostID e)"
    using assms by (simp add: printable_def)
  then show "\<not> IsSpace (last (entry_line e))"
    using plain_wordD(4) [OF id, of "last (ce_HostID e)"] plain_wordD(1) [OF id]
    by (simp add: entry_line_def)
qed (simp_all add: entry_line_def)

lemma drop_cr_entry_line: "printable net e \<Longrightarrow> drop_cr (entry_line e) = entry_line e"
  using entry_line_ends [of net e] by (auto simp: drop_cr_def IsSpace_def)

lemma parse_entry_line:
  assumes p: "printable net e"
  shows "parse_line net (entry_line e) = Inr (Some (of_CommonEntry e))"
proof -
  have trim: "trimStringFromHashtag (TrimSpace (entry_line e)) = entry_line e"
    using TrimSpace_trim entry_line_ends [OF p] trimStringFromHashtag_id entry_line_hash [OF p]
    by (simp add: IsSpace_def)
  have trims: "TrimSpace ''-t'' = ''-t''" "TrimSpace ''-a'' = ''-a''" "TrimSpace ''-s'' = ''-s''"
    "TrimSpace ''-q'' = ''-q''" "TrimSpace ''-n'' = ''-n''" "TrimSpace ''--hostid'' = ''--hostid''"
    "TrimSpace ''tcp'' = ''tcp''" "TrimSpace (Itoa (ce_Trsvcid e)) = Itoa (ce_Trsvcid e)"
    by (simp_all add: plain_wordD)
  have port: "ParseInt 32 (Itoa (ce_Trsvcid e)) = (ce_Trsvcid e, None)"
    using p by (intro ParseInt_Itoa) (simp_all add: printable_def)
  have fields: "parse_fields net (FieldsFunc splitSpacesAndEqualSign (entry_line e)) empty_Entry =
      Inr ((of_CommonEntry e)\<lparr>EntrySource := ''''\<rparr>)"
    using p unfolding fields_entry_line [OF p]
    by (auto simp: printable_def takes_value_def set_value_def trims port plain_wordD
        of_CommonEntry_def empty_Entry_def)
  show ?thesis
    unfolding parse_line_def trim Let_def fields
    using p entry_line_ends [OF p]
    by (auto simp: verify_def of_CommonEntry_def empty_Entry_def printable_def dest: plain_wordD(1))
qed

lemma parse_lines_printed:
  "list_all (printable net) es \<Longrightarrow>
     parse_lines net (raw_lines (EntriesToString es)) acc = Inr (acc @ map of_CommonEntry es)"
proof (induction es arbitrary: acc)
  case (Cons e es)
  have raws: "raw_lines (EntriesToString (e # es)) = entry_line e # [] # raw_lines (EntriesToString es)"
    using entry_line_newline [of net e] Cons.prems
    by (simp add: EntriesToString_def CommonEntry_String_line raw_lines_line raw_lines_newline)
  have empty: "parse_line net (drop_cr []) = Inr None"
    by (simp add: drop_cr_def parse_line_def TrimSpace_def TrimRightFunc_def
        trimStringFromHashtag_def IndexByte_def)
  have "length (entry_line e) < MaxScanTokenSize"
    using Cons.prems by (simp add: printable_def)
  then show ?case
    unfolding raws using Cons parse_entry_line [of net e] drop_cr_entry_line [of net e]
    by (simp add: empty MaxScanTokenSize_def)
qed (simp add: EntriesToString_def)

section \<open>Properties\<close>

text \<open>
  C11: every entry that \<^verbatim>\<open>parse\<close> returns is complete (all mandatory fields are set and a given
  ctrl-loss-tmo is at least -1), uses the tcp transport, is marked as a user entry and has a port that
  fits 32 bits; and no two returned entries are equal unless they carry a ctrl-loss-tmo.
\<close>

theorem parse_sound:
  assumes "parse net ord fs filename = Inr entries" and "go_order ord" and "e \<in> set entries"
  shows "verify e = None \<and> Transport e = ''tcp'' \<and> EntrySource e = EntrySourceUser \<and>
    - (2 ^ 31) \<le> Trsvcid e \<and> Trsvcid e < 2 ^ 31 \<and>
    (CtrlLossTMO e = None \<longrightarrow> count_list entries e = 1)"
proof -
  obtain es where es: "parse_lines net (raw_lines (the (map_of fs filename))) [] = Inr es"
    and entries: "entries = removeDupEntries ord es"
    using assms(1) by (auto simp: parse_def split: option.splits sum.splits)
  have "parsed_entry e"
    using parse_lines_parsed [OF es] assms(2,3) entries by (simp add: list_all_iff)
  moreover have "count_list entries e = 1" if "CtrlLossTMO e = None"
  proof -
    have "count_list entries e = count_list (entriesSet es []) e"
      using go_order_mset [OF assms(2)] by (simp add: entries removeDupEntries_def flip: count_mset)
    also have "\<dots> \<le> 1"
      using entriesSet_props [of es "[]"] that by simp
    finally show ?thesis
      using assms(3) count_list_0_iff [of entries e] by linarith
  qed
  ultimately show ?thesis by (simp add: parsed_entry_def)
qed

text \<open>
  C12: the file that the printer writes for a list of entries parses back to exactly those entries,
  whatever order \<^verbatim>\<open>range\<close> visits the map of \<^verbatim>\<open>removeDupEntries\<close> in.
\<close>

theorem parse_EntriesToString:
  assumes "list_all (printable net) es" and "go_order ord"
    and "map_of fs filename = Some (EntriesToString es)"
  shows "\<exists>entries. parse net ord fs filename = Inr entries \<and> set entries = of_CommonEntry ` set es"
  using parse_lines_printed [OF assms(1), of "[]"] assms(2,3) by (simp add: parse_def)

definition example_common :: CommonEntry where
  "example_common = \<lparr>ce_Transport = ''tcp'', ce_Traddr = ''10.0.0.1'', ce_Trsvcid = 8009,
     ce_Hostnqn = ''nqn.h'', ce_Nqn = ''nqn.s'', ce_HostID = ''id1''\<rparr>"

lemma example_printable: "printable (\<lambda>h. None) example_common"
proof -
  have line: "length (entry_line example_common) < MaxScanTokenSize"
    by (simp add: entry_line_def example_common_def Itoa_def show_nat.simps MaxScanTokenSize_def)
  have "ParseIP ''10.0.0.1''"
    by code_simp
  then show ?thesis
    unfolding printable_def using line
    by (simp add: example_common_def plain_word_def splitSpacesAndEqualSign_def IsSpace_def
        AdjustTraddr_def)
qed

theorem parse_EntriesToString_witness:
  "\<exists>entries. parse (\<lambda>h. None) rev [(''a.conf'', EntriesToString [example_common])] ''a.conf'' =
     Inr entries \<and> set entries = {of_CommonEntry example_common}"
  using parse_EntriesToString [of "\<lambda>h. None" "[example_common]" rev
      "[(''a.conf'', EntriesToString [example_common])]" "''a.conf''"] example_printable
  by simp

theorem parse_sound_witness:
  "verify (of_CommonEntry example_common) = None \<and> Transport (of_CommonEntry example_common) = ''tcp''"
proof -
  have "parse (\<lambda>h. None) id [(''a.conf'', EntriesToString [example_common])] ''a.conf'' =
      Inr [of_CommonEntry example_common]"
    using parse_lines_printed [of "\<lambda>h. None" "[example_common]" "[]"] example_printable
    by (simp add: parse_def removeDupEntries_def)
  from parse_sound [OF this, of "of_CommonEntry example_common"] show ?thesis by simp
qed

end
