(* ===== verification/Config_Gen.thy ===== *)
theory Config_Gen
  imports Conf_Parser
begin

text \<open>
  Generation of configuration files: \<^verbatim>\<open>src/pkg/clientconfig/configgen.go\<close> and the regular expression
  helper of \<^verbatim>\<open>src/pkg/regexutil/util.go\<close> at the one pattern this file uses.

  The files of the host are an association list from paths to contents. Each system call that can fail
  has its outcome in the record \<open>create_env\<close>; \<open>CreateFile\<close> returns the state of the files after every
  system call it made, so that what a concurrent reader can observe is part of the model.
\<close>

section \<open>Creating entries\<close>

datatype create_error =
    HostnqnUnset | TransportUnset | SubsysnqnUnset | HostidUnset
  | BadHostPort net_error
  | BadHost addr_error
  | BadPortNumber num_error

primrec CreateEntries_loop ::
    "resolver \<Rightarrow> string list \<Rightarrow> string \<Rightarrow> string \<Rightarrow> string \<Rightarrow> string \<Rightarrow> CommonEntry list \<Rightarrow>
     create_error + CommonEntry list" where
  "CreateEntries_loop net [] hostnqn nqn transport hostid entries = Inr entries"
| "CreateEntries_loop net (address # addresses) hostnqn nqn transport hostid entries =
     (case SplitHostPort address of
        Inl err \<Rightarrow> Inl (BadHostPort err)
      | Inr (host, port) \<Rightarrow>
          (case AdjustTraddr net host of
             Inl err \<Rightarrow> Inl (BadHost err)
           | Inr _ \<Rightarrow>
               (case ParseUint 16 port of
                  (_, Some err) \<Rightarrow> Inl (BadPortNumber err)
                | (port_str, None) \<Rightarrow>
                    CreateEntries_loop net addresses hostnqn nqn transport hostid
                      (entries @ [\<lparr>ce_Transport = transport, ce_Traddr = host, ce_Trsvcid = port_str,
                                   ce_Hostnqn = hostnqn, ce_Nqn = nqn, ce_HostID = hostid\<rparr>]))))"

definition CreateEntries ::
    "resolver \<Rightarrow> string list \<Rightarrow> string \<Rightarrow> string \<Rightarrow> string \<Rightarrow> string \<Rightarrow>
     create_error + CommonEntry list" where
  "CreateEntries net addresses hostnqn nqn transport hostid =
     (if hostnqn = '''' then Inl HostnqnUnset
      else if transport = '''' then Inl TransportUnset
      else if nqn = '''' then Inl SubsysnqnUnset
      else if hostid = '''' then Inl HostidUnset
      else CreateEntries_loop net addresses hostnqn nqn transport hostid [])"

section \<open>Writing a file\<close>

text \<open>
  \<open>tmpName\<close> is the file that \<^verbatim>\<open>os.CreateTemp\<close> creates (\<open>None\<close>: it fails); \<open>writeFault = Some n\<close> means that
  the write fails after \<open>n\<close> bytes.
\<close>

record create_env =
  tmpName :: "string option"
  writeFault :: "nat option"
  closeOk :: bool
  renameOk :: bool

datatype file_error = CreateTempFailed | WriteFailed | CloseFailed | RenameFailed

definition os_Rename :: "string \<Rightarrow> string \<Rightarrow> files \<Rightarrow> files" where
  "os_Rename old new fs =
     (case map_of fs old of
        None \<Rightarrow> fs
      | Some c \<Rightarrow> AList.update new c (AList.delete old fs))"

definition CreateFile ::
    "create_env \<Rightarrow> string \<Rightarrow> CommonEntry list \<Rightarrow> files \<Rightarrow> files list \<times> file_error option" where
  "CreateFile env filename entries fs =
     (let content = EntriesToString entries in
      case tmpName env of
        None \<Rightarrow> ([fs], Some CreateTempFailed)
      | Some tmpfile \<Rightarrow>
          let fs1 = AList.update tmpfile '''' fs in
          (case writeFault env of
             Some n \<Rightarrow>
               let fs2 = AList.update tmpfile (take n content) fs1
               in ([fs1, fs2, AList.delete tmpfile fs2], Some WriteFailed)
           | None \<Rightarrow>
               let fs2 = AList.update tmpfile content fs1 in
               if \<not> closeOk env then ([fs1, fs2, AList.delete tmpfile fs2], Some CloseFailed)
               else if \<not> renameOk env then ([fs1, fs2, AList.delete tmpfile fs2], Some RenameFailed)
               else let fs3 = os_Rename tmpfile filename fs2
                    in ([fs1, fs2, fs3, AList.delete tmpfile fs3], None)))"

definition StoreEntries ::
    "create_env \<Rightarrow> string \<Rightarrow> CommonEntry list \<Rightarrow> files \<Rightarrow> files list \<times> file_error option" where
  "StoreEntries env filename entries fs = CreateFile env filename entries fs"

section \<open>Detecting entries\<close>

definition NvmeCtrlPath :: string where
  "NvmeCtrlPath = ''/sys/class/nvme/nvme[0-9]''"

text \<open>
  A directory is \<open>None\<close> when it cannot be opened, else the names it has. \<^verbatim>\<open>Readdirnames(1)\<close> of a
  directory that was opened returns \<^verbatim>\<open>io.EOF\<close> exactly if it has none.
\<close>

definition isDirectoryEmpty :: "string list option \<Rightarrow> bool option" where
  "isDirectoryEmpty d = (case d of None \<Rightarrow> None | Some names \<Rightarrow> Some (names = []))"

definition ShouldGenerateAutoDetectedEntries :: "string list option \<Rightarrow> string list option \<Rightarrow> bool" where
  "ShouldGenerateAutoDetectedEntries clientConfigDir internalDir \<longleftrightarrow>
     (isDirectoryEmpty clientConfigDir = None \<or> isDirectoryEmpty clientConfigDir = Some True) \<and>
     (isDirectoryEmpty internalDir = None \<or> isDirectoryEmpty internalDir = Some True)"

text \<open>
  The match of \<^verbatim>\<open>^traddr=(?P<traddr>[^,]+),trsvcid=(?P<trsvcid>\d+)$\<close>: the first group is anchored at
  both sides and has no comma, so it ends at the first comma, and the rest is fixed.
\<close>

definition addressRegex :: "string \<Rightarrow> (string, string) gomap" where
  "addressRegex s =
     (if \<not> HasPrefix s ''traddr='' then []
      else
        let r = drop 7 s;
            traddr = takeWhile (\<lambda>c. c \<noteq> CHR '','') r;
            rest = drop (length traddr) r;
            trsvcid = drop 9 rest
        in if traddr \<noteq> '''' \<and> HasPrefix rest '',trsvcid='' \<and> trsvcid \<noteq> '''' \<and>
              list_all (\<lambda>c. char_digit c \<noteq> None) trsvcid
           then [(''traddr'', traddr), (''trsvcid'', trsvcid)]
           else [])"

definition parseAddress :: "string \<Rightarrow> (string \<times> string) option" where
  "parseAddress address =
     (let params = addressRegex address in
      case map_of params ''traddr'' of
        None \<Rightarrow> None
      | Some traddr \<Rightarrow>
          (case map_of params ''trsvcid'' of None \<Rightarrow> None | Some trsvcid \<Rightarrow> Some (traddr, trsvcid)))"

definition valueFromFile :: "files \<Rightarrow> string \<Rightarrow> string option" where
  "valueFromFile fs filename = map_option TrimSpace (map_of fs filename)"

definition filepath_Join :: "string \<Rightarrow> string \<Rightarrow> string" where
  "filepath_Join d name = d @ ''/'' @ name"

text \<open>The body of the loop over the devices; a \<^verbatim>\<open>continue\<close> adds nothing.\<close>

definition detect_device :: "resolver \<Rightarrow> files \<Rightarrow> int \<Rightarrow> string \<Rightarrow> CommonEntry list" where
  "detect_device net fs discoveryServicePort d =
     (case valueFromFile fs (filepath_Join d ''subsysnqn'') of
        None \<Rightarrow> []
      | Some subsysNqn \<Rightarrow>
      if \<not> Contains subsysNqn ''com.lightbitslabs'' then []
      else case valueFromFile fs (filepath_Join d ''transport'') of
        None \<Rightarrow> []
      | Some transport \<Rightarrow>
      if transport \<noteq> ''tcp'' then []
      else case valueFromFile fs (filepath_Join d ''hostnqn'') of
        None \<Rightarrow> []
      | Some hostNqn \<Rightarrow>
      (case valueFromFile fs (filepath_Join d ''hostid'') of
        None \<Rightarrow> []
      | Some hostID \<Rightarrow>
      (case valueFromFile fs (filepath_Join d ''address'') of
        None \<Rightarrow> []
      | Some address \<Rightarrow>
      (case parseAddress address of
        None \<Rightarrow> []
      | Some (traddr, _) \<Rightarrow>
      (case CreateEntries net [traddr @ '':'' @ Itoa discoveryServicePort] hostNqn subsysNqn transport hostID of
        Inl _ \<Rightarrow> []
      | Inr entries \<Rightarrow> entries)))))"

definition DetectEntriesByIOControllers ::
    "(string \<Rightarrow> string list option) \<Rightarrow> resolver \<Rightarrow> files \<Rightarrow> string \<Rightarrow> int \<Rightarrow> CommonEntry list option" where
  "DetectEntriesByIOControllers glob net fs nvmeCtrlPath discoveryServicePort =
     (case glob nvmeCtrlPath of
        None \<Rightarrow> None
      | Some devices \<Rightarrow> Some (concat (map (detect_device net fs discoveryServicePort) devices)))"

section \<open>Lemmas\<close>

lemma CreateEntries_loop_props:
  assumes "CreateEntries_loop net addrs hostnqn nqn transport hostid acc = Inr es"
  shows "\<exists>new. es = acc @ new \<and> length new = length addrs \<and> (\<forall>i < length addrs. \<exists>port.
      SplitHostPort (addrs ! i) = Inr (ce_Traddr (new ! i), port) \<and>
      ParseUint 16 port = (ce_Trsvcid (new ! i), None) \<and>
      (\<exists>a. AdjustTraddr net (ce_Traddr (new ! i)) = Inr a) \<and>
      ce_Transport (new ! i) = transport \<and> ce_Hostnqn (new ! i) = hostnqn \<and>
      ce_Nqn (new ! i) = nqn \<and> ce_HostID (new ! i) = hostid)"
  using assms
proof (induction addrs arbitrary: acc)
  case (Cons a addrs)
  obtain host port p where sp: "SplitHostPort a = Inr (host, port)"
    and ad: "\<exists>x. AdjustTraddr net host = Inr x" and pu: "ParseUint 16 port = (p, None)"
    and rest: "CreateEntries_loop net addrs hostnqn nqn transport hostid
      (acc @ [\<lparr>ce_Transport = transport, ce_Traddr = host, ce_Trsvcid = p,
               ce_Hostnqn = hostnqn, ce_Nqn = nqn, ce_HostID = hostid\<rparr>]) = Inr es"
    using Cons.prems by (auto split: sum.splits prod.splits option.splits)
  from Cons.IH [OF rest] obtain new where new: "es = (acc @ [\<lparr>ce_Transport = transport,
        ce_Traddr = host, ce_Trsvcid = p, ce_Hostnqn = hostnqn, ce_Nqn = nqn, ce_HostID = hostid\<rparr>]) @ new"
    "length new = length addrs" and each: "\<forall>i < length addrs. \<exists>port.
      SplitHostPort (addrs ! i) = Inr (ce_Traddr (new ! i), port) \<and>
      ParseUint 16 port = (ce_Trsvcid (new ! i), None) \<and>
      (\<exists>a. AdjustTraddr net (ce_Traddr (new ! i)) = Inr a) \<and>
      ce_Transport (new ! i) = transport \<and> ce_Hostnqn (new ! i) = hostnqn \<and>
      ce_Nqn (new ! i) = nqn \<and> ce_HostID (new ! i) = hostid"
    by blast
  show ?case
    by (rule exI [of _ "\<lparr>ce_Transport = transport, ce_Traddr = host, ce_Trsvcid = p,
          ce_Hostnqn = hostnqn, ce_Nqn = nqn, ce_HostID = hostid\<rparr> # new"])
      (use new each sp ad pu in \<open>auto simp: nth_Cons split: nat.splits\<close>)
qed simp

lemma CreateEntries_single:
  assumes "CreateEntries net [a] hostnqn nqn transport hostid = Inr es"
  obtains e port where "es = [e]" "SplitHostPort a = Inr (ce_Traddr e, port)"
    "ParseUint 16 port = (ce_Trsvcid e, None)" "\<exists>x. AdjustTraddr net (ce_Traddr e) = Inr x"
    "ce_Transport e = transport" "ce_Hostnqn e = hostnqn" "ce_Nqn e = nqn" "ce_HostID e = hostid"
proof -
  have "CreateEntries_loop net [a] hostnqn nqn transport hostid [] = Inr es"
    using assms by (auto simp: CreateEntries_def split: if_splits)
  from CreateEntries_loop_props [OF this] show thesis
    by (auto simp: length_Suc_conv intro: that)
qed

lemma SplitHostPort_port:
  assumes "SplitHostPort (h @ CHR '':'' # p) = Inr (host, port)" "CHR '':'' \<notin> set p"
  shows "port = p"
  using assms LastIndexByte_append [OF assms(2), of h]
  by (auto simp: SplitHostPort_def Let_def split: if_splits option.splits sum.splits prod.splits)

lemma Itoa_no_colon: "CHR '':'' \<notin> set (Itoa i)"
proof
  assume "CHR '':'' \<in> set (Itoa i)"
  from Itoa_plain [OF this] obtain d :: nat where d: "d < 10" "digit_char d = CHR '':''" by auto
  from digit_char_code [OF d(1)] d(1) show False unfolding d(2) by simp
qed

lemma ParseUint_Itoa16:
  assumes "ParseUint 16 (Itoa i) = (p, None)" "0 \<le> i"
  shows "p = i \<and> i < 65536"
proof -
  have "Itoa i = show_nat (nat i)" using assms(2) by (simp add: Itoa_def)
  with assms show ?thesis
    by (auto simp: ParseUint_def split: option.splits if_splits)
qed

lemma detect_deviceE:
  assumes "e \<in> set (detect_device net fs port d)"
  obtains subsysNqn hostNqn hostID address traddr svc es where
    "Contains subsysNqn ''com.lightbitslabs''"
    "valueFromFile fs (filepath_Join d ''address'') = Some address"
    "parseAddress address = Some (traddr, svc)"
    "CreateEntries net [traddr @ '':'' @ Itoa port] hostNqn subsysNqn ''tcp'' hostID = Inr es"
    "e \<in> set es"
proof -
  from assms show thesis
    unfolding detect_device_def
    by (elim in_case_optionE in_if_emptyE) (auto intro: that [OF _ _ _ sym] split: sum.splits)
qed

text \<open>What the code itself guarantees of a detected entry.\<close>

lemma detect_device_entry:
  assumes "e \<in> set (detect_device net fs port d)" "0 \<le> port"
  shows "ce_Transport e = ''tcp'' \<and> ce_Trsvcid e = port \<and> port < 65536 \<and>
    (\<exists>a. AdjustTraddr net (ce_Traddr e) = Inr a) \<and> Contains (ce_Nqn e) ''com.lightbitslabs'' \<and>
    ce_Hostnqn e \<noteq> [] \<and> ce_HostID e \<noteq> []"
proof -
  from assms(1) obtain subsysNqn hostNqn hostID traddr es where
    nqn: "Contains subsysNqn ''com.lightbitslabs''" and
    es: "CreateEntries net [traddr @ '':'' @ Itoa port] hostNqn subsysNqn ''tcp'' hostID = Inr es"
    and e: "e \<in> set es"
    by (elim detect_deviceE)
  from es have ne: "hostNqn \<noteq> []" "hostID \<noteq> []"
    by (auto simp: CreateEntries_def split: if_splits)
  from CreateEntries_single [OF es] obtain e' p where
    p: "SplitHostPort (traddr @ '':'' @ Itoa port) = Inr (ce_Traddr e', p)"
      "ParseUint 16 p = (ce_Trsvcid e', None)" "\<exists>x. AdjustTraddr net (ce_Traddr e') = Inr x"
    and eq: "ce_Transport e' = ''tcp''" "ce_Hostnqn e' = hostNqn" "ce_Nqn e' = subsysNqn"
      "ce_HostID e' = hostID" and es1: "es = [e']"
    by blast
  have "p = Itoa port"
    using p(1) Itoa_no_colon [of port] by (intro SplitHostPort_port) simp_all
  with p(2) have "ce_Trsvcid e' = port \<and> port < 65536"
    by (intro ParseUint_Itoa16) (simp_all add: assms(2))
  with eq ne nqn p(3) e es1 show ?thesis by simp
qed

lemma map_of_os_Rename:
  "map_of fs old = Some c \<Longrightarrow> old \<noteq> new \<Longrightarrow>
     map_of (os_Rename old new fs) = (map_of fs)(old := None, new := Some c)"
  by (auto simp: os_Rename_def)

lemmas CreateFile_simps = CreateFile_def Let_def map_of_os_Rename

section \<open>Properties\<close>

text \<open>
  C13: \<^verbatim>\<open>CreateFile\<close> is atomic for a reader of \<^verbatim>\<open>filename\<close>: after every system call the file has either
  its old content (or is still absent) or the complete new content. At the end, an error leaves every
  file as it was, and success changes exactly \<^verbatim>\<open>filename\<close>; the temporary file is gone in both cases.
\<close>

theorem CreateFile_atomic:
  assumes "CreateFile env filename entries fs = (states, res)"
    and "\<And>t. tmpName env = Some t \<Longrightarrow> map_of fs t = None \<and> t \<noteq> filename"
  shows "(\<forall>st \<in> set states. map_of st filename \<in> {map_of fs filename, Some (EntriesToString entries)}) \<and>
    states \<noteq> [] \<and>
    (case res of
       None \<Rightarrow> map_of (last states) = (map_of fs)(filename := Some (EntriesToString entries))
     | Some _ \<Rightarrow> map_of (last states) = map_of fs)"
proof (cases "tmpName env")
  case (Some t)
  with assms(2) have t: "map_of fs t = None" "t \<noteq> filename" by auto
  then have "(map_of fs)(t := None) = map_of fs" by auto
  with Some t assms(1) show ?thesis
    by (auto simp: CreateFile_simps split: option.splits if_splits)
qed (use assms(1) in \<open>auto simp: CreateFile_simps\<close>)

text \<open>
  C14: what \<^verbatim>\<open>DetectEntriesByIOControllers\<close> finds and \<^verbatim>\<open>StoreEntries\<close> stores is read back unchanged by the
  parser, as long as the names in the controllers' attributes are words: no controller the detection
  accepted is lost or altered by the configuration file.
\<close>

theorem autodetect_roundtrip:
  assumes "DetectEntriesByIOControllers glob net fs ctrlPath port = Some es" and "0 < port"
    and "\<And>e. e \<in> set es \<Longrightarrow> plain_word (ce_Traddr e) \<and> plain_word (ce_Hostnqn e) \<and>
      plain_word (ce_Nqn e) \<and> plain_word (ce_HostID e) \<and> length (entry_line e) < MaxScanTokenSize"
    and "StoreEntries env filename es fs = (states, None)"
    and "\<And>t. tmpName env = Some t \<Longrightarrow> map_of fs t = None \<and> t \<noteq> filename"
    and "go_order ord"
  shows "\<exists>entries. parse net ord (last states) filename = Inr entries \<and>
    set entries = of_CommonEntry ` set es \<and>
    (\<forall>e \<in> set entries. verify e = None \<and> Trsvcid e = port \<and> Contains (Subsysnqn e) ''com.lightbitslabs'')"
proof -
  have e: "printable net e \<and> ce_Trsvcid e = port \<and> Contains (ce_Nqn e) ''com.lightbitslabs''"
    if "e \<in> set es" for e
  proof -
    from assms(1) that obtain d where "e \<in> set (detect_device net fs port d)"
      by (auto simp: DetectEntriesByIOControllers_def split: option.splits)
    from detect_device_entry [OF this] assms(2) assms(3) [OF that] show ?thesis
      by (auto simp: printable_def)
  qed
  obtain t where t: "tmpName env = Some t" "writeFault env = None"
    and st: "last states = AList.delete t (os_Rename t filename
      (AList.update t (EntriesToString es) (AList.update t [] fs)))"
    using assms(4) by (auto simp: StoreEntries_def CreateFile_def Let_def split: option.splits if_splits)
  have "map_of (last states) filename = Some (EntriesToString es)"
    using st assms(5) [OF t(1)] by (auto simp: map_of_os_Rename)
  then have "parse net ord (last states) filename = Inr (removeDupEntries ord (map of_CommonEntry es))"
    using parse_lines_printed [of net es "[]"] e by (simp add: parse_def list_all_iff)
  moreover have "verify (of_CommonEntry e) = None" if "e \<in> set es" for e
    using e [OF that] parse_entry_line [of net e] parse_line_parsed by (auto simp: parsed_entry_def)
  ultimately show ?thesis
    using e assms(6) by (auto simp: of_CommonEntry_def)
qed

text \<open>
  C17: a controller with an IPv6 address (an address with a colon, as the kernel prints it, without
  brackets) is never detected: the endpoint is built with \<^verbatim>\<open>%s:%d\<close>, which \<^verbatim>\<open>net.SplitHostPort\<close> refuses.
\<close>

theorem detect_device_ipv6:
  assumes "valueFromFile fs (filepath_Join d ''address'') = Some address"
    and "parseAddress address = Some (traddr, svc)"
    and "CHR '':'' \<in> set traddr" and "hd traddr \<noteq> CHR ''[''"
  shows "detect_device net fs port d = []"
proof -
  have "hd (traddr @ '':'' @ Itoa port) \<noteq> CHR ''[''"
    using assms(3,4) by (cases traddr) auto
  then have "SplitHostPort (traddr @ '':'' @ Itoa port) = Inl TooManyColons"
    using LastIndexByte_append [OF Itoa_no_colon [of port], of traddr] assms(3)
    by (simp add: SplitHostPort_def)
  then have "\<exists>err. CreateEntries net [traddr @ '':'' @ Itoa port] h n ''tcp'' i = Inl err" for h n i
    by (simp add: CreateEntries_def)
  then have "e \<notin> set (detect_device net fs port d)" for e
    using assms(1,2) by (metis detect_deviceE Inl_Inr_False fst_conv option.inject)
  then show ?thesis
    by (cases "detect_device net fs port d") auto
qed

section \<open>Witnesses\<close>

definition example_fs :: "string \<Rightarrow> files" where
  "example_fs traddr =
     [(''/n0/subsysnqn'', ''x:com.lightbitslabs:y''), (''/n0/transport'', ''tcp''),
      (''/n0/hostnqn'', ''nqn.h''), (''/n0/hostid'', ''id1''),
      (''/n0/address'', ''traddr='' @ traddr @ '',trsvcid=4420'')]"

definition example_env :: create_env where
  "example_env = \<lparr>tmpName = Some ''t'', writeFault = None, closeOk = True, renameOk = True\<rparr>"

definition example_detected :: CommonEntry where
  "example_detected = \<lparr>ce_Transport = ''tcp'', ce_Traddr = ''10.0.0.1'', ce_Trsvcid = 9,
     ce_Hostnqn = ''nqn.h'', ce_Nqn = ''x:com.lightbitslabs:y'', ce_HostID = ''id1''\<rparr>"

lemma example_detects:
  "DetectEntriesByIOControllers (\<lambda>p. Some [''/n0'']) (\<lambda>h. None) (example_fs ''10.0.0.1'') NvmeCtrlPath 9 =
     Some [example_detected]"
  by code_simp

lemma example_detected_plain:
  "plain_word (ce_Traddr example_detected) \<and> plain_word (ce_Hostnqn example_detected) \<and>
   plain_word (ce_Nqn example_detected) \<and> plain_word (ce_HostID example_detected) \<and>
   length (entry_line example_detected) < MaxScanTokenSize"
  by (simp add: example_detected_def plain_word_def splitSpacesAndEqualSign_def IsSpace_def
      entry_line_def Itoa_def show_nat.simps MaxScanTokenSize_def)

theorem CreateFile_atomic_witness:
  "map_of (last (fst (CreateFile example_env ''b.conf'' [example_detected] (example_fs ''10.0.0.1'')))) ''b.conf'' =
     Some (EntriesToString [example_detected])"
proof -
  obtain states where s: "CreateFile example_env ''b.conf'' [example_detected] (example_fs ''10.0.0.1'') =
      (states, None)"
    by (auto simp: CreateFile_def example_env_def Let_def)
  have "map_of (example_fs ''10.0.0.1'') ''t'' = None"
    by (simp add: example_fs_def)
  then show ?thesis
    using CreateFile_atomic [OF s] s by (simp add: example_env_def)
qed

theorem autodetect_roundtrip_witness:
  "\<exists>fs entries. parse (\<lambda>h. None) rev fs ''b.conf'' = Inr entries \<and>
     set entries = {of_CommonEntry example_detected}"
proof -
  obtain states where s: "StoreEntries example_env ''b.conf'' [example_detected] (example_fs ''10.0.0.1'') =
      (states, None)"
    by (auto simp: StoreEntries_def CreateFile_def example_env_def Let_def)
  have "map_of (example_fs ''10.0.0.1'') ''t'' = None"
    by (simp add: example_fs_def)
  then show ?thesis
    using autodetect_roundtrip [OF example_detects _ _ s, of rev] example_detected_plain
    by (auto simp: example_env_def)
qed

theorem detect_device_ipv6_witness:
  "detect_device (\<lambda>h. None) (example_fs ''fe80::1'') 9 ''/n0'' = []"
proof -
  have "valueFromFile (example_fs ''fe80::1'') (filepath_Join ''/n0'' ''address'') =
      Some ''traddr=fe80::1,trsvcid=4420''"
    by code_simp
  moreover have "parseAddress ''traddr=fe80::1,trsvcid=4420'' = Some (''fe80::1'', ''4420'')"
    by code_simp
  ultimately show ?thesis
    by (rule detect_device_ipv6) simp_all
qed

end
