(* ===== verification/Host_Api.thy ===== *)
theory Host_Api
  imports Go_Std
begin

text \<open>
  The interface between the service and a host implementation: \<^verbatim>\<open>src/pkg/hostapi/host_api.go\<close>.

  A channel is named by a number; \<^verbatim>\<open>AENChan\<close> of a request is the channel of the connection that made it.
  Durations are nanoseconds, as \<^verbatim>\<open>time.Duration\<close> is.
\<close>

section \<open>Data\<close>

type_synonym ConnectionID = string

definition DiscoverySubsysName :: string where
  "DiscoverySubsysName = ''nqn.2014-08.org.nvmexpress.discovery''"

record DiscoverRequest =
  dr_Transport :: string
  dr_Traddr :: string
  dr_Trsvcid :: int
  dr_Hostnqn :: string
  dr_Hostaddr :: string
  dr_Kato :: int
  dr_AENChan :: nat
  dr_Hostid :: string

record NvmeDiscPageEntry =
  pe_PortID :: u16
  pe_CntlID :: u16
  pe_TrsvcID :: u16
  pe_Subnqn :: string
  pe_Traddr :: string
  pe_SubType :: u8

record AENStruct =
  aen_AenChange :: bool
  aen_ServerChange :: "string option"

section \<open>Options\<close>

text \<open>
  \<^verbatim>\<open>ToOptions\<close> writes \<^verbatim>\<open>key=value\<close> words that are separated by commas. A word after the first is written
  with its comma; \<open>opt\<close> is one conditional \<^verbatim>\<open>WriteString\<close>.
\<close>

definition opt :: "bool \<Rightarrow> string \<Rightarrow> string \<Rightarrow> string" where
  "opt b key value = (if b then '','' @ key @ ''='' @ value else '''')"

definition ToOptions :: "DiscoverRequest \<Rightarrow> string" where
  "ToOptions c =
     ''nqn='' @ DiscoverySubsysName @
     opt (length (dr_Transport c) > 0) ''transport'' (dr_Transport c) @
     opt (length (dr_Traddr c) > 0) ''traddr'' (dr_Traddr c) @
     opt (dr_Trsvcid c > 0) ''trsvcid'' (Itoa (dr_Trsvcid c)) @
     opt (length (dr_Hostnqn c) > 0) ''hostnqn'' (dr_Hostnqn c) @
     opt (length (dr_Hostaddr c) > 0) ''host_traddr'' (dr_Hostaddr c) @
     opt (dr_Kato c > 0) ''keep_alive_tmo'' (Itoa (dr_Kato c)) @
     opt (length (dr_Hostid c) > 0) ''hostid'' (dr_Hostid c)"

section \<open>Reading options back\<close>

text \<open>How the kernel reads an option string: words between commas, a word split at its first equal sign.\<close>

definition is_comma :: "char \<Rightarrow> bool" where
  "is_comma c \<longleftrightarrow> c = CHR '',''"

definition key_value :: "string \<Rightarrow> string \<times> string" where
  "key_value w = (let k = takeWhile (\<lambda>c. c \<noteq> CHR ''='') w in (k, drop (length k + 1) w))"

definition read_options :: "string \<Rightarrow> (string \<times> string) list" where
  "read_options s = map key_value (FieldsFunc is_comma s)"

text \<open>A key has no equal sign and no comma, a value no comma.\<close>

definition option_ok :: "string \<times> string \<Rightarrow> bool" where
  "option_ok kv \<longleftrightarrow> (\<forall>c \<in> set (fst kv). c \<noteq> CHR ''='' \<and> c \<noteq> CHR '','') \<and> CHR '','' \<notin> set (snd kv)"

definition show_option :: "string \<times> string \<Rightarrow> string" where
  "show_option kv = fst kv @ ''='' @ snd kv"

definition show_options :: "(string \<times> string) list \<Rightarrow> string" where
  "show_options kvs = (case kvs of [] \<Rightarrow> [] | kv # rest \<Rightarrow>
     show_option kv @ concat (map (\<lambda>kv. '','' @ show_option kv) rest))"

lemma key_value_show [simp]: "option_ok kv \<Longrightarrow> key_value (show_option kv) = kv"
proof -
  assume ok: "option_ok kv"
  have "takeWhile (\<lambda>c. c \<noteq> CHR ''='') (fst kv @ CHR ''='' # snd kv) = fst kv"
    using ok by (subst takeWhile_append2) (auto simp: option_ok_def)
  then show ?thesis by (simp add: key_value_def show_option_def)
qed

lemma FieldsFunc_comma_concat:
  "list_all option_ok (kv # rest) \<Longrightarrow>
     FieldsFunc is_comma (show_option kv @ concat (map (\<lambda>kv. '','' @ show_option kv) rest)) =
     map show_option (kv # rest)"
proof (induction rest arbitrary: kv)
  case Nil
  then have "\<And>c. c \<in> set (show_option kv) \<Longrightarrow> \<not> is_comma c"
    by (auto simp: option_ok_def show_option_def is_comma_def)
  then have "FieldsFunc is_comma (show_option kv) = [show_option kv]"
    by (rule FieldsFunc_single) (simp_all add: show_option_def)
  then show ?case by simp
next
  case (Cons kv' rest)
  then have "\<And>c. c \<in> set (show_option kv) \<Longrightarrow> \<not> is_comma c"
    by (auto simp: option_ok_def show_option_def is_comma_def)
  then have "FieldsFunc is_comma (show_option kv @ CHR '','' # s) = show_option kv # FieldsFunc is_comma s" for s
    by (rule FieldsFunc_word_sep) (simp_all add: show_option_def is_comma_def)
  with Cons show ?case by simp
qed

lemma read_show_options: "list_all option_ok kvs \<Longrightarrow> read_options (show_options kvs) = kvs"
proof (cases kvs)
  case (Cons kv rest)
  assume ok: "list_all option_ok kvs"
  then have "map key_value (map show_option kvs) = kvs"
    unfolding map_map by (intro map_idI) (auto simp: list_all_iff)
  with ok Cons show ?thesis
    using FieldsFunc_comma_concat [of kv rest] by (simp add: read_options_def show_options_def)
qed (simp add: read_options_def show_options_def FieldsFunc_def)

definition opt_pair :: "bool \<Rightarrow> string \<Rightarrow> string \<Rightarrow> (string \<times> string) list" where
  "opt_pair b key value = (if b then [(key, value)] else [])"

lemma concat_opt_pair [simp]:
  "concat (map (\<lambda>kv. '','' @ show_option kv) (opt_pair b k v)) = opt b k v"
  by (simp add: opt_pair_def opt_def show_option_def)

lemma option_ok_opt_pair [simp]:
  "list_all option_ok (opt_pair b k v) \<longleftrightarrow> (b \<longrightarrow> option_ok (k, v))"
  by (simp add: opt_pair_def)

lemma Itoa_no_comma [simp]: "CHR '','' \<notin> set (Itoa i)"
proof
  assume "CHR '','' \<in> set (Itoa i)"
  from Itoa_plain [OF this] obtain d :: nat where d: "d < 10" "digit_char d = CHR '',''" by auto
  from digit_char_code [OF d(1)] d(1) show False unfolding d(2) by simp
qed

section \<open>Properties\<close>

text \<open>
  C15: the option string of a discovery request is read back as exactly the fields that are set, in
  order, when no field has a comma. The keep alive timeout is written in the unit of
  \<^verbatim>\<open>time.Duration\<close>, nanoseconds.
\<close>

theorem ToOptions_read:
  assumes "CHR '','' \<notin> set (dr_Transport r @ dr_Traddr r @ dr_Hostnqn r @ dr_Hostaddr r @ dr_Hostid r)"
  shows "read_options (ToOptions r) =
    (''nqn'', DiscoverySubsysName) #
    opt_pair (dr_Transport r \<noteq> []) ''transport'' (dr_Transport r) @
    opt_pair (dr_Traddr r \<noteq> []) ''traddr'' (dr_Traddr r) @
    opt_pair (0 < dr_Trsvcid r) ''trsvcid'' (Itoa (dr_Trsvcid r)) @
    opt_pair (dr_Hostnqn r \<noteq> []) ''hostnqn'' (dr_Hostnqn r) @
    opt_pair (dr_Hostaddr r \<noteq> []) ''host_traddr'' (dr_Hostaddr r) @
    opt_pair (0 < dr_Kato r) ''keep_alive_tmo'' (Itoa (dr_Kato r)) @
    opt_pair (dr_Hostid r \<noteq> []) ''hostid'' (dr_Hostid r)"
    (is "_ = ?kvs")
proof -
  have "ToOptions r = show_options ?kvs"
    by (simp add: ToOptions_def show_options_def show_option_def [of "(''nqn'', _)"]
        del: append_Cons)
  moreover have "list_all option_ok ?kvs"
    using assms by (simp add: option_ok_def DiscoverySubsysName_def)
  ultimately show ?thesis
    by (simp only: read_show_options)
qed

definition example_request :: DiscoverRequest where
  "example_request = \<lparr>dr_Transport = ''tcp'', dr_Traddr = ''10.0.0.1'', dr_Trsvcid = 9, dr_Hostnqn = ''h'',
     dr_Hostaddr = '''', dr_Kato = 0, dr_AENChan = 0, dr_Hostid = ''''\<rparr>"

theorem ToOptions_read_witness:
  "read_options (ToOptions example_request) =
     [(''nqn'', ''nqn.2014-08.org.nvmexpress.discovery''), (''transport'', ''tcp''), (''traddr'', ''10.0.0.1''),
      (''trsvcid'', ''9''), (''hostnqn'', ''h'')]"
  using ToOptions_read [of example_request]
  by (simp add: example_request_def opt_pair_def DiscoverySubsysName_def Itoa_def show_nat.simps
      digit_char_def char_of_def bit_Suc_0_iff)

section \<open>The interface\<close>

text \<open>
  The contract of \<^verbatim>\<open>HostAPI\<close> as the service relies on it. \<open>live\<close> are the ids of the connections that are
  held open. A discovery that fails, or that asks for no persistent connection, keeps them; a persistent one
  opens the id it returns. \<^verbatim>\<open>Disconnect\<close> always returns, closes exactly its id, and reports whether it was open.
  The id \<^verbatim>\<open>"0"\<close> of a discovery that is not persistent, and the empty id of a connection that never was, are never open.
\<close>

locale host_api =
  fixes discover :: "DiscoverRequest \<Rightarrow> 's \<Rightarrow> (('e + NvmeDiscPageEntry list) \<times> ConnectionID \<times> 's) option"
    and disconnect :: "ConnectionID \<Rightarrow> 's \<Rightarrow> (bool \<times> 's) option"
    and live :: "'s \<Rightarrow> ConnectionID set"
    and inv :: "'s \<Rightarrow> bool"
  assumes discover_failed: "inv s \<Longrightarrow> discover r s = Some (Inl e, cid, s') \<Longrightarrow> inv s' \<and> live s' = live s"
    and discover_once: "inv s \<Longrightarrow> dr_Kato r = 0 \<Longrightarrow> discover r s = Some (Inr es, cid, s') \<Longrightarrow> inv s' \<and> live s' = live s"
    and discover_persistent: "inv s \<Longrightarrow> dr_Kato r \<noteq> 0 \<Longrightarrow> discover r s = Some (Inr es, cid, s') \<Longrightarrow>
      inv s' \<and> live s' = insert cid (live s)"
    and disconnect_closes: "inv s \<Longrightarrow> \<exists>s'. disconnect cid s = Some (cid \<in> live s, s') \<and> inv s' \<and> live s' = live s - {cid}"
    and never_live: "inv s \<Longrightarrow> '''' \<notin> live s \<and> ''0'' \<notin> live s"
begin

lemma discover_inv: "inv s \<Longrightarrow> discover r s = Some (res, cid, s') \<Longrightarrow> inv s'"
  using discover_failed discover_once discover_persistent by (cases res; cases "dr_Kato r = 0") blast+

lemma discover_live: "inv s \<Longrightarrow> discover r s = Some (res, cid, s') \<Longrightarrow> live s \<subseteq> live s' \<and> live s' \<subseteq> insert cid (live s)"
  using discover_failed discover_once discover_persistent by (cases res; cases "dr_Kato r = 0") blast+

lemma disconnect_total: "inv s \<Longrightarrow> disconnect cid s = Some (ok, s') \<Longrightarrow> inv s' \<and> live s' = live s - {cid} \<and> ok = (cid \<in> live s)"
  using disconnect_closes by (metis option.inject prod.inject)

end

end
