(* ===== verification/Connections.thy ===== *)
theory Connections
  imports Conf_Parser Host_Api
begin

text \<open>
  Connections and connection maps: the first part of \<^verbatim>\<open>src/pkg/clientconfig/cache.go\<close>.

  The cache and the service hold pointers to the same \<^verbatim>\<open>Connection\<close> values, so these live in a heap
  \<open>conns\<close> and a pointer is an index into it; the heap only grows. \<^verbatim>\<open>reflect.DeepEqual\<close> on two
  \<^verbatim>\<open>*Connection\<close> is equality of the pointers: every connection has a non-nil \<^verbatim>\<open>cancel\<close> function, and two
  functions are deeply equal only if both are nil. \<open>conn_done\<close> says that the context was cancelled and
  \<open>conn_closed\<close> that \<^verbatim>\<open>AENChan\<close> was closed; closing it twice panics. The prometheus gauges that the
  cache and the connections update are part of the heap.
\<close>

section \<open>Connections\<close>

record TKey =
  tk_transport :: string
  tk_Ip :: string
  tk_port :: int
  tk_Nqn :: string
  tk_hostnqn :: string

record Connection =
  conn_Hostnqn :: string
  conn_Hostid :: string
  conn_Key :: TKey
  conn_done :: bool
  conn_closed :: bool
  conn_ConnectionID :: ConnectionID
  conn_State :: bool
  conn_CtrlLossTMO :: "int option"

record go_heap =
  conns :: "Connection list"
  m_ConnectionState :: "(string \<times> string \<times> string \<times> string, int) gomap"
  m_Connections :: "(string \<times> string \<times> string \<times> string \<times> string, int) gomap"
  m_EntriesTotal :: int

definition upd_conn :: "nat \<Rightarrow> (Connection \<Rightarrow> Connection) \<Rightarrow> go_heap \<Rightarrow> go_heap" where
  "upd_conn c f h = h\<lparr>conns := (conns h)[c := f (conns h ! c)]\<rparr>"

definition state_labels :: "TKey \<Rightarrow> string \<times> string \<times> string \<times> string" where
  "state_labels k = (tk_transport k, tk_Ip k, Itoa (tk_port k), tk_Nqn k)"

definition SetState :: "nat \<Rightarrow> bool \<Rightarrow> go_heap \<Rightarrow> go_heap" where
  "SetState c newState h =
     (let h1 = upd_conn c (conn_State_update (\<lambda>_. newState)) h in
      h1\<lparr>m_ConnectionState := AList.update (state_labels (conn_Key (conns h ! c)))
            (if newState then 1 else 0) (m_ConnectionState h1)\<rparr>)"

definition newConnection :: "TKey \<Rightarrow> int option \<Rightarrow> go_heap \<Rightarrow> nat \<times> go_heap" where
  "newConnection key ctrlLossTMO h =
     (let c = length (conns h);
          h1 = h\<lparr>conns := conns h @ [\<lparr>conn_Hostnqn = '''', conn_Hostid = '''', conn_Key = key,
            conn_done = False, conn_closed = False, conn_ConnectionID = '''', conn_State = False,
            conn_CtrlLossTMO = ctrlLossTMO\<rparr>]\<rparr>
      in (c, SetState c False h1))"

text \<open>\<open>None\<close> is the panic of closing a closed channel.\<close>

definition Connection_Stop :: "nat \<Rightarrow> go_heap \<Rightarrow> go_heap option" where
  "Connection_Stop c h =
     (let h1 = upd_conn c (conn_done_update (\<lambda>_. True)) h in
      if conn_closed (conns h1 ! c) then None
      else Some (upd_conn c (conn_closed_update (\<lambda>_. True)) h1))"

definition GetDiscoveryRequest :: "nat \<Rightarrow> Connection \<Rightarrow> int \<Rightarrow> DiscoverRequest" where
  "GetDiscoveryRequest a c kato =
     \<lparr>dr_Transport = tk_transport (conn_Key c), dr_Traddr = tk_Ip (conn_Key c),
      dr_Trsvcid = tk_port (conn_Key c), dr_Hostnqn = conn_Hostnqn c, dr_Hostaddr = '''',
      dr_Kato = kato, dr_AENChan = a, dr_Hostid = ''''\<rparr>"

section \<open>Connection maps\<close>

record ClusterConnections =
  ClusterConnectionsMap :: "(TKey, nat) gomap"
  ActiveConnection :: "nat option"

record ClientClusterPair =
  ClusterNqn :: string
  HostNqn :: string

type_synonym ConnectionMap = "(ClientClusterPair, ClusterConnections) gomap"

definition isEmpty :: "ClientClusterPair \<Rightarrow> bool" where
  "isEmpty pair \<longleftrightarrow> ClusterNqn pair = '''' \<and> HostNqn pair = ''''"

definition empty_pair :: ClientClusterPair where
  "empty_pair = \<lparr>ClusterNqn = '''', HostNqn = ''''\<rparr>"

definition zero_cc :: ClusterConnections where
  "zero_cc = \<lparr>ClusterConnectionsMap = [], ActiveConnection = None\<rparr>"

text \<open>Indexing a map gives the zero value when the key is absent.\<close>

definition cm_get :: "ConnectionMap \<Rightarrow> ClientClusterPair \<Rightarrow> ClusterConnections" where
  "cm_get cm pair = (case map_of cm pair of Some cc \<Rightarrow> cc | None \<Rightarrow> zero_cc)"

definition GetRandomConnectionList :: "(nat list \<Rightarrow> nat list) \<Rightarrow> ClusterConnections \<Rightarrow> nat list" where
  "GetRandomConnectionList shuffle c = shuffle (map snd (ClusterConnectionsMap c))"

definition pair_of_key :: "TKey \<Rightarrow> ClientClusterPair" where
  "pair_of_key key = \<lparr>ClusterNqn = tk_Nqn key, HostNqn = tk_hostnqn key\<rparr>"

definition AddConnection :: "TKey \<Rightarrow> nat \<Rightarrow> ConnectionMap \<Rightarrow> ConnectionMap" where
  "AddConnection key conn cm =
     (let pair = pair_of_key key;
          cm1 = (if map_of cm pair = None then AList.update pair zero_cc cm else cm);
          cc = cm_get cm1 pair
      in AList.update pair
           (cc\<lparr>ClusterConnectionsMap := AList.update key conn (ClusterConnectionsMap cc)\<rparr>) cm1)"

text \<open>Deleting from the map of an absent pair (a nil map) does nothing.\<close>

definition DeleteConnection :: "ClientClusterPair \<Rightarrow> TKey \<Rightarrow> ConnectionMap \<Rightarrow> ConnectionMap" where
  "DeleteConnection pair key cm =
     (case map_of cm pair of
        None \<Rightarrow> cm
      | Some cc \<Rightarrow> AList.update pair
          (cc\<lparr>ClusterConnectionsMap := AList.delete key (ClusterConnectionsMap cc)\<rparr>) cm)"

definition Exists :: "ClusterConnections \<Rightarrow> nat \<Rightarrow> bool" where
  "Exists cc c \<longleftrightarrow> list_ex (\<lambda>(_, conn). conn = c) (ClusterConnectionsMap cc)"

section \<open>Lemmas\<close>

definition conn_at :: "ConnectionMap \<Rightarrow> TKey \<Rightarrow> nat option" where
  "conn_at cm key = map_of (ClusterConnectionsMap (cm_get cm (pair_of_key key))) key"

lemma zero_cc_simps [simp]:
  "ClusterConnectionsMap zero_cc = []" "ActiveConnection zero_cc = None"
  by (simp_all add: zero_cc_def)

lemma isEmpty_empty_pair [simp]: "isEmpty p \<longleftrightarrow> p = empty_pair"
  by (cases p) (auto simp: isEmpty_def empty_pair_def)

lemma upd_conn_simps [simp]:
  "length (conns (upd_conn c f h)) = length (conns h)"
  "m_EntriesTotal (upd_conn c f h) = m_EntriesTotal h"
  "c < length (conns h) \<Longrightarrow> conns (upd_conn c f h) ! c = f (conns h ! c)"
  "d \<noteq> c \<Longrightarrow> conns (upd_conn c f h) ! d = conns h ! d"
  by (simp_all add: upd_conn_def)

lemma SetState_simps [simp]:
  "length (conns (SetState c b h)) = length (conns h)"
  "m_EntriesTotal (SetState c b h) = m_EntriesTotal h"
  "conns (SetState c b h) = conns (upd_conn c (conn_State_update (\<lambda>_. b)) h)"
  by (simp_all add: SetState_def Let_def)

lemma newConnection_simps [simp]:
  "fst (newConnection k t h) = length (conns h)"
  "m_EntriesTotal (snd (newConnection k t h)) = m_EntriesTotal h"
  "conns (snd (newConnection k t h)) = conns h @ [\<lparr>conn_Hostnqn = '''', conn_Hostid = '''', conn_Key = k,
     conn_done = False, conn_closed = False, conn_ConnectionID = '''', conn_State = False,
     conn_CtrlLossTMO = t\<rparr>]"
  by (simp_all add: newConnection_def Let_def upd_conn_def)

lemma cm_get_AddConnection:
  "cm_get (AddConnection k c cm) p =
     (if p = pair_of_key k
      then (cm_get cm p)\<lparr>ClusterConnectionsMap := AList.update k c (ClusterConnectionsMap (cm_get cm p))\<rparr>
      else cm_get cm p)"
  by (auto simp: AddConnection_def cm_get_def Let_def split: option.splits)

lemma cm_get_DeleteConnection:
  "cm_get (DeleteConnection p k cm) q =
     (if q = p
      then (cm_get cm p)\<lparr>ClusterConnectionsMap := AList.delete k (ClusterConnectionsMap (cm_get cm p))\<rparr>
      else cm_get cm q)"
  by (auto simp: DeleteConnection_def cm_get_def split: option.splits)

lemma dom_AddConnection: "dom (map_of (AddConnection k c cm)) = insert (pair_of_key k) (dom (map_of cm))"
  by (auto simp: AddConnection_def Let_def split: if_splits)

lemma dom_DeleteConnection [simp]: "dom (map_of (DeleteConnection p k cm)) = dom (map_of cm)"
  by (auto simp: DeleteConnection_def split: option.splits if_splits)

lemma distinct_AddConnection: "distinct (map fst cm) \<Longrightarrow> distinct (map fst (AddConnection k c cm))"
  by (simp add: AddConnection_def Let_def distinct_update)

lemma distinct_DeleteConnection: "distinct (map fst cm) \<Longrightarrow> distinct (map fst (DeleteConnection p k cm))"
  by (simp add: DeleteConnection_def distinct_update split: option.splits)

lemma Exists_iff: "Exists cc c \<longleftrightarrow> c \<in> snd ` set (ClusterConnectionsMap cc)"
  by (force simp: Exists_def list_ex_iff)

end
