(* ===== verification/Cache.thy ===== *)
theory Cache
  imports Connections Config_Gen
begin

text \<open>
  The entry and connection cache: \<^verbatim>\<open>src/pkg/clientconfig/cache.go\<close> and the event translation of
  \<^verbatim>\<open>src/pkg/clientconfig/watcher.go\<close>.

  The cache is a record. \<^verbatim>\<open>cacheEntries\<close> is a list of pointers and \<^verbatim>\<open>deleteEntry\<close> compares pointers, so
  each entry is paired with a reference number and \<open>nextEntry\<close> is the next free one. \<open>internalJson\<close> is
  the state of \<^verbatim>\<open>internal.json\<close>; JSON texts are represented by their trees. A goroutine that calls
  \<^verbatim>\<open>notifyChange\<close> blocks on an unbuffered channel until the service receives, so the notifications on
  their way are the list \<open>pending\<close>; a notification is the list of its pairs, since the maps it carries
  are references to the maps of the cache, which the receiver reads when it handles it.
  What the operations read from the host is the record \<open>cache_env\<close>.
\<close>

section \<open>The internal file\<close>

datatype json =
    JNull
  | JBool bool
  | JInt int
  | JStr string
  | JTime int
  | JArr "json list"
  | JObj "(string \<times> json) list"

definition entry_to_json :: "Entry \<Rightarrow> json" where
  "entry_to_json e = JObj
     [(''Transport'', JStr (Transport e)), (''Trsvcid'', JInt (Trsvcid e)), (''Traddr'', JStr (Traddr e)),
      (''Hostnqn'', JStr (Hostnqn e)), (''Hostid'', JStr (Hostid e)), (''Subsysnqn'', JStr (Subsysnqn e)),
      (''Persistent'', JBool (Persistent e)), (''Hostaddr'', JStr (Hostaddr e)),
      (''EntrySource'', JStr (EntrySource e)),
      (''CtrlLossTMO'', case CtrlLossTMO e of None \<Rightarrow> JNull | Some t \<Rightarrow> JInt t)]"

definition referrals_to_json :: "Entry list \<Rightarrow> int \<Rightarrow> json" where
  "referrals_to_json entries t = JObj
     ((if entries = [] then [] else [(''entries'', JArr (map entry_to_json entries))]) @
      [(''creation_time'', JTime t)])"

text \<open>
  Decoding: a missing member or null keeps the zero value, the last of two members with one name wins,
  and a member of another type is an error (\<open>None\<close>).
\<close>

definition member :: "(string \<times> json) list \<Rightarrow> string \<Rightarrow> json" where
  "member ms k = (case map_of (rev ms) k of None \<Rightarrow> JNull | Some j \<Rightarrow> j)"

definition json_str :: "json \<Rightarrow> string option" where
  "json_str j = (case j of JNull \<Rightarrow> Some '''' | JStr s \<Rightarrow> Some s | _ \<Rightarrow> None)"

definition json_int :: "json \<Rightarrow> int option" where
  "json_int j = (case j of JNull \<Rightarrow> Some 0 | JInt i \<Rightarrow> Some i | _ \<Rightarrow> None)"

definition json_bool :: "json \<Rightarrow> bool option" where
  "json_bool j = (case j of JNull \<Rightarrow> Some False | JBool b \<Rightarrow> Some b | _ \<Rightarrow> None)"

definition json_ptr :: "json \<Rightarrow> int option option" where
  "json_ptr j = (case j of JNull \<Rightarrow> Some None | JInt i \<Rightarrow> Some (Some i) | _ \<Rightarrow> None)"

definition entry_of_json :: "json \<Rightarrow> Entry option" where
  "entry_of_json j = (case j of
     JObj ms \<Rightarrow> do {
       transport \<leftarrow> json_str (member ms ''Transport'');
       trsvcid \<leftarrow> json_int (member ms ''Trsvcid'');
       traddr \<leftarrow> json_str (member ms ''Traddr'');
       hostnqn \<leftarrow> json_str (member ms ''Hostnqn'');
       hostid \<leftarrow> json_str (member ms ''Hostid'');
       subsysnqn \<leftarrow> json_str (member ms ''Subsysnqn'');
       persistent \<leftarrow> json_bool (member ms ''Persistent'');
       hostaddr \<leftarrow> json_str (member ms ''Hostaddr'');
       source \<leftarrow> json_str (member ms ''EntrySource'');
       tmo \<leftarrow> json_ptr (member ms ''CtrlLossTMO'');
       Some \<lparr>Transport = transport, Trsvcid = trsvcid, Traddr = traddr, Hostnqn = hostnqn,
         Hostid = hostid, Subsysnqn = subsysnqn, Persistent = persistent, Hostaddr = hostaddr,
         EntrySource = source, CtrlLossTMO = tmo, EffectiveHostid = ''''\<rparr>
     }
   | JNull \<Rightarrow> Some empty_Entry
   | _ \<Rightarrow> None)"

definition referrals_of_json :: "json \<Rightarrow> (Entry list \<times> int) option" where
  "referrals_of_json j = (case j of
     JObj ms \<Rightarrow> do {
       entries \<leftarrow> (case member ms ''entries'' of
          JNull \<Rightarrow> Some []
        | JArr js \<Rightarrow> those (map entry_of_json js)
        | _ \<Rightarrow> None);
       t \<leftarrow> (case member ms ''creation_time'' of JNull \<Rightarrow> Some 0 | JTime t \<Rightarrow> Some t | _ \<Rightarrow> None);
       Some (entries, t)
     }
   | JNull \<Rightarrow> Some ([], 0)
   | _ \<Rightarrow> None)"

text \<open>
  What \<^verbatim>\<open>os.Stat\<close> and \<^verbatim>\<open>os.ReadFile\<close> see. \<open>StatFails\<close> is an error of \<^verbatim>\<open>Stat\<close> other than "does not
  exist"; \<open>EmptyFile\<close> is also a file that cannot be read.
\<close>

datatype internal_file = NoFile | StatFails | IsDirectory | EmptyFile | NotJson | JsonFile json

section \<open>The cache\<close>

record cache =
  userDirPath :: string
  internalDirPath :: string
  autoDetectEntries :: "(bool \<times> string \<times> u32) option"
  cacheEntries :: "(nat \<times> Entry) list"
  nextEntry :: nat
  connections :: ConnectionMap
  nvmfHosts :: "(string, string) gomap"
  heap :: go_heap
  internalJson :: internal_file
  pending :: "ClientClusterPair list list"
  cache_stopped :: bool

datatype file_step = MarshalStep | CreateTempStep | WriteStep | SyncStep | ChmodStep | CloseStep | RenameStep

record cache_env =
  ev_net :: resolver
  ev_parseOrd :: "Entry list \<Rightarrow> Entry list"
  ev_pairOrd :: "ClientClusterPair list \<Rightarrow> ClientClusterPair list"
  ev_files :: files
  ev_userDir :: "(string \<times> bool) list option"
  ev_userDirTime :: "int option"
  ev_internalDir :: "string list option"
  ev_now :: int
  ev_fault :: "file_step option"
  ev_glob :: "string \<Rightarrow> string list option"
  ev_store :: create_env

datatype cache_error =
    ParseFailed parse_error
  | EntryMismatch Entry
  | EntryNotFound
  | EmptyReferrals
  | MixedPairs ClientClusterPair ClientClusterPair
  | StatPanic
  | BadJson
  | NoUserDir
  | BadJsonEntry verify_error
  | DetectFailed
  | FileStepFailed file_step

text \<open>\<^verbatim>\<open>GetNvmfHosts\<close>: the host ids of the connected fabrics controllers, the last one per host nqn.\<close>

primrec nvmf_hosts_loop :: "files \<Rightarrow> string list \<Rightarrow> (string, string) gomap \<Rightarrow> (string, string) gomap" where
  "nvmf_hosts_loop fs [] hosts = hosts"
| "nvmf_hosts_loop fs (d # ds) hosts =
     (case valueFromFile fs (filepath_Join d ''hostid'') of
        None \<Rightarrow> nvmf_hosts_loop fs ds hosts
      | Some hostID \<Rightarrow>
          (case valueFromFile fs (filepath_Join d ''hostnqn'') of
             None \<Rightarrow> nvmf_hosts_loop fs ds hosts
           | Some hostNqn \<Rightarrow> nvmf_hosts_loop fs ds (AList.update hostNqn hostID hosts)))"

definition GetNvmfHosts :: "(string \<Rightarrow> string list option) \<Rightarrow> files \<Rightarrow> (string, string) gomap" where
  "GetNvmfHosts glob fs =
     (case glob ''/sys/class/nvme-fabrics/ctl/nvme*'' of
        None \<Rightarrow> []
      | Some devices \<Rightarrow> nvmf_hosts_loop fs devices [])"

definition GetHostID :: "(string, string) gomap \<Rightarrow> string \<Rightarrow> string" where
  "GetHostID hosts hostnqn = (case map_of hosts hostnqn of Some i \<Rightarrow> i | None \<Rightarrow> '''')"

definition MaybeUpdateHostIDs :: "(string, string) gomap \<Rightarrow> Entry \<Rightarrow> Entry" where
  "MaybeUpdateHostIDs hosts e =
     (let effectiveHostid = GetHostID hosts (Hostnqn e) in
      if effectiveHostid \<noteq> '''' \<and> effectiveHostid \<noteq> Hostid e
      then e\<lparr>EffectiveHostid := effectiveHostid\<rparr> else e)"

definition NewCache ::
    "string \<Rightarrow> string \<Rightarrow> (bool \<times> string \<times> u32) option \<Rightarrow> (string, string) gomap \<Rightarrow> internal_file \<Rightarrow> cache" where
  "NewCache userDir internalDir autoDetect hosts internal =
     \<lparr>userDirPath = userDir, internalDirPath = internalDir, autoDetectEntries = autoDetect,
      cacheEntries = [], nextEntry = 0, connections = [], nvmfHosts = hosts,
      heap = \<lparr>conns = [], m_ConnectionState = [], m_Connections = [], m_EntriesTotal = 0\<rparr>,
      internalJson = internal, pending = [], cache_stopped = False\<rparr>"

text \<open>
  \<^verbatim>\<open>createReferralsFile\<close>: the file is replaced by the rename, the last step, so a failing step
  (\<open>ev_fault\<close>) leaves the old file.
\<close>

definition createReferralsFile :: "cache_env \<Rightarrow> cache \<Rightarrow> cache \<times> cache_error option" where
  "createReferralsFile env c =
     (case ev_fault env of
        Some step \<Rightarrow> (c, Some (FileStepFailed step))
      | None \<Rightarrow>
          (c\<lparr>internalJson := JsonFile (referrals_to_json (map snd (cacheEntries c)) (ev_now env))\<rparr>, None))"

definition useInternalJson :: "cache_env \<Rightarrow> cache \<Rightarrow> cache_error + (bool \<times> Entry list)" where
  "useInternalJson env c =
     (case internalJson c of
        NoFile \<Rightarrow> Inr (False, [])
      | StatFails \<Rightarrow> Inl StatPanic
      | IsDirectory \<Rightarrow> Inr (False, [])
      | EmptyFile \<Rightarrow> Inr (False, [])
      | NotJson \<Rightarrow> Inl BadJson
      | JsonFile j \<Rightarrow>
          (case referrals_of_json j of
             None \<Rightarrow> Inl BadJson
           | Some (existingEntries, creationTime) \<Rightarrow>
               if existingEntries = [] then Inr (False, existingEntries)
               else case ev_userDirTime env of
                   None \<Rightarrow> Inl NoUserDir
                 | Some lastUserUpdateTime \<Rightarrow>
                     if lastUserUpdateTime > creationTime then Inr (False, existingEntries)
                     else Inr (True, existingEntries)))"

definition existEntry :: "Entry \<Rightarrow> Entry list \<Rightarrow> bool" where
  "existEntry newEntry entriesList \<longleftrightarrow> list_ex (\<lambda>e. compare newEntry (Some e)) entriesList"

definition key_of_Entry :: "Entry \<Rightarrow> TKey" where
  "key_of_Entry e = \<lparr>tk_transport = Transport e, tk_Ip = Traddr e, tk_port = Trsvcid e,
     tk_Nqn = Subsysnqn e, tk_hostnqn = Hostnqn e\<rparr>"

definition pair_of_Entry :: "Entry \<Rightarrow> ClientClusterPair" where
  "pair_of_Entry e = \<lparr>ClusterNqn = Subsysnqn e, HostNqn = Hostnqn e\<rparr>"

text \<open>A referral without a ctrl-loss-tmo takes the one of the first user entry that has one.\<close>

primrec inherit_tmo :: "Entry list \<Rightarrow> Entry \<Rightarrow> Entry" where
  "inherit_tmo [] newEntry = newEntry"
| "inherit_tmo (e # es) newEntry =
     (if EntrySource e = EntrySourceUser \<and> CtrlLossTMO e \<noteq> None
      then newEntry\<lparr>CtrlLossTMO := CtrlLossTMO e\<rparr> else inherit_tmo es newEntry)"

definition gauge_add :: "'l \<Rightarrow> int \<Rightarrow> ('l, int) gomap \<Rightarrow> ('l, int) gomap" where
  "gauge_add l n g = AList.update l ((case map_of g l of Some v \<Rightarrow> v | None \<Rightarrow> 0) + n) g"

definition conn_labels :: "TKey \<Rightarrow> string \<Rightarrow> string \<times> string \<times> string \<times> string \<times> string" where
  "conn_labels k hostnqn = (tk_transport k, tk_Ip k, Itoa (tk_port k), tk_Nqn k, hostnqn)"

definition addEntry :: "Entry \<Rightarrow> cache \<Rightarrow> cache \<times> (cache_error + ClientClusterPair)" where
  "addEntry newEntry c =
     (if existEntry newEntry (map snd (cacheEntries c)) then (c, Inr empty_pair)
      else
        let newEntry =
              (if EntrySource newEntry = EntrySourceReferral \<and> CtrlLossTMO newEntry = None
               then inherit_tmo (map snd (cacheEntries c)) newEntry else newEntry);
            newEntry = MaybeUpdateHostIDs (nvmfHosts c) newEntry;
            c1 = c\<lparr>cacheEntries := cacheEntries c @ [(nextEntry c, newEntry)],
                   nextEntry := nextEntry c + 1,
                   heap := (heap c)\<lparr>m_EntriesTotal := m_EntriesTotal (heap c) + 1\<rparr>\<rparr>;
            key = key_of_Entry newEntry;
            pair = pair_of_Entry newEntry
        in case map_of (ClusterConnectionsMap (cm_get (connections c1) pair)) key of
             None \<Rightarrow>
               let (conn, h) = newConnection key (CtrlLossTMO newEntry) (heap c1);
                   h = upd_conn conn (\<lambda>k. k\<lparr>conn_Hostnqn := Hostnqn newEntry,
                         conn_Hostid := GetEffectiveHostId newEntry\<rparr>) h;
                   h = h\<lparr>m_Connections := gauge_add (conn_labels key (Hostnqn newEntry)) 1 (m_Connections h)\<rparr>
               in (c1\<lparr>heap := h, connections := AddConnection key conn (connections c1)\<rparr>, Inr pair)
           | Some _ \<Rightarrow> (c1, Inl (EntryMismatch newEntry)))"

text \<open>\<^verbatim>\<open>deleteEntry\<close>: the entry is found by its pointer.\<close>

definition deleteEntry :: "nat \<times> Entry \<Rightarrow> cache \<Rightarrow> cache \<times> (cache_error + ClientClusterPair)" where
  "deleteEntry re c =
     (let entry = snd re in
      if fst re \<notin> fst ` set (cacheEntries c) then (c, Inl EntryNotFound)
      else
        let c1 = c\<lparr>cacheEntries := AList.delete (fst re) (cacheEntries c),
                   heap := (heap c)\<lparr>m_EntriesTotal := m_EntriesTotal (heap c) - 1\<rparr>\<rparr>;
            pair = pair_of_Entry entry;
            key = key_of_Entry entry
        in case map_of (ClusterConnectionsMap (cm_get (connections c1) pair)) key of
             Some _ \<Rightarrow> (c1\<lparr>connections := DeleteConnection pair key (connections c1)\<rparr>, Inr pair)
           | None \<Rightarrow> (c1, Inr pair))"

section \<open>Notifications\<close>

text \<open>The pairs of the map that \<^verbatim>\<open>notifyChange\<close> builds, and the send if it is not empty.\<close>

primrec notify_pairs :: "ConnectionMap \<Rightarrow> ClientClusterPair list \<Rightarrow> ClientClusterPair list \<Rightarrow> ClientClusterPair list" where
  "notify_pairs cm [] changed = changed"
| "notify_pairs cm (pair # pairs) changed =
     (if isEmpty pair \<or> map_of cm pair = None \<or> pair \<in> set changed
      then notify_pairs cm pairs changed
      else notify_pairs cm pairs (changed @ [pair]))"

definition notifyChange :: "ClientClusterPair list \<Rightarrow> cache \<Rightarrow> cache" where
  "notifyChange pairs c =
     (let changedPairs = notify_pairs (connections c) pairs [] in
      if changedPairs = [] then c else c\<lparr>pending := pending c @ [changedPairs]\<rparr>)"

section \<open>Files\<close>

primrec fileAdded_loop ::
    "Entry list \<Rightarrow> (ClientClusterPair, bool) gomap \<Rightarrow> cache \<Rightarrow>
     cache \<times> (cache_error + (ClientClusterPair, bool) gomap)" where
  "fileAdded_loop [] pairsSet c = (c, Inr pairsSet)"
| "fileAdded_loop (newEntry # newEntries) pairsSet c =
     (case addEntry (newEntry\<lparr>Persistent := True\<rparr>) c of
        (c', Inl err) \<Rightarrow> (c', Inl err)
      | (c', Inr pair) \<Rightarrow>
          fileAdded_loop newEntries (if isEmpty pair then pairsSet else AList.update pair True pairsSet) c')"

definition fileAdded ::
    "cache_env \<Rightarrow> string \<Rightarrow> cache \<Rightarrow> cache \<times> (cache_error + ClientClusterPair list)" where
  "fileAdded env filename c =
     (case parse (ev_net env) (ev_parseOrd env) (ev_files env) filename of
        Inl err \<Rightarrow> (c, Inl (ParseFailed err))
      | Inr newEntries \<Rightarrow>
          (case fileAdded_loop newEntries [] c of
             (c', Inl err) \<Rightarrow> (c', Inl err)
           | (c', Inr pairsSet) \<Rightarrow> (c', Inr (ev_pairOrd env (map fst pairsSet)))))"

primrec sync_json ::
    "Entry list \<Rightarrow> ClientClusterPair list \<Rightarrow> cache \<Rightarrow> cache \<times> (cache_error + ClientClusterPair list)" where
  "sync_json [] changedPairs c = (c, Inr changedPairs)"
| "sync_json (e # es) changedPairs c =
     (case verify e of
        Some err \<Rightarrow> (c, Inl (BadJsonEntry err))
      | None \<Rightarrow>
          (case addEntry e c of
             (c', Inl _) \<Rightarrow> sync_json es changedPairs c'
           | (c', Inr pair) \<Rightarrow>
               sync_json es (if isEmpty pair then changedPairs else changedPairs @ [pair]) c'))"

primrec sync_files ::
    "cache_env \<Rightarrow> (string \<times> bool) list \<Rightarrow> ClientClusterPair list \<Rightarrow> cache \<Rightarrow> cache \<times> ClientClusterPair list" where
  "sync_files env [] changedPairs c = (c, changedPairs)"
| "sync_files env (file # userFiles) changedPairs c =
     (if snd file then sync_files env userFiles changedPairs c
      else case fileAdded env (filepath_Join (userDirPath c) (fst file)) c of
          (c', Inl _) \<Rightarrow> sync_files env userFiles changedPairs c'
        | (c', Inr pairs) \<Rightarrow> sync_files env userFiles (changedPairs @ pairs) c')"

definition sync :: "cache_env \<Rightarrow> cache \<Rightarrow> cache \<times> cache_error option" where
  "sync env c =
     (case useInternalJson env c of
        Inl err \<Rightarrow> (c, Some err)
      | Inr (True, jsonEntries) \<Rightarrow>
          (case sync_json jsonEntries [] c of
             (c', Inl err) \<Rightarrow> (c', Some err)
           | (c', Inr changedPairs) \<Rightarrow>
               (if changedPairs = [] then c' else notifyChange changedPairs c', None))
      | Inr (False, _) \<Rightarrow>
          (case ev_userDir env of
             None \<Rightarrow> (c, Some NoUserDir)
           | Some userFiles \<Rightarrow>
               let (c', changedPairs) = sync_files env userFiles [] c;
                   c' = fst (createReferralsFile env c')
               in (if changedPairs = [] then c' else notifyChange changedPairs c', None)))"

section \<open>Referrals\<close>

record ReferralKey =
  rk_Ip :: string
  rk_Port :: u16
  rk_DPSubNqn :: string
  rk_Hostnqn :: string

type_synonym ReferralMap = "(ReferralKey, NvmeDiscPageEntry) gomap"

definition getEntryFromReferral :: "ReferralKey \<Rightarrow> NvmeDiscPageEntry \<Rightarrow> Entry" where
  "getEntryFromReferral refKey referral = empty_Entry\<lparr>Transport := ''tcp'',
     Trsvcid := uint (pe_TrsvcID referral), Traddr := pe_Traddr referral, Hostnqn := rk_Hostnqn refKey,
     Subsysnqn := rk_DPSubNqn refKey, Persistent := True, EntrySource := EntrySourceReferral,
     CtrlLossTMO := None\<rparr>"

primrec addConnectionsFromReferrals_loop ::
    "ReferralMap \<Rightarrow> ClientClusterPair list \<Rightarrow> cache \<Rightarrow> cache \<times> ClientClusterPair list" where
  "addConnectionsFromReferrals_loop [] pairs c = (c, pairs)"
| "addConnectionsFromReferrals_loop (r # rs) pairs c =
     (case addEntry (getEntryFromReferral (fst r) (snd r)) c of
        (c', Inl _) \<Rightarrow> addConnectionsFromReferrals_loop rs pairs c'
      | (c', Inr pair) \<Rightarrow>
          addConnectionsFromReferrals_loop rs (if isEmpty pair then pairs else pairs @ [pair]) c')"

definition addConnectionsFromReferrals :: "ReferralMap \<Rightarrow> cache \<Rightarrow> cache \<times> ClientClusterPair list" where
  "addConnectionsFromReferrals referrals c =
     (if referrals = [] then (c, []) else addConnectionsFromReferrals_loop referrals [] c)"

text \<open>The first loop of \<^verbatim>\<open>removeConnectionsNotInReferrals\<close>, with \<^verbatim>\<open>prevPair\<close> and \<^verbatim>\<open>currentPair\<close>.\<close>

primrec referral_entries ::
    "ReferralMap \<Rightarrow> Entry list \<Rightarrow> ClientClusterPair \<Rightarrow> ClientClusterPair \<Rightarrow>
     cache_error + (Entry list \<times> ClientClusterPair)" where
  "referral_entries [] referralEntries prevPair currentPair = Inr (referralEntries, currentPair)"
| "referral_entries (r # rs) referralEntries prevPair currentPair =
     (let referralEntries = referralEntries @ [getEntryFromReferral (fst r) (snd r)];
          currentPair = \<lparr>ClusterNqn = rk_DPSubNqn (fst r), HostNqn = rk_Hostnqn (fst r)\<rparr>
      in if \<not> isEmpty prevPair \<and> prevPair \<noteq> currentPair then Inl (MixedPairs prevPair currentPair)
         else referral_entries rs referralEntries currentPair currentPair)"

primrec delete_entries ::
    "(nat \<times> Entry) list \<Rightarrow> ClientClusterPair list \<Rightarrow> cache \<Rightarrow> cache \<times> ClientClusterPair list" where
  "delete_entries [] pairs c = (c, pairs)"
| "delete_entries (re # res) pairs c =
     (case deleteEntry re c of
        (c', Inl _) \<Rightarrow> delete_entries res pairs c'
      | (c', Inr pair) \<Rightarrow> delete_entries res (if isEmpty pair then pairs else pairs @ [pair]) c')"

definition entriesToRemove :: "Entry list \<Rightarrow> ClientClusterPair \<Rightarrow> cache \<Rightarrow> (nat \<times> Entry) list" where
  "entriesToRemove referralEntries currentPair c =
     filter (\<lambda>re. \<not> existEntry (snd re) referralEntries \<and>
       Hostnqn (snd re) = HostNqn currentPair \<and> Subsysnqn (snd re) = ClusterNqn currentPair)
       (cacheEntries c)"

definition removeConnectionsNotInReferrals ::
    "ReferralMap \<Rightarrow> cache \<Rightarrow> cache \<times> ClientClusterPair list \<times> cache_error option" where
  "removeConnectionsNotInReferrals referrals c =
     (case referral_entries referrals [] empty_pair empty_pair of
        Inl err \<Rightarrow> (c, [], Some err)
      | Inr (referralEntries, currentPair) \<Rightarrow>
          let removed = entriesToRemove referralEntries currentPair c
          in if removed = [] then (c, [], None)
             else let (c', pairs) = delete_entries removed [] c in (c', pairs, None))"

text \<open>
  \<^verbatim>\<open>HandleReferrals\<close>: the two loops over the map may visit it in different orders. The error it returns
  is the one of the removal.
\<close>

definition HandleReferrals ::
    "cache_env \<Rightarrow> (ReferralMap \<Rightarrow> ReferralMap) \<Rightarrow> (ReferralMap \<Rightarrow> ReferralMap) \<Rightarrow> ReferralMap \<Rightarrow> cache \<Rightarrow>
     cache \<times> cache_error option" where
  "HandleReferrals env ord1 ord2 referrals c =
     (if referrals = [] then (c, Some EmptyReferrals)
      else
        let (c1, newPairs) = addConnectionsFromReferrals (ord1 referrals) c;
            (c2, removedPairs, err) = removeConnectionsNotInReferrals (ord2 referrals) c1;
            changed = newPairs @ removedPairs
        in if changed = [] then (c2, err)
           else (notifyChange changed (fst (createReferralsFile env c2)), err))"

definition matchReferralEntry :: "NvmeDiscPageEntry \<Rightarrow> string \<Rightarrow> string \<Rightarrow> Entry \<Rightarrow> bool" where
  "matchReferralEntry referral subsystemNqn hostnqn entry \<longleftrightarrow>
     Trsvcid entry = uint (pe_TrsvcID referral) \<and> Subsysnqn entry = subsystemNqn \<and>
     Traddr entry \<noteq> pe_Traddr referral \<and> Hostnqn entry = hostnqn"

section \<open>Events and start\<close>

datatype EventOp = OpCreate | OpRemove | OpModify | OpRename | OpChmod | OpNone

record Event =
  evt_Name :: string
  evt_Op :: EventOp

text \<open>The operation of an fsnotify event: a mask of Create, Write, Remove, Rename and Chmod.\<close>

definition watch_event :: "string \<Rightarrow> u32 \<Rightarrow> Event" where
  "watch_event name m = \<lparr>evt_Name = name, evt_Op =
     (if m AND 1 = 1 then OpCreate
      else if m AND 2 = 2 then OpModify
      else if m AND 4 = 4 then OpRemove
      else if m AND 8 = 8 then OpRename
      else if m AND 16 = 16 then OpChmod
      else OpNone)\<rparr>"

definition DiscoveryClientReservedPrefix :: string where
  "DiscoveryClientReservedPrefix = ''tmp.dc.''"

text \<open>\<^verbatim>\<open>path.Base\<close> on the names the watcher gives, which do not end in a slash.\<close>

definition path_Base :: "string \<Rightarrow> string" where
  "path_Base p = (case LastIndexByte p (CHR ''/'') of Some i \<Rightarrow> drop (i + 1) p | None \<Rightarrow> p)"

definition handleEvent :: "cache_env \<Rightarrow> Event \<Rightarrow> cache \<Rightarrow> cache" where
  "handleEvent env event c =
     (if HasPrefix (path_Base (evt_Name event)) DiscoveryClientReservedPrefix then c
      else if evt_Op event = OpCreate \<or> evt_Op event = OpRename then
        (let (c1, res) = fileAdded env (evt_Name event) c;
             pairs = (case res of Inl _ \<Rightarrow> [] | Inr pairs \<Rightarrow> pairs);
             c2 = fst (createReferralsFile env c1)
         in if pairs = [] then c2 else notifyChange pairs c2)
      else c)"

text \<open>
  \<^verbatim>\<open>Run\<close> up to the start of the event loop. The result of \<^verbatim>\<open>StoreEntries\<close> is dropped, so a failure to store the
  detected entries goes unnoticed; \<open>userDir'\<close> is the listing of the user directory afterwards.
\<close>

definition auto_detect :: "cache_env \<Rightarrow> cache \<Rightarrow> cache_error + files" where
  "auto_detect env c =
     (case autoDetectEntries c of
        Some (enabled, filename, port) \<Rightarrow>
          if enabled \<and> ShouldGenerateAutoDetectedEntries (map_option (map fst) (ev_userDir env)) (ev_internalDir env)
          then (case DetectEntriesByIOControllers (ev_glob env) (ev_net env) (ev_files env) NvmeCtrlPath (uint port) of
                  None \<Rightarrow> Inl DetectFailed
                | Some allEntries \<Rightarrow>
                    Inr (last (fst (StoreEntries (ev_store env) (filepath_Join (userDirPath c) filename)
                      allEntries (ev_files env)))))
          else Inr (ev_files env)
      | None \<Rightarrow> Inr (ev_files env))"

definition Run :: "cache_env \<Rightarrow> (files \<Rightarrow> (string \<times> bool) list option) \<Rightarrow> bool \<Rightarrow> cache \<Rightarrow> cache \<times> cache_error option" where
  "Run env readDir do_sync c =
     (case auto_detect env c of
        Inl err \<Rightarrow> (c, Some err)
      | Inr fs \<Rightarrow>
          (if do_sync then sync (env\<lparr>ev_files := fs, ev_userDir := readDir fs\<rparr>) c else (c, None)))"

definition Cache_Stop :: "cache \<Rightarrow> cache" where
  "Cache_Stop c = c\<lparr>cache_stopped := True\<rparr>"

end
