(* ===== verification/Cache_Inv.thy ===== *)
theory Cache_Inv
  imports Cache
begin

text \<open>
  The invariant of the cache and what its operations do to the set of endpoints it tracks.

  The abstract state of the cache is the set of its keys (transport, address, port, subsystem nqn and
  host nqn). The invariant says that this set is at once the set of keys of the entries, without
  repetition, and the domain of the connection map. \<open>entry_store\<close> is the contract by which the loops
  of the cache use \<^const>\<open>addEntry\<close> and \<^const>\<open>deleteEntry\<close>: its lemmas are the loops, its interpretation
  is the two operations.
\<close>

section \<open>Contract\<close>

locale entry_store =
  fixes add :: "'e \<Rightarrow> 's \<Rightarrow> 's"
    and key :: "'e \<Rightarrow> 'k"
    and ok :: "'e \<Rightarrow> bool"
    and keys :: "'s \<Rightarrow> 'k set"
    and val :: "'s \<Rightarrow> 'k \<Rightarrow> 'v option"
    and inv :: "'s \<Rightarrow> bool"
  assumes add_inv: "inv s \<Longrightarrow> ok e \<Longrightarrow> inv (add e s)"
    and add_keys: "inv s \<Longrightarrow> ok e \<Longrightarrow> keys (add e s) = insert (key e) (keys s)"
    and add_val: "inv s \<Longrightarrow> ok e \<Longrightarrow> k \<in> keys s \<Longrightarrow> val (add e s) k = val s k"
begin

lemma fold_add:
  "inv s \<Longrightarrow> list_all ok es \<Longrightarrow> inv (fold add es s) \<and> keys (fold add es s) = keys s \<union> key ` set es \<and>
     (\<forall>k \<in> keys s. val (fold add es s) k = val s k)"
  by (induction es arbitrary: s) (auto simp: add_inv add_keys add_val)

end

locale deletable_store = entry_store add key ok keys val inv
  for add :: "'e \<Rightarrow> 's \<Rightarrow> 's" and key :: "'e \<Rightarrow> 'k" and ok :: "'e \<Rightarrow> bool"
    and keys :: "'s \<Rightarrow> 'k set" and val :: "'s \<Rightarrow> 'k \<Rightarrow> 'v option" and inv :: "'s \<Rightarrow> bool" +
  fixes del :: "'r \<Rightarrow> 's \<Rightarrow> 's"
    and stored :: "'s \<Rightarrow> 'r set"
    and rkey :: "'r \<Rightarrow> 'k"
  assumes del_inv: "inv s \<Longrightarrow> r \<in> stored s \<Longrightarrow> inv (del r s)"
    and del_keys: "inv s \<Longrightarrow> r \<in> stored s \<Longrightarrow> keys (del r s) = keys s - {rkey r}"
    and del_val: "inv s \<Longrightarrow> r \<in> stored s \<Longrightarrow> k \<noteq> rkey r \<Longrightarrow> val (del r s) k = val s k"
    and del_stored: "inv s \<Longrightarrow> r \<in> stored s \<Longrightarrow> stored (del r s) = stored s - {r}"
begin

lemma fold_del:
  "inv s \<Longrightarrow> set rs \<subseteq> stored s \<Longrightarrow> distinct rs \<Longrightarrow>
     inv (fold del rs s) \<and> keys (fold del rs s) = keys s - rkey ` set rs \<and>
     stored (fold del rs s) = stored s - set rs \<and>
     (\<forall>k. k \<notin> rkey ` set rs \<longrightarrow> val (fold del rs s) k = val s k)"
proof (induction rs arbitrary: s)
  case (Cons r rs)
  then have "inv (del r s)" "set rs \<subseteq> stored (del r s)"
    by (auto simp: del_inv del_stored)
  with Cons show ?case
    by (auto simp: del_keys del_stored del_val)
qed simp

end

section \<open>Invariant\<close>

definition wf_cm :: "Connection list \<Rightarrow> ConnectionMap \<Rightarrow> bool" where
  "wf_cm cs cm \<longleftrightarrow> distinct (map fst cm) \<and>
     (\<forall>p. distinct (map fst (ClusterConnectionsMap (cm_get cm p))) \<and>
       (\<forall>(k, a) \<in> set (ClusterConnectionsMap (cm_get cm p)). pair_of_key k = p \<and> a < length cs \<and>
          conn_Key (cs ! a) = k \<and> conn_Hostnqn (cs ! a) = tk_hostnqn k))"

definition cache_keys :: "cache \<Rightarrow> TKey set" where
  "cache_keys c = (key_of_Entry \<circ> snd) ` set (cacheEntries c)"

definition entry_ok :: "Entry \<Rightarrow> bool" where
  "entry_ok e \<longleftrightarrow> Persistent e \<and> Subsysnqn e \<noteq> []"

definition cache_inv :: "cache \<Rightarrow> bool" where
  "cache_inv c \<longleftrightarrow>
     distinct (map fst (cacheEntries c)) \<and> (\<forall>re \<in> set (cacheEntries c). fst re < nextEntry c) \<and>
     list_all (entry_ok \<circ> snd) (cacheEntries c) \<and>
     distinct (map (key_of_Entry \<circ> snd) (cacheEntries c)) \<and>
     wf_cm (conns (heap c)) (connections c) \<and>
     dom (conn_at (connections c)) = cache_keys c \<and>
     m_EntriesTotal (heap c) = int (length (cacheEntries c))"

lemma cache_inv_NewCache [simp]: "cache_inv (NewCache u i a h j)"
  by (auto simp: cache_inv_def NewCache_def wf_cm_def cm_get_def cache_keys_def conn_at_def)

lemma pair_of_key_of_Entry [simp]: "pair_of_key (key_of_Entry e) = pair_of_Entry e"
  by (simp add: pair_of_key_def key_of_Entry_def pair_of_Entry_def)

lemma tk_hostnqn_key_of_Entry [simp]: "tk_hostnqn (key_of_Entry e) = Hostnqn e"
  by (simp add: key_of_Entry_def)

lemma pair_of_Entry_empty: "entry_ok e \<Longrightarrow> pair_of_Entry e \<noteq> empty_pair"
  by (simp add: entry_ok_def pair_of_Entry_def empty_pair_def)

lemma key_of_Entry_eq_iff:
  "key_of_Entry a = key_of_Entry b \<longleftrightarrow> Transport a = Transport b \<and> Traddr a = Traddr b \<and>
     Trsvcid a = Trsvcid b \<and> Subsysnqn a = Subsysnqn b \<and> Hostnqn a = Hostnqn b"
  by (simp add: key_of_Entry_def)

lemma compare_key: "Persistent a = Persistent b \<Longrightarrow> compare a (Some b) \<longleftrightarrow> key_of_Entry a = key_of_Entry b"
  by (auto simp: compare_Some_iff key_of_Entry_eq_iff)

lemma existEntry_key:
  "entry_ok e \<Longrightarrow> list_all entry_ok es \<Longrightarrow> existEntry e es \<longleftrightarrow> key_of_Entry e \<in> key_of_Entry ` set es"
  by (auto simp: existEntry_def list_ex_iff list_all_iff entry_ok_def compare_key image_iff)

lemma existEntry_cache:
  "cache_inv c \<Longrightarrow> entry_ok e \<Longrightarrow>
     existEntry e (map snd (cacheEntries c)) \<longleftrightarrow> key_of_Entry e \<in> cache_keys c"
  by (subst existEntry_key) (auto simp: cache_inv_def list_all_iff cache_keys_def)

text \<open>The entry that is stored for a new entry: only its ctrl-loss-tmo and its effective host id change.\<close>

definition resolved :: "cache \<Rightarrow> Entry \<Rightarrow> Entry" where
  "resolved c e = MaybeUpdateHostIDs (nvmfHosts c)
     (if EntrySource e = EntrySourceReferral \<and> CtrlLossTMO e = None
      then inherit_tmo (map snd (cacheEntries c)) e else e)"

lemma inherit_tmo_eq: "\<exists>t. inherit_tmo es e = e\<lparr>CtrlLossTMO := t\<rparr>"
proof (induction es)
  case Nil
  show ?case by (rule exI [of _ "CtrlLossTMO e"]) simp
qed auto

lemma MaybeUpdateHostIDs_eq: "\<exists>h. MaybeUpdateHostIDs hosts e = e\<lparr>EffectiveHostid := h\<rparr>"
proof (cases "GetHostID hosts (Hostnqn e) \<noteq> [] \<and> GetHostID hosts (Hostnqn e) \<noteq> Hostid e")
  case False
  then have "MaybeUpdateHostIDs hosts e = e\<lparr>EffectiveHostid := EffectiveHostid e\<rparr>"
    by (auto simp: MaybeUpdateHostIDs_def Let_def)
  then show ?thesis ..
qed (auto simp: MaybeUpdateHostIDs_def)

lemma resolved_eq: "\<exists>t h. resolved c e = e\<lparr>CtrlLossTMO := t, EffectiveHostid := h\<rparr>"
proof (cases "EntrySource e = EntrySourceReferral \<and> CtrlLossTMO e = None")
  case True
  with inherit_tmo_eq [of "map snd (cacheEntries c)" e]
  obtain t where "resolved c e = MaybeUpdateHostIDs (nvmfHosts c) (e\<lparr>CtrlLossTMO := t\<rparr>)"
    by (auto simp: resolved_def)
  with MaybeUpdateHostIDs_eq [of "nvmfHosts c" "e\<lparr>CtrlLossTMO := t\<rparr>"] show ?thesis by auto
next
  case False
  with MaybeUpdateHostIDs_eq [of "nvmfHosts c" e]
  obtain h where "resolved c e = (e\<lparr>CtrlLossTMO := CtrlLossTMO e\<rparr>)\<lparr>EffectiveHostid := h\<rparr>"
    unfolding resolved_def by auto
  then show ?thesis by blast
qed

lemma resolved_simps [simp]:
  "key_of_Entry (resolved c e) = key_of_Entry e" "pair_of_Entry (resolved c e) = pair_of_Entry e"
  "Persistent (resolved c e) = Persistent e" "Subsysnqn (resolved c e) = Subsysnqn e"
  "Hostnqn (resolved c e) = Hostnqn e" "entry_ok (resolved c e) = entry_ok e"
  using resolved_eq [of c e] by (auto simp: key_of_Entry_def pair_of_Entry_def entry_ok_def)

section \<open>Adding and deleting one entry\<close>

lemma wf_cmD:
  assumes "wf_cm cs cm"
  shows "distinct (map fst (ClusterConnectionsMap (cm_get cm p)))"
    and "(k, a) \<in> set (ClusterConnectionsMap (cm_get cm p)) \<Longrightarrow>
      pair_of_key k = p \<and> a < length cs \<and> conn_Key (cs ! a) = k \<and> conn_Hostnqn (cs ! a) = tk_hostnqn k"
  using assms by (force simp: wf_cm_def)+

lemma conn_at_AddConnection [simp]: "conn_at (AddConnection k a cm) = (conn_at cm)(k \<mapsto> a)"
  by (rule ext) (simp add: conn_at_def cm_get_AddConnection)

lemma conn_at_DeleteConnection:
  "pair_of_key k = p \<Longrightarrow> conn_at (DeleteConnection p k cm) = (conn_at cm)(k := None)"
  by (rule ext) (auto simp: conn_at_def cm_get_DeleteConnection)

lemma wf_cm_AddConnection:
  assumes "wf_cm cs cm" "a < length cs" "conn_Key (cs ! a) = k" "conn_Hostnqn (cs ! a) = tk_hostnqn k"
  shows "wf_cm cs (AddConnection k a cm)"
  unfolding wf_cm_def
proof (intro conjI allI)
  show "distinct (map fst (AddConnection k a cm))"
    using assms(1) by (simp add: distinct_AddConnection wf_cm_def)
  fix p
  show "distinct (map fst (ClusterConnectionsMap (cm_get (AddConnection k a cm) p)))"
    using wf_cmD(1) [OF assms(1)] by (simp add: cm_get_AddConnection distinct_update)
  have d: "distinct (map fst (ClusterConnectionsMap (cm_get cm p)))"
    by (rule wf_cmD(1) [OF assms(1)])
  show "\<forall>(k', a') \<in> set (ClusterConnectionsMap (cm_get (AddConnection k a cm) p)). pair_of_key k' = p \<and>
      a' < length cs \<and> conn_Key (cs ! a') = k' \<and> conn_Hostnqn (cs ! a') = tk_hostnqn k'"
  proof clarify
    fix k' a'
    assume "(k', a') \<in> set (ClusterConnectionsMap (cm_get (AddConnection k a cm) p))"
    then have "(k', a') \<in> set (ClusterConnectionsMap (cm_get cm p)) \<or> p = pair_of_key k \<and> k' = k \<and> a' = a"
      using d by (auto simp: cm_get_AddConnection set_update_distinct split: if_splits)
    then show "pair_of_key k' = p \<and> a' < length cs \<and> conn_Key (cs ! a') = k' \<and>
        conn_Hostnqn (cs ! a') = tk_hostnqn k'"
      using wf_cmD(2) [OF assms(1), of k' a' p] assms(2-4) by blast
  qed
qed

lemma wf_cm_DeleteConnection:
  assumes "wf_cm cs cm"
  shows "wf_cm cs (DeleteConnection p k cm)"
  unfolding wf_cm_def
proof (intro conjI allI)
  show "distinct (map fst (DeleteConnection p k cm))"
    using assms by (simp add: distinct_DeleteConnection wf_cm_def)
  fix q
  show "distinct (map fst (ClusterConnectionsMap (cm_get (DeleteConnection p k cm) q)))"
    using wf_cmD(1) [OF assms] by (simp add: cm_get_DeleteConnection distinct_delete)
  show "\<forall>(k', a') \<in> set (ClusterConnectionsMap (cm_get (DeleteConnection p k cm) q)). pair_of_key k' = q \<and>
      a' < length cs \<and> conn_Key (cs ! a') = k' \<and> conn_Hostnqn (cs ! a') = tk_hostnqn k'"
  proof clarify
    fix k' a'
    assume "(k', a') \<in> set (ClusterConnectionsMap (cm_get (DeleteConnection p k cm) q))"
    then have "(k', a') \<in> set (ClusterConnectionsMap (cm_get cm q))"
      by (auto simp: cm_get_DeleteConnection set_delete_filter split: if_splits)
    then show "pair_of_key k' = q \<and> a' < length cs \<and> conn_Key (cs ! a') = k' \<and>
        conn_Hostnqn (cs ! a') = tk_hostnqn k'"
      by (rule wf_cmD(2) [OF assms])
  qed
qed

lemma wf_cm_append: "wf_cm cs cm \<Longrightarrow> wf_cm (cs @ xs) cm"
  by (fastforce simp: wf_cm_def nth_append)

definition new_conn :: "cache \<Rightarrow> Entry \<Rightarrow> Connection" where
  "new_conn c e = \<lparr>conn_Hostnqn = Hostnqn e, conn_Hostid = GetEffectiveHostId e, conn_Key = key_of_Entry e,
     conn_done = False, conn_closed = False, conn_ConnectionID = '''', conn_State = False,
     conn_CtrlLossTMO = CtrlLossTMO e\<rparr>"

text \<open>Adding an entry: known keys change nothing, and a new key adds one entry and one connection.\<close>

lemma addEntry_known:
  "cache_inv c \<Longrightarrow> entry_ok e \<Longrightarrow> key_of_Entry e \<in> cache_keys c \<Longrightarrow> addEntry e c = (c, Inr empty_pair)"
  by (simp add: addEntry_def existEntry_cache)

lemma addEntry_fresh:
  assumes "cache_inv c" "entry_ok e" "key_of_Entry e \<notin> cache_keys c"
  shows "\<exists>h. addEntry e c = (c\<lparr>cacheEntries := cacheEntries c @ [(nextEntry c, resolved c e)],
      nextEntry := nextEntry c + 1, heap := h,
      connections := AddConnection (key_of_Entry e) (length (conns (heap c))) (connections c)\<rparr>,
      Inr (pair_of_Entry e)) \<and>
    conns h = conns (heap c) @ [new_conn c (resolved c e)] \<and> m_EntriesTotal h = m_EntriesTotal (heap c) + 1"
proof -
  have "conn_at (connections c) (key_of_Entry e) = None"
    using assms(1,3) by (auto simp: cache_inv_def)
  then have none: "map_of (ClusterConnectionsMap (cm_get (connections c) (pair_of_Entry e))) (key_of_Entry e) = None"
    by (simp add: conn_at_def)
  have ne: "\<not> existEntry e (map snd (cacheEntries c))"
    using assms existEntry_cache by simp
  show ?thesis
    using ne none
    unfolding addEntry_def resolved_def [symmetric] Let_def
    by (simp add: newConnection_def Let_def SetState_def upd_conn_def new_conn_def)
      (rule exI, rule conjI, rule refl, simp)
qed

lemma addEntry_inv:
  assumes "cache_inv c" "entry_ok e"
  shows "cache_inv (fst (addEntry e c)) \<and> cache_keys (fst (addEntry e c)) = insert (key_of_Entry e) (cache_keys c)"
proof (cases "key_of_Entry e \<in> cache_keys c")
  case True
  with assms show ?thesis by (auto simp: addEntry_known)
next
  case False
  obtain h where h: "fst (addEntry e c) = c\<lparr>cacheEntries := cacheEntries c @ [(nextEntry c, resolved c e)],
      nextEntry := nextEntry c + 1, heap := h,
      connections := AddConnection (key_of_Entry e) (length (conns (heap c))) (connections c)\<rparr>"
    and conns: "conns h = conns (heap c) @ [new_conn c (resolved c e)]"
    and total: "m_EntriesTotal h = m_EntriesTotal (heap c) + 1"
    using addEntry_fresh [OF assms False] by auto
  have wf: "wf_cm (conns h) (AddConnection (key_of_Entry e) (length (conns (heap c))) (connections c))"
    using assms(1) unfolding conns
    by (intro wf_cm_AddConnection wf_cm_append) (simp_all add: cache_inv_def new_conn_def)
  have keys: "cache_keys (fst (addEntry e c)) = insert (key_of_Entry e) (cache_keys c)"
    by (auto simp: h cache_keys_def)
  have "cache_inv (fst (addEntry e c))"
    unfolding cache_inv_def keys
  proof (intro conjI)
    show "distinct (map fst (cacheEntries (fst (addEntry e c))))"
      using assms(1) by (auto simp: h cache_inv_def)
    show "distinct (map (key_of_Entry \<circ> snd) (cacheEntries (fst (addEntry e c))))"
      using assms(1) False by (simp add: h cache_inv_def cache_keys_def)
    show "wf_cm (conns (heap (fst (addEntry e c)))) (connections (fst (addEntry e c)))"
      using wf by (simp add: h)
  qed (use assms in \<open>auto simp: h cache_inv_def total\<close>)
  with keys show ?thesis by simp
qed

lemma deleteEntry_stored:
  assumes "cache_inv c" "re \<in> set (cacheEntries c)"
  shows "deleteEntry re c = (c\<lparr>cacheEntries := AList.delete (fst re) (cacheEntries c),
      heap := (heap c)\<lparr>m_EntriesTotal := m_EntriesTotal (heap c) - 1\<rparr>,
      connections := DeleteConnection (pair_of_Entry (snd re)) (key_of_Entry (snd re)) (connections c)\<rparr>,
      Inr (pair_of_Entry (snd re)))"
proof -
  have "conn_at (connections c) (key_of_Entry (snd re)) \<noteq> None"
    using assms unfolding cache_inv_def cache_keys_def by (auto simp: dom_def set_eq_iff)
  then show ?thesis
    using assms(2) by (auto simp: deleteEntry_def conn_at_def Let_def split: option.splits)
qed

lemma distinct_keys_delete:
  "distinct (map f xs) \<Longrightarrow> distinct (map f (AList.delete k xs))"
  by (simp add: AList.delete_eq distinct_map_filter)

lemma cache_keys_delete:
  assumes "cache_inv c" "re \<in> set (cacheEntries c)"
  shows "(key_of_Entry \<circ> snd) ` set (AList.delete (fst re) (cacheEntries c)) = cache_keys c - {key_of_Entry (snd re)}"
proof -
  have d1: "distinct (map fst (cacheEntries c))" and d2: "distinct (map (key_of_Entry \<circ> snd) (cacheEntries c))"
    using assms(1) by (simp_all add: cache_inv_def)
  have iff: "fst x = fst re \<longleftrightarrow> key_of_Entry (snd x) = key_of_Entry (snd re)" if "x \<in> set (cacheEntries c)" for x
    using that assms(2) inj_onD [of fst "set (cacheEntries c)" x re]
      inj_onD [of "key_of_Entry \<circ> snd" "set (cacheEntries c)" x re] d1 d2
    by (auto simp: distinct_map)
  have "{x \<in> set (cacheEntries c). fst x \<noteq> fst re} =
      {x \<in> set (cacheEntries c). key_of_Entry (snd x) \<noteq> key_of_Entry (snd re)}"
    using iff by blast
  moreover have "set (AList.delete (fst re) (cacheEntries c)) = {x \<in> set (cacheEntries c). fst x \<noteq> fst re}"
    by (auto simp: set_delete_filter)
  ultimately have "set (AList.delete (fst re) (cacheEntries c)) =
      {x \<in> set (cacheEntries c). key_of_Entry (snd x) \<noteq> key_of_Entry (snd re)}" by simp
  then show ?thesis
    by (auto simp: cache_keys_def)
qed

lemma deleteEntry_inv:
  assumes "cache_inv c" "re \<in> set (cacheEntries c)"
  shows "cache_inv (fst (deleteEntry re c)) \<and>
    cache_keys (fst (deleteEntry re c)) = cache_keys c - {key_of_Entry (snd re)} \<and>
    set (cacheEntries (fst (deleteEntry re c))) = set (cacheEntries c) - {re}"
proof -
  let ?c = "fst (deleteEntry re c)"
  note h = deleteEntry_stored [OF assms]
  have keys: "cache_keys ?c = cache_keys c - {key_of_Entry (snd re)}"
    using cache_keys_delete [OF assms] by (simp add: h cache_keys_def)
  have d: "distinct (map fst (cacheEntries c))"
    using assms(1) by (simp add: cache_inv_def)
  have stored: "set (cacheEntries ?c) = set (cacheEntries c) - {re}"
    using d assms(2) eq_key_imp_eq_value [OF d]
    by (auto simp: h AList.delete_eq) (metis prod.collapse)
  have "Suc (length (AList.delete (fst re) (cacheEntries c))) = length (cacheEntries c)"
    using d assms(2) by (intro length_delete_distinct) auto
  then have total: "m_EntriesTotal (heap ?c) = int (length (cacheEntries ?c))"
    using assms(1) by (simp add: h cache_inv_def)
  have "cache_inv ?c"
    unfolding cache_inv_def keys
  proof (intro conjI)
    show "list_all (entry_ok \<circ> snd) (cacheEntries ?c)"
      using assms(1) stored by (auto simp: cache_inv_def list_all_iff)
    show "dom (conn_at (connections ?c)) = cache_keys c - {key_of_Entry (snd re)}"
      using assms(1) by (auto simp: h conn_at_DeleteConnection cache_inv_def)
    show "\<forall>r \<in> set (cacheEntries ?c). fst r < nextEntry ?c"
      unfolding stored using assms(1) by (auto simp: h cache_inv_def)
  qed (use assms(1) total in \<open>auto simp: h cache_inv_def distinct_keys_delete wf_cm_DeleteConnection distinct_delete\<close>)
  with keys stored show ?thesis by simp
qed

lemma addEntry_conn_at:
  assumes "cache_inv c" "entry_ok e" "k \<in> cache_keys c"
  shows "conn_at (connections (fst (addEntry e c))) k = conn_at (connections c) k"
proof (cases "key_of_Entry e \<in> cache_keys c")
  case True
  with assms show ?thesis by (simp add: addEntry_known)
next
  case False
  with addEntry_fresh [OF assms(1,2) False] assms(3) show ?thesis by auto
qed

lemma deleteEntry_conn_at:
  assumes "cache_inv c" "re \<in> set (cacheEntries c)" "k \<noteq> key_of_Entry (snd re)"
  shows "conn_at (connections (fst (deleteEntry re c))) k = conn_at (connections c) k"
  using assms(3) by (simp add: deleteEntry_stored [OF assms(1,2)] conn_at_DeleteConnection)

interpretation store: deletable_store "\<lambda>e c. fst (addEntry e c)" key_of_Entry entry_ok cache_keys
  "\<lambda>c. conn_at (connections c)" cache_inv
  "\<lambda>re c. fst (deleteEntry re c)" "\<lambda>c. set (cacheEntries c)" "key_of_Entry \<circ> snd"
  by unfold_locales (simp_all add: addEntry_inv deleteEntry_inv addEntry_conn_at deleteEntry_conn_at)

section \<open>The loops\<close>

lemma pair_of_Entry_cong: "key_of_Entry a = key_of_Entry b \<Longrightarrow> pair_of_Entry a = pair_of_Entry b"
  by (metis pair_of_key_of_Entry)

text \<open>The pairs that get a new connection when a list of entries is added.\<close>

definition new_pairs :: "cache \<Rightarrow> Entry list \<Rightarrow> ClientClusterPair set" where
  "new_pairs c es = pair_of_Entry ` {e \<in> set es. key_of_Entry e \<notin> cache_keys c}"

lemma image_new_key:
  assumes "\<And>a b. k a = k b \<Longrightarrow> p a = p b" "k e \<notin> K"
  shows "p ` {x \<in> insert e S. k x \<notin> K} = insert (p e) (p ` {x \<in> S. k x \<notin> insert (k e) K})"
proof (intro equalityI subsetI)
  fix y assume "y \<in> p ` {x \<in> insert e S. k x \<notin> K}"
  then obtain x where "x \<in> insert e S" "k x \<notin> K" "y = p x" by blast
  then show "y \<in> insert (p e) (p ` {x \<in> S. k x \<notin> insert (k e) K})"
    using assms(1) [of x e] by (cases "k x = k e") auto
next
  fix y assume "y \<in> insert (p e) (p ` {x \<in> S. k x \<notin> insert (k e) K})"
  then show "y \<in> p ` {x \<in> insert e S. k x \<notin> K}" using assms(2) by auto
qed
lemma new_pairs_Cons:
  assumes "cache_inv c" "entry_ok e"
  shows "new_pairs c (e # es) =
     (if key_of_Entry e \<in> cache_keys c then {} else {pair_of_Entry e}) \<union> new_pairs (fst (addEntry e c)) es"
proof -
  have k: "cache_keys (fst (addEntry e c)) = insert (key_of_Entry e) (cache_keys c)"
    using addEntry_inv assms by blast
  show ?thesis
  proof (cases "key_of_Entry e \<in> cache_keys c")
    case True
    then have "{x \<in> set (e # es). key_of_Entry x \<notin> cache_keys c} =
        {x \<in> set es. key_of_Entry x \<notin> cache_keys c}" by auto
    with True show ?thesis unfolding new_pairs_def k by (simp add: insert_absorb)
  next
    case False
    show ?thesis
      using image_new_key [of key_of_Entry pair_of_Entry e "cache_keys c" "set es", OF pair_of_Entry_cong False] False
      unfolding new_pairs_def k by simp
  qed
qed

lemma addEntry_result:
  assumes "cache_inv c" "entry_ok e"
  shows "snd (addEntry e c) =
    Inr (if key_of_Entry e \<in> cache_keys c then empty_pair else pair_of_Entry e)"
  using addEntry_known [OF assms] addEntry_fresh [OF assms] by auto

lemma addEntry_cases:
  assumes "cache_inv c" "entry_ok e"
  shows "addEntry e c = (fst (addEntry e c),
    Inr (if key_of_Entry e \<in> cache_keys c then empty_pair else pair_of_Entry e))"
  using addEntry_result [OF assms] by (cases "addEntry e c") simp

lemma fileAdded_loop_eq:
  assumes "cache_inv c" "list_all entry_ok (map (Persistent_update (\<lambda>_. True)) es)"
  shows "\<exists>ps'. fileAdded_loop es ps c =
      (fold (\<lambda>e c. fst (addEntry e c)) (map (Persistent_update (\<lambda>_. True)) es) c, Inr ps') \<and>
    fst ` set ps' = fst ` set ps \<union> new_pairs c (map (Persistent_update (\<lambda>_. True)) es)"
  using assms
proof (induction es arbitrary: c ps)
  case (Cons e es)
  let ?e = "e\<lparr>Persistent := True\<rparr>"
  have ok: "entry_ok ?e" and c: "cache_inv (fst (addEntry ?e c))"
    using Cons.prems addEntry_inv by auto
  let ?ps = "if key_of_Entry ?e \<in> cache_keys c then ps else AList.update (pair_of_Entry ?e) True ps"
  obtain ps' where ps': "fileAdded_loop es ?ps (fst (addEntry ?e c)) =
      (fold (\<lambda>e c. fst (addEntry e c)) (map (Persistent_update (\<lambda>_. True)) es) (fst (addEntry ?e c)), Inr ps')"
    "fst ` set ps' = fst ` set ?ps \<union> new_pairs (fst (addEntry ?e c)) (map (Persistent_update (\<lambda>_. True)) es)"
    using Cons.IH [OF c, of ?ps] Cons.prems(2) by auto
  have "fileAdded_loop (e # es) ps c = fileAdded_loop es ?ps (fst (addEntry ?e c))"
    by (simp only: fileAdded_loop.simps)
      (subst addEntry_cases [OF Cons.prems(1) ok], use pair_of_Entry_empty [OF ok] in auto)
  then show ?case
    using ps' new_pairs_Cons [OF Cons.prems(1) ok] by (auto simp: dom_update)
qed (simp add: new_pairs_def)

lemma sync_json_eq:
  assumes "cache_inv c" "list_all (\<lambda>e. Persistent e \<and> verify e = None) es"
  shows "\<exists>ps'. sync_json es ps c = (fold (\<lambda>e c. fst (addEntry e c)) es c, Inr ps') \<and>
    set ps' = set ps \<union> new_pairs c es"
  using assms
proof (induction es arbitrary: c ps)
  case (Cons e es)
  have v: "verify e = None" and ok: "entry_ok e"
    using Cons.prems by (simp_all add: entry_ok_def verify_ok_iff)
  have c: "cache_inv (fst (addEntry e c))"
    using addEntry_inv Cons.prems(1) ok by blast
  let ?ps = "if key_of_Entry e \<in> cache_keys c then ps else ps @ [pair_of_Entry e]"
  have "sync_json (e # es) ps c = sync_json es ?ps (fst (addEntry e c))"
    by (simp only: sync_json.simps v option.case)
      (subst addEntry_cases [OF Cons.prems(1) ok], use pair_of_Entry_empty [OF ok] in auto)
  then show ?case
    using Cons.IH [OF c, of ?ps] Cons.prems(2) new_pairs_Cons [OF Cons.prems(1) ok] by auto
qed (simp add: new_pairs_def)

lemma addConnectionsFromReferrals_loop_eq:
  assumes "cache_inv c" "list_all (\<lambda>r. rk_DPSubNqn (fst r) \<noteq> []) rs"
  shows "\<exists>ps'. addConnectionsFromReferrals_loop rs ps c =
      (fold (\<lambda>e c. fst (addEntry e c)) (map (\<lambda>r. getEntryFromReferral (fst r) (snd r)) rs) c, ps') \<and>
    set ps' = set ps \<union> new_pairs c (map (\<lambda>r. getEntryFromReferral (fst r) (snd r)) rs)"
  using assms
proof (induction rs arbitrary: c ps)
  case (Cons r rs)
  let ?e = "getEntryFromReferral (fst r) (snd r)"
  have ok: "entry_ok ?e"
    using Cons.prems by (simp add: entry_ok_def getEntryFromReferral_def empty_Entry_def)
  have c: "cache_inv (fst (addEntry ?e c))"
    using addEntry_inv Cons.prems(1) ok by blast
  let ?ps = "if key_of_Entry ?e \<in> cache_keys c then ps else ps @ [pair_of_Entry ?e]"
  have "addConnectionsFromReferrals_loop (r # rs) ps c =
      addConnectionsFromReferrals_loop rs ?ps (fst (addEntry ?e c))"
    by (simp only: addConnectionsFromReferrals_loop.simps)
      (subst addEntry_cases [OF Cons.prems(1) ok], use pair_of_Entry_empty [OF ok] in auto)
  then show ?case
    using Cons.IH [OF c, of ?ps] Cons.prems(2) new_pairs_Cons [OF Cons.prems(1) ok] by auto
qed (simp add: new_pairs_def)

lemma delete_entries_eq:
  assumes "cache_inv c" "set res \<subseteq> set (cacheEntries c)" "distinct res"
  shows "\<exists>ps'. delete_entries res ps c = (fold (\<lambda>re c. fst (deleteEntry re c)) res c, ps') \<and>
    set ps' = set ps \<union> (pair_of_Entry \<circ> snd) ` set res"
  using assms
proof (induction res arbitrary: c ps)
  case (Cons re res)
  have re: "re \<in> set (cacheEntries c)" using Cons.prems(2) by simp
  have c: "cache_inv (fst (deleteEntry re c))" "set res \<subseteq> set (cacheEntries (fst (deleteEntry re c)))"
    using deleteEntry_inv [OF Cons.prems(1) re] Cons.prems by auto
  have "entry_ok (snd re)"
    using Cons.prems(1) re by (auto simp: cache_inv_def list_all_iff)
  then have "delete_entries (re # res) ps c = delete_entries res (ps @ [pair_of_Entry (snd re)]) (fst (deleteEntry re c))"
    using pair_of_Entry_empty by (simp add: deleteEntry_stored [OF Cons.prems(1) re])
  then show ?case
    using Cons.IH [OF c, of "ps @ [pair_of_Entry (snd re)]"] Cons.prems(3) by auto
qed simp

section \<open>Referrals\<close>

lemma referral_entries_same:
  assumes "list_all (\<lambda>r. \<lparr>ClusterNqn = rk_DPSubNqn (fst r), HostNqn = rk_Hostnqn (fst r)\<rparr> = p) rs"
    and "prev = empty_pair \<or> prev = p"
  shows "referral_entries rs es prev cur =
    Inr (es @ map (\<lambda>r. getEntryFromReferral (fst r) (snd r)) rs, if rs = [] then cur else p)"
  using assms by (induction rs arbitrary: es prev cur) auto

lemma createReferralsFile_simps [simp]:
  "cacheEntries (fst (createReferralsFile env c)) = cacheEntries c"
  "connections (fst (createReferralsFile env c)) = connections c"
  "heap (fst (createReferralsFile env c)) = heap c"
  "pending (fst (createReferralsFile env c)) = pending c"
  "nextEntry (fst (createReferralsFile env c)) = nextEntry c"
  "cache_keys (fst (createReferralsFile env c)) = cache_keys c"
  "cache_inv (fst (createReferralsFile env c)) = cache_inv c"
  by (simp_all add: createReferralsFile_def cache_inv_def cache_keys_def split: option.splits)

lemma notifyChange_simps [simp]:
  "cacheEntries (notifyChange ps c) = cacheEntries c" "connections (notifyChange ps c) = connections c"
  "heap (notifyChange ps c) = heap c" "internalJson (notifyChange ps c) = internalJson c"
  "nextEntry (notifyChange ps c) = nextEntry c"
  "cache_keys (notifyChange ps c) = cache_keys c" "cache_inv (notifyChange ps c) = cache_inv c"
  by (simp_all add: notifyChange_def Let_def cache_inv_def cache_keys_def)

lemma set_notify_pairs:
  "set (notify_pairs cm ps acc) = set acc \<union> {p \<in> set ps. p \<noteq> empty_pair \<and> map_of cm p \<noteq> None}"
  by (induction ps arbitrary: acc) auto

lemma distinct_notify_pairs: "distinct acc \<Longrightarrow> distinct (notify_pairs cm ps acc)"
  by (induction ps arbitrary: acc) auto

lemma notifyChange_pending:
  assumes "p \<in> set ps" "p \<noteq> empty_pair" "map_of (connections c) p \<noteq> None"
  shows "\<exists>n. pending (notifyChange ps c) = pending c @ [n] \<and> p \<in> set n"
proof -
  have p: "p \<in> set (notify_pairs (connections c) ps [])"
    using assms by (simp add: set_notify_pairs)
  then have "notify_pairs (connections c) ps [] \<noteq> []" by (metis list.set_cases list.distinct(1))
  with p show ?thesis by (simp add: notifyChange_def Let_def)
qed

text \<open>The keys that a referral map describes, and that all its referrals belong to one pair.\<close>

definition referral_keys :: "ReferralMap \<Rightarrow> TKey set" where
  "referral_keys rs = (\<lambda>r. key_of_Entry (getEntryFromReferral (fst r) (snd r))) ` set rs"

definition referrals_of_pair :: "ClientClusterPair \<Rightarrow> ReferralMap \<Rightarrow> bool" where
  "referrals_of_pair p rs \<longleftrightarrow> rs \<noteq> [] \<and> ClusterNqn p \<noteq> [] \<and>
     list_all (\<lambda>r. \<lparr>ClusterNqn = rk_DPSubNqn (fst r), HostNqn = rk_Hostnqn (fst r)\<rparr> = p) rs"

lemma referrals_of_pair_ord [simp]:
  "go_order ord \<Longrightarrow> referrals_of_pair p (ord rs) = referrals_of_pair p rs"
  by (metis (no_types, lifting) go_order_Nil go_order_set list_all_iff referrals_of_pair_def set_empty)

lemma referral_keys_ord [simp]: "go_order ord \<Longrightarrow> referral_keys (ord rs) = referral_keys rs"
  by (simp add: referral_keys_def)

lemma referral_entry_ok:
  "referrals_of_pair p rs \<Longrightarrow> r \<in> set rs \<Longrightarrow> entry_ok (getEntryFromReferral (fst r) (snd r)) \<and>
     pair_of_Entry (getEntryFromReferral (fst r) (snd r)) = p"
  by (auto simp: referrals_of_pair_def list_all_iff entry_ok_def getEntryFromReferral_def
      empty_Entry_def pair_of_Entry_def)

lemma pair_of_key_referral: "referrals_of_pair p rs \<Longrightarrow> k \<in> referral_keys rs \<Longrightarrow> pair_of_key k = p"
  unfolding referral_keys_def using referral_entry_ok by fastforce

lemma addConnectionsFromReferrals_eq:
  assumes "cache_inv c" "referrals_of_pair p rs"
  shows "cache_inv (fst (addConnectionsFromReferrals rs c)) \<and>
    cache_keys (fst (addConnectionsFromReferrals rs c)) = cache_keys c \<union> referral_keys rs \<and>
    (\<forall>k \<in> cache_keys c. conn_at (connections (fst (addConnectionsFromReferrals rs c))) k = conn_at (connections c) k) \<and>
    set (snd (addConnectionsFromReferrals rs c)) = (if referral_keys rs \<subseteq> cache_keys c then {} else {p})"
proof -
  let ?es = "map (\<lambda>r. getEntryFromReferral (fst r) (snd r)) rs"
  have ok: "list_all entry_ok ?es" "list_all (\<lambda>r. rk_DPSubNqn (fst r) \<noteq> []) rs"
    using assms(2) referral_entry_ok by (auto simp: list_all_iff referrals_of_pair_def)
  have pairs: "pair_of_Entry e = p" if "e \<in> set ?es" for e
    using that referral_entry_ok [OF assms(2)] by auto
  have new: "new_pairs c ?es = (if referral_keys rs \<subseteq> cache_keys c then {} else {p})"
    using pairs by (auto simp: new_pairs_def referral_keys_def)
  have keys: "key_of_Entry ` set ?es = referral_keys rs"
    by (simp add: referral_keys_def image_image)
  obtain ps where "addConnectionsFromReferrals_loop rs [] c = (fold (\<lambda>e c. fst (addEntry e c)) ?es c, ps)"
    "set ps = new_pairs c ?es"
    using addConnectionsFromReferrals_loop_eq [OF assms(1) ok(2), of "[]"] by auto
  then have eq: "addConnectionsFromReferrals rs c = (fold (\<lambda>e c. fst (addEntry e c)) ?es c, ps)" and
    ps: "set ps = (if referral_keys rs \<subseteq> cache_keys c then {} else {p})"
    using assms(2) new by (simp_all add: addConnectionsFromReferrals_def referrals_of_pair_def)
  show ?thesis
    unfolding eq fst_conv snd_conv using store.fold_add [OF assms(1) ok(1)] ps keys by simp
qed

lemma set_entriesToRemove:
  assumes "cache_inv c" "referrals_of_pair p rs"
  shows "re \<in> set (entriesToRemove (map (\<lambda>r. getEntryFromReferral (fst r) (snd r)) rs) p c) \<longleftrightarrow>
    re \<in> set (cacheEntries c) \<and> pair_of_key (key_of_Entry (snd re)) = p \<and>
    key_of_Entry (snd re) \<notin> referral_keys rs"
proof (cases "re \<in> set (cacheEntries c)")
  case True
  let ?es = "map (\<lambda>r. getEntryFromReferral (fst r) (snd r)) rs"
  have ok: "list_all entry_ok ?es"
    using assms(2) referral_entry_ok by (auto simp: list_all_iff)
  have "entry_ok (snd re)"
    using True assms(1) by (auto simp: cache_inv_def list_all_iff)
  from existEntry_key [OF this ok]
  have "existEntry (snd re) ?es \<longleftrightarrow> key_of_Entry (snd re) \<in> referral_keys rs"
    by (simp add: referral_keys_def image_image)
  with True show ?thesis
    unfolding entriesToRemove_def by (cases p) (auto simp: pair_of_Entry_def)
qed (simp add: entriesToRemove_def)

lemma fold_deleteEntry_frame:
  "dom (map_of (connections (fold (\<lambda>re c. fst (deleteEntry re c)) res c))) = dom (map_of (connections c)) \<and>
   pending (fold (\<lambda>re c. fst (deleteEntry re c)) res c) = pending c"
proof (induction res arbitrary: c)
  case (Cons re res)
  have "dom (map_of (connections (fst (deleteEntry re c)))) = dom (map_of (connections c))"
    "pending (fst (deleteEntry re c)) = pending c"
    by (simp_all add: deleteEntry_def Let_def split: option.splits)
  with Cons [of "fst (deleteEntry re c)"] show ?case by simp
qed simp

lemma removeConnections_fold:
  assumes "cache_inv c" "referrals_of_pair p rs" "removeConnectionsNotInReferrals rs c = (c', ps, err)"
    and "rm = entriesToRemove (map (\<lambda>r. getEntryFromReferral (fst r) (snd r)) rs) p c"
  shows "c' = fold (\<lambda>re c. fst (deleteEntry re c)) rm c \<and> set ps = (pair_of_Entry \<circ> snd) ` set rm \<and> err = None"
proof -
  have re: "referral_entries rs [] empty_pair empty_pair =
      Inr (map (\<lambda>r. getEntryFromReferral (fst r) (snd r)) rs, p)"
    using assms(2) referral_entries_same [of p rs empty_pair "[]" empty_pair]
    by (simp add: referrals_of_pair_def)
  have "set rm \<subseteq> set (cacheEntries c)" "distinct rm"
    using assms(1) by (auto simp: assms(4) entriesToRemove_def cache_inv_def distinct_map)
  from delete_entries_eq [OF assms(1) this, of "[]"]
  obtain ps' where "delete_entries rm [] c = (fold (\<lambda>re c. fst (deleteEntry re c)) rm c, ps')"
    "set ps' = (pair_of_Entry \<circ> snd) ` set rm" by auto
  with assms(3) show ?thesis
    unfolding removeConnectionsNotInReferrals_def re
    by (simp add: Let_def assms(4) [symmetric] split: if_splits)
qed

lemma removeConnectionsNotInReferrals_eq:
  assumes "cache_inv c" "referrals_of_pair p rs" "removeConnectionsNotInReferrals rs c = (c', ps, err)"
  shows "err = None \<and> cache_inv c' \<and>
    cache_keys c' = {k \<in> cache_keys c. pair_of_key k = p \<longrightarrow> k \<in> referral_keys rs} \<and>
    (\<forall>k \<in> cache_keys c'. conn_at (connections c') k = conn_at (connections c) k) \<and>
    set ps = (if cache_keys c' = cache_keys c then {} else {p}) \<and>
    dom (map_of (connections c')) = dom (map_of (connections c)) \<and> pending c' = pending c"
proof -
  define rm where "rm = entriesToRemove (map (\<lambda>r. getEntryFromReferral (fst r) (snd r)) rs) p c"
  note eq = removeConnections_fold [OF assms rm_def]
  note rm = set_entriesToRemove [OF assms(1,2), folded rm_def]
  have sub: "set rm \<subseteq> set (cacheEntries c)" and dist: "distinct rm"
    using assms(1) by (auto simp: rm_def entriesToRemove_def cache_inv_def distinct_map)
  note fd = store.fold_del [OF assms(1) sub dist]
  have keys: "cache_keys c' = cache_keys c - (key_of_Entry \<circ> snd) ` set rm"
    using fd eq by simp
  have rmk: "(key_of_Entry \<circ> snd) ` set rm = {k \<in> cache_keys c. pair_of_key k = p \<and> k \<notin> referral_keys rs}"
    unfolding cache_keys_def using rm by (auto simp: image_iff)
  have "set ps = (if cache_keys c' = cache_keys c then {} else {p})"
  proof (cases rm)
    case Nil
    then show ?thesis using eq keys by simp
  next
    case (Cons x xs)
    then have "key_of_Entry (snd x) \<in> cache_keys c - cache_keys c'"
      using keys sub by (auto simp: cache_keys_def)
    moreover have "(pair_of_Entry \<circ> snd) ` set rm = {p}"
      using rm Cons by auto
    ultimately show ?thesis using eq by auto
  qed
  then show ?thesis
    using eq fd keys rmk fold_deleteEntry_frame [of rm c] by auto
qed

section \<open>Properties of referrals\<close>

lemma addEntry_frame:
  "pending (fst (addEntry e c)) = pending c \<and> internalJson (fst (addEntry e c)) = internalJson c"
  by (simp add: addEntry_def Let_def split: option.splits prod.splits)

lemma fold_addEntry_frame:
  "pending (fold (\<lambda>e c. fst (addEntry e c)) es c) = pending c"
  by (induction es arbitrary: c) (simp_all add: addEntry_frame)

lemma addConnections_pending: "pending (fst (addConnectionsFromReferrals rs c)) = pending c"
proof -
  have "pending (fst (addConnectionsFromReferrals_loop rs ps c)) = pending c" for ps
  proof (induction rs arbitrary: ps c)
    case (Cons r rs)
    obtain c1 res where "addEntry (getEntryFromReferral (fst r) (snd r)) c = (c1, res)"
      by (cases "addEntry (getEntryFromReferral (fst r) (snd r)) c")
    with Cons addEntry_frame [of "getEntryFromReferral (fst r) (snd r)" c] show ?case
      by (cases res) auto
  qed simp
  then show ?thesis by (simp add: addConnectionsFromReferrals_def)
qed

lemma dom_connections_key:
  assumes "k \<in> cache_keys c" "cache_inv c"
  shows "map_of (connections c) (pair_of_key k) \<noteq> None"
proof -
  have "conn_at (connections c) k \<noteq> None" using assms by (auto simp: cache_inv_def)
  then show ?thesis by (auto simp: conn_at_def cm_get_def split: option.splits)
qed

text \<open>The two phases of \<^const>\<open>HandleReferrals\<close>, with what each does.\<close>

lemma HandleReferrals_phases:
  assumes "cache_inv c" "referrals_of_pair p referrals" "go_order ord1" "go_order ord2"
    and "HandleReferrals env ord1 ord2 referrals c = (c', err)"
  obtains c1 nps c2 rps where
    "cache_inv c1" "cache_keys c1 = cache_keys c \<union> referral_keys referrals"
    "\<forall>k \<in> cache_keys c. conn_at (connections c1) k = conn_at (connections c) k"
    "set nps = (if referral_keys referrals \<subseteq> cache_keys c then {} else {p})"
    "cache_inv c2" "cache_keys c2 = {k \<in> cache_keys c1. pair_of_key k = p \<longrightarrow> k \<in> referral_keys referrals}"
    "\<forall>k \<in> cache_keys c2. conn_at (connections c2) k = conn_at (connections c1) k"
    "set rps = (if cache_keys c2 = cache_keys c1 then {} else {p})" "pending c2 = pending c"
    "c' = (if nps @ rps = [] then c2 else notifyChange (nps @ rps) (fst (createReferralsFile env c2)))"
    "err = None"
proof -
  obtain c1 nps where a: "addConnectionsFromReferrals (ord1 referrals) c = (c1, nps)"
    by (cases "addConnectionsFromReferrals (ord1 referrals) c")
  obtain c2 rps e where r: "removeConnectionsNotInReferrals (ord2 referrals) c1 = (c2, rps, e)"
    by (cases "removeConnectionsNotInReferrals (ord2 referrals) c1")
  have A: "cache_inv c1" "cache_keys c1 = cache_keys c \<union> referral_keys referrals"
    "\<forall>k \<in> cache_keys c. conn_at (connections c1) k = conn_at (connections c) k"
    "set nps = (if referral_keys referrals \<subseteq> cache_keys c then {} else {p})" "pending c1 = pending c"
    using addConnectionsFromReferrals_eq [of c p "ord1 referrals"] addConnections_pending [of "ord1 referrals" c]
      assms(1-3) a by auto
  have R: "e = None" "cache_inv c2" "pending c2 = pending c1"
    "cache_keys c2 = {k \<in> cache_keys c1. pair_of_key k = p \<longrightarrow> k \<in> referral_keys referrals}"
    "\<forall>k \<in> cache_keys c2. conn_at (connections c2) k = conn_at (connections c1) k"
    "set rps = (if cache_keys c2 = cache_keys c1 then {} else {p})"
    using removeConnectionsNotInReferrals_eq [OF A(1) _ r, of p] assms(2,4) by auto
  have "referrals \<noteq> []" using assms(2) by (simp add: referrals_of_pair_def)
  then have "c' = (if nps @ rps = [] then c2 else notifyChange (nps @ rps) (fst (createReferralsFile env c2)))"
    "err = None"
    using assms(5) R(1) by (auto simp: HandleReferrals_def a r Let_def split: if_splits)
  with A R show thesis by (intro that) auto
qed

text \<open>
  C2: handling the referrals of a cluster makes the cache track, for that client and cluster, exactly
  the endpoints of the referrals, and changes nothing for any other. Connections of endpoints that stay
  keep their identity, the invariant is kept, and if anything changed a notification that names the pair
  is on its way to the service. The order in which the two loops visit the map does not matter.
\<close>

theorem HandleReferrals_converges:
  assumes "cache_inv c" and "referrals_of_pair p referrals" and "go_order ord1" and "go_order ord2"
    and "HandleReferrals env ord1 ord2 referrals c = (c', err)"
  shows "err = None \<and> cache_inv c' \<and>
    cache_keys c' = {k \<in> cache_keys c. pair_of_key k \<noteq> p} \<union> referral_keys referrals \<and>
    dom (conn_at (connections c')) = cache_keys c' \<and>
    (\<forall>k \<in> cache_keys c \<inter> cache_keys c'. conn_at (connections c') k = conn_at (connections c) k) \<and>
    (if cache_keys c' = cache_keys c then pending c' = pending c
     else \<exists>n. pending c' = pending c @ [n] \<and> p \<in> set n)"
proof -
  obtain c1 nps c2 rps where
    A: "cache_inv c1" "cache_keys c1 = cache_keys c \<union> referral_keys referrals"
      "\<forall>k \<in> cache_keys c. conn_at (connections c1) k = conn_at (connections c) k"
      "set nps = (if referral_keys referrals \<subseteq> cache_keys c then {} else {p})" and
    R: "cache_inv c2" "cache_keys c2 = {k \<in> cache_keys c1. pair_of_key k = p \<longrightarrow> k \<in> referral_keys referrals}"
      "\<forall>k \<in> cache_keys c2. conn_at (connections c2) k = conn_at (connections c1) k"
      "set rps = (if cache_keys c2 = cache_keys c1 then {} else {p})" "pending c2 = pending c" and
    res: "c' = (if nps @ rps = [] then c2 else notifyChange (nps @ rps) (fst (createReferralsFile env c2)))"
      "err = None"
    using HandleReferrals_phases [OF assms] by blast
  have keys: "cache_keys c2 = {k \<in> cache_keys c. pair_of_key k \<noteq> p} \<union> referral_keys referrals"
    using R(2) A(2) pair_of_key_referral [OF assms(2)] by auto
  have c': "cache_inv c'" "cache_keys c' = cache_keys c2" "connections c' = connections c2"
    using res R(1) by auto
  obtain k where k: "k \<in> referral_keys referrals"
    using assms(2) by (cases referrals) (auto simp: referrals_of_pair_def referral_keys_def)
  then have dp: "map_of (connections c2) p \<noteq> None"
    using dom_connections_key [OF _ R(1), of k] keys pair_of_key_referral [OF assms(2) k] by auto
  have p: "p \<noteq> empty_pair" using assms(2) by (auto simp: referrals_of_pair_def empty_pair_def)
  have changed: "nps @ rps = [] \<longleftrightarrow> cache_keys c2 = cache_keys c"
    using A(2,4) R(2,4) keys by (auto simp flip: set_empty split: if_splits)
  have "if cache_keys c' = cache_keys c then pending c' = pending c
     else \<exists>n. pending c' = pending c @ [n] \<and> p \<in> set n"
  proof (cases "nps @ rps = []")
    case False
    then have "p \<in> set (nps @ rps)"
      using A(4) R(4) by (auto simp flip: set_empty split: if_splits)
    from notifyChange_pending [OF this p, of "fst (createReferralsFile env c2)"] dp
    obtain n where "pending c' = pending c @ [n]" "p \<in> set n"
      using False res R(5) by auto
    then show ?thesis using False changed c'(2) by auto
  qed (use res changed R(5) in simp)
  moreover have "dom (conn_at (connections c')) = cache_keys c'"
    using c'(1) by (simp add: cache_inv_def)
  ultimately show ?thesis
    using c' keys res(2) A(3) R(3) by auto
qed

section \<open>Witness\<close>

definition example_refs :: ReferralMap where
  "example_refs = [(\<lparr>rk_Ip = ''10.0.0.2'', rk_Port = 8009, rk_DPSubNqn = ''nqn.s'', rk_Hostnqn = ''nqn.h''\<rparr>,
     \<lparr>pe_PortID = 1, pe_CntlID = 2, pe_TrsvcID = 8009, pe_Subnqn = ''nqn.s'', pe_Traddr = ''10.0.0.2'', pe_SubType = 1\<rparr>)]"

definition example_user_entry :: Entry where
  "example_user_entry = empty_Entry\<lparr>Transport := ''tcp'', Trsvcid := 8009, Traddr := ''10.0.0.1'',
     Hostnqn := ''nqn.h'', Subsysnqn := ''nqn.s'', Persistent := True, EntrySource := EntrySourceUser\<rparr>"

definition example_cache :: cache where
  "example_cache = fst (addEntry example_user_entry (NewCache ''/u'' ''/i'' None [] NoFile))"

definition example_cenv :: cache_env where
  "example_cenv = \<lparr>ev_net = (\<lambda>h. None), ev_parseOrd = id, ev_pairOrd = rev, ev_files = [],
     ev_userDir = Some [], ev_userDirTime = Some 0, ev_internalDir = Some [], ev_now = 5, ev_fault = None,
     ev_glob = (\<lambda>p. Some []), ev_store = example_env\<rparr>"

lemma example_user_entry_ok: "entry_ok example_user_entry"
  by (simp add: example_user_entry_def entry_ok_def)

lemma example_cache_keys: "cache_inv example_cache \<and> cache_keys example_cache = {key_of_Entry example_user_entry}"
  using addEntry_inv [OF cache_inv_NewCache example_user_entry_ok, of "''/u''" "''/i''" None "[]" NoFile]
  by (simp add: example_cache_def cache_keys_def NewCache_def)

theorem HandleReferrals_converges_witness:
  "map tk_Ip (map (key_of_Entry \<circ> snd) (cacheEntries example_cache)) = [''10.0.0.1''] \<and>
   tk_Ip ` cache_keys (fst (HandleReferrals example_cenv id rev example_refs example_cache)) = {''10.0.0.2''}"
proof -
  let ?p = "\<lparr>ClusterNqn = ''nqn.s'', HostNqn = ''nqn.h''\<rparr>"
  obtain c' err where h: "HandleReferrals example_cenv id rev example_refs example_cache = (c', err)"
    by (cases "HandleReferrals example_cenv id rev example_refs example_cache")
  have r: "referrals_of_pair ?p example_refs"
    by (simp add: referrals_of_pair_def example_refs_def)
  have "pair_of_key (key_of_Entry example_user_entry) = ?p"
    by (simp add: example_user_entry_def pair_of_Entry_def)
  then have "cache_keys c' = referral_keys example_refs"
    using HandleReferrals_converges [OF conjunct1 [OF example_cache_keys] r _ _ h] example_cache_keys by auto
  moreover have "cacheEntries example_cache = [(0, example_user_entry)]"
    by (simp add: example_cache_def addEntry_def NewCache_def existEntry_def Let_def MaybeUpdateHostIDs_def
        GetHostID_def example_user_entry_def split: option.splits prod.splits)
  ultimately show ?thesis
    unfolding h fst_conv
    by (simp add: referral_keys_def example_refs_def getEntryFromReferral_def key_of_Entry_def
        example_user_entry_def)
qed

end
