(* ===== verification/Struc.thy ===== *)
theory Struc
  imports Go_Std
begin

text \<open>
  The binary codec \<^verbatim>\<open>src/vendor/github.com/lunixbochs/struc\<close>, as far as the wire types of this program
  use it: integers with a byte order (big endian unless the tag says little), arrays of integers, and
  strings in a field of fixed length. A nested struct is its fields in place.

  A layout is a list of fields and a struct value is the list of its field values, integers as natural
  numbers. \<open>wire_struct\<close> is the contract of a Go struct: its layout, and its fields as values and back.
\<close>

section \<open>Layouts\<close>

datatype field =
    FInt (fbytes: nat) (flittle: bool)
  | FArr (flen: nat) (fbytes: nat) (flittle: bool)
  | FStr (flen: nat)

datatype fval = I nat | A "nat list" | S string

type_synonym layout = "field list"

definition string_bytes :: "string \<Rightarrow> bytes" where
  "string_bytes s = map (\<lambda>c. of_nat (of_char c)) s"

definition bytes_string :: "bytes \<Rightarrow> string" where
  "bytes_string bs = map (\<lambda>b. char_of (unat b)) bs"

definition field_size :: "field \<Rightarrow> nat" where
  "field_size f = (case f of FInt b _ \<Rightarrow> b | FArr n b _ \<Rightarrow> n * b | FStr n \<Rightarrow> n)"

definition Sizeof :: "layout \<Rightarrow> nat" where
  "Sizeof l = sum_list (map field_size l)"

definition put_uint :: "nat \<Rightarrow> bool \<Rightarrow> nat \<Rightarrow> bytes" where
  "put_uint b little n = (if little then nat_to_le b n else rev (nat_to_le b n))"

definition get_uint :: "bool \<Rightarrow> bytes \<Rightarrow> nat" where
  "get_uint little bs = le_to_nat (if little then bs else rev bs)"

section \<open>Packing\<close>

text \<open>
  \<^verbatim>\<open>Field.Pack\<close>: an array of a Go array type has exactly its elements; a slice that is shorter is filled
  with zeros. A string that is shorter than its field is filled with zeros, and one that is longer is
  written as it is, which moves the fields after it.
\<close>

definition pad_zero :: "nat \<Rightarrow> 'a::zero list \<Rightarrow> 'a list" where
  "pad_zero len xs = xs @ replicate (len - length xs) 0"

fun field_pack :: "field \<Rightarrow> fval \<Rightarrow> bytes" where
  "field_pack (FInt b little) (I n) = put_uint b little n"
| "field_pack (FArr len b little) (A ns) =
     concat (map (put_uint b little) (pad_zero len (take len ns)))"
| "field_pack (FStr len) (S s) = string_bytes s @ replicate (len - length s) 0"
| "field_pack _ _ = []"

definition is_FStr :: "field \<Rightarrow> bool" where
  "is_FStr f = (case f of FStr _ \<Rightarrow> True | _ \<Rightarrow> False)"

text \<open>
  \<^verbatim>\<open>Fields.Pack\<close> into a buffer of \<open>len\<close> bytes, \<open>None\<close> for the panic of an index or slice out of range:
  a field that starts after the end, or an integer or array that ends after it. A string is copied as
  far as it fits.
\<close>

fun pack_loop :: "nat \<Rightarrow> layout \<Rightarrow> fval list \<Rightarrow> bytes \<Rightarrow> bytes option" where
  "pack_loop len (f # fs) (v # vs) buf =
     (if length buf > len then None
      else let b = field_pack f v in
           if \<not> is_FStr f \<and> length buf + length b > len then None
           else pack_loop len fs vs (buf @ b))"
| "pack_loop len _ _ buf = Some (take len (buf @ replicate (len - length buf) 0))"

definition Pack :: "layout \<Rightarrow> fval list \<Rightarrow> bytes option" where
  "Pack l vs = pack_loop (Sizeof l) l vs []"

section \<open>Unpacking\<close>

fun get_uints :: "nat \<Rightarrow> nat \<Rightarrow> bool \<Rightarrow> bytes \<Rightarrow> nat list" where
  "get_uints 0 b little bs = []"
| "get_uints (Suc n) b little bs = get_uint little (take b bs) # get_uints n b little (drop b bs)"

definition field_unpack :: "field \<Rightarrow> bytes \<Rightarrow> fval" where
  "field_unpack f bs = (case f of
     FInt b little \<Rightarrow> I (get_uint little bs)
   | FArr n b little \<Rightarrow> A (get_uints n b little bs)
   | FStr n \<Rightarrow> S (bytes_string bs))"

text \<open>\<^verbatim>\<open>Fields.Unpack\<close> from a reader that holds \<open>bs\<close>: \<open>None\<close> is the error of a short read.\<close>

fun Unpack :: "layout \<Rightarrow> bytes \<Rightarrow> (fval list \<times> bytes) option" where
  "Unpack [] bs = Some ([], bs)"
| "Unpack (f # fs) bs =
     (if length bs < field_size f then None
      else case Unpack fs (drop (field_size f) bs) of
          None \<Rightarrow> None
        | Some (vs, rest) \<Rightarrow> Some (field_unpack f (take (field_size f) bs) # vs, rest))"

section \<open>Round trip\<close>

text \<open>A value fits its field, and the value that comes back: strings and slices are filled up to their field.\<close>

fun fits :: "field \<Rightarrow> fval \<Rightarrow> bool" where
  "fits (FInt b little) (I n) \<longleftrightarrow> n < 256 ^ b"
| "fits (FArr len b little) (A ns) \<longleftrightarrow> length ns \<le> len \<and> (\<forall>n \<in> set ns. n < 256 ^ b)"
| "fits (FStr len) (S s) \<longleftrightarrow> length s \<le> len"
| "fits _ _ \<longleftrightarrow> False"

definition pad_nul :: "nat \<Rightarrow> string \<Rightarrow> string" where
  "pad_nul len s = s @ replicate (len - length s) (CHR 0x00)"


fun padded :: "field \<Rightarrow> fval \<Rightarrow> fval" where
  "padded (FStr len) (S s) = S (pad_nul len s)"
| "padded (FArr len b little) (A ns) = A (pad_zero len ns)"
| "padded _ v = v"

fun valI :: "fval \<Rightarrow> nat" where
  "valI (I n) = n"
| "valI _ = 0"

fun valA :: "fval \<Rightarrow> nat list" where
  "valA (A ns) = ns"
| "valA _ = []"

fun valS :: "fval \<Rightarrow> string" where
  "valS (S s) = s"
| "valS _ = []"

definition signed_int :: "nat \<Rightarrow> nat \<Rightarrow> int" where
  "signed_int w n = (if n < 2 ^ (w - 1) then int n else int n - 2 ^ w)"

lemma signed_int_mod [wire_simps]:
  assumes "- 2147483648 \<le> i" "i < 2147483648"
  shows "signed_int 32 (nat (i mod 4294967296)) = i"
proof (cases "0 \<le> i")
  case False
  then have "i mod 4294967296 = i + 4294967296"
    using assms mod_pos_pos_trivial [of "i + 4294967296" 4294967296] by simp
  then show ?thesis using False assms by (simp add: signed_int_def)
qed (use assms in \<open>simp add: signed_int_def mod_pos_pos_trivial\<close>)

lemma unat_fits [wire_simps]:
  "unat (a :: u8) < 256" "unat (b :: u16) < 65536" "unat (c :: u32) < 4294967296"
  "unat (d :: u64) < 18446744073709551616"
  using unsigned_less [of a] unsigned_less [of b] unsigned_less [of c] unsigned_less [of d] by auto

lemma unat_fits_wide [wire_simps]: "unat (b :: u16) < 4294967296"
  using unat_fits(2) [of b] by linarith

lemma pad_zero_full [wire_simps]: "length xs = n \<Longrightarrow> pad_zero n xs = xs"
  by (simp add: pad_zero_def)

lemma map_of_nat_unat [wire_simps]: "map (of_nat \<circ> unat) (xs :: ('a::len) word list) = xs"
  by (simp add: comp_def)

lemma map_of_nat_pad_zero [wire_simps]:
  "map of_nat (pad_zero n (map unat (xs :: ('a::len) word list))) = pad_zero n xs"
  by (simp add: pad_zero_def comp_def)

lemma length_put_uint [simp]: "length (put_uint b little n) = b"
  by (simp add: put_uint_def)

lemma get_put_uint [simp]: "n < 256 ^ b \<Longrightarrow> get_uint little (put_uint b little n) = n"
  by (simp add: put_uint_def get_uint_def)

lemma length_string_bytes [simp]: "length (string_bytes s) = length s"
  by (simp add: string_bytes_def)

lemma bytes_string_append [simp]: "bytes_string (xs @ ys) = bytes_string xs @ bytes_string ys"
  by (simp add: bytes_string_def)

lemma bytes_string_string_bytes [simp]: "bytes_string (string_bytes s) = s"
proof -
  have "char_of (unat (of_nat (of_char c) :: u8)) = c" for c :: char
  proof -
    have "of_char c < (256 :: nat)" using range_nat_of_char by (metis atLeastLessThan_iff rangeI)
    then show ?thesis by (simp add: unat_of_nat)
  qed
  then show ?thesis by (simp add: bytes_string_def string_bytes_def comp_def)
qed

lemma bytes_string_zeros [simp]: "bytes_string (replicate n 0) = replicate n (CHR 0x00)"
  by (simp add: bytes_string_def char_of_def)

lemma length_concat_put_uint [simp]: "length (concat (map (put_uint b little) ns)) = length ns * b"
  by (induction ns) auto

lemma get_uints_concat:
  "\<forall>n \<in> set ns. n < 256 ^ b \<Longrightarrow> get_uints (length ns) b little (concat (map (put_uint b little) ns) @ rest) = ns"
  by (induction ns) auto

lemma pad_zero_simps:
  "length xs \<le> n \<Longrightarrow> length (pad_zero n xs) = n"
  "\<forall>x \<in> set xs. x < 256 ^ b \<Longrightarrow> \<forall>x \<in> set (pad_zero n xs). x < 256 ^ b" for xs :: "nat list"
  by (auto simp: pad_zero_def)

lemma length_field_pack: "fits f v \<Longrightarrow> length (field_pack f v) = field_size f"
  by (cases "(f, v)" rule: fits.cases) (auto simp: field_size_def pad_zero_simps)

lemma field_unpack_pack: "fits f v \<Longrightarrow> field_unpack f (field_pack f v) = padded f v"
proof (cases "(f, v)" rule: fits.cases)
  case (2 len b little ns)
  assume "fits f v"
  then have "length ns \<le> len" "\<forall>n \<in> set (pad_zero len ns). n < 256 ^ b"
    using 2 pad_zero_simps(2) [of ns b len] by simp_all
  then show ?thesis
    using get_uints_concat [of "pad_zero len ns" b little "[]"] 2
    by (simp add: field_unpack_def pad_zero_simps)
qed (auto simp: field_unpack_def pad_nul_def)

lemma list_all2_fits_concat:
  "list_all2 fits fs vs \<Longrightarrow> length (concat (map2 field_pack fs vs)) = Sizeof fs"
  by (induction rule: list_all2_induct) (auto simp: Sizeof_def length_field_pack)

lemma pack_loop_fits:
  "list_all2 fits fs vs \<Longrightarrow> length buf + Sizeof fs = len \<Longrightarrow>
     pack_loop len fs vs buf = Some (buf @ concat (map2 field_pack fs vs))"
proof (induction fs vs arbitrary: buf rule: list_all2_induct)
  case (Cons f fs v vs)
  then show ?case by (simp add: Sizeof_def length_field_pack Let_def)
qed (simp add: Sizeof_def)

lemma Pack_fits: "list_all2 fits fs vs \<Longrightarrow> Pack fs vs = Some (concat (map2 field_pack fs vs))"
  by (simp add: Pack_def pack_loop_fits)

lemma Unpack_concat:
  "list_all2 fits fs vs \<Longrightarrow>
     Unpack fs (concat (map2 field_pack fs vs) @ rest) = Some (map2 padded fs vs, rest)"
proof (induction rule: list_all2_induct)
  case (Cons f fs v vs)
  have "length (field_pack f v) = field_size f" using Cons.hyps(1) by (rule length_field_pack)
  then show ?case
    using Cons field_unpack_pack [OF Cons.hyps(1)] by simp
qed simp

lemma Unpack_short: "length bs < Sizeof fs \<Longrightarrow> Unpack fs bs = None"
proof (induction fs arbitrary: bs)
  case (Cons f fs)
  then show ?case
    using Cons.IH [of "drop (field_size f) bs"] by (auto simp: Sizeof_def)
qed (simp add: Sizeof_def)

lemma Unpack_long:
  "length bs \<ge> Sizeof fs \<Longrightarrow> \<exists>vs. Unpack fs bs = Some (vs, drop (Sizeof fs) bs) \<and> length vs = length fs"
proof (induction fs arbitrary: bs)
  case (Cons f fs)
  have "length (drop (field_size f) bs) \<ge> Sizeof fs" using Cons.prems by (simp add: Sizeof_def)
  from Cons.IH [OF this] Cons.prems show ?case
    by (auto simp: Sizeof_def add.commute)
qed (simp add: Sizeof_def)

section \<open>The contract of a wire struct\<close>

text \<open>
  What a Go struct with struc tags promises: the values of its fields (\<open>to_vals\<close>, \<open>of_vals\<close>, the reading
  \<^verbatim>\<open>reflect\<close> gives) fit its layout when the struct is \<open>ok\<close>, and reading the padded values gives the struct
  back up to the padding of its strings (\<open>norm\<close>).
\<close>

locale wire_struct =
  fixes layout :: layout
    and to_vals :: "'a \<Rightarrow> fval list"
    and of_vals :: "fval list \<Rightarrow> 'a"
    and ok :: "'a \<Rightarrow> bool"
    and norm :: "'a \<Rightarrow> 'a"
  assumes fits: "ok x \<Longrightarrow> list_all2 fits layout (to_vals x)"
    and of_to: "ok x \<Longrightarrow> of_vals (map2 padded layout (to_vals x)) = norm x"
begin

lemma encode: "ok x \<Longrightarrow> \<exists>bs. Pack layout (to_vals x) = Some bs \<and> length bs = Sizeof layout"
  by (simp add: Pack_fits fits list_all2_fits_concat)

lemma roundtrip:
  "ok x \<Longrightarrow> map_option (map_prod of_vals id) (Unpack layout (the (Pack layout (to_vals x)) @ rest)) = Some (norm x, rest)"
  by (simp add: Pack_fits fits Unpack_concat of_to)

lemma decode_total:
  "length bs \<ge> Sizeof layout \<Longrightarrow> \<exists>x. map_option (map_prod of_vals id) (Unpack layout bs) = Some (x, drop (Sizeof layout) bs)"
  using Unpack_long [of layout bs] by auto

lemma decode_short: "length bs < Sizeof layout \<Longrightarrow> Unpack layout bs = None"
  by (rule Unpack_short)

end

end
