(* ===== verification/Nvme_Types.thy ===== *)
theory Nvme_Types
  imports Struc
begin

text \<open>
  The wire structs of \<^verbatim>\<open>pkg/nvme\<close> (nvme_data_types.go, nvmf_data_types.go, discovery.go, fabrics.go): for each
  Go struct with struc tags a record, its layout, the reading of its fields as values, its zero value and an
  interpretation of \<open>wire_struct\<close>, which gives the round trip and the length of its encoding.
\<close>

section \<open>Structs of the TCP transport\<close>

record DataPtr =
  dp_Part1 :: u64
  dp_Part2 :: "u8 list"

definition DataPtr_layout :: layout where
  "DataPtr_layout = [FInt 8 True, FArr 8 1 False]"

definition to_DataPtr :: "DataPtr \<Rightarrow> fval list" where
  "to_DataPtr x = [I (unat (dp_Part1 x)), A (map unat (dp_Part2 x))]"

definition of_DataPtr :: "fval list \<Rightarrow> DataPtr" where
  "of_DataPtr vs = \<lparr> dp_Part1 = of_nat (valI (vs ! 0)),
      dp_Part2 = map of_nat (valA (vs ! 1)) \<rparr>"

definition ok_DataPtr :: "DataPtr \<Rightarrow> bool" where
  "ok_DataPtr x \<longleftrightarrow> length (dp_Part2 x) = 8"

definition zero_DataPtr :: DataPtr where
  "zero_DataPtr = \<lparr> dp_Part1 = 0, dp_Part2 = replicate 8 0 \<rparr>"

interpretation w_DataPtr: wire_struct DataPtr_layout to_DataPtr of_DataPtr ok_DataPtr
  "(\<lambda>x. x)"
  by unfold_locales (auto simp: DataPtr_layout_def to_DataPtr_def of_DataPtr_def ok_DataPtr_def wire_simps)

record TCPHeaderType =
  th_Type :: u8
  th_Flags :: u8
  th_Hlen :: u8
  th_Pdo :: u8
  th_Plen :: int

definition TCPHeaderType_layout :: layout where
  "TCPHeaderType_layout = [FInt 1 False, FInt 1 False, FInt 1 False, FInt 1 False, FInt 4 True]"

definition to_TCPHeaderType :: "TCPHeaderType \<Rightarrow> fval list" where
  "to_TCPHeaderType x = [I (unat (th_Type x)), I (unat (th_Flags x)), I (unat (th_Hlen x)),
      I (unat (th_Pdo x)), I (nat (th_Plen x mod 2 ^ 32))]"

definition of_TCPHeaderType :: "fval list \<Rightarrow> TCPHeaderType" where
  "of_TCPHeaderType vs = \<lparr> th_Type = of_nat (valI (vs ! 0)), th_Flags = of_nat (valI (vs ! 1)),
      th_Hlen = of_nat (valI (vs ! 2)), th_Pdo = of_nat (valI (vs ! 3)),
      th_Plen = int (valI (vs ! 4)) \<rparr>"

definition ok_TCPHeaderType :: "TCPHeaderType \<Rightarrow> bool" where
  "ok_TCPHeaderType x \<longleftrightarrow> 0 \<le> th_Plen x \<and> th_Plen x < 2 ^ 32"

definition zero_TCPHeaderType :: TCPHeaderType where
  "zero_TCPHeaderType = \<lparr> th_Type = 0, th_Flags = 0, th_Hlen = 0, th_Pdo = 0,
      th_Plen = 0 \<rparr>"

interpretation w_TCPHeaderType: wire_struct TCPHeaderType_layout to_TCPHeaderType of_TCPHeaderType ok_TCPHeaderType
  "(\<lambda>x. x)"
  by unfold_locales (auto simp: TCPHeaderType_layout_def to_TCPHeaderType_def of_TCPHeaderType_def
    ok_TCPHeaderType_def wire_simps)

record TCPIcReqPduType =
  icq_Pfv :: u16
  icq_Maxr2t :: int
  icq_Hpda :: u8
  icq_Digest :: u8
  icq_Reserved :: "u8 list"

definition TCPIcReqPduType_layout :: layout where
  "TCPIcReqPduType_layout = [FInt 2 True, FInt 4 True, FInt 1 False, FInt 1 False, FArr 112 1 False]"

definition to_TCPIcReqPduType :: "TCPIcReqPduType \<Rightarrow> fval list" where
  "to_TCPIcReqPduType x = [I (unat (icq_Pfv x)), I (nat (icq_Maxr2t x mod 2 ^ 32)),
      I (unat (icq_Hpda x)), I (unat (icq_Digest x)), A (map unat (icq_Reserved x))]"

definition of_TCPIcReqPduType :: "fval list \<Rightarrow> TCPIcReqPduType" where
  "of_TCPIcReqPduType vs = \<lparr> icq_Pfv = of_nat (valI (vs ! 0)),
      icq_Maxr2t = signed_int 32 (valI (vs ! 1)), icq_Hpda = of_nat (valI (vs ! 2)),
      icq_Digest = of_nat (valI (vs ! 3)), icq_Reserved = map of_nat (valA (vs ! 4)) \<rparr>"

definition ok_TCPIcReqPduType :: "TCPIcReqPduType \<Rightarrow> bool" where
  "ok_TCPIcReqPduType x \<longleftrightarrow> - (2 ^ 31) \<le> icq_Maxr2t x \<and>
      icq_Maxr2t x < 2 ^ 31 \<and> length (icq_Reserved x) \<le> 112"

definition zero_TCPIcReqPduType :: TCPIcReqPduType where
  "zero_TCPIcReqPduType = \<lparr> icq_Pfv = 0, icq_Maxr2t = 0, icq_Hpda = 0, icq_Digest = 0,
      icq_Reserved = [] \<rparr>"

definition norm_TCPIcReqPduType :: "TCPIcReqPduType \<Rightarrow> TCPIcReqPduType" where
  "norm_TCPIcReqPduType x = x\<lparr> icq_Reserved := pad_zero 112 (icq_Reserved x) \<rparr>"

interpretation w_TCPIcReqPduType: wire_struct TCPIcReqPduType_layout to_TCPIcReqPduType of_TCPIcReqPduType ok_TCPIcReqPduType
  "norm_TCPIcReqPduType"
  by unfold_locales (auto simp: TCPIcReqPduType_layout_def to_TCPIcReqPduType_def of_TCPIcReqPduType_def
    ok_TCPIcReqPduType_def norm_TCPIcReqPduType_def wire_simps)

record TCPIcrespPdu =
  icr_Pfv :: u16
  icr_Cpda :: u8
  icr_Digest :: u8
  icr_Maxdata :: int
  icr_Reserved :: "u8 list"

definition TCPIcrespPdu_layout :: layout where
  "TCPIcrespPdu_layout = [FInt 2 True, FInt 1 False, FInt 1 False, FInt 4 True, FArr 112 1 False]"

definition to_TCPIcrespPdu :: "TCPIcrespPdu \<Rightarrow> fval list" where
  "to_TCPIcrespPdu x = [I (unat (icr_Pfv x)), I (unat (icr_Cpda x)), I (unat (icr_Digest x)),
      I (nat (icr_Maxdata x mod 2 ^ 32)), A (map unat (icr_Reserved x))]"

definition of_TCPIcrespPdu :: "fval list \<Rightarrow> TCPIcrespPdu" where
  "of_TCPIcrespPdu vs = \<lparr> icr_Pfv = of_nat (valI (vs ! 0)), icr_Cpda = of_nat (valI (vs ! 1)),
      icr_Digest = of_nat (valI (vs ! 2)), icr_Maxdata = signed_int 32 (valI (vs ! 3)),
      icr_Reserved = map of_nat (valA (vs ! 4)) \<rparr>"

definition ok_TCPIcrespPdu :: "TCPIcrespPdu \<Rightarrow> bool" where
  "ok_TCPIcrespPdu x \<longleftrightarrow> - (2 ^ 31) \<le> icr_Maxdata x \<and>
      icr_Maxdata x < 2 ^ 31 \<and> length (icr_Reserved x) \<le> 112"

definition zero_TCPIcrespPdu :: TCPIcrespPdu where
  "zero_TCPIcrespPdu = \<lparr> icr_Pfv = 0, icr_Cpda = 0, icr_Digest = 0, icr_Maxdata = 0,
      icr_Reserved = [] \<rparr>"

definition norm_TCPIcrespPdu :: "TCPIcrespPdu \<Rightarrow> TCPIcrespPdu" where
  "norm_TCPIcrespPdu x = x\<lparr> icr_Reserved := pad_zero 112 (icr_Reserved x) \<rparr>"

interpretation w_TCPIcrespPdu: wire_struct TCPIcrespPdu_layout to_TCPIcrespPdu of_TCPIcrespPdu ok_TCPIcrespPdu
  "norm_TCPIcrespPdu"
  by unfold_locales (auto simp: TCPIcrespPdu_layout_def to_TCPIcrespPdu_def of_TCPIcrespPdu_def
    ok_TCPIcrespPdu_def norm_TCPIcrespPdu_def wire_simps)

record TCPDataPDU =
  pdu_CommandID :: u16
  pdu_TTag :: u16
  pdu_DataOffset :: u32
  pdu_DataLength :: u32
  pdu_Reserved :: "u8 list"

definition TCPDataPDU_layout :: layout where
  "TCPDataPDU_layout = [FInt 2 True, FInt 2 True, FInt 4 True, FInt 4 True, FArr 4 1 False]"

definition to_TCPDataPDU :: "TCPDataPDU \<Rightarrow> fval list" where
  "to_TCPDataPDU x = [I (unat (pdu_CommandID x)), I (unat (pdu_TTag x)), I (unat (pdu_DataOffset x)),
      I (unat (pdu_DataLength x)), A (map unat (pdu_Reserved x))]"

definition of_TCPDataPDU :: "fval list \<Rightarrow> TCPDataPDU" where
  "of_TCPDataPDU vs = \<lparr> pdu_CommandID = of_nat (valI (vs ! 0)),
      pdu_TTag = of_nat (valI (vs ! 1)), pdu_DataOffset = of_nat (valI (vs ! 2)),
      pdu_DataLength = of_nat (valI (vs ! 3)), pdu_Reserved = map of_nat (valA (vs ! 4)) \<rparr>"

definition ok_TCPDataPDU :: "TCPDataPDU \<Rightarrow> bool" where
  "ok_TCPDataPDU x \<longleftrightarrow> length (pdu_Reserved x) = 4"

definition zero_TCPDataPDU :: TCPDataPDU where
  "zero_TCPDataPDU = \<lparr> pdu_CommandID = 0, pdu_TTag = 0, pdu_DataOffset = 0, pdu_DataLength = 0,
      pdu_Reserved = replicate 4 0 \<rparr>"

interpretation w_TCPDataPDU: wire_struct TCPDataPDU_layout to_TCPDataPDU of_TCPDataPDU ok_TCPDataPDU
  "(\<lambda>x. x)"
  by unfold_locales (auto simp: TCPDataPDU_layout_def to_TCPDataPDU_def of_TCPDataPDU_def ok_TCPDataPDU_def
    wire_simps)

section \<open>Commands and completions\<close>

record CompletionResult =
  cr_Result :: "u8 list"

definition CompletionResult_layout :: layout where
  "CompletionResult_layout = [FArr 8 1 False]"

definition to_CompletionResult :: "CompletionResult \<Rightarrow> fval list" where
  "to_CompletionResult x = [A (map unat (cr_Result x))]"

definition of_CompletionResult :: "fval list \<Rightarrow> CompletionResult" where
  "of_CompletionResult vs = \<lparr> cr_Result = map of_nat (valA (vs ! 0)) \<rparr>"

definition ok_CompletionResult :: "CompletionResult \<Rightarrow> bool" where
  "ok_CompletionResult x \<longleftrightarrow> length (cr_Result x) = 8"

definition zero_CompletionResult :: CompletionResult where
  "zero_CompletionResult = \<lparr> cr_Result = replicate 8 0 \<rparr>"

interpretation w_CompletionResult: wire_struct CompletionResult_layout to_CompletionResult of_CompletionResult ok_CompletionResult
  "(\<lambda>x. x)"
  by unfold_locales (auto simp: CompletionResult_layout_def to_CompletionResult_def of_CompletionResult_def
    ok_CompletionResult_def wire_simps)

record Completion =
  cqe_Result :: CompletionResult
  cqe_SqHead :: u16
  cqe_SqID :: u16
  cqe_CommandID :: u16
  cqe_Status :: u16

definition Completion_layout :: layout where
  "Completion_layout = CompletionResult_layout @ [FInt 2 True, FInt 2 True, FInt 2 True, FInt 2 True]"

definition to_Completion :: "Completion \<Rightarrow> fval list" where
  "to_Completion x = to_CompletionResult (cqe_Result x) @ [I (unat (cqe_SqHead x)),
      I (unat (cqe_SqID x)), I (unat (cqe_CommandID x)), I (unat (cqe_Status x))]"

definition of_Completion :: "fval list \<Rightarrow> Completion" where
  "of_Completion vs = \<lparr> cqe_Result = of_CompletionResult (take 1 (drop 0 vs)),
      cqe_SqHead = of_nat (valI (vs ! 1)), cqe_SqID = of_nat (valI (vs ! 2)),
      cqe_CommandID = of_nat (valI (vs ! 3)), cqe_Status = of_nat (valI (vs ! 4)) \<rparr>"

definition ok_Completion :: "Completion \<Rightarrow> bool" where
  "ok_Completion x \<longleftrightarrow> ok_CompletionResult (cqe_Result x)"

definition zero_Completion :: Completion where
  "zero_Completion = \<lparr> cqe_Result = zero_CompletionResult, cqe_SqHead = 0, cqe_SqID = 0,
      cqe_CommandID = 0, cqe_Status = 0 \<rparr>"

interpretation w_Completion: wire_struct Completion_layout to_Completion of_Completion ok_Completion
  "(\<lambda>x. x)"
  by unfold_locales (auto simp: Completion_layout_def to_Completion_def of_Completion_def ok_Completion_def
    CompletionResult_layout_def to_CompletionResult_def of_CompletionResult_def ok_CompletionResult_def
    wire_simps)

record ConnectCommand =
  con_Opcode :: u8
  con_Resv1 :: u8
  con_CommandID :: u16
  con_FcType :: u8
  con_Rsvd2 :: "u8 list"
  con_Dptr :: DataPtr
  con_RecFmt :: u16
  con_QID :: u16
  con_SqSize :: u16
  con_CatTr :: u8
  con_Resv3 :: u8
  con_Kato :: u32
  con_Resv4 :: "u8 list"

definition ConnectCommand_layout :: layout where
  "ConnectCommand_layout = [FInt 1 False, FInt 1 False, FInt 2 True, FInt 1 False,
      FArr 19 1 False] @ DataPtr_layout @ [FInt 2 True, FInt 2 True, FInt 2 True, FInt 1 False,
      FInt 1 False, FInt 4 True, FArr 12 1 False]"

definition to_ConnectCommand :: "ConnectCommand \<Rightarrow> fval list" where
  "to_ConnectCommand x = [I (unat (con_Opcode x)), I (unat (con_Resv1 x)), I (unat (con_CommandID x)),
      I (unat (con_FcType x)),
      A (map unat (con_Rsvd2 x))] @ to_DataPtr (con_Dptr x) @ [I (unat (con_RecFmt x)),
      I (unat (con_QID x)), I (unat (con_SqSize x)), I (unat (con_CatTr x)), I (unat (con_Resv3 x)),
      I (unat (con_Kato x)), A (map unat (con_Resv4 x))]"

definition of_ConnectCommand :: "fval list \<Rightarrow> ConnectCommand" where
  "of_ConnectCommand vs = \<lparr> con_Opcode = of_nat (valI (vs ! 0)),
      con_Resv1 = of_nat (valI (vs ! 1)), con_CommandID = of_nat (valI (vs ! 2)),
      con_FcType = of_nat (valI (vs ! 3)), con_Rsvd2 = map of_nat (valA (vs ! 4)),
      con_Dptr = of_DataPtr (take 2 (drop 5 vs)), con_RecFmt = of_nat (valI (vs ! 7)),
      con_QID = of_nat (valI (vs ! 8)), con_SqSize = of_nat (valI (vs ! 9)),
      con_CatTr = of_nat (valI (vs ! 10)), con_Resv3 = of_nat (valI (vs ! 11)),
      con_Kato = of_nat (valI (vs ! 12)), con_Resv4 = map of_nat (valA (vs ! 13)) \<rparr>"

definition ok_ConnectCommand :: "ConnectCommand \<Rightarrow> bool" where
  "ok_ConnectCommand x \<longleftrightarrow> length (con_Rsvd2 x) = 19 \<and>
      ok_DataPtr (con_Dptr x) \<and> length (con_Resv4 x) = 12"

definition zero_ConnectCommand :: ConnectCommand where
  "zero_ConnectCommand = \<lparr> con_Opcode = 0, con_Resv1 = 0, con_CommandID = 0, con_FcType = 0,
      con_Rsvd2 = replicate 19 0, con_Dptr = zero_DataPtr, con_RecFmt = 0, con_QID = 0, con_SqSize = 0,
      con_CatTr = 0, con_Resv3 = 0, con_Kato = 0, con_Resv4 = replicate 12 0 \<rparr>"

interpretation w_ConnectCommand: wire_struct ConnectCommand_layout to_ConnectCommand of_ConnectCommand ok_ConnectCommand
  "(\<lambda>x. x)"
  by unfold_locales (auto simp: ConnectCommand_layout_def to_ConnectCommand_def of_ConnectCommand_def
    ok_ConnectCommand_def DataPtr_layout_def to_DataPtr_def of_DataPtr_def ok_DataPtr_def wire_simps)

record ConnectData =
  cd_HostID :: string
  cd_CntlID :: u16
  cd_Rsv4 :: "u8 list"
  cd_SubsysNqn :: string
  cd_HostNqn :: string
  cd_Rsv5 :: "u8 list"

definition ConnectData_layout :: layout where
  "ConnectData_layout = [FStr 16, FInt 2 True, FArr 238 1 False, FStr 256, FStr 256, FArr 256 1 False]"

definition to_ConnectData :: "ConnectData \<Rightarrow> fval list" where
  "to_ConnectData x = [S (cd_HostID x), I (unat (cd_CntlID x)), A (map unat (cd_Rsv4 x)),
      S (cd_SubsysNqn x), S (cd_HostNqn x), A (map unat (cd_Rsv5 x))]"

definition of_ConnectData :: "fval list \<Rightarrow> ConnectData" where
  "of_ConnectData vs = \<lparr> cd_HostID = valS (vs ! 0), cd_CntlID = of_nat (valI (vs ! 1)),
      cd_Rsv4 = map of_nat (valA (vs ! 2)), cd_SubsysNqn = valS (vs ! 3), cd_HostNqn = valS (vs ! 4),
      cd_Rsv5 = map of_nat (valA (vs ! 5)) \<rparr>"

definition ok_ConnectData :: "ConnectData \<Rightarrow> bool" where
  "ok_ConnectData x \<longleftrightarrow> length (cd_HostID x) \<le> 16 \<and>
      length (cd_Rsv4 x) = 238 \<and> length (cd_SubsysNqn x) \<le> 256 \<and>
      length (cd_HostNqn x) \<le> 256 \<and> length (cd_Rsv5 x) = 256"

definition zero_ConnectData :: ConnectData where
  "zero_ConnectData = \<lparr> cd_HostID = [], cd_CntlID = 0, cd_Rsv4 = replicate 238 0,
      cd_SubsysNqn = [], cd_HostNqn = [], cd_Rsv5 = replicate 256 0 \<rparr>"

definition norm_ConnectData :: "ConnectData \<Rightarrow> ConnectData" where
  "norm_ConnectData x = x\<lparr> cd_HostID := pad_nul 16 (cd_HostID x),
      cd_SubsysNqn := pad_nul 256 (cd_SubsysNqn x), cd_HostNqn := pad_nul 256 (cd_HostNqn x) \<rparr>"

interpretation w_ConnectData: wire_struct ConnectData_layout to_ConnectData of_ConnectData ok_ConnectData
  "norm_ConnectData"
  by unfold_locales (auto simp: ConnectData_layout_def to_ConnectData_def of_ConnectData_def
    ok_ConnectData_def norm_ConnectData_def wire_simps)

record CommonCommand =
  cmd_Opcode :: u8
  cmd_Flags :: u8
  cmd_CommandID :: u16
  cmd_NSId :: u32
  cmd_Cdw2 :: "u32 list"
  cmd_Metadata :: u64
  cmd_Dptr :: DataPtr
  cmd_Cdw10 :: u32
  cmd_Cdw11 :: u32
  cmd_Cdw12 :: u32
  cmd_Cdw13 :: u32
  cmd_Cdw14 :: u32
  cmd_Cdw15 :: u32

definition CommonCommand_layout :: layout where
  "CommonCommand_layout = [FInt 1 False, FInt 1 False, FInt 2 True, FInt 4 True, FArr 2 4 True,
      FInt 8 True] @ DataPtr_layout @ [FInt 4 True, FInt 4 True, FInt 4 True, FInt 4 True, FInt 4 True,
      FInt 4 True]"

definition to_CommonCommand :: "CommonCommand \<Rightarrow> fval list" where
  "to_CommonCommand x = [I (unat (cmd_Opcode x)), I (unat (cmd_Flags x)), I (unat (cmd_CommandID x)),
      I (unat (cmd_NSId x)), A (map unat (cmd_Cdw2 x)),
      I (unat (cmd_Metadata x))] @ to_DataPtr (cmd_Dptr x) @ [I (unat (cmd_Cdw10 x)),
      I (unat (cmd_Cdw11 x)), I (unat (cmd_Cdw12 x)), I (unat (cmd_Cdw13 x)), I (unat (cmd_Cdw14 x)),
      I (unat (cmd_Cdw15 x))]"

definition of_CommonCommand :: "fval list \<Rightarrow> CommonCommand" where
  "of_CommonCommand vs = \<lparr> cmd_Opcode = of_nat (valI (vs ! 0)),
      cmd_Flags = of_nat (valI (vs ! 1)), cmd_CommandID = of_nat (valI (vs ! 2)),
      cmd_NSId = of_nat (valI (vs ! 3)), cmd_Cdw2 = map of_nat (valA (vs ! 4)),
      cmd_Metadata = of_nat (valI (vs ! 5)), cmd_Dptr = of_DataPtr (take 2 (drop 6 vs)),
      cmd_Cdw10 = of_nat (valI (vs ! 8)), cmd_Cdw11 = of_nat (valI (vs ! 9)),
      cmd_Cdw12 = of_nat (valI (vs ! 10)), cmd_Cdw13 = of_nat (valI (vs ! 11)),
      cmd_Cdw14 = of_nat (valI (vs ! 12)), cmd_Cdw15 = of_nat (valI (vs ! 13)) \<rparr>"

definition ok_CommonCommand :: "CommonCommand \<Rightarrow> bool" where
  "ok_CommonCommand x \<longleftrightarrow> length (cmd_Cdw2 x) = 2 \<and> ok_DataPtr (cmd_Dptr x)"

definition zero_CommonCommand :: CommonCommand where
  "zero_CommonCommand = \<lparr> cmd_Opcode = 0, cmd_Flags = 0, cmd_CommandID = 0, cmd_NSId = 0,
      cmd_Cdw2 = replicate 2 0, cmd_Metadata = 0, cmd_Dptr = zero_DataPtr, cmd_Cdw10 = 0,
      cmd_Cdw11 = 0, cmd_Cdw12 = 0, cmd_Cdw13 = 0, cmd_Cdw14 = 0, cmd_Cdw15 = 0 \<rparr>"

interpretation w_CommonCommand: wire_struct CommonCommand_layout to_CommonCommand of_CommonCommand ok_CommonCommand
  "(\<lambda>x. x)"
  by unfold_locales (auto simp: CommonCommand_layout_def to_CommonCommand_def of_CommonCommand_def
    ok_CommonCommand_def DataPtr_layout_def to_DataPtr_def of_DataPtr_def ok_DataPtr_def wire_simps)

record PropertySetCommand =
  ps_Opcode :: u8
  ps_Resv1 :: u8
  ps_CommandID :: u16
  ps_FcType :: u8
  ps_Rsvd2 :: "u8 list"
  ps_Attrib :: u8
  ps_Rsvd3 :: "u8 list"
  ps_Offset :: u32
  ps_Value :: u64
  ps_Rsvd4 :: "u8 list"

definition PropertySetCommand_layout :: layout where
  "PropertySetCommand_layout = [FInt 1 False, FInt 1 False, FInt 2 True, FInt 1 False, FArr 35 1 False,
      FInt 1 False, FArr 3 1 False, FInt 4 True, FInt 8 True, FArr 8 1 False]"

definition to_PropertySetCommand :: "PropertySetCommand \<Rightarrow> fval list" where
  "to_PropertySetCommand x = [I (unat (ps_Opcode x)), I (unat (ps_Resv1 x)), I (unat (ps_CommandID x)),
      I (unat (ps_FcType x)), A (map unat (ps_Rsvd2 x)), I (unat (ps_Attrib x)),
      A (map unat (ps_Rsvd3 x)), I (unat (ps_Offset x)), I (unat (ps_Value x)),
      A (map unat (ps_Rsvd4 x))]"

definition of_PropertySetCommand :: "fval list \<Rightarrow> PropertySetCommand" where
  "of_PropertySetCommand vs = \<lparr> ps_Opcode = of_nat (valI (vs ! 0)),
      ps_Resv1 = of_nat (valI (vs ! 1)), ps_CommandID = of_nat (valI (vs ! 2)),
      ps_FcType = of_nat (valI (vs ! 3)), ps_Rsvd2 = map of_nat (valA (vs ! 4)),
      ps_Attrib = of_nat (valI (vs ! 5)), ps_Rsvd3 = map of_nat (valA (vs ! 6)),
      ps_Offset = of_nat (valI (vs ! 7)), ps_Value = of_nat (valI (vs ! 8)),
      ps_Rsvd4 = map of_nat (valA (vs ! 9)) \<rparr>"

definition ok_PropertySetCommand :: "PropertySetCommand \<Rightarrow> bool" where
  "ok_PropertySetCommand x \<longleftrightarrow> length (ps_Rsvd2 x) = 35 \<and>
      length (ps_Rsvd3 x) = 3 \<and> length (ps_Rsvd4 x) = 8"

definition zero_PropertySetCommand :: PropertySetCommand where
  "zero_PropertySetCommand = \<lparr> ps_Opcode = 0, ps_Resv1 = 0, ps_CommandID = 0, ps_FcType = 0,
      ps_Rsvd2 = replicate 35 0, ps_Attrib = 0, ps_Rsvd3 = replicate 3 0, ps_Offset = 0, ps_Value = 0,
      ps_Rsvd4 = replicate 8 0 \<rparr>"

interpretation w_PropertySetCommand: wire_struct PropertySetCommand_layout to_PropertySetCommand of_PropertySetCommand ok_PropertySetCommand
  "(\<lambda>x. x)"
  by unfold_locales (auto simp: PropertySetCommand_layout_def to_PropertySetCommand_def
    of_PropertySetCommand_def ok_PropertySetCommand_def wire_simps)

record PropertyGetCommand =
  pg_Opcode :: u8
  pg_Resv1 :: u8
  pg_CommandID :: u16
  pg_FcType :: u8
  pg_Rsvd2 :: "u8 list"
  pg_Attrib :: u8
  pg_Rsvd3 :: "u8 list"
  pg_Offset :: u32
  pg_Rsvd4 :: "u8 list"

definition PropertyGetCommand_layout :: layout where
  "PropertyGetCommand_layout = [FInt 1 False, FInt 1 False, FInt 2 True, FInt 1 False, FArr 35 1 False,
      FInt 1 False, FArr 3 1 False, FInt 4 True, FArr 16 1 False]"

definition to_PropertyGetCommand :: "PropertyGetCommand \<Rightarrow> fval list" where
  "to_PropertyGetCommand x = [I (unat (pg_Opcode x)), I (unat (pg_Resv1 x)), I (unat (pg_CommandID x)),
      I (unat (pg_FcType x)), A (map unat (pg_Rsvd2 x)), I (unat (pg_Attrib x)),
      A (map unat (pg_Rsvd3 x)), I (unat (pg_Offset x)), A (map unat (pg_Rsvd4 x))]"

definition of_PropertyGetCommand :: "fval list \<Rightarrow> PropertyGetCommand" where
  "of_PropertyGetCommand vs = \<lparr> pg_Opcode = of_nat (valI (vs ! 0)),
      pg_Resv1 = of_nat (valI (vs ! 1)), pg_CommandID = of_nat (valI (vs ! 2)),
      pg_FcType = of_nat (valI (vs ! 3)), pg_Rsvd2 = map of_nat (valA (vs ! 4)),
      pg_Attrib = of_nat (valI (vs ! 5)), pg_Rsvd3 = map of_nat (valA (vs ! 6)),
      pg_Offset = of_nat (valI (vs ! 7)), pg_Rsvd4 = map of_nat (valA (vs ! 8)) \<rparr>"

definition ok_PropertyGetCommand :: "PropertyGetCommand \<Rightarrow> bool" where
  "ok_PropertyGetCommand x \<longleftrightarrow> length (pg_Rsvd2 x) = 35 \<and>
      length (pg_Rsvd3 x) = 3 \<and> length (pg_Rsvd4 x) = 16"

definition zero_PropertyGetCommand :: PropertyGetCommand where
  "zero_PropertyGetCommand = \<lparr> pg_Opcode = 0, pg_Resv1 = 0, pg_CommandID = 0, pg_FcType = 0,
      pg_Rsvd2 = replicate 35 0, pg_Attrib = 0, pg_Rsvd3 = replicate 3 0, pg_Offset = 0,
      pg_Rsvd4 = replicate 16 0 \<rparr>"

interpretation w_PropertyGetCommand: wire_struct PropertyGetCommand_layout to_PropertyGetCommand of_PropertyGetCommand ok_PropertyGetCommand
  "(\<lambda>x. x)"
  by unfold_locales (auto simp: PropertyGetCommand_layout_def to_PropertyGetCommand_def
    of_PropertyGetCommand_def ok_PropertyGetCommand_def wire_simps)

record IdentifyCommand =
  idc_Opcode :: u8
  idc_Flags :: u8
  idc_CommandID :: u16
  idc_NSId :: u32
  idc_Rsvd2 :: "u64 list"
  idc_Dptr :: DataPtr
  idc_Cns :: u8
  idc_Rsvd3 :: u8
  idc_CtrlID :: u16
  idc_Rsvd11 :: "u16 list"

definition IdentifyCommand_layout :: layout where
  "IdentifyCommand_layout = [FInt 1 False, FInt 1 False, FInt 2 True, FInt 4 True,
      FArr 2 8 False] @ DataPtr_layout @ [FInt 1 False, FInt 1 False, FInt 2 True, FArr 5 4 False]"

definition to_IdentifyCommand :: "IdentifyCommand \<Rightarrow> fval list" where
  "to_IdentifyCommand x = [I (unat (idc_Opcode x)), I (unat (idc_Flags x)), I (unat (idc_CommandID x)),
      I (unat (idc_NSId x)),
      A (map unat (idc_Rsvd2 x))] @ to_DataPtr (idc_Dptr x) @ [I (unat (idc_Cns x)),
      I (unat (idc_Rsvd3 x)), I (unat (idc_CtrlID x)), A (map unat (idc_Rsvd11 x))]"

definition of_IdentifyCommand :: "fval list \<Rightarrow> IdentifyCommand" where
  "of_IdentifyCommand vs = \<lparr> idc_Opcode = of_nat (valI (vs ! 0)),
      idc_Flags = of_nat (valI (vs ! 1)), idc_CommandID = of_nat (valI (vs ! 2)),
      idc_NSId = of_nat (valI (vs ! 3)), idc_Rsvd2 = map of_nat (valA (vs ! 4)),
      idc_Dptr = of_DataPtr (take 2 (drop 5 vs)), idc_Cns = of_nat (valI (vs ! 7)),
      idc_Rsvd3 = of_nat (valI (vs ! 8)), idc_CtrlID = of_nat (valI (vs ! 9)),
      idc_Rsvd11 = map of_nat (valA (vs ! 10)) \<rparr>"

definition ok_IdentifyCommand :: "IdentifyCommand \<Rightarrow> bool" where
  "ok_IdentifyCommand x \<longleftrightarrow> length (idc_Rsvd2 x) = 2 \<and>
      ok_DataPtr (idc_Dptr x) \<and> length (idc_Rsvd11 x) = 5"

definition zero_IdentifyCommand :: IdentifyCommand where
  "zero_IdentifyCommand = \<lparr> idc_Opcode = 0, idc_Flags = 0, idc_CommandID = 0, idc_NSId = 0,
      idc_Rsvd2 = replicate 2 0, idc_Dptr = zero_DataPtr, idc_Cns = 0, idc_Rsvd3 = 0, idc_CtrlID = 0,
      idc_Rsvd11 = replicate 5 0 \<rparr>"

interpretation w_IdentifyCommand: wire_struct IdentifyCommand_layout to_IdentifyCommand of_IdentifyCommand ok_IdentifyCommand
  "(\<lambda>x. x)"
  by unfold_locales (auto simp: IdentifyCommand_layout_def to_IdentifyCommand_def of_IdentifyCommand_def
    ok_IdentifyCommand_def DataPtr_layout_def to_DataPtr_def of_DataPtr_def ok_DataPtr_def wire_simps)

record GetLogPageCommand =
  lp_Opcode :: u8
  lp_Flags :: u8
  lp_CommandID :: u16
  lp_NSId :: u32
  lp_Rsvd2 :: "u64 list"
  lp_Dptr :: DataPtr
  lp_Lid :: u8
  lp_Lsp :: u8
  lp_NumDl :: u16
  lp_NumDu :: u16
  lp_Rsvd11 :: u16
  lp_Lpol :: u32
  lp_Lpou :: u32
  lp_Rsvf14 :: "u32 list"

definition GetLogPageCommand_layout :: layout where
  "GetLogPageCommand_layout = [FInt 1 False, FInt 1 False, FInt 2 True, FInt 4 True,
      FArr 2 8 False] @ DataPtr_layout @ [FInt 1 False, FInt 1 False, FInt 2 True, FInt 2 True,
      FInt 2 True, FInt 4 True, FInt 4 True, FArr 2 4 False]"

definition to_GetLogPageCommand :: "GetLogPageCommand \<Rightarrow> fval list" where
  "to_GetLogPageCommand x = [I (unat (lp_Opcode x)), I (unat (lp_Flags x)), I (unat (lp_CommandID x)),
      I (unat (lp_NSId x)), A (map unat (lp_Rsvd2 x))] @ to_DataPtr (lp_Dptr x) @ [I (unat (lp_Lid x)),
      I (unat (lp_Lsp x)), I (unat (lp_NumDl x)), I (unat (lp_NumDu x)), I (unat (lp_Rsvd11 x)),
      I (unat (lp_Lpol x)), I (unat (lp_Lpou x)), A (map unat (lp_Rsvf14 x))]"

definition of_GetLogPageCommand :: "fval list \<Rightarrow> GetLogPageCommand" where
  "of_GetLogPageCommand vs = \<lparr> lp_Opcode = of_nat (valI (vs ! 0)),
      lp_Flags = of_nat (valI (vs ! 1)), lp_CommandID = of_nat (valI (vs ! 2)),
      lp_NSId = of_nat (valI (vs ! 3)), lp_Rsvd2 = map of_nat (valA (vs ! 4)),
      lp_Dptr = of_DataPtr (take 2 (drop 5 vs)), lp_Lid = of_nat (valI (vs ! 7)),
      lp_Lsp = of_nat (valI (vs ! 8)), lp_NumDl = of_nat (valI (vs ! 9)),
      lp_NumDu = of_nat (valI (vs ! 10)), lp_Rsvd11 = of_nat (valI (vs ! 11)),
      lp_Lpol = of_nat (valI (vs ! 12)), lp_Lpou = of_nat (valI (vs ! 13)),
      lp_Rsvf14 = map of_nat (valA (vs ! 14)) \<rparr>"

definition ok_GetLogPageCommand :: "GetLogPageCommand \<Rightarrow> bool" where
  "ok_GetLogPageCommand x \<longleftrightarrow> length (lp_Rsvd2 x) = 2 \<and>
      ok_DataPtr (lp_Dptr x) \<and> length (lp_Rsvf14 x) = 2"

definition zero_GetLogPageCommand :: GetLogPageCommand where
  "zero_GetLogPageCommand = \<lparr> lp_Opcode = 0, lp_Flags = 0, lp_CommandID = 0, lp_NSId = 0,
      lp_Rsvd2 = replicate 2 0, lp_Dptr = zero_DataPtr, lp_Lid = 0, lp_Lsp = 0, lp_NumDl = 0,
      lp_NumDu = 0, lp_Rsvd11 = 0, lp_Lpol = 0, lp_Lpou = 0, lp_Rsvf14 = replicate 2 0 \<rparr>"

interpretation w_GetLogPageCommand: wire_struct GetLogPageCommand_layout to_GetLogPageCommand of_GetLogPageCommand ok_GetLogPageCommand
  "(\<lambda>x. x)"
  by unfold_locales (auto simp: GetLogPageCommand_layout_def to_GetLogPageCommand_def
    of_GetLogPageCommand_def ok_GetLogPageCommand_def DataPtr_layout_def to_DataPtr_def of_DataPtr_def
    ok_DataPtr_def wire_simps)

section \<open>Discovery log page\<close>

record DiscRspPageHdr =
  dh_GenCtr :: u64
  dh_NumRec :: u64
  dh_RecFmt :: u16
  dh_Resv14 :: "u8 list"

definition DiscRspPageHdr_layout :: layout where
  "DiscRspPageHdr_layout = [FInt 8 True, FInt 8 True, FInt 2 True, FArr 1006 1 False]"

definition to_DiscRspPageHdr :: "DiscRspPageHdr \<Rightarrow> fval list" where
  "to_DiscRspPageHdr x = [I (unat (dh_GenCtr x)), I (unat (dh_NumRec x)), I (unat (dh_RecFmt x)),
      A (map unat (dh_Resv14 x))]"

definition of_DiscRspPageHdr :: "fval list \<Rightarrow> DiscRspPageHdr" where
  "of_DiscRspPageHdr vs = \<lparr> dh_GenCtr = of_nat (valI (vs ! 0)),
      dh_NumRec = of_nat (valI (vs ! 1)), dh_RecFmt = of_nat (valI (vs ! 2)),
      dh_Resv14 = map of_nat (valA (vs ! 3)) \<rparr>"

definition ok_DiscRspPageHdr :: "DiscRspPageHdr \<Rightarrow> bool" where
  "ok_DiscRspPageHdr x \<longleftrightarrow> length (dh_Resv14 x) = 1006"

definition zero_DiscRspPageHdr :: DiscRspPageHdr where
  "zero_DiscRspPageHdr = \<lparr> dh_GenCtr = 0, dh_NumRec = 0, dh_RecFmt = 0,
      dh_Resv14 = replicate 1006 0 \<rparr>"

interpretation w_DiscRspPageHdr: wire_struct DiscRspPageHdr_layout to_DiscRspPageHdr of_DiscRspPageHdr ok_DiscRspPageHdr
  "(\<lambda>x. x)"
  by unfold_locales (auto simp: DiscRspPageHdr_layout_def to_DiscRspPageHdr_def of_DiscRspPageHdr_def
    ok_DiscRspPageHdr_def wire_simps)

record NvmefDiscRspPageEntry =
  de_TrType :: u8
  de_AdrFam :: u8
  de_SubType :: u8
  de_Treq :: u8
  de_PortID :: u16
  de_CntlID :: u16
  de_Asqsz :: u16
  de_Resv8 :: "u8 list"
  de_TrsvcID :: "u8 list"
  de_Resv64 :: "u8 list"
  de_Subnqn :: string
  de_Traddr :: string
  de_Tsas :: "u8 list"

definition NvmefDiscRspPageEntry_layout :: layout where
  "NvmefDiscRspPageEntry_layout = [FInt 1 False, FInt 1 False, FInt 1 False, FInt 1 False, FInt 2 True,
      FInt 2 True, FInt 2 True, FArr 22 1 False, FArr 32 1 False, FArr 192 1 False, FStr 256, FStr 256,
      FArr 256 1 False]"

definition to_NvmefDiscRspPageEntry :: "NvmefDiscRspPageEntry \<Rightarrow> fval list" where
  "to_NvmefDiscRspPageEntry x = [I (unat (de_TrType x)), I (unat (de_AdrFam x)),
      I (unat (de_SubType x)), I (unat (de_Treq x)), I (unat (de_PortID x)), I (unat (de_CntlID x)),
      I (unat (de_Asqsz x)), A (map unat (de_Resv8 x)), A (map unat (de_TrsvcID x)),
      A (map unat (de_Resv64 x)), S (de_Subnqn x), S (de_Traddr x), A (map unat (de_Tsas x))]"

definition of_NvmefDiscRspPageEntry :: "fval list \<Rightarrow> NvmefDiscRspPageEntry" where
  "of_NvmefDiscRspPageEntry vs = \<lparr> de_TrType = of_nat (valI (vs ! 0)),
      de_AdrFam = of_nat (valI (vs ! 1)), de_SubType = of_nat (valI (vs ! 2)),
      de_Treq = of_nat (valI (vs ! 3)), de_PortID = of_nat (valI (vs ! 4)),
      de_CntlID = of_nat (valI (vs ! 5)), de_Asqsz = of_nat (valI (vs ! 6)),
      de_Resv8 = map of_nat (valA (vs ! 7)), de_TrsvcID = map of_nat (valA (vs ! 8)),
      de_Resv64 = map of_nat (valA (vs ! 9)), de_Subnqn = valS (vs ! 10), de_Traddr = valS (vs ! 11),
      de_Tsas = map of_nat (valA (vs ! 12)) \<rparr>"

definition ok_NvmefDiscRspPageEntry :: "NvmefDiscRspPageEntry \<Rightarrow> bool" where
  "ok_NvmefDiscRspPageEntry x \<longleftrightarrow> length (de_Resv8 x) = 22 \<and>
      length (de_TrsvcID x) = 32 \<and> length (de_Resv64 x) = 192 \<and>
      length (de_Subnqn x) \<le> 256 \<and> length (de_Traddr x) \<le> 256 \<and>
      length (de_Tsas x) = 256"

definition zero_NvmefDiscRspPageEntry :: NvmefDiscRspPageEntry where
  "zero_NvmefDiscRspPageEntry = \<lparr> de_TrType = 0, de_AdrFam = 0, de_SubType = 0, de_Treq = 0,
      de_PortID = 0, de_CntlID = 0, de_Asqsz = 0, de_Resv8 = replicate 22 0,
      de_TrsvcID = replicate 32 0, de_Resv64 = replicate 192 0, de_Subnqn = [], de_Traddr = [],
      de_Tsas = replicate 256 0 \<rparr>"

definition norm_NvmefDiscRspPageEntry :: "NvmefDiscRspPageEntry \<Rightarrow> NvmefDiscRspPageEntry" where
  "norm_NvmefDiscRspPageEntry x = x\<lparr> de_Subnqn := pad_nul 256 (de_Subnqn x),
      de_Traddr := pad_nul 256 (de_Traddr x) \<rparr>"

interpretation w_NvmefDiscRspPageEntry: wire_struct NvmefDiscRspPageEntry_layout to_NvmefDiscRspPageEntry of_NvmefDiscRspPageEntry ok_NvmefDiscRspPageEntry
  "norm_NvmefDiscRspPageEntry"
  by unfold_locales (auto simp: NvmefDiscRspPageEntry_layout_def to_NvmefDiscRspPageEntry_def
    of_NvmefDiscRspPageEntry_def ok_NvmefDiscRspPageEntry_def norm_NvmefDiscRspPageEntry_def wire_simps)

end
