(* ===== verification/Sgl.thy ===== *)
theory Sgl
  imports Struc Nvme_Utils
begin

text \<open>
  Scatter lists, \<^verbatim>\<open>src/pkg/nvme/sgl.go\<close>: a list of buffers of a fixed total size, a writer and a reader that
  walk it. The state of a writer carries the list it writes (the Go code shares it by pointer; a list has
  one writer or one reader at a time).

  The lemmas show that a scatter list is one contiguous byte array: \<open>flat\<close> joins the buffers, a position is
  one number, a write replaces the bytes after the position, a read returns them.
\<close>

section \<open>Definitions\<close>

record ScatterList =
  sl_buffers :: "bytes list"
  sl_len :: int
  sl_capacity :: int

text \<open>
  The loop of \<^verbatim>\<open>NewScatterList\<close> makes no progress when the buffer length is 0: not returning is \<open>None\<close>.
\<close>

partial_function (option) new_buffers :: "nat \<Rightarrow> nat \<Rightarrow> bytes list \<Rightarrow> bytes list option" where
  "new_buffers len bufferLen buffers =
     (if len > 0 then
        let bufferSize = min len bufferLen in
        new_buffers (len - bufferSize) bufferLen (buffers @ [replicate bufferSize 0])
      else Some buffers)"

definition NewScatterList :: "nat \<Rightarrow> nat \<Rightarrow> ScatterList option" where
  "NewScatterList datalen bufferLen =
     map_option (\<lambda>bs. \<lparr> sl_buffers = bs, sl_len = 0, sl_capacity = int datalen \<rparr>)
       (new_buffers datalen bufferLen [])"

definition sgl_Len :: "ScatterList \<Rightarrow> int" where
  "sgl_Len sgl = sl_capacity sgl - sl_len sgl"

definition sgl_Size :: "ScatterList \<Rightarrow> int" where
  "sgl_Size sgl = sl_capacity sgl"

record scatterListWriter =
  sw_sgl :: ScatterList
  sw_offset :: nat
  sw_index :: nat

record scatterListReader =
  sr_sgl :: ScatterList
  sr_offset :: nat
  sr_index :: nat

definition NewScatterListWriter :: "ScatterList \<Rightarrow> scatterListWriter" where
  "NewScatterListWriter sgl = \<lparr> sw_sgl = sgl, sw_offset = 0, sw_index = 0 \<rparr>"

definition NewScatterListReader :: "ScatterList \<Rightarrow> scatterListReader" where
  "NewScatterListReader sgl = \<lparr> sr_sgl = sgl, sr_offset = 0, sr_index = 0 \<rparr>"

definition writer_Len :: "scatterListWriter \<Rightarrow> int" where
  "writer_Len w = sgl_Size (sw_sgl w)
     - (sum_list (map (int \<circ> length) (take (sw_index w) (sl_buffers (sw_sgl w)))) + int (sw_offset w))"

definition reader_Len :: "scatterListReader \<Rightarrow> int" where
  "reader_Len r = sgl_Size (sr_sgl r)
     - (sum_list (map (int \<circ> length) (take (sr_index r) (sl_buffers (sr_sgl r)))) + int (sr_offset r))"

datatype io_error = EOF | ErrUnexpectedEOF | ErrShortBuffer

text \<open>
  \<^verbatim>\<open>Read\<close> into a slice of \<open>n\<close> bytes: the bytes copied, and \<^verbatim>\<open>io.EOF\<close> when the list is too short. The loop
  carries the number of bytes that are still to be read and the bytes copied so far.
\<close>

function read_loop :: "nat \<Rightarrow> bytes \<Rightarrow> scatterListReader \<Rightarrow> nat \<times> bytes \<times> scatterListReader" where
  "read_loop readLen copied r =
     (if readLen > 0 \<and> sr_index r < length (sl_buffers (sr_sgl r)) then
        let buffer = sl_buffers (sr_sgl r) ! sr_index r;
            bytesToCopy = min (length buffer - sr_offset r) readLen;
            copied' = copied @ take bytesToCopy (drop (sr_offset r) buffer);
            offset = sr_offset r + bytesToCopy
        in if offset < length buffer then read_loop (readLen - bytesToCopy) copied' (r\<lparr> sr_offset := offset \<rparr>)
           else read_loop (readLen - bytesToCopy) copied' (r\<lparr> sr_offset := 0, sr_index := sr_index r + 1 \<rparr>)
      else (readLen, copied, r))"
  by pat_completeness auto

termination read_loop
  by (relation "measures [\<lambda>(n, _, r). length (sl_buffers (sr_sgl r)) - sr_index r, \<lambda>(n, _, r). n]") auto

declare read_loop.simps [simp del]

definition Read :: "nat \<Rightarrow> scatterListReader \<Rightarrow> bytes \<times> io_error option \<times> scatterListReader" where
  "Read n r = (case read_loop n [] r of (left, copied, r') \<Rightarrow> (copied, if left > 0 then Some EOF else None, r'))"

text \<open>
  \<^verbatim>\<open>Write\<close>: the loop carries the offset in \<open>p\<close>. The result is the number of bytes written, and
  \<^verbatim>\<open>io.ErrShortBuffer\<close> when the list was too short.
\<close>

definition overwrite :: "nat \<Rightarrow> 'a list \<Rightarrow> 'a list \<Rightarrow> 'a list" where
  "overwrite pos src dst = take pos dst @ src @ drop (pos + length src) dst"

function write_loop :: "bytes \<Rightarrow> nat \<Rightarrow> scatterListWriter \<Rightarrow> nat \<times> scatterListWriter" where
  "write_loop p pOffset w =
     (let sgl = sw_sgl w in
      if pOffset < length p \<and> sw_index w < length (sl_buffers sgl) then
        let buffer = sl_buffers sgl ! sw_index w;
            leftToWrite = min (length buffer - sw_offset w) (length p - pOffset);
            src = take leftToWrite (drop pOffset p);
            sgl' = sgl\<lparr> sl_buffers := (sl_buffers sgl)[sw_index w := overwrite (sw_offset w) src buffer],
                        sl_len := sl_len sgl + int leftToWrite \<rparr>;
            offset = sw_offset w + leftToWrite
        in if offset < length buffer
           then write_loop p (pOffset + leftToWrite) (w\<lparr> sw_sgl := sgl', sw_offset := offset \<rparr>)
           else write_loop p (pOffset + leftToWrite) (w\<lparr> sw_sgl := sgl', sw_offset := 0, sw_index := sw_index w + 1 \<rparr>)
      else (pOffset, w))"
  by pat_completeness auto

termination write_loop
  by (relation "measures [\<lambda>(p, k, w). length (sl_buffers (sw_sgl w)) - sw_index w, \<lambda>(p, k, w). length p - k]") auto

declare write_loop.simps [simp del]

definition Write :: "bytes \<Rightarrow> scatterListWriter \<Rightarrow> nat \<times> io_error option \<times> scatterListWriter" where
  "Write p w = (case write_loop p 0 w of (n, w') \<Rightarrow> (n, if n < length p then Some ErrShortBuffer else None, w'))"

text \<open>
  \<^verbatim>\<open>io.Copy\<close> from a scatter list reader: reads into a buffer of \<open>c\<close> bytes until the reader reports the end.
\<close>

partial_function (option) io_Copy :: "nat \<Rightarrow> scatterListReader \<Rightarrow> bytes option" where
  "io_Copy c r =
     (case Read c r of (bs, err, r') \<Rightarrow>
        if err = None then do { more \<leftarrow> io_Copy c r'; Some (bs @ more) } else Some bs)"

section \<open>Scatter lists as flat arrays\<close>

definition flat :: "ScatterList \<Rightarrow> bytes" where
  "flat sgl = concat (sl_buffers sgl)"

text \<open>A cursor points into a buffer, or behind the last one; no buffer is empty.\<close>

definition cursor_ok :: "bytes list \<Rightarrow> nat \<Rightarrow> nat \<Rightarrow> bool" where
  "cursor_ok bs i off \<longleftrightarrow> [] \<notin> set bs \<and>
     (if i < length bs then off < length (bs ! i) else i = length bs \<and> off = 0)"

definition cursor_pos :: "bytes list \<Rightarrow> nat \<Rightarrow> nat \<Rightarrow> nat" where
  "cursor_pos bs i off = length (concat (take i bs)) + off"

definition unread :: "scatterListReader \<Rightarrow> bytes" where
  "unread r = drop (sr_offset r) (concat (drop (sr_index r) (sl_buffers (sr_sgl r))))"

abbreviation reader_ok :: "scatterListReader \<Rightarrow> bool" where
  "reader_ok r \<equiv> cursor_ok (sl_buffers (sr_sgl r)) (sr_index r) (sr_offset r)"

abbreviation writer_ok :: "scatterListWriter \<Rightarrow> bool" where
  "writer_ok w \<equiv> cursor_ok (sl_buffers (sw_sgl w)) (sw_index w) (sw_offset w)"

definition wpos :: "scatterListWriter \<Rightarrow> nat" where
  "wpos w = cursor_pos (sl_buffers (sw_sgl w)) (sw_index w) (sw_offset w)"

lemma nonempty_nth: "[] \<notin> set bs \<Longrightarrow> i < length bs \<Longrightarrow> bs ! i \<noteq> []"
  by (metis nth_mem)

lemma cursor_ok_next:
  "cursor_ok bs i off \<Longrightarrow> i < length bs \<Longrightarrow> cursor_ok bs (Suc i) 0"
  by (auto simp: cursor_ok_def nonempty_nth)

lemma concat_drop_step: "i < length bs \<Longrightarrow> concat (drop i bs) = bs ! i @ concat (drop (Suc i) bs)"
  by (simp flip: Cons_nth_drop_Suc)

lemma concat_take_step: "i < length bs \<Longrightarrow> concat (take (Suc i) bs) = concat (take i bs) @ bs ! i"
  by (simp add: take_Suc_conv_app_nth)

lemma cursor_pos_next:
  "i < length bs \<Longrightarrow> off = length (bs ! i) \<Longrightarrow> cursor_pos bs (Suc i) 0 = cursor_pos bs i off"
  by (simp add: cursor_pos_def concat_take_step)

lemma concat_update:
  assumes "i < length bs" "off + length src \<le> length (bs ! i)"
  shows "concat (bs[i := overwrite off src (bs ! i)]) = overwrite (cursor_pos bs i off) src (concat bs)"
proof -
  have bs: "bs = take i bs @ bs ! i # drop (Suc i) bs"
    using assms(1) by (rule id_take_nth_drop)
  let ?p = "concat (take i bs)" and ?s = "concat (drop (Suc i) bs)"
  have cat: "concat bs = ?p @ bs ! i @ ?s"
    by (subst bs) simp
  have "concat (bs[i := overwrite off src (bs ! i)]) = ?p @ overwrite off src (bs ! i) @ ?s"
    using assms(1) by (simp add: upd_conv_take_nth_drop)
  also have "\<dots> = overwrite (length ?p + off) src (?p @ bs ! i @ ?s)"
    using assms(2) by (simp add: overwrite_def)
  finally show ?thesis
    by (simp add: cat cursor_pos_def)
qed

lemma overwrite_Nil [simp]: "overwrite pos [] d = d"
  by (simp add: overwrite_def)

lemma length_overwrite [simp]: "pos + length s \<le> length d \<Longrightarrow> length (overwrite pos s d) = length d"
  by (simp add: overwrite_def)

lemma overwrite_overwrite:
  assumes "pos + length s1 \<le> length d"
  shows "overwrite (pos + length s1) s2 (overwrite pos s1 d) = overwrite pos (s1 @ s2) d"
  using assms by (simp add: overwrite_def ac_simps)

lemma cursor_pos_le:
  "cursor_ok bs i off \<Longrightarrow> i < length bs \<Longrightarrow> cursor_pos bs i off + (length (bs ! i) - off) \<le> length (concat bs)"
proof -
  assume *: "cursor_ok bs i off" "i < length bs"
  have "concat bs = concat (take i bs) @ concat (drop i bs)"
    by (simp flip: concat_append)
  then have "length (concat bs) = length (concat (take i bs)) + length (concat (drop i bs))"
    by (metis length_append)
  moreover have "length (concat (drop i bs)) \<ge> length (bs ! i)"
    using *(2) by (simp add: concat_drop_step)
  ultimately show ?thesis
    using * by (simp add: cursor_pos_def cursor_ok_def)
qed

section \<open>Reading\<close>

lemma unread_step:
  assumes "reader_ok r" "sr_index r < length (sl_buffers (sr_sgl r))"
  shows "unread r = drop (sr_offset r) (sl_buffers (sr_sgl r) ! sr_index r)
           @ concat (drop (Suc (sr_index r)) (sl_buffers (sr_sgl r)))"
  using assms by (simp add: unread_def concat_drop_step cursor_ok_def)

lemma unread_end: "reader_ok r \<Longrightarrow> \<not> sr_index r < length (sl_buffers (sr_sgl r)) \<Longrightarrow> unread r = []"
  by (simp add: unread_def)

lemma read_loop_spec:
  "reader_ok r \<Longrightarrow> read_loop n copied r = (left, copied', r') \<Longrightarrow>
     left = n - length (unread r) \<and> copied' = copied @ take n (unread r) \<and> reader_ok r' \<and>
     sr_sgl r' = sr_sgl r \<and> unread r' = drop n (unread r)"
proof (induction n copied r rule: read_loop.induct)
  case (1 n copied r)
  let ?bs = "sl_buffers (sr_sgl r)" and ?i = "sr_index r" and ?o = "sr_offset r"
  let ?b = "?bs ! ?i"
  let ?k = "min (length ?b - ?o) n"
  show ?case
  proof (cases "n > 0 \<and> ?i < length ?bs")
    case False
    then show ?thesis
      using 1(3,4) unread_end [of r] by (auto simp: read_loop.simps [of n copied r])
  next
    case True
    note rs = unread_step [OF 1(3) conjunct2 [OF True]]
    have o: "?o < length ?b" using True 1(3) by (simp add: cursor_ok_def)
    show ?thesis
    proof (cases "?o + ?k < length ?b")
      case less: True
      then have k: "?k = n" by linarith
      let ?r = "r\<lparr> sr_offset := ?o + n \<rparr>"
      have "read_loop n copied r = (0, copied @ take n (drop ?o ?b), ?r)"
        using True less k by (simp add: read_loop.simps [of n copied r] read_loop.simps [of 0] Let_def)
      then have eqs: "left = 0" "copied' = copied @ take n (drop ?o ?b)" "r' = ?r"
        using 1(4) by simp_all
      have ok: "reader_ok ?r" using less k True 1(3) by (simp add: cursor_ok_def)
      have "unread ?r = drop (n + ?o) ?b @ concat (drop (Suc ?i) ?bs)"
        using unread_step [OF ok] True by (simp add: add.commute)
      then show ?thesis using eqs ok less k o by (simp add: rs)
    next
      case full: False
      then have k: "?k = length ?b - ?o" by linarith
      let ?r = "r\<lparr> sr_offset := 0, sr_index := ?i + 1 \<rparr>"
      have ok: "reader_ok ?r" using cursor_ok_next [OF 1(3)] True by simp
      have "unread ?r = concat (drop (Suc ?i) ?bs)" by (simp add: unread_def)
      moreover have "read_loop (n - ?k) (copied @ take ?k (drop ?o ?b)) ?r = (left, copied', r')"
        using 1(4) True full k by (simp add: read_loop.simps [of n copied r] Let_def)
      ultimately show ?thesis
        using 1(2) [OF True refl refl refl refl full ok] k o by (auto simp: rs)
    qed
  qed
qed

lemma Read_spec:
  assumes "reader_ok r" "Read n r = (bs, err, r')"
  shows "bs = take n (unread r) \<and> err = (if length (unread r) < n then Some EOF else None) \<and>
     reader_ok r' \<and> sr_sgl r' = sr_sgl r \<and> unread r' = drop n (unread r)"
proof -
  obtain left copied r'' where loop: "read_loop n [] r = (left, copied, r'')"
    by (metis prod_cases3)
  with assms(2) have "bs = copied" "err = (if left > 0 then Some EOF else None)" "r' = r''"
    by (auto simp: Read_def)
  with read_loop_spec [OF assms(1) loop] show ?thesis by auto
qed

lemma io_Copy_unread: "reader_ok r \<Longrightarrow> c > 0 \<Longrightarrow> io_Copy c r = Some (unread r)"
proof (induction "length (unread r)" arbitrary: r rule: less_induct)
  case less
  obtain bs err r' where rd: "Read c r = (bs, err, r')" by (metis prod_cases3)
  note sp = Read_spec [OF less.prems(1) rd]
  show ?case
  proof (cases "length (unread r) < c")
    case True
    then show ?thesis using sp rd by (auto simp: io_Copy.simps [of c r])
  next
    case False
    then have "length (unread r') < length (unread r)" using sp less.prems(2) by auto
    from less.hyps [OF this _ less.prems(2)] sp have "io_Copy c r' = Some (unread r')" by auto
    then show ?thesis using sp rd False by (auto simp: io_Copy.simps [of c r])
  qed
qed

lemma unread_NewScatterListReader [simp]: "unread (NewScatterListReader sgl) = flat sgl"
  by (simp add: unread_def NewScatterListReader_def flat_def)

lemma io_Copy_flat:
  assumes "[] \<notin> set (sl_buffers sgl)" "c > 0"
  shows "io_Copy c (NewScatterListReader sgl) = Some (flat sgl)"
proof -
  have "reader_ok (NewScatterListReader sgl)"
    using assms(1) by (auto simp: NewScatterListReader_def cursor_ok_def nonempty_nth)
  from io_Copy_unread [OF this assms(2)] show ?thesis by simp
qed

section \<open>Writing\<close>

definition same_shape :: "ScatterList \<Rightarrow> ScatterList \<Rightarrow> bool" where
  "same_shape s s' \<longleftrightarrow> map length (sl_buffers s') = map length (sl_buffers s) \<and> sl_capacity s' = sl_capacity s"

lemma same_shape_refl [simp]: "same_shape s s"
  by (simp add: same_shape_def)

lemma same_shape_trans: "same_shape s1 s2 \<Longrightarrow> same_shape s2 s3 \<Longrightarrow> same_shape s1 s3"
  by (simp add: same_shape_def)

lemma length_concat_take: "length (concat (take i bs)) = sum_list (take i (map length bs))"
  by (simp add: length_concat take_map)

lemma cursor_shape:
  assumes "map length bs' = map length bs"
  shows "cursor_ok bs' i off = cursor_ok bs i off" "cursor_pos bs' i off = cursor_pos bs i off"
    "length (concat bs') = length (concat bs)"
proof -
  have len: "length bs' = length bs" using assms by (metis length_map)
  have nth: "length (bs' ! j) = length (bs ! j)" if "j < length bs" for j
    using assms len that by (metis nth_map)
  have "[] \<in> set bs' \<longleftrightarrow> [] \<in> set bs"
    using assms by (metis (no_types) image_iff length_0_conv list.set_map list.size(3))
  with len nth show "cursor_ok bs' i off = cursor_ok bs i off" by (simp add: cursor_ok_def)
  show "cursor_pos bs' i off = cursor_pos bs i off"
    using assms by (simp add: cursor_pos_def length_concat_take)
  show "length (concat bs') = length (concat bs)"
    using assms by (simp add: length_concat)
qed

lemma write_loop_step:
  assumes "writer_ok w" "k < length p" "sw_index w < length (sl_buffers (sw_sgl w))"
    and "n = min (length (sl_buffers (sw_sgl w) ! sw_index w) - sw_offset w) (length p - k)"
  obtains w1 where "write_loop p k w = write_loop p (k + n) w1" "writer_ok w1" "wpos w1 = wpos w + n"
    "flat (sw_sgl w1) = overwrite (wpos w) (take n (drop k p)) (flat (sw_sgl w))"
    "sl_len (sw_sgl w1) = sl_len (sw_sgl w) + int n" "same_shape (sw_sgl w) (sw_sgl w1)"
    "sw_index w1 < length (sl_buffers (sw_sgl w)) \<and> n = length p - k \<or> sw_index w1 = Suc (sw_index w)"
proof -
  let ?s = "sw_sgl w" and ?i = "sw_index w" and ?o = "sw_offset w"
  let ?bs = "sl_buffers ?s"
  let ?src = "take n (drop k p)"
  let ?s1 = "?s\<lparr> sl_buffers := ?bs[?i := overwrite ?o ?src (?bs ! ?i)], sl_len := sl_len ?s + int n \<rparr>"
  let ?w1 = "if ?o + n < length (?bs ! ?i) then w\<lparr> sw_sgl := ?s1, sw_offset := ?o + n \<rparr>
             else w\<lparr> sw_sgl := ?s1, sw_offset := 0, sw_index := ?i + 1 \<rparr>"
  have o: "?o < length (?bs ! ?i)" using assms(1,3) by (simp add: cursor_ok_def)
  have n: "length ?src = n" "?o + n \<le> length (?bs ! ?i)" using assms(4) o by auto
  have shape: "map length (?bs[?i := overwrite ?o ?src (?bs ! ?i)]) = map length ?bs"
    using n o assms(3) by (simp add: map_update list_update_same_conv)
  note cs = cursor_shape [OF shape]
  have "flat ?s1 = overwrite (wpos w) ?src (flat ?s)"
    using concat_update [of ?i ?bs ?o ?src] assms(3) n by (simp add: flat_def wpos_def)
  moreover have "write_loop p k w = write_loop p (k + n) ?w1"
    using assms(2,3) by (simp add: write_loop.simps [of p k w] Let_def flip: assms(4))
  moreover have "writer_ok ?w1"
    using cs(1) cursor_ok_next [OF assms(1,3)] assms(1,3) by (auto simp: cursor_ok_def)
  moreover have "wpos ?w1 = wpos w + n"
    using cs(2) cursor_pos_next [of ?i ?bs "?o + n"] assms(3) n(2) by (auto simp: wpos_def cursor_pos_def)
  moreover have "same_shape ?s ?s1" using shape by (simp add: same_shape_def)
  moreover have "?o + n < length (?bs ! ?i) \<Longrightarrow> n = length p - k" using assms(4) by linarith
  ultimately show ?thesis
    using that [of ?w1] assms(3) by (auto split: if_splits)
qed

definition room :: "scatterListWriter \<Rightarrow> nat" where
  "room w = length (flat (sw_sgl w)) - wpos w"

lemma wpos_le: "writer_ok w \<Longrightarrow> wpos w \<le> length (flat (sw_sgl w))"
proof (cases "sw_index w < length (sl_buffers (sw_sgl w))")
  case True
  assume "writer_ok w"
  from cursor_pos_le [OF this True] show ?thesis by (simp add: wpos_def flat_def)
qed (simp add: cursor_ok_def wpos_def cursor_pos_def flat_def split: if_splits)

lemma room_end: "writer_ok w \<Longrightarrow> \<not> sw_index w < length (sl_buffers (sw_sgl w)) \<Longrightarrow> room w = 0"
  by (simp add: room_def cursor_ok_def wpos_def cursor_pos_def flat_def)

lemma same_shape_flat: "same_shape s s' \<Longrightarrow> length (flat s') = length (flat s)"
  using cursor_shape(3) [of "sl_buffers s'" "sl_buffers s"] by (simp add: same_shape_def flat_def)

lemma write_loop_spec:
  "writer_ok w \<Longrightarrow> write_loop p k w = (k', w') \<Longrightarrow> k \<le> length p \<Longrightarrow>
     k' = k + min (room w) (length p - k) \<and> writer_ok w' \<and> wpos w' = wpos w + (k' - k) \<and>
     flat (sw_sgl w') = overwrite (wpos w) (take (k' - k) (drop k p)) (flat (sw_sgl w)) \<and>
     sl_len (sw_sgl w') = sl_len (sw_sgl w) + int (k' - k) \<and> same_shape (sw_sgl w) (sw_sgl w')"
proof (induction "length (sl_buffers (sw_sgl w)) - sw_index w" arbitrary: k w rule: less_induct)
  case less
  note IH = less(1) and ok = less(2) and loop = less(3) and kp = less(4)
  let ?b = "sl_buffers (sw_sgl w) ! sw_index w"
  show ?case
  proof (cases "k < length p \<and> sw_index w < length (sl_buffers (sw_sgl w))")
    case False
    then have "room w = 0 \<or> length p - k = 0" using room_end [OF ok] by auto
    moreover have "k' = k" "w' = w"
      using loop False by (auto simp: write_loop.simps [of p k w] Let_def)
    ultimately show ?thesis using ok by auto
  next
    case True
    define n where "n = min (length ?b - sw_offset w) (length p - k)"
    obtain w1 where w1: "write_loop p k w = write_loop p (k + n) w1" "writer_ok w1" "wpos w1 = wpos w + n"
        "flat (sw_sgl w1) = overwrite (wpos w) (take n (drop k p)) (flat (sw_sgl w))"
        "sl_len (sw_sgl w1) = sl_len (sw_sgl w) + int n" "same_shape (sw_sgl w) (sw_sgl w1)"
        "sw_index w1 < length (sl_buffers (sw_sgl w)) \<and> n = length p - k \<or> sw_index w1 = Suc (sw_index w)"
      using write_loop_step [OF ok conjunct1 [OF True] conjunct2 [OF True] n_def] by metis
    have len: "length (sl_buffers (sw_sgl w1)) = length (sl_buffers (sw_sgl w))"
      using w1(6) by (metis length_map same_shape_def)
    have rn: "n \<le> room w" "n \<le> length p - k"
      using cursor_pos_le [OF ok conjunct2 [OF True]] by (auto simp: n_def room_def wpos_def flat_def)
    have r1: "room w1 = room w - n" using w1(3) same_shape_flat [OF w1(6)] by (simp add: room_def)
    have rest: "k' = k + n + min (room w1) (length p - (k + n)) \<and> writer_ok w' \<and> wpos w' = wpos w1 + (k' - (k + n)) \<and>
       flat (sw_sgl w') = overwrite (wpos w1) (take (k' - (k + n)) (drop (k + n) p)) (flat (sw_sgl w1)) \<and>
       sl_len (sw_sgl w') = sl_len (sw_sgl w1) + int (k' - (k + n)) \<and> same_shape (sw_sgl w1) (sw_sgl w')"
    proof (cases "k + n = length p")
      case fin: True
      then have "k' = k + n" "w' = w1" using loop w1(1) by (auto simp: write_loop.simps [of p "length p"] Let_def)
      then show ?thesis using fin w1(2) by simp
    next
      case False
      then have "sw_index w1 = Suc (sw_index w)" using w1(7) rn(2) True by auto
      with True len have "length (sl_buffers (sw_sgl w1)) - sw_index w1 < length (sl_buffers (sw_sgl w)) - sw_index w"
        by auto
      from IH [OF this w1(2)] loop w1(1) rn(2) True show ?thesis by auto
    qed
    have tk: "take n (drop k p) @ take (k' - (k + n)) (drop (k + n) p) = take (k' - k) (drop k p)"
      using rest take_add [of n "k' - (k + n)" "drop k p"] by (simp add: add.commute)
    have n: "length (take n (drop k p)) = n" using rn by simp
    have "flat (sw_sgl w') = overwrite (wpos w + n) (take (k' - (k + n)) (drop (k + n) p))
        (overwrite (wpos w) (take n (drop k p)) (flat (sw_sgl w)))"
      using rest by (simp only: w1(3,4))
    also have "\<dots> = overwrite (wpos w) (take (k' - k) (drop k p)) (flat (sw_sgl w))"
      using overwrite_overwrite [of "wpos w" "take n (drop k p)" "flat (sw_sgl w)", unfolded n]
        rn(1) wpos_le [OF ok] by (simp only: room_def tk)
    finally have "flat (sw_sgl w') = overwrite (wpos w) (take (k' - k) (drop k p)) (flat (sw_sgl w))" .
    then show ?thesis
      using rest w1(3,5) r1 rn same_shape_trans [OF w1(6)] by auto
  qed
qed

lemma Write_spec:
  assumes "writer_ok w" "Write p w = (n, err, w')"
  shows "n = min (room w) (length p) \<and> err = (if room w < length p then Some ErrShortBuffer else None) \<and>
     writer_ok w' \<and> wpos w' = wpos w + n \<and> flat (sw_sgl w') = overwrite (wpos w) (take n p) (flat (sw_sgl w)) \<and>
     sl_len (sw_sgl w') = sl_len (sw_sgl w) + int n \<and> same_shape (sw_sgl w) (sw_sgl w')"
proof -
  obtain k w'' where loop: "write_loop p 0 w = (k, w'')" by fastforce
  with assms(2) have "n = k" "w' = w''" "err = (if k < length p then Some ErrShortBuffer else None)"
    by (auto simp: Write_def)
  with write_loop_spec [OF assms(1) loop] show ?thesis by auto
qed

lemma writer_Len_room:
  assumes "writer_ok w" "sl_capacity (sw_sgl w) = int (length (flat (sw_sgl w)))"
  shows "writer_Len w = int (room w)"
proof -
  have "sum_list (map (int \<circ> length) (take i bs)) = int (length (concat (take i bs)))" for i and bs :: "bytes list"
    by (induction bs arbitrary: i) (auto simp: take_Cons split: nat.splits)
  then show ?thesis
    using assms(2) wpos_le [OF assms(1)]
    by (simp add: writer_Len_def sgl_Size_def room_def wpos_def cursor_pos_def)
qed

section \<open>New scatter lists\<close>

lemma new_buffers_spec:
  "b > 0 \<Longrightarrow> [] \<notin> set bs \<Longrightarrow>
     \<exists>bs'. new_buffers n b bs = Some bs' \<and> concat bs' = concat bs @ replicate n 0 \<and> [] \<notin> set bs'"
proof (induction n arbitrary: bs rule: less_induct)
  case (less n)
  show ?case
  proof (cases "n > 0")
    case True
    let ?m = "min n b"
    have "n - ?m < n" "[] \<notin> set (bs @ [replicate ?m 0])" using True less.prems by auto
    from less.IH [OF this(1) less.prems(1) this(2)] obtain bs' where
      "new_buffers (n - ?m) b (bs @ [replicate ?m 0]) = Some bs'"
      "concat bs' = (concat bs @ replicate ?m 0) @ replicate (n - ?m) 0" "[] \<notin> set bs'"
      by auto
    then show ?thesis
      using True by (simp add: new_buffers.simps [of n] Let_def flip: replicate_add)
  qed (use less.prems in \<open>simp add: new_buffers.simps [of 0]\<close>)
qed

lemma NewScatterList_spec:
  assumes "b > 0 \<or> n = 0"
  obtains sgl where "NewScatterList n b = Some sgl" "flat sgl = replicate n 0" "[] \<notin> set (sl_buffers sgl)"
    "sl_len sgl = 0" "sl_capacity sgl = int n"
proof (cases "b > 0")
  case True
  then show ?thesis
    using new_buffers_spec [of b "[]" n] that by (auto simp: NewScatterList_def flat_def)
next
  case False
  with assms show ?thesis
    using that by (simp add: NewScatterList_def flat_def new_buffers.simps)
qed

lemma NewScatterListWriter_ok:
  assumes "[] \<notin> set (sl_buffers sgl)"
  shows "writer_ok (NewScatterListWriter sgl)" "wpos (NewScatterListWriter sgl) = 0"
    "room (NewScatterListWriter sgl) = length (flat sgl)" "sw_sgl (NewScatterListWriter sgl) = sgl"
  using assms by (auto simp: NewScatterListWriter_def cursor_ok_def nonempty_nth wpos_def cursor_pos_def room_def)

text \<open>A sequence of writes: what a handler writes into the list of its request.\<close>

fun Writes :: "bytes list \<Rightarrow> scatterListWriter \<Rightarrow> io_error option \<times> scatterListWriter" where
  "Writes [] w = (None, w)"
| "Writes (p # ps) w = (case Write p w of (n, err, w') \<Rightarrow> if err = None then Writes ps w' else (err, w'))"

lemma Writes_fit:
  "writer_ok w \<Longrightarrow> length (concat ps) \<le> room w \<Longrightarrow> Writes ps w = (err, w') \<Longrightarrow>
     err = None \<and> writer_ok w' \<and> wpos w' = wpos w + length (concat ps) \<and>
     flat (sw_sgl w') = overwrite (wpos w) (concat ps) (flat (sw_sgl w)) \<and> same_shape (sw_sgl w) (sw_sgl w')"
proof (induction ps arbitrary: w)
  case (Cons p ps)
  obtain n e w1 where wr: "Write p w = (n, e, w1)" by (metis prod_cases3)
  have sp: "n = length p" "e = None" "writer_ok w1" "wpos w1 = wpos w + length p"
    "flat (sw_sgl w1) = overwrite (wpos w) p (flat (sw_sgl w))" "same_shape (sw_sgl w) (sw_sgl w1)"
    using Write_spec [OF Cons.prems(1) wr] Cons.prems(2) by auto
  have room1: "room w1 = room w - length p"
    using sp(4) same_shape_flat [OF sp(6)] by (simp add: room_def)
  have "err = None \<and> writer_ok w' \<and> wpos w' = wpos w1 + length (concat ps) \<and>
     flat (sw_sgl w') = overwrite (wpos w1) (concat ps) (flat (sw_sgl w1)) \<and> same_shape (sw_sgl w1) (sw_sgl w')"
    using Cons.IH [OF sp(3)] Cons.prems(2,3) room1 wr sp(2) by simp
  moreover have "overwrite (wpos w + length p) (concat ps) (overwrite (wpos w) p (flat (sw_sgl w)))
      = overwrite (wpos w) (p @ concat ps) (flat (sw_sgl w))"
    using Cons.prems(2) wpos_le [OF Cons.prems(1)] by (intro overwrite_overwrite) (simp add: room_def)
  ultimately show ?case
    using sp same_shape_trans [OF sp(6)] by simp
qed auto

text \<open>
  C19. A scatter list is a byte array of its capacity, whatever the buffer length: after a sequence of writes
  that fits, reading the list gives the written bytes in order, filled up with zeros, for every chunk size
  of the copy; the list keeps its capacity.
\<close>

theorem sgl_write_read:
  assumes "bufferLen > 0" "chunk > 0" "length (concat ps) \<le> datalen"
  shows "\<exists>sgl w. NewScatterList datalen bufferLen = Some sgl \<and> Writes ps (NewScatterListWriter sgl) = (None, w) \<and>
     io_Copy chunk (NewScatterListReader (sw_sgl w)) = Some (concat ps @ replicate (datalen - length (concat ps)) 0) \<and>
     sgl_Size (sw_sgl w) = int datalen \<and> writer_Len w = int (datalen - length (concat ps))"
proof -
  obtain sgl where sgl: "NewScatterList datalen bufferLen = Some sgl" "flat sgl = replicate datalen 0"
      "[] \<notin> set (sl_buffers sgl)" "sl_capacity sgl = int datalen"
    using NewScatterList_spec [of bufferLen datalen] assms(1) by metis
  obtain err w where w: "Writes ps (NewScatterListWriter sgl) = (err, w)" by fastforce
  note new = NewScatterListWriter_ok [OF sgl(3)]
  have fit: "err = None" "writer_ok w" "wpos w = length (concat ps)"
    "flat (sw_sgl w) = concat ps @ replicate (datalen - length (concat ps)) 0" "same_shape sgl (sw_sgl w)"
    using Writes_fit [OF new(1) _ w] new(2,3,4) sgl(2) assms(3) by (auto simp: overwrite_def)
  have "io_Copy chunk (NewScatterListReader (sw_sgl w)) = Some (flat (sw_sgl w))"
    using fit(2) assms(2) by (intro io_Copy_flat) (auto simp: cursor_ok_def)
  moreover have "sl_capacity (sw_sgl w) = int datalen" using fit(5) sgl(4) by (simp add: same_shape_def)
  moreover have "writer_Len w = int (room w)"
    using fit(2,4) assms(3) \<open>sl_capacity (sw_sgl w) = int datalen\<close> by (intro writer_Len_room) auto
  ultimately show ?thesis
    using sgl(1) w fit assms(3) by (auto simp: sgl_Size_def room_def)
qed

theorem sgl_write_read_witness:
  "\<exists>sgl w. NewScatterList 5 2 = Some sgl \<and> Writes [[1, 2, 3], [4]] (NewScatterListWriter sgl) = (None, w) \<and>
     io_Copy 3 (NewScatterListReader (sw_sgl w)) = Some [1, 2, 3, 4, 0] \<and>
     sgl_Size (sw_sgl w) = 5 \<and> writer_Len w = 1"
  using sgl_write_read [of 2 3 "[[1, 2, 3], [4]]" 5] by simp

end
