(* ===== verification/Requests.thy ===== *)
theory Requests
  imports Nvme_Types Sgl Host_Api
begin

text \<open>
  The requests of \<^verbatim>\<open>pkg/nvme\<close>: constants of linux/nvme.h, completions and data pointers (nvme_data_types.go),
  one constructor per Go request type with the part they share (\<^verbatim>\<open>AbstractRequest\<close>), the constructors the host
  uses, and the arithmetic of the get log page command (discovery.go).

  A request holds no pointer to its queue here: the queue and the transport are the state the handlers of
  \<open>Target\<close> carry.
\<close>

section \<open>Constants\<close>

abbreviation (input) NVME_SC_SUCCESS :: u16 where "NVME_SC_SUCCESS \<equiv> 0"
abbreviation (input) NVME_SC_INVALID_OPCODE :: u16 where "NVME_SC_INVALID_OPCODE \<equiv> 0x1"
abbreviation (input) NVME_SC_INVALID_FIELD :: u16 where "NVME_SC_INVALID_FIELD \<equiv> 0x2"
abbreviation (input) NVME_SC_INTERNAL :: u16 where "NVME_SC_INTERNAL \<equiv> 0x6"
abbreviation (input) NVME_SC_SGL_INVALID_DATA :: u16 where "NVME_SC_SGL_INVALID_DATA \<equiv> 0xf"
abbreviation (input) NVME_SC_SGL_INVALID_OFFSET :: u16 where "NVME_SC_SGL_INVALID_OFFSET \<equiv> 0x16"
abbreviation (input) NVME_SC_ASYNC_LIMIT :: u16 where "NVME_SC_ASYNC_LIMIT \<equiv> 0x105"
abbreviation (input) NVME_SC_INVALID_LOG_PAGE :: u16 where "NVME_SC_INVALID_LOG_PAGE \<equiv> 0x109"
abbreviation (input) NVME_SC_CONNECT_FORMAT :: u16 where "NVME_SC_CONNECT_FORMAT \<equiv> 0x180"
abbreviation (input) NVME_SC_CONNECT_INVALID_PARAM :: u16 where "NVME_SC_CONNECT_INVALID_PARAM \<equiv> 0x182"
abbreviation (input) NVME_SC_DNR :: u16 where "NVME_SC_DNR \<equiv> 0x4000"

abbreviation (input) nvme_admin_get_log_page :: u8 where "nvme_admin_get_log_page \<equiv> 0x02"
abbreviation (input) nvme_admin_identify :: u8 where "nvme_admin_identify \<equiv> 0x06"
abbreviation (input) nvme_admin_set_features :: u8 where "nvme_admin_set_features \<equiv> 0x09"
abbreviation (input) nvme_admin_get_features :: u8 where "nvme_admin_get_features \<equiv> 0x0a"
abbreviation (input) nvme_admin_async_event :: u8 where "nvme_admin_async_event \<equiv> 0x0c"
abbreviation (input) nvme_admin_keep_alive :: u8 where "nvme_admin_keep_alive \<equiv> 0x18"
abbreviation (input) nvme_fabrics_command :: u8 where "nvme_fabrics_command \<equiv> 0x7f"
abbreviation (input) nvme_fabrics_type_property_set :: u8 where "nvme_fabrics_type_property_set \<equiv> 0x00"
abbreviation (input) nvme_fabrics_type_connect :: u8 where "nvme_fabrics_type_connect \<equiv> 0x01"
abbreviation (input) nvme_fabrics_type_property_get :: u8 where "nvme_fabrics_type_property_get \<equiv> 0x04"

abbreviation (input) NVME_REG_CAP :: u32 where "NVME_REG_CAP \<equiv> 0x0000"
abbreviation (input) NVME_REG_VS :: u32 where "NVME_REG_VS \<equiv> 0x0008"
abbreviation (input) NVME_REG_CC :: u32 where "NVME_REG_CC \<equiv> 0x0014"
abbreviation (input) NVME_REG_CSTS :: u32 where "NVME_REG_CSTS \<equiv> 0x001c"

abbreviation (input) NVME_FEAT_ASYNC_EVENT :: u32 where "NVME_FEAT_ASYNC_EVENT \<equiv> 0x0b"
abbreviation (input) NVME_FEAT_KATO :: u32 where "NVME_FEAT_KATO \<equiv> 0x0f"
abbreviation (input) NVME_LOG_DISC :: u8 where "NVME_LOG_DISC \<equiv> 0x70"
abbreviation (input) NVME_NQN_DISC :: u8 where "NVME_NQN_DISC \<equiv> 1"
abbreviation (input) NVME_NQN_NVME :: u8 where "NVME_NQN_NVME \<equiv> 2"
abbreviation (input) REQ_FAILFAST_DRIVER :: u8 where "REQ_FAILFAST_DRIVER \<equiv> 0x40"

abbreviation (input) nvme_tcp_icreq :: u8 where "nvme_tcp_icreq \<equiv> 0x0"
abbreviation (input) nvme_tcp_icresp :: u8 where "nvme_tcp_icresp \<equiv> 0x1"
abbreviation (input) nvme_tcp_cmd :: u8 where "nvme_tcp_cmd \<equiv> 0x4"
abbreviation (input) nvme_tcp_rsp :: u8 where "nvme_tcp_rsp \<equiv> 0x5"
abbreviation (input) nvme_tcp_c2h_data :: u8 where "nvme_tcp_c2h_data \<equiv> 0x7"

text \<open>What an encoder writes when it does not panic, and what a decoder reads.\<close>

definition pack_or_nil :: "layout \<Rightarrow> fval list \<Rightarrow> bytes" where
  "pack_or_nil l vs = (case Pack l vs of None \<Rightarrow> [] | Some bs \<Rightarrow> bs)"

definition decode :: "layout \<Rightarrow> (fval list \<Rightarrow> 'a) \<Rightarrow> bytes \<Rightarrow> 'a option" where
  "decode l f pdu = map_option (f \<circ> fst) (Unpack l pdu)"

definition OpcodeName :: "u8 \<Rightarrow> string" where
  "OpcodeName opcode =
     (if opcode = nvme_admin_identify then ''nvme_admin_identify''
      else if opcode = nvme_admin_get_log_page then ''nvme_admin_get_log_page''
      else if opcode = nvme_admin_keep_alive then ''nvme_admin_keep_alive''
      else if opcode = nvme_admin_set_features then ''nvme_admin_set_features''
      else if opcode = nvme_admin_get_features then ''nvme_admin_get_features''
      else if opcode = nvme_admin_async_event then ''nvme_admin_async_event''
      else if opcode = nvme_fabrics_type_property_get then ''nvme_fabrics_type_property_get''
      else if opcode = nvme_fabrics_type_property_set then ''nvme_fabrics_type_property_set''
      else if opcode = nvme_fabrics_command then ''nvme_fabrics_command''
      else ''UNKNOWN'')"

section \<open>Completions\<close>

definition setU32Result :: "u32 \<Rightarrow> CompletionResult \<Rightarrow> CompletionResult" where
  "setU32Result result cqe = cqe\<lparr> cr_Result := overwrite 0 (nat_to_le 4 (unat result)) (cr_Result cqe) \<rparr>"

definition setU16Result :: "u16 \<Rightarrow> CompletionResult \<Rightarrow> CompletionResult" where
  "setU16Result result cqe = cqe\<lparr> cr_Result := overwrite 0 (nat_to_le 2 (unat result)) (cr_Result cqe) \<rparr>"

definition setU64Result :: "u64 \<Rightarrow> CompletionResult \<Rightarrow> CompletionResult" where
  "setU64Result result cqe = cqe\<lparr> cr_Result := overwrite 0 (nat_to_le 8 (unat result)) (cr_Result cqe) \<rparr>"

abbreviation with_result :: "(CompletionResult \<Rightarrow> CompletionResult) \<Rightarrow> Completion \<Rightarrow> Completion" where
  "with_result f c \<equiv> c\<lparr> cqe_Result := f (cqe_Result c) \<rparr>"

definition NewCompletion :: "u16 \<Rightarrow> u16 \<Rightarrow> u16 \<Rightarrow> Completion" where
  "NewCompletion commandID sqID status =
     zero_Completion\<lparr> cqe_CommandID := commandID, cqe_Status := push_bit 1 status, cqe_SqID := sqID \<rparr>"

section \<open>Data pointers\<close>

record nvme_sgl_desc =
  sd_addr :: u64
  sd_length :: u32
  sd_type :: u8

definition sgl :: "DataPtr \<Rightarrow> nvme_sgl_desc" where
  "sgl dataPtr = \<lparr> sd_addr = dp_Part1 dataPtr, sd_length = of_nat (le_to_nat (take 4 (dp_Part2 dataPtr))),
     sd_type = dp_Part2 dataPtr ! 7 \<rparr>"

abbreviation (input) sgl_host_data :: u8 where "sgl_host_data \<equiv> 0x5a"
abbreviation (input) sgl_inline :: u8 where "sgl_inline \<equiv> 0x01"

definition SetSgHostData :: "u32 \<Rightarrow> DataPtr \<Rightarrow> DataPtr" where
  "SetSgHostData len dataPtr = dataPtr\<lparr> dp_Part1 := 0,
     dp_Part2 := (overwrite 0 (nat_to_le 4 (unat len)) (dp_Part2 dataPtr))[7 := sgl_host_data] \<rparr>"

definition SetSgInline :: "u32 \<Rightarrow> DataPtr \<Rightarrow> DataPtr" where
  "SetSgInline len dataPtr = dataPtr\<lparr> dp_Part1 := 0,
     dp_Part2 := (overwrite 0 (nat_to_le 4 (unat len)) (dp_Part2 dataPtr))[7 := sgl_inline] \<rparr>"

section \<open>Requests\<close>

record AbstractRequest =
  ar_Resp :: "Completion option"
  ar_CmdID :: u16
  ar_DataLength :: u32
  ar_sgl :: "ScatterList option"

definition zero_AbstractRequest :: AbstractRequest where
  "zero_AbstractRequest = \<lparr> ar_Resp = None, ar_CmdID = 0, ar_DataLength = 0, ar_sgl = None \<rparr>"

datatype Request =
    AdminConnectRequest AbstractRequest ConnectCommand
  | NvmefPropertySetRequest AbstractRequest PropertySetCommand
  | NvmefPropertyGetRequest AbstractRequest PropertyGetCommand
  | NvmeIdentifyDiscoveryRequest AbstractRequest IdentifyCommand
  | NvmeGetDiscoveryLogPageRequest AbstractRequest GetLogPageCommand CommonCommand
  | KeepAliveRequest AbstractRequest CommonCommand
  | FeaturesRequest AbstractRequest CommonCommand
  | nvmeDiscoverySetFeaturesRequest AbstractRequest CommonCommand
  | nvmeDiscoveryGetFeaturesRequest AbstractRequest CommonCommand
  | AsyncEventRequest AbstractRequest CommonCommand
  | CommonRequest AbstractRequest CommonCommand bytes

primrec abstract :: "Request \<Rightarrow> AbstractRequest" where
  "abstract (AdminConnectRequest a _) = a"
| "abstract (NvmefPropertySetRequest a _) = a"
| "abstract (NvmefPropertyGetRequest a _) = a"
| "abstract (NvmeIdentifyDiscoveryRequest a _) = a"
| "abstract (NvmeGetDiscoveryLogPageRequest a _ _) = a"
| "abstract (KeepAliveRequest a _) = a"
| "abstract (FeaturesRequest a _) = a"
| "abstract (nvmeDiscoverySetFeaturesRequest a _) = a"
| "abstract (nvmeDiscoveryGetFeaturesRequest a _) = a"
| "abstract (AsyncEventRequest a _) = a"
| "abstract (CommonRequest a _ _) = a"

primrec upd_abstract :: "(AbstractRequest \<Rightarrow> AbstractRequest) \<Rightarrow> Request \<Rightarrow> Request" where
  "upd_abstract f (AdminConnectRequest a c) = AdminConnectRequest (f a) c"
| "upd_abstract f (NvmefPropertySetRequest a c) = NvmefPropertySetRequest (f a) c"
| "upd_abstract f (NvmefPropertyGetRequest a c) = NvmefPropertyGetRequest (f a) c"
| "upd_abstract f (NvmeIdentifyDiscoveryRequest a c) = NvmeIdentifyDiscoveryRequest (f a) c"
| "upd_abstract f (NvmeGetDiscoveryLogPageRequest a c d) = NvmeGetDiscoveryLogPageRequest (f a) c d"
| "upd_abstract f (KeepAliveRequest a c) = KeepAliveRequest (f a) c"
| "upd_abstract f (FeaturesRequest a c) = FeaturesRequest (f a) c"
| "upd_abstract f (nvmeDiscoverySetFeaturesRequest a c) = nvmeDiscoverySetFeaturesRequest (f a) c"
| "upd_abstract f (nvmeDiscoveryGetFeaturesRequest a c) = nvmeDiscoveryGetFeaturesRequest (f a) c"
| "upd_abstract f (AsyncEventRequest a c) = AsyncEventRequest (f a) c"
| "upd_abstract f (CommonRequest a c p) = CommonRequest (f a) c p"

abbreviation Completion_of :: "Request \<Rightarrow> Completion option" where
  "Completion_of r \<equiv> ar_Resp (abstract r)"

abbreviation dataLen :: "Request \<Rightarrow> u32" where
  "dataLen r \<equiv> ar_DataLength (abstract r)"

abbreviation GetData :: "Request \<Rightarrow> ScatterList option" where
  "GetData r \<equiv> ar_sgl (abstract r)"

definition SetCompletion :: "Completion \<Rightarrow> Request \<Rightarrow> Request" where
  "SetCompletion cqe = upd_abstract (\<lambda>a. a\<lparr> ar_Resp := Some cqe \<rparr>)"

definition SetData :: "ScatterList \<Rightarrow> Request \<Rightarrow> Request" where
  "SetData s = upd_abstract (\<lambda>a. a\<lparr> ar_sgl := Some s \<rparr>)"

text \<open>Identify and get log page override \<^verbatim>\<open>CommandID\<close> with the field of their command.\<close>

definition CommandID :: "Request \<Rightarrow> u16" where
  "CommandID r = (case r of
     NvmeIdentifyDiscoveryRequest _ c \<Rightarrow> idc_CommandID c
   | NvmeGetDiscoveryLogPageRequest _ c _ \<Rightarrow> lp_CommandID c
   | _ \<Rightarrow> ar_CmdID (abstract r))"

definition dptr :: "Request \<Rightarrow> DataPtr option" where
  "dptr r = (case r of
     AdminConnectRequest _ c \<Rightarrow> Some (con_Dptr c)
   | NvmeIdentifyDiscoveryRequest _ c \<Rightarrow> Some (idc_Dptr c)
   | NvmeGetDiscoveryLogPageRequest _ c _ \<Rightarrow> Some (lp_Dptr c)
   | AsyncEventRequest _ c \<Rightarrow> Some (cmd_Dptr c)
   | CommonRequest _ c _ \<Rightarrow> Some (cmd_Dptr c)
   | _ \<Rightarrow> None)"

definition isWrite :: "Request \<Rightarrow> bool" where
  "isWrite r = (case r of
     AdminConnectRequest _ _ \<Rightarrow> True
   | CommonRequest _ c p \<Rightarrow>
       if cmd_Opcode c = nvme_fabrics_command then (p ! 4) AND 1 \<noteq> 0 else cmd_Opcode c AND 1 \<noteq> 0
   | _ \<Rightarrow> False)"

text \<open>\<^verbatim>\<open>PackCmd\<close>: the bytes written, \<open>None\<close> for a panic of the encoder.\<close>

definition PackCmd :: "Request \<Rightarrow> bytes option" where
  "PackCmd r = (case r of
     AdminConnectRequest _ c \<Rightarrow> Pack ConnectCommand_layout (to_ConnectCommand c)
   | NvmefPropertySetRequest _ c \<Rightarrow> Pack PropertySetCommand_layout (to_PropertySetCommand c)
   | NvmefPropertyGetRequest _ c \<Rightarrow> Pack PropertyGetCommand_layout (to_PropertyGetCommand c)
   | NvmeIdentifyDiscoveryRequest _ c \<Rightarrow> Pack IdentifyCommand_layout (to_IdentifyCommand c)
   | NvmeGetDiscoveryLogPageRequest _ c _ \<Rightarrow> Pack GetLogPageCommand_layout (to_GetLogPageCommand c)
   | KeepAliveRequest _ c \<Rightarrow> Pack CommonCommand_layout (to_CommonCommand c)
   | FeaturesRequest _ c \<Rightarrow> Pack CommonCommand_layout (to_CommonCommand c)
   | nvmeDiscoverySetFeaturesRequest _ c \<Rightarrow> Pack CommonCommand_layout (to_CommonCommand c)
   | nvmeDiscoveryGetFeaturesRequest _ c \<Rightarrow> Pack CommonCommand_layout (to_CommonCommand c)
   | AsyncEventRequest _ c \<Rightarrow> Pack CommonCommand_layout (to_CommonCommand c)
   | CommonRequest _ c _ \<Rightarrow> Pack CommonCommand_layout (to_CommonCommand c))"

section \<open>Constructors of the host\<close>

text \<open>Durations are nanoseconds; \<^verbatim>\<open>Milliseconds\<close> and \<^verbatim>\<open>Seconds\<close> truncate towards zero.\<close>

definition go_div :: "int \<Rightarrow> int \<Rightarrow> int" where
  "go_div a b = sgn a * sgn b * (abs a div abs b)"

definition Milliseconds :: "int \<Rightarrow> int" where
  "Milliseconds d = go_div d 1000000"

definition Millisecond :: int where "Millisecond = 1000000"

abbreviation (input) sizeof_connect_data :: nat where "sizeof_connect_data \<equiv> 1024"

definition NewAdminConnectRequest :: "u16 \<Rightarrow> int \<Rightarrow> ConnectData \<Rightarrow> Request option" where
  "NewAdminConnectRequest cmdID kato connectData =
     do {
       sg \<leftarrow> NewScatterList sizeof_connect_data 1024;
       buf \<leftarrow> Pack ConnectData_layout (to_ConnectData connectData);
       let w = snd (snd (Write buf (NewScatterListWriter sg)));
       Some (AdminConnectRequest
         (zero_AbstractRequest\<lparr> ar_CmdID := cmdID, ar_DataLength := 1024, ar_sgl := Some (sw_sgl w) \<rparr>)
         (zero_ConnectCommand\<lparr> con_Opcode := nvme_fabrics_command, con_FcType := nvme_fabrics_type_connect,
            con_Resv1 := 0x40, con_RecFmt := 0, con_Kato := of_int (Milliseconds kato), con_SqSize := 31,
            con_CommandID := cmdID, con_Dptr := SetSgInline 1024 (con_Dptr zero_ConnectCommand) \<rparr>))
     }"

definition NewSetFeatureAsyncEventRequest :: "u16 \<Rightarrow> Request" where
  "NewSetFeatureAsyncEventRequest cmdID =
     FeaturesRequest (zero_AbstractRequest\<lparr> ar_CmdID := cmdID \<rparr>)
       (zero_CommonCommand\<lparr> cmd_Opcode := nvme_admin_set_features, cmd_Flags := REQ_FAILFAST_DRIVER,
          cmd_CommandID := cmdID, cmd_Cdw10 := NVME_FEAT_ASYNC_EVENT, cmd_Cdw11 := 0x80000000 \<rparr>)"

definition NewSetFeatureKatoRequest :: "u16 \<Rightarrow> int \<Rightarrow> Request" where
  "NewSetFeatureKatoRequest cmdID kato =
     FeaturesRequest (zero_AbstractRequest\<lparr> ar_CmdID := cmdID \<rparr>)
       (zero_CommonCommand\<lparr> cmd_Opcode := nvme_admin_set_features, cmd_Flags := REQ_FAILFAST_DRIVER,
          cmd_CommandID := cmdID, cmd_Cdw10 := NVME_FEAT_KATO, cmd_Cdw11 := of_int (Milliseconds kato) \<rparr>)"

definition NewKeepAliveRequest :: "u16 \<Rightarrow> Request" where
  "NewKeepAliveRequest cmdID =
     KeepAliveRequest zero_AbstractRequest
       (zero_CommonCommand\<lparr> cmd_Opcode := nvme_admin_keep_alive, cmd_Flags := REQ_FAILFAST_DRIVER,
          cmd_CommandID := cmdID \<rparr>)"

definition NewAsyncEventRequest :: "u16 \<Rightarrow> Request" where
  "NewAsyncEventRequest cmdID =
     AsyncEventRequest (zero_AbstractRequest\<lparr> ar_CmdID := cmdID \<rparr>)
       (zero_CommonCommand\<lparr> cmd_Opcode := nvme_admin_async_event, cmd_Flags := REQ_FAILFAST_DRIVER,
          cmd_CommandID := cmdID \<rparr>)"

definition NewPropertySetRequest :: "u16 \<Rightarrow> u32 \<Rightarrow> u64 \<Rightarrow> Request" where
  "NewPropertySetRequest cmdID off val =
     NvmefPropertySetRequest (zero_AbstractRequest\<lparr> ar_CmdID := cmdID, ar_DataLength := 64 \<rparr>)
       (zero_PropertySetCommand\<lparr> ps_Opcode := nvme_fabrics_command, ps_Resv1 := 0x40, ps_CommandID := cmdID,
          ps_FcType := nvme_fabrics_type_property_set, ps_Attrib := 0, ps_Offset := off, ps_Value := val,
          ps_Rsvd2 := (ps_Rsvd2 zero_PropertySetCommand)[34 := 90] \<rparr>)"

definition NewPropertyGetRequest :: "u16 \<Rightarrow> u32 \<Rightarrow> Request" where
  "NewPropertyGetRequest cmdID propOff =
     NvmefPropertyGetRequest (zero_AbstractRequest\<lparr> ar_CmdID := cmdID, ar_DataLength := 64 \<rparr>)
       (zero_PropertyGetCommand\<lparr> pg_Opcode := nvme_fabrics_command, pg_Resv1 := 0x40, pg_CommandID := cmdID,
          pg_FcType := nvme_fabrics_type_property_get, pg_Attrib := (if propOff = NVME_REG_CAP then 1 else 0),
          pg_Offset := propOff, pg_Rsvd2 := (pg_Rsvd2 zero_PropertyGetCommand)[34 := 90] \<rparr>)"

definition NewIdentifyRequest :: "u16 \<Rightarrow> Request" where
  "NewIdentifyRequest cmdid =
     NvmeIdentifyDiscoveryRequest (zero_AbstractRequest\<lparr> ar_CmdID := cmdid \<rparr>)
       (zero_IdentifyCommand\<lparr> idc_Opcode := nvme_admin_identify, idc_CommandID := cmdid, idc_NSId := 0,
          idc_Cns := 1, idc_Flags := REQ_FAILFAST_DRIVER, idc_Rsvd3 := 0, idc_CtrlID := 0 \<rparr>)"

section \<open>Get log page\<close>

definition nvmeBytesToNumd :: "u32 \<Rightarrow> u32" where
  "nvmeBytesToNumd len = drop_bit 2 len - 1"

definition upper32Bits :: "u64 \<Rightarrow> u32" where
  "upper32Bits n = ucast (drop_bit 16 (drop_bit 16 n))"

definition lower32Bits :: "u64 \<Rightarrow> u32" where
  "lower32Bits n = ucast n"

definition NewNvmeGetDiscoveryLogPageRequest :: "u16 \<Rightarrow> u32 \<Rightarrow> u64 \<Rightarrow> u32 \<Rightarrow> Request" where
  "NewNvmeGetDiscoveryLogPageRequest cmdid sz offset nsid =
     (let dwlen = nvmeBytesToNumd sz in
      NvmeGetDiscoveryLogPageRequest (zero_AbstractRequest\<lparr> ar_CmdID := cmdid, ar_DataLength := 0 \<rparr>)
        (zero_GetLogPageCommand\<lparr> lp_Opcode := nvme_admin_get_log_page, lp_Flags := REQ_FAILFAST_DRIVER,
           lp_CommandID := cmdid, lp_NSId := nsid,
           lp_Dptr := \<lparr> dp_Part1 = 0, dp_Part2 = [16, 0, 0, 0, 0, 0, 0, 90] \<rparr>,
           lp_Lid := NVME_LOG_DISC, lp_Lsp := 0, lp_Lpol := lower32Bits offset, lp_Lpou := upper32Bits offset,
           lp_NumDl := ucast (dwlen AND (push_bit 16 1 - 1)), lp_NumDu := ucast (drop_bit 16 dwlen) \<rparr>)
        zero_CommonCommand)"

definition GetLogPageLen :: "GetLogPageCommand \<Rightarrow> u32" where
  "GetLogPageLen cmd =
     (let len = ucast (lp_NumDu cmd) :: u32;
          len = push_bit 16 len;
          len = len + ucast (lp_NumDl cmd);
          len = len + 1
      in len * 4)"

definition GetLogPageOffset :: "GetLogPageCommand \<Rightarrow> u64" where
  "GetLogPageOffset cmd =
     (let len = ucast (lp_Lpou cmd) :: u64;
          len = push_bit 32 len
      in len + ucast (lp_Lpol cmd))"

definition getLogPageName :: "u8 \<Rightarrow> string" where
  "getLogPageName logID =
     (if logID = 0x01 then ''Error Information''
      else if logID = 0x02 then ''SMART / Health Information''
      else if logID = 0x03 then ''Firmware Slot Information''
      else if logID = 0x04 then ''Changed Namespace List''
      else if logID = 0x05 then ''Commands Supported and Effects''
      else if logID = 0x0c then ''Asymmetric Namespace Access''
      else if logID = 0x80 then ''I/O Command Set Specific''
      else if logID = NVME_LOG_DISC then ''Discovery''
      else ''UNKNOWN'')"

definition registerName :: "u32 \<Rightarrow> string" where
  "registerName reg =
     (if reg = NVME_REG_CAP then ''ControllerCapabilities''
      else if reg = NVME_REG_VS then ''ControllerVersion''
      else if reg = 0x000c then ''Interrupt Mask Set''
      else if reg = 0x0010 then ''Interrupt Mask Clear''
      else if reg = NVME_REG_CC then ''ControllerConfiguration''
      else if reg = NVME_REG_CSTS then ''ControllerStatus''
      else if reg = 0x0020 then ''NVM Subsystem Reset''
      else if reg = 0x0024 then ''Admin Queue Attributes''
      else if reg = 0x0028 then ''Admin SQ Base Address''
      else if reg = 0x0030 then ''Admin CQ Base Address''
      else if reg = 0x0038 then ''Controller Memory Buffer Location''
      else if reg = 0x003c then ''Controller Memory Buffer Size''
      else if reg = 0x1000 then ''SQ 0 Tail Doorbell''
      else ''UNKNOWN register name'')"

record Port =
  port_TrAddr :: string
  port_TrsvcID :: string
  port_TrType :: u8
  port_AdrFam :: u8
  port_Treq :: u8
  port_ID :: u16
  port_Tsas :: "u8 list"

definition NewDiscoveryRspPageEntry :: "Port \<Rightarrow> string \<Rightarrow> u8 \<Rightarrow> NvmefDiscRspPageEntry" where
  "NewDiscoveryRspPageEntry port subsysNqn subType =
     zero_NvmefDiscRspPageEntry\<lparr> de_TrType := port_TrType port, de_AdrFam := port_AdrFam port,
       de_Treq := port_Treq port, de_PortID := port_ID port, de_CntlID := 0xffff, de_Asqsz := 32,
       de_SubType := subType, de_Traddr := port_TrAddr port, de_Tsas := port_Tsas port, de_Subnqn := subsysNqn,
       de_TrsvcID := overwrite 0 (take 32 (string_bytes (port_TrsvcID port))) (replicate 32 0) \<rparr>"

section \<open>Lemmas\<close>

lemma Unpack_length: "Unpack l bs = Some (vs, bs') \<Longrightarrow> length bs = Sizeof l + length bs'"
proof -
  assume un: "Unpack l bs = Some (vs, bs')"
  then have "length bs \<ge> Sizeof l" using Unpack_short [of bs l] by (metis not_less option.distinct(1))
  moreover from Unpack_long [OF this] un have "bs' = drop (Sizeof l) bs" by auto
  ultimately show ?thesis by simp
qed

lemma abstract_upd [simp]: "abstract (upd_abstract f r) = f (abstract r)"
  by (cases r) auto

lemma CommandID_upd [simp]:
  "(\<And>a. ar_CmdID (f a) = ar_CmdID a) \<Longrightarrow> CommandID (upd_abstract f r) = CommandID r"
  by (cases r) (auto simp: CommandID_def)

lemma isWrite_upd [simp]: "isWrite (upd_abstract f r) = isWrite r"
  by (cases r) (auto simp: isWrite_def)

lemma dptr_upd [simp]: "dptr (upd_abstract f r) = dptr r"
  by (cases r) (auto simp: dptr_def)

lemma request_accessors [simp]:
  "CommandID (SetCompletion c r) = CommandID r" "CommandID (SetData s r) = CommandID r"
  "isWrite (SetCompletion c r) = isWrite r" "isWrite (SetData s r) = isWrite r"
  "Completion_of (SetCompletion c r) = Some c" "Completion_of (SetData s r) = Completion_of r"
  "GetData (SetCompletion c r) = GetData r" "GetData (SetData s r) = Some s"
  "dataLen (SetCompletion c r) = dataLen r" "dataLen (SetData s r) = dataLen r"
  by (auto simp: SetCompletion_def SetData_def)

lemma join_u32_halves:
  "push_bit 16 (ucast (ucast (drop_bit 16 d) :: u16)) + ucast (ucast (d AND (push_bit 16 1 - 1)) :: u16) = (d :: u32)"
proof -
  have m: "push_bit 16 1 - 1 = (mask 16 :: u32)" by (simp add: mask_eq_exp_minus_1)
  have "push_bit 16 (ucast (ucast (drop_bit 16 d) :: u16)) + ucast (ucast (d AND mask 16) :: u16)
      = push_bit 16 (ucast (ucast (drop_bit 16 d) :: u16)) OR ucast (ucast (d AND mask 16) :: u16)"
    by (rule disjunctive_add) (auto simp: bit_simps)
  also have "\<dots> = d"
    by (rule bit_word_eqI) (auto simp: bit_simps)
  finally show ?thesis unfolding m .
qed

lemma join_u64_halves: "push_bit 32 (ucast (upper32Bits n)) + ucast (lower32Bits n) = (n :: u64)"
proof -
  have "push_bit 32 (ucast (upper32Bits n)) + ucast (lower32Bits n)
      = push_bit 32 (ucast (upper32Bits n)) OR (ucast (lower32Bits n) :: u64)"
    by (rule disjunctive_add) (auto simp: bit_simps lower32Bits_def)
  also have "\<dots> = n"
    by (rule bit_word_eqI) (auto simp: bit_simps lower32Bits_def upper32Bits_def)
  finally show ?thesis .
qed

lemma numd_bytes: "(nvmeBytesToNumd sz + 1) * 4 = sz AND NOT (mask 2)"
proof -
  have "(nvmeBytesToNumd sz + 1) * 4 = push_bit 2 (drop_bit 2 sz)"
    by (simp add: nvmeBytesToNumd_def push_bit_eq_mult)
  also have "\<dots> = sz AND NOT (mask 2)"
  proof (rule bit_word_eqI)
    fix n
    have "2 \<le> n \<Longrightarrow> Suc (Suc (n - 2)) = n" by arith
    then show "n < LENGTH(32) \<Longrightarrow> bit (push_bit 2 (drop_bit 2 sz)) n = bit (sz AND NOT (mask 2)) n"
      by (auto simp: bit_simps)
  qed
  finally show ?thesis .
qed

lemma GetLogPageLen_numd:
  assumes "lp_NumDu c = ucast (drop_bit 16 (nvmeBytesToNumd sz))"
    and "lp_NumDl c = ucast (nvmeBytesToNumd sz AND (push_bit 16 1 - 1))"
  shows "GetLogPageLen c = sz AND NOT (mask 2)"
  unfolding GetLogPageLen_def Let_def assms join_u32_halves numd_bytes ..

lemma GetLogPageOffset_halves:
  assumes "lp_Lpou c = upper32Bits offset" "lp_Lpol c = lower32Bits offset"
  shows "GetLogPageOffset c = offset"
  unfolding GetLogPageOffset_def Let_def assms join_u64_halves ..

text \<open>
  C20. The size and the offset of a log page request survive their encoding into the split fields of the
  command: the target reads back every 64-bit offset exactly, and every 32-bit size rounded down to a
  multiple of four, even where the 0's based dword count wraps around (a size below 4).
\<close>

theorem log_page_request_read_back:
  "\<exists>a c d. NewNvmeGetDiscoveryLogPageRequest cmdid sz offset nsid = NvmeGetDiscoveryLogPageRequest a c d \<and>
     GetLogPageLen c = sz AND NOT (mask 2) \<and> GetLogPageOffset c = offset"
  unfolding NewNvmeGetDiscoveryLogPageRequest_def Let_def
  by (intro exI conjI, rule refl) (rule GetLogPageLen_numd GetLogPageOffset_halves; simp)+

end
