(* ===== verification/Nvme_Id.thy ===== *)
theory Nvme_Id
  imports Nvme_Types
begin

text \<open>
  The identify controller data structure of \<^verbatim>\<open>pkg/nvme/nvme_data_types.go\<close>, 4096 bytes on the wire.
\<close>

section \<open>Identify controller data\<close>

record IDCtrl =
  id_VID :: u16
  id_SSVID :: u16
  id_Sn :: "u8 list"
  id_Mn :: "u8 list"
  id_Fr :: string
  id_Rab :: u8
  id_Ieee :: "u8 list"
  id_Cmic :: u8
  id_Mdts :: u8
  id_CntlID :: u16
  id_Ver :: u32
  id_Rtd3r :: u32
  id_Rtd3e :: u32
  id_Oaes :: u32
  id_CtrAtt :: u32
  id_Rsvd100 :: "u8 list"
  id_Oacs :: u16
  id_ACL :: u8
  id_Arel :: u8
  id_Frmw :: u8
  id_Lpa :: u8
  id_Elpe :: u8
  id_Npss :: u8
  id_Avscc :: u8
  id_Apsta :: u8
  id_Wctemp :: u16
  id_Cctemp :: u16
  id_Mtfa :: u16
  id_Hmpre :: u32
  id_Hmmin :: u32
  id_Tnvmcap :: "u8 list"
  id_Unvmcap :: "u8 list"
  id_Rpmbs :: u32
  id_Edstt :: u16
  id_Dsto :: u8
  id_FwUg :: u8
  id_Kas :: u16
  id_Hctma :: u16
  id_MntMt :: u16
  id_MxtMt :: u16
  id_Sancap :: u32
  id_Hmminds :: u32
  id_Hmmaxd :: u16
  id_Rsvd338 :: "u8 list"
  id_Anatt :: u8
  id_AnaCap :: u8
  id_AnaGrpMax :: u32
  id_AnaGrpID :: u32
  id_Rsvd352 :: "u8 list"
  id_Sqes :: u8
  id_Cqes :: u8
  id_Maxcmd :: u16
  id_Nn :: u32
  id_Oncs :: u16
  id_Fuses :: u16
  id_Fna :: u8
  id_Vwc :: u8
  id_Awun :: u16
  id_AwUpf :: u16
  id_Nvscc :: u8
  id_Nwpc :: u8
  id_Acwu :: u16
  id_Rsvd534 :: "u8 list"
  id_Sgls :: u32
  id_Mnan :: u32
  id_Rsvd544 :: "u8 list"
  id_SubNqn :: "u8 list"
  id_Rsvd1024 :: "u8 list"
  id_Ioccsz :: u32
  id_Iorcsz :: u32
  id_IodOff :: u16
  id_CtrlAttr :: u8
  id_Msdbd :: u8
  id_Rsvd1804 :: "u8 list"
  id_Psd :: "u8 list"
  id_VS :: "u8 list"

definition IDCtrl_layout :: layout where
  "IDCtrl_layout = [FInt 2 True, FInt 2 True, FArr 20 1 False, FArr 40 1 False, FStr 8, FInt 1 False,
      FArr 3 1 False, FInt 1 False, FInt 1 False, FInt 2 True, FInt 4 True, FInt 4 True, FInt 4 True,
      FInt 4 True, FInt 4 True, FArr 156 1 False, FInt 2 True, FInt 1 False, FInt 1 False,
      FInt 1 False, FInt 1 False, FInt 1 False, FInt 1 False, FInt 1 False, FInt 1 False, FInt 2 True,
      FInt 2 True, FInt 2 True, FInt 4 True, FInt 4 True, FArr 16 1 False, FArr 16 1 False,
      FInt 4 True, FInt 2 True, FInt 1 False, FInt 1 False, FInt 2 True, FInt 2 True, FInt 2 True,
      FInt 2 True, FInt 4 True, FInt 4 True, FInt 2 True, FArr 4 1 False, FInt 1 False, FInt 1 False,
      FInt 4 True, FInt 4 True, FArr 160 1 False, FInt 1 False, FInt 1 False, FInt 2 True, FInt 4 True,
      FInt 2 True, FInt 2 True, FInt 1 False, FInt 1 False, FInt 2 True, FInt 2 True, FInt 1 False,
      FInt 1 False, FInt 2 True, FArr 2 1 False, FInt 4 True, FInt 4 True, FArr 224 1 False,
      FArr 256 1 False, FArr 768 1 False, FInt 4 True, FInt 4 True, FInt 2 True, FInt 1 False,
      FInt 1 False, FArr 244 1 False, FArr 1024 1 False, FArr 1024 1 False]"

definition to_IDCtrl :: "IDCtrl \<Rightarrow> fval list" where
  "to_IDCtrl x = [I (unat (id_VID x)), I (unat (id_SSVID x)), A (map unat (id_Sn x)),
      A (map unat (id_Mn x)), S (id_Fr x), I (unat (id_Rab x)), A (map unat (id_Ieee x)),
      I (unat (id_Cmic x)), I (unat (id_Mdts x)), I (unat (id_CntlID x)), I (unat (id_Ver x)),
      I (unat (id_Rtd3r x)), I (unat (id_Rtd3e x)), I (unat (id_Oaes x)), I (unat (id_CtrAtt x)),
      A (map unat (id_Rsvd100 x)), I (unat (id_Oacs x)), I (unat (id_ACL x)), I (unat (id_Arel x)),
      I (unat (id_Frmw x)), I (unat (id_Lpa x)), I (unat (id_Elpe x)), I (unat (id_Npss x)),
      I (unat (id_Avscc x)), I (unat (id_Apsta x)), I (unat (id_Wctemp x)), I (unat (id_Cctemp x)),
      I (unat (id_Mtfa x)), I (unat (id_Hmpre x)), I (unat (id_Hmmin x)), A (map unat (id_Tnvmcap x)),
      A (map unat (id_Unvmcap x)), I (unat (id_Rpmbs x)), I (unat (id_Edstt x)), I (unat (id_Dsto x)),
      I (unat (id_FwUg x)), I (unat (id_Kas x)), I (unat (id_Hctma x)), I (unat (id_MntMt x)),
      I (unat (id_MxtMt x)), I (unat (id_Sancap x)), I (unat (id_Hmminds x)), I (unat (id_Hmmaxd x)),
      A (map unat (id_Rsvd338 x)), I (unat (id_Anatt x)), I (unat (id_AnaCap x)),
      I (unat (id_AnaGrpMax x)), I (unat (id_AnaGrpID x)), A (map unat (id_Rsvd352 x)),
      I (unat (id_Sqes x)), I (unat (id_Cqes x)), I (unat (id_Maxcmd x)), I (unat (id_Nn x)),
      I (unat (id_Oncs x)), I (unat (id_Fuses x)), I (unat (id_Fna x)), I (unat (id_Vwc x)),
      I (unat (id_Awun x)), I (unat (id_AwUpf x)), I (unat (id_Nvscc x)), I (unat (id_Nwpc x)),
      I (unat (id_Acwu x)), A (map unat (id_Rsvd534 x)), I (unat (id_Sgls x)), I (unat (id_Mnan x)),
      A (map unat (id_Rsvd544 x)), A (map unat (id_SubNqn x)), A (map unat (id_Rsvd1024 x)),
      I (unat (id_Ioccsz x)), I (unat (id_Iorcsz x)), I (unat (id_IodOff x)), I (unat (id_CtrlAttr x)),
      I (unat (id_Msdbd x)), A (map unat (id_Rsvd1804 x)), A (map unat (id_Psd x)),
      A (map unat (id_VS x))]"

definition of_IDCtrl :: "fval list \<Rightarrow> IDCtrl" where
  "of_IDCtrl vs = \<lparr> id_VID = of_nat (valI (vs ! 0)), id_SSVID = of_nat (valI (vs ! 1)),
      id_Sn = map of_nat (valA (vs ! 2)), id_Mn = map of_nat (valA (vs ! 3)), id_Fr = valS (vs ! 4),
      id_Rab = of_nat (valI (vs ! 5)), id_Ieee = map of_nat (valA (vs ! 6)),
      id_Cmic = of_nat (valI (vs ! 7)), id_Mdts = of_nat (valI (vs ! 8)),
      id_CntlID = of_nat (valI (vs ! 9)), id_Ver = of_nat (valI (vs ! 10)),
      id_Rtd3r = of_nat (valI (vs ! 11)), id_Rtd3e = of_nat (valI (vs ! 12)),
      id_Oaes = of_nat (valI (vs ! 13)), id_CtrAtt = of_nat (valI (vs ! 14)),
      id_Rsvd100 = map of_nat (valA (vs ! 15)), id_Oacs = of_nat (valI (vs ! 16)),
      id_ACL = of_nat (valI (vs ! 17)), id_Arel = of_nat (valI (vs ! 18)),
      id_Frmw = of_nat (valI (vs ! 19)), id_Lpa = of_nat (valI (vs ! 20)),
      id_Elpe = of_nat (valI (vs ! 21)), id_Npss = of_nat (valI (vs ! 22)),
      id_Avscc = of_nat (valI (vs ! 23)), id_Apsta = of_nat (valI (vs ! 24)),
      id_Wctemp = of_nat (valI (vs ! 25)), id_Cctemp = of_nat (valI (vs ! 26)),
      id_Mtfa = of_nat (valI (vs ! 27)), id_Hmpre = of_nat (valI (vs ! 28)),
      id_Hmmin = of_nat (valI (vs ! 29)), id_Tnvmcap = map of_nat (valA (vs ! 30)),
      id_Unvmcap = map of_nat (valA (vs ! 31)), id_Rpmbs = of_nat (valI (vs ! 32)),
      id_Edstt = of_nat (valI (vs ! 33)), id_Dsto = of_nat (valI (vs ! 34)),
      id_FwUg = of_nat (valI (vs ! 35)), id_Kas = of_nat (valI (vs ! 36)),
      id_Hctma = of_nat (valI (vs ! 37)), id_MntMt = of_nat (valI (vs ! 38)),
      id_MxtMt = of_nat (valI (vs ! 39)), id_Sancap = of_nat (valI (vs ! 40)),
      id_Hmminds = of_nat (valI (vs ! 41)), id_Hmmaxd = of_nat (valI (vs ! 42)),
      id_Rsvd338 = map of_nat (valA (vs ! 43)), id_Anatt = of_nat (valI (vs ! 44)),
      id_AnaCap = of_nat (valI (vs ! 45)), id_AnaGrpMax = of_nat (valI (vs ! 46)),
      id_AnaGrpID = of_nat (valI (vs ! 47)), id_Rsvd352 = map of_nat (valA (vs ! 48)),
      id_Sqes = of_nat (valI (vs ! 49)), id_Cqes = of_nat (valI (vs ! 50)),
      id_Maxcmd = of_nat (valI (vs ! 51)), id_Nn = of_nat (valI (vs ! 52)),
      id_Oncs = of_nat (valI (vs ! 53)), id_Fuses = of_nat (valI (vs ! 54)),
      id_Fna = of_nat (valI (vs ! 55)), id_Vwc = of_nat (valI (vs ! 56)),
      id_Awun = of_nat (valI (vs ! 57)), id_AwUpf = of_nat (valI (vs ! 58)),
      id_Nvscc = of_nat (valI (vs ! 59)), id_Nwpc = of_nat (valI (vs ! 60)),
      id_Acwu = of_nat (valI (vs ! 61)), id_Rsvd534 = map of_nat (valA (vs ! 62)),
      id_Sgls = of_nat (valI (vs ! 63)), id_Mnan = of_nat (valI (vs ! 64)),
      id_Rsvd544 = map of_nat (valA (vs ! 65)), id_SubNqn = map of_nat (valA (vs ! 66)),
      id_Rsvd1024 = map of_nat (valA (vs ! 67)), id_Ioccsz = of_nat (valI (vs ! 68)),
      id_Iorcsz = of_nat (valI (vs ! 69)), id_IodOff = of_nat (valI (vs ! 70)),
      id_CtrlAttr = of_nat (valI (vs ! 71)), id_Msdbd = of_nat (valI (vs ! 72)),
      id_Rsvd1804 = map of_nat (valA (vs ! 73)), id_Psd = map of_nat (valA (vs ! 74)),
      id_VS = map of_nat (valA (vs ! 75)) \<rparr>"

definition ok_IDCtrl :: "IDCtrl \<Rightarrow> bool" where
  "ok_IDCtrl x \<longleftrightarrow> length (id_Sn x) = 20 \<and> length (id_Mn x) = 40 \<and>
      length (id_Fr x) \<le> 8 \<and> length (id_Ieee x) = 3 \<and> length (id_Rsvd100 x) = 156 \<and>
      length (id_Tnvmcap x) = 16 \<and> length (id_Unvmcap x) = 16 \<and>
      length (id_Rsvd338 x) = 4 \<and> length (id_Rsvd352 x) = 160 \<and>
      length (id_Rsvd534 x) = 2 \<and> length (id_Rsvd544 x) = 224 \<and>
      length (id_SubNqn x) = 256 \<and> length (id_Rsvd1024 x) = 768 \<and>
      length (id_Rsvd1804 x) = 244 \<and> length (id_Psd x) = 1024 \<and> length (id_VS x) = 1024"

definition zero_IDCtrl :: IDCtrl where
  "zero_IDCtrl = \<lparr> id_VID = 0, id_SSVID = 0, id_Sn = replicate 20 0, id_Mn = replicate 40 0,
      id_Fr = [], id_Rab = 0, id_Ieee = replicate 3 0, id_Cmic = 0, id_Mdts = 0, id_CntlID = 0,
      id_Ver = 0, id_Rtd3r = 0, id_Rtd3e = 0, id_Oaes = 0, id_CtrAtt = 0, id_Rsvd100 = replicate 156 0,
      id_Oacs = 0, id_ACL = 0, id_Arel = 0, id_Frmw = 0, id_Lpa = 0, id_Elpe = 0, id_Npss = 0,
      id_Avscc = 0, id_Apsta = 0, id_Wctemp = 0, id_Cctemp = 0, id_Mtfa = 0, id_Hmpre = 0,
      id_Hmmin = 0, id_Tnvmcap = replicate 16 0, id_Unvmcap = replicate 16 0, id_Rpmbs = 0,
      id_Edstt = 0, id_Dsto = 0, id_FwUg = 0, id_Kas = 0, id_Hctma = 0, id_MntMt = 0, id_MxtMt = 0,
      id_Sancap = 0, id_Hmminds = 0, id_Hmmaxd = 0, id_Rsvd338 = replicate 4 0, id_Anatt = 0,
      id_AnaCap = 0, id_AnaGrpMax = 0, id_AnaGrpID = 0, id_Rsvd352 = replicate 160 0, id_Sqes = 0,
      id_Cqes = 0, id_Maxcmd = 0, id_Nn = 0, id_Oncs = 0, id_Fuses = 0, id_Fna = 0, id_Vwc = 0,
      id_Awun = 0, id_AwUpf = 0, id_Nvscc = 0, id_Nwpc = 0, id_Acwu = 0, id_Rsvd534 = replicate 2 0,
      id_Sgls = 0, id_Mnan = 0, id_Rsvd544 = replicate 224 0, id_SubNqn = replicate 256 0,
      id_Rsvd1024 = replicate 768 0, id_Ioccsz = 0, id_Iorcsz = 0, id_IodOff = 0, id_CtrlAttr = 0,
      id_Msdbd = 0, id_Rsvd1804 = replicate 244 0, id_Psd = replicate 1024 0,
      id_VS = replicate 1024 0 \<rparr>"

definition norm_IDCtrl :: "IDCtrl \<Rightarrow> IDCtrl" where
  "norm_IDCtrl x = x\<lparr> id_Fr := pad_nul 8 (id_Fr x) \<rparr>"

interpretation w_IDCtrl: wire_struct IDCtrl_layout to_IDCtrl of_IDCtrl ok_IDCtrl
  "norm_IDCtrl"
  by unfold_locales (auto simp: IDCtrl_layout_def to_IDCtrl_def of_IDCtrl_def ok_IDCtrl_def norm_IDCtrl_def
    wire_simps)

end
