(* ===== verification/Hex.thy ===== *)
theory Hex
  imports Go_Std
begin

text \<open>
  Hexadecimal strings and UUIDs: the functions of \<^verbatim>\<open>encoding/hex\<close> and of the vendored \<^verbatim>\<open>google/uuid\<close> package that the
  source calls, and the round trip of a host id through its dashless form.
\<close>

text \<open>\<^verbatim>\<open>uuid.FromBytes\<close> fails unless there are 16 bytes; \<^verbatim>\<open>String\<close> writes them as five groups of hex digits.\<close>

definition hex_char :: "nat \<Rightarrow> char" where
  "hex_char d = (if d < 10 then char_of (48 + d) else char_of (87 + d))"

definition hex :: "bytes \<Rightarrow> string" where
  "hex bs = concat (map (\<lambda>b. [hex_char (unat b div 16), hex_char (unat b mod 16)]) bs)"

definition uuid_String :: "bytes \<Rightarrow> string" where
  "uuid_String u = hex (take 4 u) @ ''-'' @ hex (take 2 (drop 4 u)) @ ''-'' @ hex (take 2 (drop 6 u)) @ ''-''
     @ hex (take 2 (drop 8 u)) @ ''-'' @ hex (take 6 (drop 10 u))"

definition uuid_FromBytes :: "bytes \<Rightarrow> bytes option" where
  "uuid_FromBytes b = (if length b = 16 then Some b else None)"

text \<open>\<^verbatim>\<open>hex.DecodeString\<close> returns the bytes before the first error; the caller ignores the error.\<close>

definition hex_digit :: "char \<Rightarrow> nat option" where
  "hex_digit c = (let n = of_char c :: nat in
     if 48 \<le> n \<and> n < 58 then Some (n - 48) else if 97 \<le> n \<and> n < 103 then Some (n - 87)
     else if 65 \<le> n \<and> n < 71 then Some (n - 55) else None)"

fun hex_DecodeString :: "string \<Rightarrow> bytes" where
  "hex_DecodeString (a # b # s) =
     (case (hex_digit a, hex_digit b) of
        (Some x, Some y) \<Rightarrow> of_nat (16 * x + y) # hex_DecodeString s
      | _ \<Rightarrow> [])"
| "hex_DecodeString _ = []"

text \<open>\<^verbatim>\<open>uuid.Parse\<close>: four forms, of which three have the dashed form inside.\<close>

definition xtob :: "char \<Rightarrow> char \<Rightarrow> u8 option" where
  "xtob a b = (case (hex_digit a, hex_digit b) of (Some x, Some y) \<Rightarrow> Some (of_nat (16 * x + y)) | _ \<Rightarrow> None)"

definition uuid_positions :: "nat list" where
  "uuid_positions = [0, 2, 4, 6, 9, 11, 14, 16, 19, 21, 24, 26, 28, 30, 32, 34]"

definition ToLower :: "string \<Rightarrow> string" where
  "ToLower s = map (\<lambda>c. let n = of_char c :: nat in if 65 \<le> n \<and> n < 91 then char_of (n + 32) else c) s"

definition parse_dashed :: "string \<Rightarrow> bytes option" where
  "parse_dashed s =
     (if s ! 8 \<noteq> CHR ''-'' \<or> s ! 13 \<noteq> CHR ''-'' \<or> s ! 18 \<noteq> CHR ''-'' \<or> s ! 23 \<noteq> CHR ''-'' then None
      else those (map (\<lambda>x. xtob (s ! x) (s ! (x + 1))) uuid_positions))"

definition uuid_Parse :: "string \<Rightarrow> bytes option" where
  "uuid_Parse s =
     (if length s = 36 then parse_dashed s
      else if length s = 45 then
        (if ToLower (take 9 s) \<noteq> ''urn:uuid:'' then None else parse_dashed (drop 9 s))
      else if length s = 38 then parse_dashed (drop 1 s)
      else if length s = 32 then those (map (\<lambda>i. xtob (s ! (2 * i)) (s ! (2 * i + 1))) [0..<16])
      else None)"

section \<open>Round trips\<close>

lemma hex_char_all:
  "list_all (\<lambda>d. hex_char d \<in> set ''0123456789abcdef'' \<and> hex_digit (hex_char d) = Some d) [0..<16]"
  by code_simp

lemma hex_char_cases:
  "d < 16 \<Longrightarrow> hex_char d \<in> set ''0123456789abcdef'' \<and> hex_digit (hex_char d) = Some d"
  using hex_char_all unfolding list_all_iff by simp

lemma nibbles: "unat (b :: u8) div 16 < 16" "unat b mod 16 < 16"
  using unsigned_less [of b, where 'a = nat] by simp_all

lemma byte_of_nibbles: "of_nat (16 * (unat (b :: u8) div 16) + unat b mod 16) = b"
proof -
  have "16 * (unat b div 16) + unat b mod 16 = unat b" by simp
  then show ?thesis by (simp only:) simp
qed

lemma xtob_hex_char: "xtob (hex_char (unat b div 16)) (hex_char (unat b mod 16)) = Some b"
  using hex_char_cases [OF nibbles(1) [of b]] hex_char_cases [OF nibbles(2) [of b]] byte_of_nibbles [of b]
  by (simp add: xtob_def)

lemma hex_DecodeString_hex: "hex_DecodeString (hex bs) = bs"
proof (induction bs)
  case (Cons b bs)
  then show ?case
    using hex_char_cases [OF nibbles(1) [of b]] hex_char_cases [OF nibbles(2) [of b]] byte_of_nibbles [of b]
    by (simp add: hex_def)
qed (simp add: hex_def)

lemma set_hex:
  assumes "c \<in> set (hex bs)" shows "c \<in> set ''0123456789abcdef''"
proof -
  from assms obtain b :: u8 where "c = hex_char (unat b div 16) \<or> c = hex_char (unat b mod 16)"
    by (auto simp: hex_def)
  then show ?thesis using hex_char_cases nibbles by blast
qed

lemma hex_append: "hex (bs @ cs) = hex bs @ hex cs"
  by (simp add: hex_def)

lemma uuid_String_no_dash:
  assumes "length u = 16" shows "RemoveChar (CHR ''-'') (uuid_String u) = hex u"
proof -
  have flt: "filter (\<lambda>c. c \<noteq> CHR ''-'') (hex bs) = hex bs" for bs
    using set_hex by (intro filter_True) fastforce
  have "u = take 4 u @ take 2 (drop 4 u) @ take 2 (drop 6 u) @ take 2 (drop 8 u) @ take 6 (drop 10 u)"
    using assms by (intro nth_equalityI) (auto simp: nth_append)
  from arg_cong [OF this, of hex]
  have "hex u = hex (take 4 u) @ hex (take 2 (drop 4 u)) @ hex (take 2 (drop 6 u)) @ hex (take 2 (drop 8 u))
      @ hex (take 6 (drop 10 u))"
    by (simp only: hex_append)
  then show ?thesis by (simp add: RemoveChar_def uuid_String_def flt)
qed

lemma list16:
  assumes "length u = 16"
  obtains a b c d e f g h i j k l m n p q where "u = [a, b, c, d, e, f, g, h, i, j, k, l, m, n, p, q]"
  using assms by (auto simp: numeral_eq_Suc length_Suc_conv)

lemma uuid_Parse_String: "length u = 16 \<Longrightarrow> uuid_Parse (uuid_String u) = Some u"
  by (erule list16) (simp add: uuid_Parse_def uuid_String_def hex_def parse_dashed_def uuid_positions_def xtob_hex_char)

end
