(* ===== verification/Host_Queue.thy ===== *)
theory Host_Queue
  imports Requests Nvme_Id Hex
begin

text \<open>
  The host side of a discovery connection, \<^verbatim>\<open>src/pkg/nvme/nvmehost/tcp_queue.go\<close>: a queue that sends requests and
  matches responses by command id, and the command sequences built on it.

  The other end of the connection is an argument: \<open>peer\<close> maps the state of the peer and the bytes that are
  flushed to it to its next state and the bytes it sends back. The bytes that have arrived and were not read are
  \<open>h_input\<close>. The receive goroutine (\<^verbatim>\<open>recvPdu\<close>) handles them one PDU at a time; a waiter of
  \<^verbatim>\<open>completedRequestsChan\<close> gets the first completed request that is no asynchronous event, whatever request it
  belongs to. When the bytes end without one, the waiter runs into its timeout.
\<close>

section \<open>State\<close>

datatype host_error =
    Timeout | Aborted | BadPduType u8 | BadPduHlen u8 u8 | ShortPdu | BadIcresp | ShortSgl | NilResponse | NilData
  | BadSubNqn | CountMismatch | GenCtrChanged | Panic

record 't hostQueue =
  h_id :: u16
  h_commandID :: u16
  h_outstanding :: "(u16, Request) gomap"
  h_input :: bytes
  h_receiving :: bool
  h_aen :: "Request list"
  h_peer :: 't

type_synonym 't peer = "'t \<Rightarrow> bytes \<Rightarrow> 't \<times> bytes"
type_synonym ('t, 'a) host = "'t hostQueue \<Rightarrow> (host_error + 'a) \<times> 't hostQueue"

definition newHostTCPQueue :: "u16 \<Rightarrow> 't \<Rightarrow> 't hostQueue" where
  "newHostTCPQueue qid p =
     \<lparr> h_id = qid, h_commandID = 1, h_outstanding = [], h_input = [], h_receiving = True, h_aen = [], h_peer = p \<rparr>"

text \<open>Sequencing: the rest of the function runs when the call returned no error.\<close>

definition and_then :: "('t, 'a) host \<Rightarrow> ('a \<Rightarrow> ('t, 'b) host) \<Rightarrow> ('t, 'b) host" where
  "and_then m f h = (case m h of (Inl e, h') \<Rightarrow> (Inl e, h') | (Inr a, h') \<Rightarrow> f a h')"

definition return :: "'a \<Rightarrow> ('t, 'a) host" where
  "return a h = (Inr a, h)"

definition throw :: "host_error \<Rightarrow> ('t, 'a) host" where
  "throw e h = (Inl e, h)"

definition flush :: "'t peer \<Rightarrow> bytes \<Rightarrow> 't hostQueue \<Rightarrow> 't hostQueue" where
  "flush peer bs h = (case peer (h_peer h) bs of (p, out) \<Rightarrow> h\<lparr> h_peer := p, h_input := h_input h @ out \<rparr>)"

definition nextCmdID :: "('t, u16) host" where
  "nextCmdID h = (Inr (h_commandID h), h\<lparr> h_commandID := h_commandID h + 1 \<rparr>)"

section \<open>Sending\<close>

definition createTCPHeader :: "bool \<Rightarrow> TCPHeaderType" where
  "createTCPHeader isConnect =
     zero_TCPHeaderType\<lparr> th_Type := nvme_tcp_cmd, th_Flags := 0, th_Hlen := 72,
       th_Plen := 72 + (if isConnect then 1024 else 0) \<rparr>"

definition sendNvmeInitConnection :: "'t peer \<Rightarrow> ('t, unit) host" where
  "sendNvmeInitConnection peer h =
     (Inr (), flush peer
        (pack_or_nil TCPHeaderType_layout (to_TCPHeaderType
           (zero_TCPHeaderType\<lparr> th_Hlen := 128, th_Plen := 128, th_Pdo := 0, th_Type := nvme_tcp_icreq, th_Flags := 0 \<rparr>))
         @ pack_or_nil TCPIcReqPduType_layout (to_TCPIcReqPduType
           (zero_TCPIcReqPduType\<lparr> icq_Pfv := 0, icq_Hpda := 0, icq_Digest := 0, icq_Maxr2t := 0 \<rparr>))) h)"

definition is_connect :: "Request \<Rightarrow> bool" where
  "is_connect r = (case r of AdminConnectRequest _ _ \<Rightarrow> True | _ \<Rightarrow> False)"

definition is_aen :: "Request \<Rightarrow> bool" where
  "is_aen r = (case r of AsyncEventRequest _ _ \<Rightarrow> True | _ \<Rightarrow> False)"

definition sendRequest :: "'t peer \<Rightarrow> Request \<Rightarrow> ('t, unit) host" where
  "sendRequest peer request h =
     (case PackCmd request of
        None \<Rightarrow> (Inl Panic, h)
      | Some cmd \<Rightarrow>
          (Inr (), flush peer (pack_or_nil TCPHeaderType_layout (to_TCPHeaderType (createTCPHeader (is_connect request))) @ cmd)
             (h\<lparr> h_outstanding := AList.update (CommandID request) request (h_outstanding h) \<rparr>)))"

section \<open>Receiving\<close>

definition pduValid :: "u8 \<Rightarrow> bool" where
  "pduValid pduType \<longleftrightarrow> pduType = nvme_tcp_icresp \<or> pduType = nvme_tcp_rsp \<or> pduType = nvme_tcp_c2h_data"

definition pduSize :: "u8 \<Rightarrow> nat option" where
  "pduSize pduType =
     (if pduType = nvme_tcp_icresp then Some 128 else if pduType = nvme_tcp_rsp then Some 24
      else if pduType = nvme_tcp_c2h_data then Some 24 else None)"

text \<open>\<open>None\<close>: the header has not arrived in full.\<close>

definition recvTCPHeader :: "bytes \<Rightarrow> (host_error + TCPHeaderType \<times> bytes) option" where
  "recvTCPHeader bs =
     map_option (\<lambda>(vs, bs').
       let hdr = of_TCPHeaderType vs in
       if \<not> pduValid (th_Type hdr) then Inl (BadPduType (th_Type hdr))
       else if Some (unat (th_Hlen hdr)) \<noteq> pduSize (th_Type hdr) then Inl (BadPduHlen (th_Type hdr) (th_Hlen hdr))
       else Inr (hdr, bs')) (Unpack TCPHeaderType_layout bs)"

definition recvNvmeInitConnResponse :: "bytes \<Rightarrow> host_error + TCPIcrespPdu" where
  "recvNvmeInitConnResponse pdu =
     (case decode TCPIcrespPdu_layout of_TCPIcrespPdu pdu of
        None \<Rightarrow> Inl ShortPdu
      | Some icresp \<Rightarrow>
          if icr_Pfv icresp \<noteq> 0 then Inl BadIcresp else if icr_Cpda icresp \<noteq> 0 then Inl BadIcresp else Inr icresp)"

text \<open>
  \<^verbatim>\<open>recvCqe\<close> reports an error status beside the completion; \<^verbatim>\<open>parseResponse\<close> drops the error whenever there is a
  completion, so the status reaches the caller only inside the completed request.
\<close>

definition recvCqe :: "bytes \<Rightarrow> Completion option \<times> host_error option" where
  "recvCqe pdu =
     (case decode Completion_layout of_Completion pdu of
        None \<Rightarrow> (None, Some ShortPdu)
      | Some cqe \<Rightarrow> (Some cqe, if cqe_Status cqe \<noteq> NVME_SC_SUCCESS then Some Aborted else None))"

definition recvTCPDataPdu :: "bytes \<Rightarrow> (TCPDataPDU \<times> bytes) option" where
  "recvTCPDataPdu pdu = map_option (map_prod of_TCPDataPDU id) (Unpack TCPDataPDU_layout pdu)"

text \<open>\<^verbatim>\<open>parseResponse\<close>: the request that the PDU belongs to, if it is outstanding.\<close>

definition parseResponse :: "u8 \<Rightarrow> bytes \<Rightarrow> ('t, Request option) host" where
  "parseResponse pduType pdu h =
     (if pduType = nvme_tcp_icresp then
        (case recvNvmeInitConnResponse pdu of Inl e \<Rightarrow> (Inl e, h) | Inr _ \<Rightarrow> (Inr None, h))
      else if pduType = nvme_tcp_rsp then
        (case recvCqe pdu of
           (None, e) \<Rightarrow> (Inl ShortPdu, h)
         | (Some cqe, e) \<Rightarrow>
            (case map_of (h_outstanding h) (cqe_CommandID cqe) of
               None \<Rightarrow> ((case e of None \<Rightarrow> Inr None | Some err \<Rightarrow> Inl err), h)
             | Some request \<Rightarrow>
                 (Inr (Some (SetCompletion cqe request)),
                  h\<lparr> h_outstanding := AList.delete (cqe_CommandID cqe) (h_outstanding h) \<rparr>)))
      else if pduType = nvme_tcp_c2h_data then
        (case recvTCPDataPdu pdu of
           None \<Rightarrow> (Inl ShortPdu, h)
         | Some (c2h, data) \<Rightarrow>
            (case map_of (h_outstanding h) (pdu_CommandID c2h) of
               None \<Rightarrow> (Inr None, h)
             | Some request \<Rightarrow>
                let len = unat (pdu_DataLength c2h) in
                (case NewScatterList len (min 1024 len) of
                   None \<Rightarrow> (Inl Panic, h)
                 | Some s \<Rightarrow>
                    (case Write data (NewScatterListWriter s) of (n, err, w) \<Rightarrow>
                       let request' = SetData (sw_sgl w) request;
                           h' = h\<lparr> h_outstanding := AList.update (pdu_CommandID c2h) request' (h_outstanding h) \<rparr>
                       in if err = None then (Inr (Some request'), h') else (Inl ShortSgl, h')))))
      else (Inl Panic, h))"

text \<open>
  \<^verbatim>\<open>handleRecv\<close>: waits (\<open>Blocked\<close>) while the PDU is incomplete; an error ends the receive goroutine. A PDU length
  below the header length makes a slice of negative length, which panics.
\<close>

datatype recv = Blocked | Failed host_error | Idle | Delivered Request

definition handleRecv :: "'t hostQueue \<Rightarrow> recv \<times> 't hostQueue" where
  "handleRecv h =
     (case recvTCPHeader (h_input h) of
        None \<Rightarrow> (Blocked, h)
      | Some (Inl e) \<Rightarrow> (Failed e, h\<lparr> h_receiving := False \<rparr>)
      | Some (Inr (hdr, bs)) \<Rightarrow>
          if th_Plen hdr < 8 then (Failed Panic, h\<lparr> h_receiving := False \<rparr>)
          else let rcvLeft = nat (th_Plen hdr - 8) in
            if length bs < rcvLeft then (Blocked, h)
            else case parseResponse (th_Type hdr) (take rcvLeft bs) (h\<lparr> h_input := drop rcvLeft bs \<rparr>) of
                (Inl e, h') \<Rightarrow> (Failed e, h'\<lparr> h_receiving := False \<rparr>)
              | (Inr None, h') \<Rightarrow> (Idle, h')
              | (Inr (Some request), h') \<Rightarrow>
                  if Completion_of request = None then (Idle, h')
                  else if is_aen request then (Idle, h'\<lparr> h_aen := h_aen h' @ [request] \<rparr>)
                  else (Delivered request, h'))"

text \<open>The receive loop up to the first completed request, on at most \<open>n\<close> PDUs.\<close>

fun receive :: "nat \<Rightarrow> 't hostQueue \<Rightarrow> Request option \<times> 't hostQueue" where
  "receive 0 h = (None, h)"
| "receive (Suc n) h =
     (if \<not> h_receiving h then (None, h)
      else case handleRecv h of
          (Delivered request, h') \<Rightarrow> (Some request, h')
        | (Idle, h') \<Rightarrow> receive n h'
        | (_, h') \<Rightarrow> (None, h'))"

abbreviation next_completed :: "'t hostQueue \<Rightarrow> Request option \<times> 't hostQueue" where
  "next_completed h \<equiv> receive (Suc (length (h_input h))) h"

definition waitForResponse :: "('t, Request) host" where
  "waitForResponse h = (case next_completed h of (None, h') \<Rightarrow> (Inl Timeout, h') | (Some r, h') \<Rightarrow> (Inr r, h'))"

section \<open>Command sequences\<close>

definition connect_data :: "string \<Rightarrow> string \<Rightarrow> ConnectData" where
  "connect_data hostnqn hostID =
     zero_ConnectData\<lparr> cd_HostID := bytes_string (hex_DecodeString hostID), cd_CntlID := 0xffff,
       cd_SubsysNqn := DiscoverySubsysName, cd_HostNqn := hostnqn \<rparr>"

definition sendConnectRequest :: "'t peer \<Rightarrow> string \<Rightarrow> string \<Rightarrow> ('t, unit) host" where
  "sendConnectRequest peer hostnqn hostID =
     and_then nextCmdID (\<lambda>cmdID h.
       case NewAdminConnectRequest cmdID 0 (connect_data hostnqn hostID) of
         None \<Rightarrow> (Inl Panic, h)
       | Some request \<Rightarrow>
          (case (PackCmd request, GetData request) of
             (Some cmd, Some s) \<Rightarrow>
               and_then waitForResponse (\<lambda>_. return ())
                 (flush peer (pack_or_nil TCPHeaderType_layout (to_TCPHeaderType (createTCPHeader True)) @ cmd @ flat s)
                    (h\<lparr> h_outstanding := AList.update (CommandID request) request (h_outstanding h) \<rparr>))
           | _ \<Rightarrow> (Inl Panic, h)))"

definition send_and_wait :: "'t peer \<Rightarrow> Request \<Rightarrow> ('t, Request) host" where
  "send_and_wait peer request = and_then (sendRequest peer request) (\<lambda>_. waitForResponse)"

definition sendSetPropertyRequest :: "'t peer \<Rightarrow> u32 \<Rightarrow> u64 \<Rightarrow> ('t, unit) host" where
  "sendSetPropertyRequest peer registerOffset val =
     and_then nextCmdID (\<lambda>cmdID.
     and_then (send_and_wait peer (NewPropertySetRequest cmdID registerOffset val)) (\<lambda>_. return ()))"

definition sendGetPropertyRequest :: "'t peer \<Rightarrow> u32 \<Rightarrow> ('t, unit) host" where
  "sendGetPropertyRequest peer registerOffset =
     and_then nextCmdID (\<lambda>cmdID.
     and_then (send_and_wait peer (NewPropertyGetRequest cmdID registerOffset)) (\<lambda>_. return ()))"

definition setControllerConfiguration :: "'t peer \<Rightarrow> u64 \<Rightarrow> ('t, unit) host" where
  "setControllerConfiguration peer controllerConfigValue =
     and_then (sendSetPropertyRequest peer NVME_REG_CC controllerConfigValue) (\<lambda>_.
     sendGetPropertyRequest peer NVME_REG_CSTS)"

definition setProperties :: "'t peer \<Rightarrow> ('t, unit) host" where
  "setProperties peer =
     and_then (sendGetPropertyRequest peer NVME_REG_CAP) (\<lambda>_.
     and_then (setControllerConfiguration peer 0x460001) (\<lambda>_.
     and_then (sendGetPropertyRequest peer NVME_REG_VS) (\<lambda>_.
     sendGetPropertyRequest peer NVME_REG_CAP)))"

definition recvIdentifyDataPdu :: "bytes \<Rightarrow> host_error + unit" where
  "recvIdentifyDataPdu pdu =
     (case decode IDCtrl_layout of_IDCtrl pdu of
        None \<Rightarrow> Inl ShortPdu
      | Some d \<Rightarrow>
          if TrimRightNul (bytes_string (id_SubNqn d)) \<noteq> DiscoverySubsysName then Inl BadSubNqn else Inr ())"

definition sendIdentifyRequest :: "'t peer \<Rightarrow> ('t, unit) host" where
  "sendIdentifyRequest peer =
     and_then nextCmdID (\<lambda>cmdID.
     and_then (send_and_wait peer (NewIdentifyRequest cmdID)) (\<lambda>completedRequest h.
       case GetData completedRequest of
         None \<Rightarrow> (Inl NilData, h)
       | Some data \<Rightarrow> (recvIdentifyDataPdu (flat data), h)))"

definition sendAsyncEventSetFeature :: "'t peer \<Rightarrow> ('t, unit) host" where
  "sendAsyncEventSetFeature peer =
     and_then nextCmdID (\<lambda>cmdID.
     and_then (send_and_wait peer (NewSetFeatureAsyncEventRequest cmdID)) (\<lambda>_. return ()))"

definition sendAsyncEventRequest :: "'t peer \<Rightarrow> ('t, unit) host" where
  "sendAsyncEventRequest peer = and_then nextCmdID (\<lambda>cmdID. sendRequest peer (NewAsyncEventRequest cmdID))"

definition sendKeepAlive :: "'t peer \<Rightarrow> ('t, unit) host" where
  "sendKeepAlive peer = and_then (send_and_wait peer (NewKeepAliveRequest 0)) (\<lambda>_. return ())"

section \<open>The discovery log page\<close>

definition parseDiscRspHeader :: "bytes \<Rightarrow> host_error + (u64 \<times> u64) \<times> bytes" where
  "parseDiscRspHeader bs =
     (case Unpack DiscRspPageHdr_layout bs of
        None \<Rightarrow> Inl ShortPdu
      | Some (vs, bs') \<Rightarrow> let pageHeader = of_DiscRspPageHdr vs in Inr ((dh_GenCtr pageHeader, dh_NumRec pageHeader), bs'))"

text \<open>
  \<^verbatim>\<open>recvLogPageDataPdu\<close> reads whole entries from index \<open>i = offset / 1024\<close> up to \<open>numRec\<close>, as far as the bytes
  reach. With at least 1024 bytes left an entry cannot fail to unpack.
\<close>

function log_page_entries :: "u64 \<Rightarrow> u64 \<Rightarrow> bytes \<Rightarrow> NvmefDiscRspPageEntry list" where
  "log_page_entries i numRec bs =
     (if i < numRec \<and> length bs \<ge> 1024 then
        (case Unpack NvmefDiscRspPageEntry_layout bs of
           None \<Rightarrow> []
         | Some (vs, bs') \<Rightarrow> of_NvmefDiscRspPageEntry vs # log_page_entries (i + 1) numRec (drop 1024 bs))
      else [])"
  by pat_completeness auto

termination log_page_entries
  by (relation "measure (\<lambda>(i, n, bs). length bs)") auto

declare log_page_entries.simps [simp del]

definition recvLogPageDataPdu :: "bytes \<Rightarrow> u64 \<Rightarrow> u64 \<Rightarrow> NvmefDiscRspPageEntry list" where
  "recvLogPageDataPdu bs offset numRec = log_page_entries (offset div 1024) numRec bs"

definition log_page_reply ::
    "u64 \<Rightarrow> u64 \<Rightarrow> Request \<Rightarrow> host_error + u64 \<times> u64 \<times> NvmefDiscRspPageEntry list" where
  "log_page_reply offset num completedRequest =
     (case GetData completedRequest of
        None \<Rightarrow> Inl Panic
      | Some data \<Rightarrow>
          if sgl_Size data = 0 then Inr (0, 0, [])
          else case parseDiscRspHeader (flat data) of
              Inl e \<Rightarrow> Inl e
            | Inr ((genCtr, numRec), bs) \<Rightarrow> Inr (numRec, genCtr, recvLogPageDataPdu bs offset num))"

text \<open>This request has no timeout of its own: without a response it waits for the end of the context.\<close>

definition sendDiscLogPageRequest ::
    "'t peer \<Rightarrow> u32 \<Rightarrow> u64 \<Rightarrow> u32 \<Rightarrow> u64 \<Rightarrow> ('t, u64 \<times> u64 \<times> NvmefDiscRspPageEntry list) host" where
  "sendDiscLogPageRequest peer sz offset nsid num =
     and_then nextCmdID (\<lambda>cmdID.
     and_then (sendRequest peer (NewNvmeGetDiscoveryLogPageRequest cmdID sz offset nsid)) (\<lambda>_ h.
       case next_completed h of
         (None, h') \<Rightarrow> (Inl Aborted, h')
       | (Some completedRequest, h') \<Rightarrow> (log_page_reply offset num completedRequest, h')))"

text \<open>The pagination loop of \<^verbatim>\<open>getLogPageEntries\<close>; \<open>None\<close> when it never ends.\<close>

partial_function (option) paginate ::
    "'t peer \<Rightarrow> u64 \<Rightarrow> u64 \<Rightarrow> NvmefDiscRspPageEntry list \<Rightarrow> 't hostQueue \<Rightarrow>
       ((host_error + NvmefDiscRspPageEntry list) \<times> 't hostQueue) option" where
  "paginate peer numRec offset res h =
     (if of_nat (length res) < numRec then
        (case sendDiscLogPageRequest peer 4096 offset 0 numRec h of
           (Inl e, h') \<Rightarrow> Some (Inl e, h')
         | (Inr (_, _, entries), h') \<Rightarrow>
             paginate peer numRec (of_nat (length (res @ entries) * 1024)) (res @ entries) h')
      else Some (Inr res, h))"

definition read_entries ::
    "'t peer \<Rightarrow> bool \<Rightarrow> u64 \<Rightarrow> 't hostQueue \<Rightarrow> ((host_error + NvmefDiscRspPageEntry list) \<times> 't hostQueue) option" where
  "read_entries peer pagination numRec h =
     (if pagination then paginate peer numRec 0 [] h
      else let requestSize = 1024 + ucast numRec * 1024 in
        Some (and_then (sendDiscLogPageRequest peer requestSize 0 0 numRec) (\<lambda>(_, _, res). return res) h))"

definition getLogPageEntries ::
    "'t peer \<Rightarrow> bool \<Rightarrow> 't hostQueue \<Rightarrow> ((host_error + NvmefDiscRspPageEntry list) \<times> 't hostQueue) option" where
  "getLogPageEntries peer pagination h =
     (case sendDiscLogPageRequest peer 1024 0 0xffffffff 0 h of
        (Inl e, h1) \<Rightarrow> Some (Inl e, h1)
      | (Inr (numRec, genCtr, _), h1) \<Rightarrow>
         (case read_entries peer pagination numRec h1 of
            None \<Rightarrow> None
          | Some (Inl e, h2) \<Rightarrow> Some (Inl e, h2)
          | Some (Inr res, h2) \<Rightarrow>
              if of_nat (length res) \<noteq> numRec then Some (Inl CountMismatch, h2)
              else Some (and_then (sendDiscLogPageRequest peer 1024 0 0 0)
                (\<lambda>(_, newGenCtr, _). if genCtr \<noteq> newGenCtr then throw GenCtrChanged else return res) h2)))"

end
