(* ===== verification/Tcp_Client.thy ===== *)
theory Tcp_Client
  imports Host_Queue Nvme_Utils
begin

text \<open>
  The NVMe/TCP client of the host, \<^verbatim>\<open>src/pkg/nvme/nvmehost/tcp_client.go\<close>: one discovery over a new connection, the
  conversion of its entries, and the shutdown. The dialer is an argument (the state of the peer it reaches, or
  \<open>None\<close>), as are the files that hold the host id.
\<close>

section \<open>Data\<close>

record HostDiscPageEntry =
  hpe_PortID :: u16
  hpe_CntlID :: u16
  hpe_TrsvcID :: u16
  hpe_Subnqn :: string
  hpe_Traddr :: string
  hpe_SubType :: u8

record HostDiscoverRequest =
  hdr_Transport :: string
  hdr_Traddr :: string
  hdr_Trsvcid :: int
  hdr_Hostnqn :: string
  hdr_Hostaddr :: string
  hdr_Kato :: int

text \<open>
  A client has its queue after the dial. \<open>cl_running\<close>: the goroutines of \<^verbatim>\<open>pollAEN\<close> and \<^verbatim>\<open>keepAlive\<close> were started;
  \<open>cl_aenClosed\<close>: its AEN channel is closed.
\<close>

record 't tcpClient =
  cl_queue :: "'t hostQueue option"
  cl_pagination :: bool
  cl_hostIDPath :: string
  cl_cancelled :: bool
  cl_running :: bool
  cl_aenClosed :: bool

definition NewClient :: "bool \<Rightarrow> string \<Rightarrow> 't tcpClient" where
  "NewClient logPagePaginationEnabled nvmeHostIDPath =
     \<lparr> cl_queue = None, cl_pagination = logPagePaginationEnabled, cl_hostIDPath = nvmeHostIDPath,
       cl_cancelled = False, cl_running = False, cl_aenClosed = False \<rparr>"

definition removeDash :: "string \<Rightarrow> string" where
  "removeDash str = TrimSpace (RemoveChar (CHR ''-'') str)"

definition isValidUUID :: "string \<Rightarrow> bool" where
  "isValidUUID u \<longleftrightarrow> uuid_Parse u \<noteq> None"

section \<open>Discovery\<close>

definition convert_entry :: "NvmefDiscRspPageEntry \<Rightarrow> HostDiscPageEntry" where
  "convert_entry entry =
     (let targetServiceID = (case Atoi (TrimRightNul (bytes_string (de_TrsvcID entry))) of
            (n, None) \<Rightarrow> n | (_, Some _) \<Rightarrow> 0)
      in \<lparr> hpe_PortID = de_PortID entry, hpe_CntlID = de_CntlID entry, hpe_TrsvcID = of_int targetServiceID,
           hpe_Subnqn = TrimRightNul (de_Subnqn entry), hpe_Traddr = TrimRightNul (de_Traddr entry),
           hpe_SubType = de_SubType entry \<rparr>)"

text \<open>The commands of one discovery, in order. \<open>None\<close>: the log page loop never ends.\<close>

definition session_setup :: "'t peer \<Rightarrow> string \<Rightarrow> string \<Rightarrow> ('t, unit) host" where
  "session_setup peer hostnqn hostID =
     and_then (sendNvmeInitConnection peer) (\<lambda>_.
     and_then (sendConnectRequest peer hostnqn hostID) (\<lambda>_.
     and_then (setProperties peer) (\<lambda>_.
     and_then (sendIdentifyRequest peer) (\<lambda>_.
     sendAsyncEventSetFeature peer))))"

definition discover_session ::
    "'t peer \<Rightarrow> bool \<Rightarrow> string \<Rightarrow> string \<Rightarrow> 't hostQueue \<Rightarrow>
       ((host_error + HostDiscPageEntry list) \<times> 't hostQueue) option" where
  "discover_session peer pagination hostnqn hostID h =
     (case session_setup peer hostnqn hostID h of
        (Inl e, h1) \<Rightarrow> Some (Inl e, h1)
      | (Inr _, h1) \<Rightarrow>
          map_option (map_prod (map_sum id (map convert_entry)) id) (getLogPageEntries peer pagination h1))"

datatype discover_error = HostIDError hostid_error | InvalidHostID string | DialFailed | CommandFailed host_error

record 't client_env =
  ce_hostid :: hostid_env
  ce_dial :: "string \<Rightarrow> int \<Rightarrow> 't option"
  ce_peer :: "'t peer"

definition Discover ::
    "'t client_env \<Rightarrow> HostDiscoverRequest \<Rightarrow> files \<Rightarrow> 't tcpClient \<Rightarrow>
       ((discover_error + HostDiscPageEntry list) \<times> files \<times> 't tcpClient) option" where
  "Discover env req fs client =
     (case GetOrCreateHostID (ce_hostid env) (cl_hostIDPath client) fs of
        (Inl e, fs') \<Rightarrow> Some (Inl (HostIDError e), fs', client)
      | (Inr hostID, fs') \<Rightarrow>
          if \<not> isValidUUID hostID then Some (Inl (InvalidHostID hostID), fs', client)
          else case ce_dial env (hdr_Traddr req) (hdr_Trsvcid req) of
              None \<Rightarrow> Some (Inl DialFailed, fs', client)
            | Some p \<Rightarrow>
                (case discover_session (ce_peer env) (cl_pagination client) (hdr_Hostnqn req) (removeDash hostID)
                        (newHostTCPQueue 1 p) of
                   None \<Rightarrow> None
                 | Some (Inl e, h) \<Rightarrow> Some (Inl (CommandFailed e), fs', client\<lparr> cl_queue := Some h \<rparr>)
                 | Some (Inr response, h) \<Rightarrow>
                     Some (Inr response, fs', client\<lparr> cl_queue := Some h, cl_running := (hdr_Kato req > 0) \<rparr>)))"

text \<open>
  \<^verbatim>\<open>Stop\<close> writes the shutdown notification if there is a queue, ignores its errors, and closes the channel;
  closing it twice panics (\<open>None\<close>).
\<close>

definition Stop :: "'t peer \<Rightarrow> 't tcpClient \<Rightarrow> 't tcpClient option" where
  "Stop peer client =
     (if cl_aenClosed client then None
      else let client' = (case cl_queue client of
               None \<Rightarrow> client
             | Some h \<Rightarrow> (case setControllerConfiguration peer 0x464001 h of (_, h') \<Rightarrow> client\<lparr> cl_queue := None \<rparr>))
        in Some (client'\<lparr> cl_cancelled := True, cl_running := False, cl_aenClosed := True \<rparr>))"

end
