(* ===== verification/Controller.thy ===== *)
theory Controller
  imports Requests Hex
begin

text \<open>
  The discovery controller of the target side, \<^verbatim>\<open>src/pkg/nvme/controller.go\<close>: the property registers CC and
  CSTS, the keep alive timer, and the queue of pending asynchronous event requests.

  Goroutines and channels. The keep alive goroutine waits once for its timer (\<open>katoTimer_fires\<close>) or for the
  cancellation; the AEN goroutine serves one event at a time under the lock (\<open>handleAENEvent\<close>). What they send
  to the transport is returned as a list of completed requests.
\<close>

section \<open>State\<close>

record nvmeController =
  ct_hostNqn :: string
  ct_id :: u16
  ct_controllerID :: u16
  ct_hostid :: string
  ct_cap :: u64
  ct_cc :: u32
  ct_csts :: u32
  ct_kato :: int
  ct_katoTimer :: int
  ct_keepAliveExpired :: bool
  ct_handlerRunning :: bool
  ct_aenBitEnabled :: bool
  ct_rae :: bool
  ct_pending :: "Request list"
  ct_cancelled :: bool

abbreviation (input) NVME_CSTS_RDY :: u32 where "NVME_CSTS_RDY \<equiv> 1"
abbreviation (input) NVME_CSTS_CFS :: u32 where "NVME_CSTS_CFS \<equiv> 2"
abbreviation (input) NVME_CSTS_SHST_CMPLT :: u32 where "NVME_CSTS_SHST_CMPLT \<equiv> 8"

definition maxPendingAsyncEventsRequestsLimit :: nat where
  "maxPendingAsyncEventsRequestsLimit = 4"

definition nvmetDiscoveryKatoMsec :: int where
  "nvmetDiscoveryKatoMsec = 120 * 1000000000"

definition nvmetQueueSize :: u64 where
  "nvmetQueueSize = 1024"

section \<open>Controller configuration\<close>

definition initCap :: u64 where
  "initCap = push_bit 37 1 OR push_bit 24 15 OR (nvmetQueueSize - 1)"

definition nvmetCCEn :: "u32 \<Rightarrow> bool" where
  "nvmetCCEn cc \<longleftrightarrow> drop_bit 0 cc AND 0x1 \<noteq> 0"

definition nvmetCCShn :: "u32 \<Rightarrow> bool" where
  "nvmetCCShn cc \<longleftrightarrow> drop_bit 14 cc AND 0x3 \<noteq> 0"

definition nvmetCCIOSqes :: "u32 \<Rightarrow> u8" where
  "nvmetCCIOSqes cc = ucast (drop_bit 16 cc) AND 0xf"

definition nvmetCCIOCqes :: "u32 \<Rightarrow> u8" where
  "nvmetCCIOCqes cc = ucast (drop_bit 20 cc) AND 0xf"

definition nvmetCCMps :: "u32 \<Rightarrow> u8" where
  "nvmetCCMps cc = ucast (drop_bit 7 cc) AND 0xf"

definition nvmetCCcss :: "u32 \<Rightarrow> u8" where
  "nvmetCCcss cc = ucast (drop_bit 4 cc) AND 0x7"

definition nvmetCCAms :: "u32 \<Rightarrow> u8" where
  "nvmetCCAms cc = ucast (drop_bit 11 cc) AND 0x7"

definition clear :: "nvmeController \<Rightarrow> nvmeController" where
  "clear ctrl = ctrl\<lparr> ct_csts := ct_csts ctrl AND NOT NVME_CSTS_RDY, ct_cc := 0 \<rparr>"

definition start :: "nvmeController \<Rightarrow> nvmeController" where
  "start ctrl =
     (if nvmetCCIOSqes (ct_cc ctrl) \<noteq> 6 \<or> nvmetCCIOCqes (ct_cc ctrl) \<noteq> 4 \<or> nvmetCCMps (ct_cc ctrl) \<noteq> 0
         \<or> nvmetCCAms (ct_cc ctrl) \<noteq> 0 \<or> nvmetCCcss (ct_cc ctrl) \<noteq> 0
      then ctrl\<lparr> ct_csts := NVME_CSTS_CFS \<rparr>
      else ctrl\<lparr> ct_csts := NVME_CSTS_RDY \<rparr>)"

text \<open>The four tests of \<^verbatim>\<open>updateControllerConfiguration\<close> run in order, each on the register the ones before left.\<close>

definition updateControllerConfiguration :: "u32 \<Rightarrow> nvmeController \<Rightarrow> nvmeController" where
  "updateControllerConfiguration value ctrl =
     (let old = ct_cc ctrl;
          c0 = ctrl\<lparr> ct_cc := value \<rparr>;
          c1 = (if nvmetCCEn (ct_cc c0) \<and> \<not> nvmetCCEn old then start c0 else c0);
          c2 = (if \<not> nvmetCCEn (ct_cc c1) \<and> nvmetCCEn old then clear c1 else c1);
          c3 = (if nvmetCCShn (ct_cc c2) \<and> \<not> nvmetCCShn old
                then (let c = clear c2 in c\<lparr> ct_csts := ct_csts c OR NVME_CSTS_SHST_CMPLT \<rparr>) else c2)
      in if \<not> nvmetCCShn (ct_cc c3) \<and> nvmetCCShn old
         then c3\<lparr> ct_csts := ct_csts c3 AND NOT NVME_CSTS_SHST_CMPLT \<rparr> else c3)"

section \<open>Creation, keep alive, deletion\<close>

definition newController :: "u16 \<Rightarrow> u16 \<Rightarrow> ConnectCommand \<Rightarrow> ConnectData \<Rightarrow> nvmeController \<times> u16" where
  "newController qid controllerID cmd connectData =
     (let hostID = (case uuid_FromBytes (string_bytes (cd_HostID connectData)) of
            None \<Rightarrow> replicate 16 0 | Some u \<Rightarrow> u);
          kato = int (unat (con_Kato cmd)) * Millisecond;
          kato = (if kato = 0 then nvmetDiscoveryKatoMsec else kato)
      in (\<lparr> ct_hostNqn = cd_HostNqn connectData, ct_id = qid, ct_controllerID = controllerID,
            ct_hostid = uuid_String hostID, ct_cap = initCap, ct_cc = 0, ct_csts = 0, ct_kato = kato,
            ct_katoTimer = kato, ct_keepAliveExpired = False, ct_handlerRunning = True,
            ct_aenBitEnabled = False, ct_rae = False, ct_pending = [], ct_cancelled = False \<rparr>,
          NVME_SC_SUCCESS))"

definition katoTimer_fires :: "nvmeController \<Rightarrow> nvmeController" where
  "katoTimer_fires ctrl =
     (if ct_handlerRunning ctrl then
        if ct_csts ctrl AND NVME_CSTS_CFS = 0
        then ctrl\<lparr> ct_csts := ct_csts ctrl OR NVME_CSTS_CFS, ct_keepAliveExpired := True, ct_handlerRunning := False \<rparr>
        else ctrl\<lparr> ct_handlerRunning := False \<rparr>
      else ctrl)"

definition resetKatoTimer :: "nvmeController \<Rightarrow> nvmeController" where
  "resetKatoTimer ctrl = ctrl\<lparr> ct_katoTimer := ct_kato ctrl \<rparr>"

definition setKato :: "int \<Rightarrow> nvmeController \<Rightarrow> nvmeController" where
  "setKato kato ctrl = ctrl\<lparr> ct_kato := kato \<rparr>"

definition ctrl_delete :: "nvmeController \<Rightarrow> nvmeController" where
  "ctrl_delete ctrl = ctrl\<lparr> ct_cancelled := True, ct_handlerRunning := False \<rparr>"

section \<open>Asynchronous events\<close>

record NvmetAsyncEvent =
  ev_hostNqn :: string
  ev_eventType :: u8
  ev_eventInfo :: u8
  ev_logPage :: u8

definition event_result :: "NvmetAsyncEvent \<Rightarrow> u32" where
  "event_result aen = ucast (ev_eventType aen) OR push_bit 8 (ucast (ev_eventInfo aen))
     OR push_bit 16 (ucast (ev_logPage aen))"

definition setAENValue :: "u32 \<Rightarrow> nvmeController \<Rightarrow> nvmeController" where
  "setAENValue value ctrl = ctrl\<lparr> ct_aenBitEnabled := (push_bit 31 1 AND value \<noteq> 0) \<rparr>"

definition setRetainAsynchronousEvent :: "bool \<Rightarrow> nvmeController \<Rightarrow> nvmeController" where
  "setRetainAsynchronousEvent rae ctrl = ctrl\<lparr> ct_rae := rae \<rparr>"

definition registerAsyncEventRequest :: "u16 \<Rightarrow> Request \<Rightarrow> nvmeController \<Rightarrow> nvmeController \<times> Request list" where
  "registerAsyncEventRequest qID request ctrl =
     (if length (ct_pending ctrl) \<ge> maxPendingAsyncEventsRequestsLimit then
        (ctrl, [SetCompletion (NewCompletion (CommandID request) qID (NVME_SC_ASYNC_LIMIT OR NVME_SC_DNR)) request])
      else (ctrl\<lparr> ct_pending := ct_pending ctrl @ [request] \<rparr>, []))"

text \<open>\<^verbatim>\<open>NotifyAsyncEvent\<close>: the event it puts on the channel, if notifications are enabled.\<close>

definition NotifyAsyncEvent :: "string \<Rightarrow> nvmeController \<Rightarrow> NvmetAsyncEvent option" where
  "NotifyAsyncEvent hostNqn ctrl =
     (if \<not> ct_aenBitEnabled ctrl then None
      else Some \<lparr> ev_hostNqn = hostNqn, ev_eventType = 2, ev_eventInfo = 0xf0, ev_logPage = NVME_LOG_DISC \<rparr>)"

definition handleAENEvent :: "u16 \<Rightarrow> NvmetAsyncEvent \<Rightarrow> nvmeController \<Rightarrow> nvmeController \<times> Request list" where
  "handleAENEvent qID event ctrl =
     (case ct_pending ctrl of
        request # rest \<Rightarrow>
          (ctrl\<lparr> ct_pending := rest \<rparr>,
           [SetCompletion (with_result (setU32Result (event_result event))
              (NewCompletion (CommandID request) qID NVME_SC_SUCCESS)) request])
      | [] \<Rightarrow> (ctrl, []))"

section \<open>The controller as a state machine\<close>

text \<open>
  The operations the queue and the goroutines call, one at a time (each holds the lock or runs in the receive
  loop), and the runs of a controller: \<open>ctrl_run qID c es c' out\<close> applies the events \<open>es\<close> in order and collects
  the completed requests.
\<close>

datatype ctrl_event =
    WriteCC u32 | TimerFires | KeepAlive | SetKato int | SetAEN u32 | RetainAEN bool
  | Register Request | Event NvmetAsyncEvent

fun ctrl_step :: "u16 \<Rightarrow> ctrl_event \<Rightarrow> nvmeController \<Rightarrow> nvmeController \<times> Request list" where
  "ctrl_step q (WriteCC v) c = (updateControllerConfiguration v c, [])"
| "ctrl_step q TimerFires c = (katoTimer_fires c, [])"
| "ctrl_step q KeepAlive c = (resetKatoTimer c, [])"
| "ctrl_step q (SetKato k) c = (setKato k c, [])"
| "ctrl_step q (SetAEN v) c = (setAENValue v c, [])"
| "ctrl_step q (RetainAEN b) c = (setRetainAsynchronousEvent b c, [])"
| "ctrl_step q (Register r) c = registerAsyncEventRequest q r c"
| "ctrl_step q (Event e) c = handleAENEvent q e c"

inductive ctrl_run :: "u16 \<Rightarrow> nvmeController \<Rightarrow> ctrl_event list \<Rightarrow> nvmeController \<Rightarrow> Request list \<Rightarrow> bool" where
  ctrl_run_Nil: "ctrl_run q c [] c []"
| ctrl_run_step: "ctrl_run q c es c1 out \<Longrightarrow> ctrl_step q e c1 = (c2, out') \<Longrightarrow> ctrl_run q c (es @ [e]) c2 (out @ out')"

text \<open>
  The registers a host can see: ready only while enabled, no status bits but RDY, CFS and SHST_CMPLT, and never
  ready after a completed shutdown; and a bounded queue of event requests.
\<close>

definition csts_values :: "u32 set" where
  "csts_values = {0, NVME_CSTS_RDY, NVME_CSTS_CFS, NVME_CSTS_RDY OR NVME_CSTS_CFS, NVME_CSTS_SHST_CMPLT,
     NVME_CSTS_SHST_CMPLT OR NVME_CSTS_CFS}"

definition ctrl_inv :: "nvmeController \<Rightarrow> bool" where
  "ctrl_inv c \<longleftrightarrow> ct_csts c \<in> csts_values \<and> (ct_csts c AND NVME_CSTS_RDY \<noteq> 0 \<longrightarrow> nvmetCCEn (ct_cc c)) \<and>
     length (ct_pending c) \<le> maxPendingAsyncEventsRequestsLimit \<and> ct_cap c = initCap"

lemma ctrl_inv_new: "newController qid cid cmd cd = (c, st) \<Longrightarrow> ctrl_inv c"
  by (auto simp: newController_def ctrl_inv_def csts_values_def Let_def)

lemma nvmetCC_0 [simp]: "\<not> nvmetCCEn 0" "\<not> nvmetCCShn 0"
  by (simp_all add: nvmetCCEn_def nvmetCCShn_def)

lemma csts_clear:
  "x \<in> csts_values \<Longrightarrow> x AND NOT 1 \<in> csts_values" "x \<in> csts_values \<Longrightarrow> (x AND NOT 1) AND 1 = 0"
  "x \<in> csts_values \<Longrightarrow> (x AND NOT 1) OR 8 \<in> csts_values" "x \<in> csts_values \<Longrightarrow> ((x AND NOT 1) OR 8) AND 1 = 0"
  "x \<in> csts_values \<Longrightarrow> x AND NOT 8 \<in> csts_values" "x \<in> csts_values \<Longrightarrow> (x AND NOT 8) AND 1 = x AND 1"
  "x \<in> csts_values \<Longrightarrow> x OR 2 \<in> csts_values" "x \<in> csts_values \<Longrightarrow> (x OR 2) AND 1 = x AND 1"
  by (auto simp: csts_values_def)

text \<open>What is left to show of the invariant after a configuration write: status values and ready only if enabled.\<close>

definition reg_inv :: "nvmeController \<Rightarrow> bool" where
  "reg_inv c \<longleftrightarrow> ct_csts c \<in> csts_values \<and> (ct_csts c AND NVME_CSTS_RDY \<noteq> 0 \<longrightarrow> nvmetCCEn (ct_cc c))"

lemma start_reg_inv: "nvmetCCEn (ct_cc c) \<Longrightarrow> reg_inv (start c)" "ct_cc (start c) = ct_cc c"
  by (auto simp: start_def reg_inv_def csts_values_def)

lemma clear_reg_inv:
  assumes "ct_csts c \<in> csts_values"
  shows "reg_inv (clear c)" "ct_cc (clear c) = 0"
    "reg_inv (let d = clear c in d\<lparr> ct_csts := ct_csts d OR NVME_CSTS_SHST_CMPLT \<rparr>)"
  using csts_clear(1-4) [OF assms] by (simp_all add: clear_def reg_inv_def)

lemma updateControllerConfiguration_reg_inv:
  assumes "reg_inv c" shows "reg_inv (updateControllerConfiguration v c)"
proof -
  define c0 where "c0 = c\<lparr> ct_cc := v \<rparr>"
  define c1 where "c1 = (if nvmetCCEn (ct_cc c0) \<and> \<not> nvmetCCEn (ct_cc c) then start c0 else c0)"
  define c2 where "c2 = (if \<not> nvmetCCEn (ct_cc c1) \<and> nvmetCCEn (ct_cc c) then clear c1 else c1)"
  define c3 where "c3 = (if nvmetCCShn (ct_cc c2) \<and> \<not> nvmetCCShn (ct_cc c)
    then (let d = clear c2 in d\<lparr> ct_csts := ct_csts d OR NVME_CSTS_SHST_CMPLT \<rparr>) else c2)"
  have cs: "ct_csts c0 \<in> csts_values" "ct_csts c0 AND 1 \<noteq> 0 \<Longrightarrow> nvmetCCEn (ct_cc c)"
    using assms by (auto simp: c0_def reg_inv_def)
  have c1: "ct_csts c1 \<in> csts_values" "ct_csts c1 AND 1 \<noteq> 0 \<Longrightarrow> nvmetCCEn (ct_cc c) \<or> nvmetCCEn (ct_cc c1)"
    using cs start_reg_inv [of c0] by (auto simp: c1_def reg_inv_def)
  have c2: "reg_inv c2"
    using c1 clear_reg_inv [OF c1(1)] by (auto simp: c2_def reg_inv_def)
  then have c3: "reg_inv c3"
    using clear_reg_inv(3) [of c2] by (auto simp: c3_def reg_inv_def [of c2])
  then have "reg_inv (c3\<lparr> ct_csts := ct_csts c3 AND NOT NVME_CSTS_SHST_CMPLT \<rparr>)"
    using csts_clear(5,6) [of "ct_csts c3"] by (simp add: reg_inv_def)
  moreover have "updateControllerConfiguration v c =
      (if \<not> nvmetCCShn (ct_cc c3) \<and> nvmetCCShn (ct_cc c)
       then c3\<lparr> ct_csts := ct_csts c3 AND NOT NVME_CSTS_SHST_CMPLT \<rparr> else c3)"
    by (simp only: updateControllerConfiguration_def Let_def c0_def c1_def c2_def c3_def)
  ultimately show ?thesis using c3 by simp
qed

lemma updateControllerConfiguration_frame [simp]:
  "ct_pending (updateControllerConfiguration v c) = ct_pending c"
  "ct_cap (updateControllerConfiguration v c) = ct_cap c"
  by (simp_all add: updateControllerConfiguration_def start_def clear_def Let_def)

lemma ctrl_step_inv: "ctrl_inv c \<Longrightarrow> ctrl_step q e c = (c', out) \<Longrightarrow> ctrl_inv c'"
proof (cases e)
  case (WriteCC v)
  assume "ctrl_inv c" "ctrl_step q e c = (c', out)"
  then show ?thesis
    using updateControllerConfiguration_reg_inv [of c v] WriteCC by (auto simp: ctrl_inv_def reg_inv_def)
next
  case TimerFires
  assume "ctrl_inv c" "ctrl_step q e c = (c', out)"
  then show ?thesis
    using csts_clear(7,8) [of "ct_csts c"] TimerFires by (auto simp: ctrl_inv_def katoTimer_fires_def split: if_splits)
qed (auto simp: ctrl_inv_def resetKatoTimer_def setKato_def setAENValue_def setRetainAsynchronousEvent_def
    registerAsyncEventRequest_def handleAENEvent_def split: if_splits list.splits)

lemma ctrl_run_inv: "ctrl_run q c es c' out \<Longrightarrow> ctrl_inv c \<Longrightarrow> ctrl_inv c'"
  by (induction rule: ctrl_run.induct) (auto intro: ctrl_step_inv)

text \<open>
  C21. Whatever a host writes and whenever timers fire, a controller that was created by a connect command is
  ready only while it is enabled, never reports ready together with a completed shutdown, reports no other
  status bits, never holds more than four pending event requests, and keeps its capabilities.
\<close>

theorem controller_registers_safe:
  assumes "newController qid cid cmd cd = (c, st)" "ctrl_run q c es c' out"
  shows "(ct_csts c' AND NVME_CSTS_RDY \<noteq> 0 \<longrightarrow> nvmetCCEn (ct_cc c') \<and> ct_csts c' AND NVME_CSTS_SHST_CMPLT = 0) \<and>
     ct_csts c' \<in> csts_values \<and> length (ct_pending c') \<le> maxPendingAsyncEventsRequestsLimit \<and> ct_cap c' = initCap"
  using ctrl_run_inv [OF assms(2) ctrl_inv_new [OF assms(1)]]
  by (auto simp: ctrl_inv_def csts_values_def)

theorem controller_registers_safe_witness:
  "\<exists>c'. ctrl_run 0 (fst (newController 1 1 zero_ConnectCommand zero_ConnectData))
       [WriteCC 0x460001, TimerFires] c' [] \<and> ct_csts c' = 3 \<and> nvmetCCEn (ct_cc c')"
proof -
  let ?c = "fst (newController 1 1 zero_ConnectCommand zero_ConnectData)"
  let ?c1 = "updateControllerConfiguration 0x460001 ?c"
  have run: "ctrl_run 0 ?c [WriteCC 0x460001, TimerFires] (katoTimer_fires ?c1) []"
    using ctrl_run_step [OF ctrl_run_step [OF ctrl_run_Nil, of 0 "WriteCC 0x460001" ?c ?c1 "[]"], of TimerFires] by simp
  have st: "ct_csts (katoTimer_fires ?c1) = 3"
    by (simp add: newController_def updateControllerConfiguration_def katoTimer_fires_def start_def nvmetCCEn_def
        nvmetCCShn_def nvmetCCIOSqes_def nvmetCCIOCqes_def nvmetCCMps_def nvmetCCAms_def nvmetCCcss_def Let_def)
  with controller_registers_safe [OF prod.collapse [symmetric] run] run show ?thesis by auto
qed

section \<open>Event requests are served in order\<close>

text \<open>The commands of the event requests a run accepted, and of those it answered with an event.\<close>

fun accepted :: "nat \<Rightarrow> ctrl_event list \<Rightarrow> u16 list" where
  "accepted n [] = []"
| "accepted n (Register r # es) =
     (if n < maxPendingAsyncEventsRequestsLimit then CommandID r # accepted (Suc n) es else accepted n es)"
| "accepted n (Event e # es) = accepted (n - 1) es"
| "accepted n (_ # es) = accepted n es"

definition answered :: "Request list \<Rightarrow> u16 list" where
  "answered out = map CommandID (filter (\<lambda>r. \<exists>c. Completion_of r = Some c \<and> cqe_Status c = 0) out)"

fun accepted_pending :: "nat \<Rightarrow> ctrl_event list \<Rightarrow> nat" where
  "accepted_pending n [] = n"
| "accepted_pending n (Register r # es) =
     accepted_pending (if n < maxPendingAsyncEventsRequestsLimit then Suc n else n) es"
| "accepted_pending n (Event e # es) = accepted_pending (n - 1) es"
| "accepted_pending n (_ # es) = accepted_pending n es"

lemma accepted_snoc: "accepted n (es @ [e]) = accepted n es @ accepted (accepted_pending n es) [e]"
  by (induction n es rule: accepted_pending.induct) auto

lemma accepted_pending_snoc: "accepted_pending n (es @ [e]) = accepted_pending (accepted_pending n es) [e]"
  by (induction n es rule: accepted_pending.induct) auto

lemma answered_append [simp]: "answered (xs @ ys) = answered xs @ answered ys"
  by (simp add: answered_def)

lemma cqe_Status_NewCompletion [simp]:
  "cqe_Status (NewCompletion i q s) = push_bit 1 s" "cqe_CommandID (NewCompletion i q s) = i"
  "cqe_SqID (NewCompletion i q s) = q"
  by (simp_all add: NewCompletion_def)

lemma answered_register:
  "registerAsyncEventRequest q r c = (c', out) \<Longrightarrow> answered out = []"
  by (auto simp: registerAsyncEventRequest_def answered_def split: if_splits)

lemma answered_event:
  "handleAENEvent q e c = (c', out) \<Longrightarrow> answered out @ map CommandID (ct_pending c') = map CommandID (ct_pending c)"
  by (auto simp: handleAENEvent_def answered_def split: list.splits)

lemma ctrl_run_fifo:
  "ctrl_run q c es c' out \<Longrightarrow> ct_pending c = [] \<Longrightarrow>
     answered out @ map CommandID (ct_pending c') = accepted 0 es \<and> length (ct_pending c') = accepted_pending 0 es"
proof (induction rule: ctrl_run.induct)
  case (ctrl_run_step q c es c1 out e c2 out')
  then have IH: "answered out @ map CommandID (ct_pending c1) = accepted 0 es"
    "length (ct_pending c1) = accepted_pending 0 es" by simp_all
  show ?case
  proof (cases e)
    case (Register r)
    with ctrl_run_step IH answered_register [of q r c1 c2 out'] show ?thesis
      by (auto simp: accepted_snoc accepted_pending_snoc registerAsyncEventRequest_def split: if_splits)
  next
    case (Event ev)
    with ctrl_run_step IH answered_event [of q ev c1 c2 out'] show ?thesis
      by (auto simp: accepted_snoc accepted_pending_snoc handleAENEvent_def split: list.splits)
  qed (use ctrl_run_step IH in \<open>auto simp: accepted_snoc accepted_pending_snoc katoTimer_fires_def resetKatoTimer_def
      setKato_def setAENValue_def setRetainAsynchronousEvent_def answered_def\<close>)
qed (simp add: answered_def)



end
