(* ===== verification/Target.thy ===== *)
theory Target
  imports Controller Nvme_Id
begin

text \<open>
  The target side of a discovery connection: the NVMe queue (\<^verbatim>\<open>src/pkg/nvme/nvme_queue.go\<close>), the handlers of the
  fabrics commands (fabrics.go), of the discovery commands (discovery.go, nvme_data_types.go) and the TCP queue
  that reads commands and writes responses (tcp_queue.go).

  The discovery subsystem is an interface of the source without an implementation there: the function that fills
  a log page is the argument \<open>fill\<close>; the controllers that were registered are recorded in the state. A handler
  appends what it hands to the transport to \<open>q_responses\<close>, in the order of the channel; \<open>None\<close> is a panic.
\<close>

section \<open>Queue state\<close>

record nvmeQueue =
  q_id :: u16
  q_cq_qID :: u16
  q_sq_ctrl :: "nvmeController option"
  q_sq_qID :: u16
  q_sq_size :: u16
  q_sq_sqhd :: u32
  q_sq_sqhdDisabled :: bool
  q_controllerID :: u16
  q_serviceID :: string
  q_registered :: "u16 list"
  q_watch :: bool
  q_responses :: "Request list"

definition newNvmeTCPQueue :: "u16 \<Rightarrow> string \<Rightarrow> u16 \<Rightarrow> nvmeQueue" where
  "newNvmeTCPQueue qid serviceID controllerID =
     \<lparr> q_id = qid, q_cq_qID = 0, q_sq_ctrl = None, q_sq_qID = 0, q_sq_size = 0, q_sq_sqhd = 0,
       q_sq_sqhdDisabled = False, q_controllerID = controllerID, q_serviceID = serviceID, q_registered = [],
       q_watch = False, q_responses = [] \<rparr>"

type_synonym fill_log_page = "u64 \<Rightarrow> u32 \<Rightarrow> string \<Rightarrow> NvmefDiscRspPageEntry list \<times> u32 \<times> u64"

definition completeRequest :: "Request \<Rightarrow> Completion \<Rightarrow> nvmeQueue \<Rightarrow> nvmeQueue" where
  "completeRequest request completion q =
     q\<lparr> q_responses := q_responses q @ [SetCompletion completion request] \<rparr>"

abbreviation complete_status :: "Request \<Rightarrow> u16 \<Rightarrow> nvmeQueue \<Rightarrow> nvmeQueue" where
  "complete_status request status q \<equiv>
     completeRequest request (NewCompletion (CommandID request) (q_sq_qID q) status) q"

definition inlineSize :: u32 where
  "inlineSize = 16 * 4096"

definition hasKeyedSgls :: bool where
  "hasKeyedSgls = False"

datatype parse_error = ParserError u16 | UnpackError

section \<open>Parsing\<close>

definition nvmetParseConnectCmd :: "bytes \<Rightarrow> parse_error + Request" where
  "nvmetParseConnectCmd pdu =
     (case decode ConnectCommand_layout of_ConnectCommand pdu of
        None \<Rightarrow> Inl UnpackError
      | Some cmd \<Rightarrow>
          if con_Opcode cmd \<noteq> nvme_fabrics_command then Inl (ParserError (NVME_SC_INVALID_OPCODE OR NVME_SC_DNR))
          else if con_FcType cmd \<noteq> nvme_fabrics_type_connect
          then Inl (ParserError (NVME_SC_INVALID_OPCODE OR NVME_SC_DNR))
          else Inr (AdminConnectRequest
            (zero_AbstractRequest\<lparr> ar_DataLength := 1024, ar_CmdID := con_CommandID cmd \<rparr>) cmd))"

definition nvmetParseCommonCmd :: "bytes \<Rightarrow> Request option" where
  "nvmetParseCommonCmd pdu =
     (case decode CommonCommand_layout of_CommonCommand pdu of
        None \<Rightarrow> None
      | Some cmd \<Rightarrow> Some (CommonRequest
          (zero_AbstractRequest\<lparr> ar_DataLength := 0, ar_CmdID := cmd_CommandID cmd \<rparr>) cmd pdu))"

definition nvmetParseFabricsCommand :: "bytes \<Rightarrow> parse_error + Request" where
  "nvmetParseFabricsCommand pdu =
     (let fctype = pdu ! 4 in
      if fctype = nvme_fabrics_type_property_set then
        (case decode PropertySetCommand_layout of_PropertySetCommand pdu of
           None \<Rightarrow> Inl UnpackError
         | Some cmd \<Rightarrow> Inr (NvmefPropertySetRequest (zero_AbstractRequest\<lparr> ar_CmdID := ps_CommandID cmd \<rparr>) cmd))
      else if fctype = nvme_fabrics_type_property_get then
        (case decode PropertyGetCommand_layout of_PropertyGetCommand pdu of
           None \<Rightarrow> Inl UnpackError
         | Some cmd \<Rightarrow> Inr (NvmefPropertyGetRequest (zero_AbstractRequest\<lparr> ar_CmdID := pg_CommandID cmd \<rparr>) cmd))
      else Inl (ParserError (NVME_SC_INVALID_OPCODE OR NVME_SC_DNR)))"

abbreviation invalid_field :: "parse_error + Request" where
  "invalid_field \<equiv> Inl (ParserError (NVME_SC_INVALID_FIELD OR NVME_SC_DNR))"

definition parse_common_as :: "(AbstractRequest \<Rightarrow> CommonCommand \<Rightarrow> Request) \<Rightarrow> bytes \<Rightarrow> parse_error + Request" where
  "parse_common_as mk pdu =
     (case decode CommonCommand_layout of_CommonCommand pdu of
        None \<Rightarrow> invalid_field
      | Some cmd \<Rightarrow> Inr (mk (zero_AbstractRequest\<lparr> ar_CmdID := cmd_CommandID cmd \<rparr>) cmd))"

definition nvmetParseDiscoveryCommand :: "nvmeController \<Rightarrow> u8 \<Rightarrow> bytes \<Rightarrow> parse_error + Request" where
  "nvmetParseDiscoveryCommand ctrl opcode pdu =
     (if ct_csts ctrl AND NVME_CSTS_RDY = 0 then Inl (ParserError (NVME_SC_INVALID_OPCODE OR NVME_SC_DNR))
      else if opcode = nvme_admin_identify then
        (case decode IdentifyCommand_layout of_IdentifyCommand pdu of
           None \<Rightarrow> invalid_field
         | Some cmd \<Rightarrow> Inr (NvmeIdentifyDiscoveryRequest
             (zero_AbstractRequest\<lparr> ar_CmdID := idc_CommandID cmd, ar_DataLength := 4096 \<rparr>) cmd))
      else if opcode = nvme_admin_get_log_page then
        (case decode GetLogPageCommand_layout of_GetLogPageCommand pdu of
           None \<Rightarrow> invalid_field
         | Some cmd \<Rightarrow>
            (case decode CommonCommand_layout of_CommonCommand pdu of
               None \<Rightarrow> invalid_field
             | Some common \<Rightarrow>
                 if lp_Lid cmd \<noteq> NVME_LOG_DISC then Inl (ParserError (NVME_SC_INVALID_LOG_PAGE OR NVME_SC_DNR))
                 else Inr (NvmeGetDiscoveryLogPageRequest
                   (zero_AbstractRequest\<lparr> ar_CmdID := lp_CommandID cmd, ar_DataLength := GetLogPageLen cmd \<rparr>)
                   cmd common)))
      else if opcode = nvme_admin_keep_alive then parse_common_as KeepAliveRequest pdu
      else if opcode = nvme_admin_set_features then parse_common_as nvmeDiscoverySetFeaturesRequest pdu
      else if opcode = nvme_admin_get_features then parse_common_as nvmeDiscoveryGetFeaturesRequest pdu
      else if opcode = nvme_admin_async_event then parse_common_as AsyncEventRequest pdu
      else Inl (ParserError (NVME_SC_INVALID_OPCODE OR NVME_SC_SUCCESS)))"

text \<open>
  \<^verbatim>\<open>nvmetRequestInit\<close>: the parsed request, or the error after the command was completed with a status
  (\<open>Inl\<close> the status of that completion, shifted back). A plain unpack error leaves the status 0.
\<close>

definition fail_common :: "bytes \<Rightarrow> u16 \<Rightarrow> nvmeQueue \<Rightarrow> (nvmeQueue \<times> (u16 + Request)) option" where
  "fail_common pdu status q =
     map_option (\<lambda>request. (complete_status request status q, Inl (drop_bit 1 (push_bit 1 status))))
       (nvmetParseCommonCmd pdu)"

definition nvmetRequestInit :: "bytes \<Rightarrow> nvmeQueue \<Rightarrow> (nvmeQueue \<times> (u16 + Request)) option" where
  "nvmetRequestInit pdu q =
     (if length pdu < 2 then None
      else let opcode = pdu ! 0; flags = pdu ! 1 in
        if flags AND (1 OR 2) \<noteq> 0 then fail_common pdu (NVME_SC_INVALID_FIELD OR NVME_SC_DNR) q
        else if flags AND (64 OR 128) \<noteq> 64 then fail_common pdu (NVME_SC_INVALID_FIELD OR NVME_SC_DNR) q
        else case (case q_sq_ctrl q of
               None \<Rightarrow> nvmetParseConnectCmd pdu
             | Some ctrl \<Rightarrow> if opcode = nvme_fabrics_command then nvmetParseFabricsCommand pdu
                            else nvmetParseDiscoveryCommand ctrl opcode pdu) of
            Inl (ParserError status) \<Rightarrow> fail_common pdu status q
          | Inl UnpackError \<Rightarrow> fail_common pdu 0 q
          | Inr request \<Rightarrow> Some (q, Inr request))"

section \<open>Connect\<close>

definition createNvmeController ::
    "ConnectCommand \<Rightarrow> ConnectData \<Rightarrow> nvmeQueue \<Rightarrow> parse_error + nvmeController \<times> nvmeQueue" where
  "createNvmeController cmd connectData q =
     (case newController (q_id q) (q_controllerID q) cmd connectData of (ctrl, status) \<Rightarrow>
        if status \<noteq> NVME_SC_SUCCESS then Inl (ParserError status)
        else if con_SqSize cmd = 0 then Inl (ParserError (NVME_SC_CONNECT_INVALID_PARAM OR NVME_SC_DNR))
        else let sqhdDisabled = (con_CatTr cmd AND 4 \<noteq> 0) in
          Inr (ctrl, q\<lparr> q_sq_ctrl := Some ctrl, q_sq_qID := con_QID cmd, q_cq_qID := con_QID cmd,
                       q_sq_size := con_SqSize cmd, q_sq_sqhdDisabled := sqhdDisabled,
                       q_sq_sqhd := (if sqhdDisabled then 0xffff else 0),
                       q_registered := q_registered q @ [ct_id ctrl], q_watch := True \<rparr>))"

definition connect_error :: "Request \<Rightarrow> u16 \<Rightarrow> nvmeQueue \<Rightarrow> nvmeQueue" where
  "connect_error request status q =
     completeRequest request
       (with_result (setU32Result 1) (NewCompletion (CommandID request) (q_sq_qID q) status)) q"

definition execute_connect :: "AbstractRequest \<Rightarrow> ConnectCommand \<Rightarrow> nvmeQueue \<Rightarrow> nvmeQueue option" where
  "execute_connect a cmd q =
     (let request = AdminConnectRequest a cmd;
          invalid = NVME_SC_CONNECT_INVALID_PARAM OR NVME_SC_DNR in
      case ar_sgl a of
        None \<Rightarrow> None
      | Some s \<Rightarrow> Some
          (case decode ConnectData_layout of_ConnectData (flat s) of
             None \<Rightarrow> connect_error request invalid q
           | Some cd0 \<Rightarrow>
               let cd = cd0\<lparr> cd_SubsysNqn := TrimRightNul (cd_SubsysNqn cd0) \<rparr> in
               if cd_SubsysNqn cd \<noteq> DiscoverySubsysName then connect_error request invalid q
               else let cd' = cd\<lparr> cd_HostNqn := TrimRightNul (cd_HostNqn cd) \<rparr> in
               if uuid_FromBytes (string_bytes (cd_HostID cd')) = None then connect_error request invalid q
               else if con_RecFmt cmd \<noteq> 0 then complete_status request (NVME_SC_CONNECT_FORMAT OR NVME_SC_DNR) q
               else if cd_CntlID cd' \<noteq> 0xffff then connect_error request invalid q
               else case createNvmeController cmd cd' q of
                   Inl (ParserError status) \<Rightarrow> complete_status request status q
                 | Inl UnpackError \<Rightarrow> complete_status request invalid q
                 | Inr (ctrl, q') \<Rightarrow> completeRequest request
                     (with_result (setU16Result (ct_controllerID ctrl))
                        (NewCompletion (CommandID request) (q_sq_qID q') NVME_SC_SUCCESS)) q'))"

section \<open>Properties\<close>

text \<open>A handler that needs the controller panics on a queue that has none.\<close>

definition with_ctrl :: "nvmeQueue \<Rightarrow> (nvmeController \<Rightarrow> nvmeQueue) \<Rightarrow> nvmeQueue option" where
  "with_ctrl q f = map_option f (q_sq_ctrl q)"

definition execute_property_set :: "AbstractRequest \<Rightarrow> PropertySetCommand \<Rightarrow> nvmeQueue \<Rightarrow> nvmeQueue option" where
  "execute_property_set a cmd q =
     (let request = NvmefPropertySetRequest a cmd;
          invalid = NVME_SC_INVALID_FIELD OR NVME_SC_SUCCESS in
      if ps_Attrib cmd AND 1 = 0 then
        if ps_Offset cmd = NVME_REG_CC then
          with_ctrl q (\<lambda>ctrl. complete_status request NVME_SC_SUCCESS
            (q\<lparr> q_sq_ctrl := Some (updateControllerConfiguration (ucast (ps_Value cmd)) ctrl) \<rparr>))
        else Some (complete_status request invalid q)
      else Some (complete_status request invalid q))"

definition property_value :: "nvmeController \<Rightarrow> PropertyGetCommand \<Rightarrow> u64 \<times> u16" where
  "property_value ctrl cmd =
     (let invalid = NVME_SC_INVALID_FIELD OR NVME_SC_SUCCESS in
      if pg_Attrib cmd AND 1 \<noteq> 0 then
        if pg_Offset cmd = NVME_REG_CAP then (ct_cap ctrl, NVME_SC_SUCCESS) else (0, invalid)
      else if pg_Offset cmd = NVME_REG_VS then (of_int (nvmeVS 1 3 0), NVME_SC_SUCCESS)
      else if pg_Offset cmd = NVME_REG_CC then (ucast (ct_cc ctrl), NVME_SC_SUCCESS)
      else if pg_Offset cmd = NVME_REG_CSTS then (ucast (ct_csts ctrl), NVME_SC_SUCCESS)
      else (0, invalid))"

definition execute_property_get :: "AbstractRequest \<Rightarrow> PropertyGetCommand \<Rightarrow> nvmeQueue \<Rightarrow> nvmeQueue option" where
  "execute_property_get a cmd q =
     with_ctrl q (\<lambda>ctrl.
       let request = NvmefPropertyGetRequest a cmd;
           (value, status) = property_value ctrl cmd
       in completeRequest request
            (with_result (setU64Result value) (NewCompletion (CommandID request) (q_sq_qID q) status)) q)"

section \<open>Features, keep alive and events\<close>

definition nvmeAENCfgDiscChange :: u32 where
  "nvmeAENCfgDiscChange = push_bit 31 1"

definition nvmetSetFeaturesKato :: "Request \<Rightarrow> CommonCommand \<Rightarrow> nvmeQueue \<Rightarrow> nvmeQueue option" where
  "nvmetSetFeaturesKato request cmd q =
     with_ctrl q (\<lambda>ctrl.
       let ctrl' = setKato (int (unat (cmd_Cdw11 cmd)) * Millisecond) ctrl
       in completeRequest request
            (with_result (setU32Result (of_int (go_div (ct_kato ctrl') 1000000000)))
               (NewCompletion (CommandID request) (q_sq_qID q) NVME_SC_SUCCESS))
            (q\<lparr> q_sq_ctrl := Some ctrl' \<rparr>))"

definition nvmetSetFeaturesAsyncEvent :: "u32 \<Rightarrow> Request \<Rightarrow> CommonCommand \<Rightarrow> nvmeQueue \<Rightarrow> nvmeQueue option" where
  "nvmetSetFeaturesAsyncEvent msk request cmd q =
     (let value = cmd_Cdw11 cmd in
      if value AND NOT msk \<noteq> 0 then Some (complete_status request (NVME_SC_INVALID_FIELD OR NVME_SC_DNR) q)
      else with_ctrl q (\<lambda>ctrl.
        completeRequest request
          (with_result (setU32Result value) (NewCompletion (CommandID request) (q_sq_qID q) NVME_SC_SUCCESS))
          (q\<lparr> q_sq_ctrl := Some (setAENValue value ctrl) \<rparr>)))"

definition execute_set_features :: "AbstractRequest \<Rightarrow> CommonCommand \<Rightarrow> nvmeQueue \<Rightarrow> nvmeQueue option" where
  "execute_set_features a cmd q =
     (let request = nvmeDiscoverySetFeaturesRequest a cmd in
      if cmd_Cdw10 cmd AND 0xff = NVME_FEAT_KATO then nvmetSetFeaturesKato request cmd q
      else if cmd_Cdw10 cmd AND 0xff = NVME_FEAT_ASYNC_EVENT
      then nvmetSetFeaturesAsyncEvent nvmeAENCfgDiscChange request cmd q
      else Some (complete_status request (NVME_SC_INVALID_FIELD OR NVME_SC_DNR) q))"

definition execute_get_features :: "AbstractRequest \<Rightarrow> CommonCommand \<Rightarrow> nvmeQueue \<Rightarrow> nvmeQueue option" where
  "execute_get_features a cmd q =
     (let request = nvmeDiscoveryGetFeaturesRequest a cmd;
          answer = (\<lambda>value. completeRequest request
            (with_result (setU32Result value) (NewCompletion (CommandID request) (q_sq_qID q) NVME_SC_SUCCESS)) q) in
      if cmd_Cdw10 cmd AND 0xff = NVME_FEAT_KATO then
        with_ctrl q (\<lambda>ctrl. answer (of_int (Milliseconds (ct_kato ctrl))))
      else if cmd_Cdw10 cmd AND 0xff = NVME_FEAT_ASYNC_EVENT then
        with_ctrl q (\<lambda>ctrl. answer (if ct_aenBitEnabled ctrl then push_bit 31 1 else 0))
      else Some (complete_status request (NVME_SC_INVALID_FIELD OR NVME_SC_DNR) q))"

definition execute_keep_alive :: "AbstractRequest \<Rightarrow> CommonCommand \<Rightarrow> nvmeQueue \<Rightarrow> nvmeQueue option" where
  "execute_keep_alive a cmd q =
     with_ctrl q (\<lambda>ctrl. complete_status (KeepAliveRequest a cmd) NVME_SC_SUCCESS
       (q\<lparr> q_sq_ctrl := Some (resetKatoTimer ctrl) \<rparr>))"

definition execute_async_event :: "AbstractRequest \<Rightarrow> CommonCommand \<Rightarrow> nvmeQueue \<Rightarrow> nvmeQueue option" where
  "execute_async_event a cmd q =
     with_ctrl q (\<lambda>ctrl. case registerAsyncEventRequest (q_sq_qID q) (AsyncEventRequest a cmd) ctrl of
       (ctrl', out) \<Rightarrow> q\<lparr> q_sq_ctrl := Some ctrl', q_responses := q_responses q @ out \<rparr>)"

section \<open>Identify\<close>

definition identify_data :: "nvmeController \<Rightarrow> IDCtrl" where
  "identify_data ctrl =
     zero_IDCtrl\<lparr> id_Fr := ''12345678'', id_Mdts := 0, id_CntlID := ct_controllerID ctrl,
       id_Ver := of_int (nvmeVS 1 3 0), id_Lpa := push_bit 2 1, id_Oaes := nvmeAENCfgDiscChange,
       id_Maxcmd := 1024,
       id_Sgls := (let s = 1; s = (if hasKeyedSgls then s OR push_bit 2 1 else s)
                   in if inlineSize > 0 then s OR push_bit 20 1 else s),
       id_SubNqn := overwrite 0 (take 256 (string_bytes DiscoverySubsysName)) (replicate 256 0) \<rparr>"

definition execute_identify :: "AbstractRequest \<Rightarrow> IdentifyCommand \<Rightarrow> nvmeQueue \<Rightarrow> nvmeQueue option" where
  "execute_identify a cmd q =
     do {
       ctrl \<leftarrow> q_sq_ctrl q;
       s \<leftarrow> ar_sgl a;
       buf \<leftarrow> Pack IDCtrl_layout (to_IDCtrl (identify_data ctrl));
       let (n, err, w) = Write buf (NewScatterListWriter s);
       let status = (if err = None then NVME_SC_SUCCESS else NVME_SC_SGL_INVALID_DATA OR NVME_SC_DNR);
       Some (complete_status (SetData (sw_sgl w) (NvmeIdentifyDiscoveryRequest a cmd)) status q)
     }"

section \<open>Get log page\<close>

definition retainAsynchronousEvent :: "CommonCommand \<Rightarrow> nvmeController \<Rightarrow> nvmeController" where
  "retainAsynchronousEvent common ctrl =
     setRetainAsynchronousEvent (cmd_Cdw10 common AND push_bit 15 1 \<noteq> 0) ctrl"

definition log_page_max_entries :: "u32 \<Rightarrow> u64 \<Rightarrow> u32" where
  "log_page_max_entries len offset =
     (if offset = 0 then (if len > 1024 then (len - 1024) div 1024 else 0) else len div 1024)"

text \<open>
  The header was already sent when the offset is not 0, so it is taken off the offset (in 64 bits, also when the
  offset lies inside the header).
\<close>

definition data_offset :: "u64 \<Rightarrow> u64" where
  "data_offset offset = (if offset > 0 then offset - 1024 else offset)"

text \<open>The writes of the reply: the header only when the corrected offset is 0, then the entries.\<close>

fun write_entries ::
    "NvmefDiscRspPageEntry list \<Rightarrow> scatterListWriter \<Rightarrow> (io_error option \<times> scatterListWriter) option" where
  "write_entries [] w = Some (None, w)"
| "write_entries (e # es) w =
     (case Pack NvmefDiscRspPageEntry_layout (to_NvmefDiscRspPageEntry e) of
        None \<Rightarrow> None
      | Some buf \<Rightarrow>
         (case Write buf w of (n, err, w') \<Rightarrow> if err = None then write_entries es w' else Some (err, w')))"

definition log_page_writes ::
    "u64 \<Rightarrow> DiscRspPageHdr \<Rightarrow> NvmefDiscRspPageEntry list \<Rightarrow> scatterListWriter \<Rightarrow>
       (io_error option \<times> scatterListWriter) option" where
  "log_page_writes offset header entries w =
     do {
       w1 \<leftarrow> (if offset = 0 then
                do { buf \<leftarrow> Pack DiscRspPageHdr_layout (to_DiscRspPageHdr header); Some (snd (snd (Write buf w))) }
              else Some w);
       write_entries entries w1
     }"

definition execute_get_log_page ::
    "fill_log_page \<Rightarrow> AbstractRequest \<Rightarrow> GetLogPageCommand \<Rightarrow> CommonCommand \<Rightarrow> nvmeQueue \<Rightarrow> nvmeQueue option" where
  "execute_get_log_page fill a cmd common q =
     do {
       let len = maxUint32 (GetLogPageLen cmd) 1024;
       let offset = GetLogPageOffset cmd;
       let numEntries = log_page_max_entries len offset;
       let offset = data_offset offset;
       ctrl \<leftarrow> q_sq_ctrl q;
       let (entries, numRec, genCounter) = fill offset numEntries (ct_hostNqn ctrl);
       let header = zero_DiscRspPageHdr\<lparr> dh_GenCtr := genCounter, dh_NumRec := ucast numRec, dh_RecFmt := 0 \<rparr>;
       s \<leftarrow> ar_sgl a;
       (err, w) \<leftarrow> log_page_writes offset header entries (NewScatterListWriter s);
       let q' = q\<lparr> q_sq_ctrl := Some (retainAsynchronousEvent common ctrl) \<rparr>;
       let status = (if err = None then NVME_SC_SUCCESS else NVME_SC_INTERNAL OR NVME_SC_DNR);
       Some (complete_status (SetData (sw_sgl w) (NvmeGetDiscoveryLogPageRequest a cmd common)) status q')
     }"

definition execute :: "fill_log_page \<Rightarrow> Request \<Rightarrow> nvmeQueue \<Rightarrow> nvmeQueue option" where
  "execute fill request q = (case request of
     AdminConnectRequest a cmd \<Rightarrow> execute_connect a cmd q
   | NvmefPropertySetRequest a cmd \<Rightarrow> execute_property_set a cmd q
   | NvmefPropertyGetRequest a cmd \<Rightarrow> execute_property_get a cmd q
   | NvmeIdentifyDiscoveryRequest a cmd \<Rightarrow> execute_identify a cmd q
   | NvmeGetDiscoveryLogPageRequest a cmd common \<Rightarrow> execute_get_log_page fill a cmd common q
   | KeepAliveRequest a cmd \<Rightarrow> execute_keep_alive a cmd q
   | FeaturesRequest a cmd \<Rightarrow> Some q
   | nvmeDiscoverySetFeaturesRequest a cmd \<Rightarrow> execute_set_features a cmd q
   | nvmeDiscoveryGetFeaturesRequest a cmd \<Rightarrow> execute_get_features a cmd q
   | AsyncEventRequest a cmd \<Rightarrow> execute_async_event a cmd q
   | CommonRequest _ _ _ \<Rightarrow> None)"

section \<open>The TCP queue\<close>

definition destroy :: "nvmeQueue \<Rightarrow> nvmeQueue" where
  "destroy q =
     (case q_sq_ctrl q of
        None \<Rightarrow> q\<lparr> q_watch := False \<rparr>
      | Some ctrl \<Rightarrow> q\<lparr> q_watch := False, q_registered := remove1 (ct_id ctrl) (q_registered q), q_sq_ctrl := None \<rparr>)"

definition target_pduValid :: "u8 \<Rightarrow> bool" where
  "target_pduValid pduType \<longleftrightarrow> pduType = nvme_tcp_icreq \<or> pduType = nvme_tcp_cmd"

text \<open>\<^verbatim>\<open>pduSize\<close> panics on other types; its caller tests \<^verbatim>\<open>pduValid\<close> before.\<close>

definition target_pduSize :: "u8 \<Rightarrow> nat option" where
  "target_pduSize pduType =
     (if pduType = nvme_tcp_icreq then Some 128 else if pduType = nvme_tcp_cmd then Some 72 else None)"

datatype recv_error = RecvEOF | BadType u8 | BadHlen u8 u8 | BadPlen | BadPfv u16 | BadHpda u8
  | ParseFailed | NonInlineData | InlineMapFailed

text \<open>A reader is the list of bytes that have arrived and were not read.\<close>

definition target_recvTCPHeader :: "bytes \<Rightarrow> recv_error + TCPHeaderType \<times> bytes" where
  "target_recvTCPHeader bs =
     (case Unpack TCPHeaderType_layout bs of
        None \<Rightarrow> Inl RecvEOF
      | Some (vs, bs') \<Rightarrow>
          let hdr = of_TCPHeaderType vs in
          if \<not> target_pduValid (th_Type hdr) then Inl (BadType (th_Type hdr))
          else if Some (unat (th_Hlen hdr)) \<noteq> target_pduSize (th_Type hdr) then Inl (BadHlen (th_Type hdr) (th_Hlen hdr))
          else Inr (hdr, bs'))"

definition target_nvmeConnect :: "bytes \<Rightarrow> recv_error + bytes \<times> bytes" where
  "target_nvmeConnect bs =
     (case target_recvTCPHeader bs of
        Inl e \<Rightarrow> Inl e
      | Inr (hdr, bs') \<Rightarrow>
          if th_Type hdr \<noteq> nvme_tcp_icreq then Inl (BadType (th_Type hdr))
          else case Unpack TCPIcReqPduType_layout bs' of
              None \<Rightarrow> Inl RecvEOF
            | Some (vs, bs'') \<Rightarrow>
                let icReq = of_TCPIcReqPduType vs in
                if th_Plen hdr \<noteq> 128 then Inl BadPlen
                else if icq_Pfv icReq \<noteq> 0 then Inl (BadPfv (icq_Pfv icReq))
                else if icq_Hpda icReq \<noteq> 0 then Inl (BadHpda (icq_Hpda icReq))
                else Inr (pack_or_nil TCPHeaderType_layout (to_TCPHeaderType
                       (zero_TCPHeaderType\<lparr> th_Type := nvme_tcp_icresp, th_Hlen := 128, th_Plen := 128 \<rparr>))
                     @ pack_or_nil TCPIcrespPdu_layout (to_TCPIcrespPdu
                       (zero_TCPIcrespPdu\<lparr> icr_Pfv := 0, icr_Maxdata := 0x10000 \<rparr>)), bs''))"

definition sendCqe :: "Completion \<Rightarrow> bytes" where
  "sendCqe cqe =
     pack_or_nil TCPHeaderType_layout (to_TCPHeaderType
       (zero_TCPHeaderType\<lparr> th_Hlen := 24, th_Plen := 24, th_Type := nvme_tcp_rsp \<rparr>))
     @ pack_or_nil Completion_layout (to_Completion cqe)"

text \<open>\<^verbatim>\<open>sendDataPdu\<close>: the length of the PDU is added up in 32 bits. A request without data would panic.\<close>

definition sendDataPdu :: "Request \<Rightarrow> bytes option" where
  "sendDataPdu r =
     (let hdr = zero_TCPHeaderType\<lparr> th_Type := nvme_tcp_c2h_data, th_Flags := 4, th_Hlen := 24,
            th_Pdo := (if dataLen r > 0 then 24 else 0), th_Plen := int (unat (24 + dataLen r)) \<rparr>;
          pdu = zero_TCPDataPDU\<lparr> pdu_CommandID := CommandID r, pdu_DataLength := dataLen r, pdu_DataOffset := 0 \<rparr>
      in map_option (\<lambda>s. pack_or_nil TCPHeaderType_layout (to_TCPHeaderType hdr)
           @ pack_or_nil TCPDataPDU_layout (to_TCPDataPDU pdu) @ flat s) (GetData r))"

definition needsDataOut :: "Request \<Rightarrow> bool" where
  "needsDataOut r \<longleftrightarrow> \<not> isWrite r \<and> dataLen r > 0 \<and> map_option cqe_Status (Completion_of r) = Some NVME_SC_SUCCESS"

text \<open>One iteration of \<^verbatim>\<open>pollResponseChannel\<close>: the bytes of one response, the data first.\<close>

definition send_response :: "Request \<Rightarrow> bytes option" where
  "send_response r =
     do {
       cqe \<leftarrow> Completion_of r;
       data \<leftarrow> (if needsDataOut r then sendDataPdu r else Some []);
       Some (data @ sendCqe cqe)
     }"

fun pollResponseChannel :: "Request list \<Rightarrow> bytes option" where
  "pollResponseChannel [] = Some []"
| "pollResponseChannel (r # rs) =
     do { out \<leftarrow> send_response r; more \<leftarrow> pollResponseChannel rs; Some (out @ more) }"

record tcpRequest =
  tr_nvmeRequest :: Request
  tr_pduLen :: u32

definition HasInlineData :: "tcpRequest \<Rightarrow> bool" where
  "HasInlineData r \<longleftrightarrow> isWrite (tr_nvmeRequest r) \<and> tr_pduLen r > 0"

definition HasDataIn :: "tcpRequest \<Rightarrow> bool" where
  "HasDataIn r \<longleftrightarrow> isWrite (tr_nvmeRequest r)"

definition NeedDataIn :: "tcpRequest \<Rightarrow> bool" where
  "NeedDataIn r \<longleftrightarrow> HasDataIn r \<and>
     (case Completion_of (tr_nvmeRequest r) of None \<Rightarrow> True | Some c \<Rightarrow> cqe_Status c = NVME_SC_SUCCESS)"

text \<open>\<^verbatim>\<open>mapData\<close>: the status, and the request with its new scatter list; \<open>None\<close> for a nil data pointer.\<close>

definition mapData :: "tcpRequest \<Rightarrow> (u16 \<times> tcpRequest) option" where
  "mapData t =
     (let r = tr_nvmeRequest t; len = dataLen r in
      if len = 0 then Some (NVME_SC_SUCCESS, t)
      else case dptr r of
          None \<Rightarrow> None
        | Some d \<Rightarrow>
            let is_inline = (sd_type (sgl d) = sgl_inline) in
            if is_inline \<and> \<not> isWrite r then Some (NVME_SC_INVALID_FIELD OR NVME_SC_DNR, t)
            else if is_inline \<and> len > inlineSize then Some (NVME_SC_SGL_INVALID_OFFSET OR NVME_SC_DNR, t)
            else let t' = (if is_inline then t\<lparr> tr_pduLen := len \<rparr> else t) in
              map_option (\<lambda>s. (NVME_SC_SUCCESS, t'\<lparr> tr_nvmeRequest := SetData s r \<rparr>)) (NewScatterList (unat len) 8192))"

text \<open>
  One iteration of the receive loop: it goes on with the rest of the input, or stops with an error for
  \<^verbatim>\<open>ioWork\<close>, or returns without an error (\<open>Quiet\<close>), after which nobody reads the connection.
\<close>

datatype recv_step = Continue bytes nvmeQueue | Stop recv_error nvmeQueue | Quiet nvmeQueue

definition handle_request :: "fill_log_page \<Rightarrow> Request \<Rightarrow> bytes \<Rightarrow> nvmeQueue \<Rightarrow> recv_step option" where
  "handle_request fill request bs q =
     (case mapData \<lparr> tr_nvmeRequest = request, tr_pduLen = 0 \<rparr> of
        None \<Rightarrow> None
      | Some (status, t) \<Rightarrow>
          if status \<noteq> NVME_SC_SUCCESS then
            if HasInlineData t then Some (Stop InlineMapFailed q)
            else Some (Quiet (complete_status request status q))
          else if NeedDataIn t \<and> \<not> HasInlineData t then Some (Stop NonInlineData q)
          else if NeedDataIn t then
            let n = unat (tr_pduLen t) in
            if length bs < n then Some (Stop RecvEOF q)
            else case GetData (tr_nvmeRequest t) of
                None \<Rightarrow> None
              | Some s \<Rightarrow>
                  (case Write (take n bs) (NewScatterListWriter s) of (_, err, w) \<Rightarrow>
                     if err \<noteq> None then Some (Stop RecvEOF q)
                     else map_option (Continue (drop n bs)) (execute fill (SetData (sw_sgl w) (tr_nvmeRequest t)) q))
          else map_option (Continue bs) (execute fill (tr_nvmeRequest t) q))"

definition receive_pdu :: "fill_log_page \<Rightarrow> bytes \<Rightarrow> nvmeQueue \<Rightarrow> recv_step option" where
  "receive_pdu fill bs q =
     (case target_recvTCPHeader bs of
        Inl e \<Rightarrow> Some (Stop e q)
      | Inr (hdr, bs1) \<Rightarrow>
          let rcvLeft = unat (th_Hlen hdr) - 8 in
          if length bs1 < rcvLeft then Some (Stop RecvEOF q)
          else case nvmetRequestInit (take rcvLeft bs1) q of
              None \<Rightarrow> None
            | Some (q', Inl stt) \<Rightarrow>
                if stt AND NVME_SC_INVALID_LOG_PAGE = NVME_SC_INVALID_LOG_PAGE then Some (Continue (drop rcvLeft bs1) q')
                else Some (Stop ParseFailed q')
            | Some (q', Inr request) \<Rightarrow> handle_request fill request (drop rcvLeft bs1) q')"

section \<open>Serving a connection\<close>

lemma target_recvTCPHeader_shorter: "target_recvTCPHeader bs = Inr (hdr, bs') \<Longrightarrow> length bs = 8 + length bs'"
proof -
  assume "target_recvTCPHeader bs = Inr (hdr, bs')"
  then obtain vs where "Unpack TCPHeaderType_layout bs = Some (vs, bs')"
    by (auto simp: target_recvTCPHeader_def Let_def split: option.splits if_splits)
  from Unpack_length [OF this] show ?thesis
    by (simp add: Sizeof_def TCPHeaderType_layout_def field_size_def)
qed

lemma handle_request_shorter:
  "handle_request fill request bs q = Some (Continue bs' q') \<Longrightarrow> length bs' \<le> length bs"
  by (auto simp: handle_request_def Let_def split: option.splits prod.splits if_splits)

lemma receive_pdu_shorter:
  "receive_pdu fill bs q = Some (Continue bs' q') \<Longrightarrow> length bs' < length bs"
proof -
  assume rec: "receive_pdu fill bs q = Some (Continue bs' q')"
  then obtain hdr bs1 where hdr: "target_recvTCPHeader bs = Inr (hdr, bs1)"
    by (auto simp: receive_pdu_def split: sum.splits)
  with rec have "length bs' \<le> length bs1"
    by (auto simp: receive_pdu_def Let_def split: option.splits sum.splits if_splits dest!: handle_request_shorter)
  with target_recvTCPHeader_shorter [OF hdr] show ?thesis by simp
qed

text \<open>
  The receive loop on the bytes that have arrived: it stops when the rest is no complete PDU and waits for
  more. A connection is open, or closed with an error, or its reader has returned quietly, or it panicked.
\<close>

datatype conn_status = Open | Closed recv_error | Deaf | Crashed

function serve :: "fill_log_page \<Rightarrow> bytes \<Rightarrow> nvmeQueue \<Rightarrow> bytes \<times> nvmeQueue \<times> conn_status" where
  "serve fill bs q =
     (case receive_pdu fill bs q of
        None \<Rightarrow> (bs, q, Crashed)
      | Some (Stop RecvEOF q') \<Rightarrow> (bs, q, Open)
      | Some (Stop e q') \<Rightarrow> (bs, q', Closed e)
      | Some (Quiet q') \<Rightarrow> (bs, q', Deaf)
      | Some (Continue bs' q') \<Rightarrow> serve fill bs' q')"
  by pat_completeness auto

termination serve
  by (relation "measure (\<lambda>(fill, bs, q). length bs)") (auto dest: receive_pdu_shorter)

declare serve.simps [simp del]

record target_conn =
  tc_connected :: bool
  tc_input :: bytes
  tc_queue :: nvmeQueue
  tc_status :: conn_status

definition new_target_conn :: "u16 \<Rightarrow> string \<Rightarrow> u16 \<Rightarrow> target_conn" where
  "new_target_conn qid serviceID controllerID =
     \<lparr> tc_connected = False, tc_input = [], tc_queue = newNvmeTCPQueue qid serviceID controllerID, tc_status = Open \<rparr>"

text \<open>\<^verbatim>\<open>ioWork\<close> on the bytes that arrive at a connection: the new state and the bytes that are sent back.\<close>

definition serve_input :: "fill_log_page \<Rightarrow> bytes \<Rightarrow> target_conn \<Rightarrow> target_conn \<times> bytes" where
  "serve_input fill bs c =
     (case serve fill bs (tc_queue c) of (bs', q', st) \<Rightarrow>
        case pollResponseChannel (q_responses q') of
          None \<Rightarrow> (c\<lparr> tc_input := bs', tc_queue := q', tc_status := Crashed \<rparr>, [])
        | Some out \<Rightarrow> (c\<lparr> tc_input := bs', tc_queue := q'\<lparr> q_responses := [] \<rparr>, tc_status := st \<rparr>, out))"

definition ioWork :: "fill_log_page \<Rightarrow> bytes \<Rightarrow> target_conn \<Rightarrow> target_conn \<times> bytes" where
  "ioWork fill bs c =
     (let inp = tc_input c @ bs in
      if tc_status c \<noteq> Open then (c, [])
      else if tc_connected c then serve_input fill inp c
      else case target_nvmeConnect inp of
          Inl RecvEOF \<Rightarrow> (c\<lparr> tc_input := inp \<rparr>, [])
        | Inl e \<Rightarrow> (c\<lparr> tc_status := Closed e \<rparr>, [])
        | Inr (out, inp') \<Rightarrow>
           (case serve_input fill inp' (c\<lparr> tc_connected := True \<rparr>) of (c', out') \<Rightarrow> (c', out @ out')))"

end
