(* ===== verification/Discovery.thy ===== *)
theory Discovery
  imports Tcp_Client Target
begin

text \<open>
  Host and target together: the host queue of \<^verbatim>\<open>nvmehost/tcp_queue.go\<close> talking to the target of
  \<^verbatim>\<open>nvme/tcp_queue.go\<close> over the wire format. Every command the host sends is followed through encoder, TCP queue,
  handler and response decoder, which gives the result of each exchange and of the whole discovery sequence.
\<close>

section \<open>The wire\<close>

lemma put_uint_1 [simp]: "put_uint (Suc 0) l (unat (b :: u8)) = [b]"
proof -
  have "unat b mod 256 = unat b" using unat_fits(1) [of b] by simp
  then show ?thesis by (simp add: put_uint_def)
qed

lemma decode_Pack:
  assumes "wire_struct l tv ov ok nm" "ok x"
  obtains bs where "Pack l (tv x) = Some bs" "length bs = Sizeof l"
    "\<And>rest. decode l ov (bs @ rest) = Some (nm x)" "decode l ov bs = Some (nm x)"
    "\<And>rest. \<exists>vs. Unpack l (bs @ rest) = Some (vs, rest) \<and> ov vs = nm x"
proof -
  from wire_struct.encode [OF assms] obtain bs where bs: "Pack l (tv x) = Some bs" "length bs = Sizeof l" by auto
  have un: "\<exists>vs. Unpack l (bs @ rest) = Some (vs, rest) \<and> ov vs = nm x" for rest
    using wire_struct.roundtrip [OF assms, of rest] bs(1) by auto
  then have "decode l ov (bs @ rest) = Some (nm x)" for rest
    by (metis comp_apply decode_def fst_conv option.simps(9))
  with un that [OF bs] show ?thesis by (metis append_Nil2)
qed

text \<open>The target reads the command header the host writes.\<close>

lemma ok_TCPHeaderType_small: "0 \<le> th_Plen x \<Longrightarrow> th_Plen x < 4294967296 \<Longrightarrow> ok_TCPHeaderType x"
  by (simp add: ok_TCPHeaderType_def)

definition hdr_bytes :: "TCPHeaderType \<Rightarrow> bytes" where
  "hdr_bytes x = pack_or_nil TCPHeaderType_layout (to_TCPHeaderType x)"

lemma hdr_bytes:
  assumes "ok_TCPHeaderType x"
  shows "length (hdr_bytes x) = 8" "\<exists>vs. Unpack TCPHeaderType_layout (hdr_bytes x @ rest) = Some (vs, rest) \<and> of_TCPHeaderType vs = x"
proof -
  obtain bs where "Pack TCPHeaderType_layout (to_TCPHeaderType x) = Some bs" "length bs = Sizeof TCPHeaderType_layout"
    "\<And>rest. \<exists>vs. Unpack TCPHeaderType_layout (bs @ rest) = Some (vs, rest) \<and> of_TCPHeaderType vs = x"
    using decode_Pack [OF w_TCPHeaderType.wire_struct_axioms assms] by metis
  then show "length (hdr_bytes x) = 8" "\<exists>vs. Unpack TCPHeaderType_layout (hdr_bytes x @ rest) = Some (vs, rest) \<and> of_TCPHeaderType vs = x"
    by (auto simp: hdr_bytes_def pack_or_nil_def Sizeof_def TCPHeaderType_layout_def field_size_def)
qed

lemma createTCPHeader_Hlen [simp]: "th_Hlen (createTCPHeader b) = 72"
  by (simp add: createTCPHeader_def)

lemma target_recv_cmd_header:
  "target_recvTCPHeader (hdr_bytes (createTCPHeader b) @ bs) = Inr (createTCPHeader b, bs)"
proof -
  have "ok_TCPHeaderType (createTCPHeader b)"
    by (simp add: ok_TCPHeaderType_def createTCPHeader_def)
  from hdr_bytes(2) [OF this, of bs] show ?thesis
    by (auto simp: target_recvTCPHeader_def target_pduValid_def target_pduSize_def createTCPHeader_def)
qed

section \<open>One command at the target\<close>

lemma serve_end: "serve fill [] q = ([], q, Open)"
  by (simp add: serve.simps receive_pdu_def target_recvTCPHeader_def TCPHeaderType_layout_def field_size_def)

lemma serve_command:
  assumes "length cmd = 64" "nvmetRequestInit cmd q = Some (q, Inr r)"
    and "handle_request fill r data q = Some (Continue [] q')"
  shows "serve fill (hdr_bytes (createTCPHeader b) @ cmd @ data) q = ([], q', Open)"
proof -
  have "receive_pdu fill (hdr_bytes (createTCPHeader b) @ cmd @ data) q = Some (Continue [] q')"
    using assms by (simp add: receive_pdu_def target_recv_cmd_header Let_def)
  then show ?thesis by (simp add: serve.simps [of fill "hdr_bytes _ @ _"] serve_end)
qed

definition target_at :: "nvmeQueue \<Rightarrow> target_conn" where
  "target_at q = \<lparr> tc_connected = True, tc_input = [], tc_queue = q, tc_status = Open \<rparr>"

lemma ioWork_command:
  assumes "length cmd = 64" "nvmetRequestInit cmd q = Some (q, Inr r)"
    and "handle_request fill r data q = Some (Continue [] q')"
    and "pollResponseChannel (q_responses q') = Some out"
  shows "ioWork fill (hdr_bytes (createTCPHeader b) @ cmd @ data) (target_at q) = (target_at (q'\<lparr> q_responses := [] \<rparr>), out)"
  using serve_command [OF assms(1-3)] assms(4)
  by (simp add: ioWork_def target_at_def serve_input_def Let_def)

section \<open>One response at the host\<close>

lemma sendCqe_bytes: "sendCqe c = hdr_bytes (zero_TCPHeaderType\<lparr> th_Hlen := 24, th_Plen := 24, th_Type := nvme_tcp_rsp \<rparr>)
    @ pack_or_nil Completion_layout (to_Completion c)"
  by (simp add: sendCqe_def hdr_bytes_def)

lemma cqe_bytes:
  assumes "ok_Completion c"
  shows "length (pack_or_nil Completion_layout (to_Completion c)) = 16"
    "decode Completion_layout of_Completion (pack_or_nil Completion_layout (to_Completion c)) = Some c"
proof -
  obtain bs where "Pack Completion_layout (to_Completion c) = Some bs" "length bs = Sizeof Completion_layout"
    "decode Completion_layout of_Completion bs = Some c"
    using decode_Pack [OF w_Completion.wire_struct_axioms assms] by metis
  then show "length (pack_or_nil Completion_layout (to_Completion c)) = 16"
    "decode Completion_layout of_Completion (pack_or_nil Completion_layout (to_Completion c)) = Some c"
    by (auto simp: pack_or_nil_def Sizeof_def Completion_layout_def CompletionResult_layout_def field_size_def)
qed

lemma recv_header:
  assumes "ok_TCPHeaderType x" "pduValid (th_Type x)" "Some (unat (th_Hlen x)) = pduSize (th_Type x)"
  shows "recvTCPHeader (hdr_bytes x @ bs) = Some (Inr (x, bs))"
  using hdr_bytes(2) [OF assms(1), of bs] assms(2,3) by (auto simp: recvTCPHeader_def Let_def)

lemma handleRecv_cqe:
  assumes "h_input h = sendCqe c @ bs" "ok_Completion c"
    and "map_of (h_outstanding h) (cqe_CommandID c) = Some r" "\<not> is_aen r"
  shows "handleRecv h = (Delivered (SetCompletion c r),
    h\<lparr> h_input := bs, h_outstanding := AList.delete (cqe_CommandID c) (h_outstanding h) \<rparr>)"
proof -
  let ?x = "zero_TCPHeaderType\<lparr> th_Hlen := 24, th_Plen := 24, th_Type := nvme_tcp_rsp \<rparr>"
  let ?b = "pack_or_nil Completion_layout (to_Completion c)"
  have hdr: "recvTCPHeader (hdr_bytes ?x @ ?b @ bs) = Some (Inr (?x, ?b @ bs))"
    by (rule recv_header) (simp_all add: ok_TCPHeaderType_def pduValid_def pduSize_def)
  have "is_aen (SetCompletion c r) = is_aen r"
    by (cases r) (simp_all add: is_aen_def SetCompletion_def)
  then show ?thesis
    using assms hdr cqe_bytes [OF assms(2)]
    by (simp add: handleRecv_def sendCqe_bytes parseResponse_def recvCqe_def)
qed

lemma receive_delivered:
  "h_receiving h \<Longrightarrow> handleRecv h = (Delivered r, h') \<Longrightarrow> receive (Suc n) h = (Some r, h')"
  by simp

lemma receive_idle:
  "h_receiving h \<Longrightarrow> handleRecv h = (Idle, h') \<Longrightarrow> receive (Suc n) h = receive n h'"
  by simp

lemma next_completed_cqe:
  assumes "h_receiving h" "h_input h = sendCqe c" "ok_Completion c"
    and "map_of (h_outstanding h) (cqe_CommandID c) = Some r" "\<not> is_aen r"
  shows "next_completed h = (Some (SetCompletion c r),
    h\<lparr> h_input := [], h_outstanding := AList.delete (cqe_CommandID c) (h_outstanding h) \<rparr>)"
  by (rule receive_delivered [OF assms(1)], rule handleRecv_cqe) (use assms in simp_all)

text \<open>A response with data: a data PDU, then the completion.\<close>

lemma data_pdu_bytes:
  assumes "ok_TCPDataPDU p"
  shows "length (pack_or_nil TCPDataPDU_layout (to_TCPDataPDU p)) = 16"
    "recvTCPDataPdu (pack_or_nil TCPDataPDU_layout (to_TCPDataPDU p) @ bs) = Some (p, bs)"
proof -
  obtain d where "Pack TCPDataPDU_layout (to_TCPDataPDU p) = Some d" "length d = Sizeof TCPDataPDU_layout"
    "\<And>rest. \<exists>vs. Unpack TCPDataPDU_layout (d @ rest) = Some (vs, rest) \<and> of_TCPDataPDU vs = p"
    using decode_Pack [OF w_TCPDataPDU.wire_struct_axioms assms] by metis
  then show "length (pack_or_nil TCPDataPDU_layout (to_TCPDataPDU p)) = 16"
    "recvTCPDataPdu (pack_or_nil TCPDataPDU_layout (to_TCPDataPDU p) @ bs) = Some (p, bs)"
    by (auto simp: pack_or_nil_def recvTCPDataPdu_def Sizeof_def TCPDataPDU_layout_def field_size_def)
qed

lemma write_all:
  assumes "n = length data" "NewScatterList n (min 1024 n) = Some s"
  obtains k w where "Write data (NewScatterListWriter s) = (k, None, w)" "flat (sw_sgl w) = data"
    "sgl_Size (sw_sgl w) = int n" "[] \<notin> set (sl_buffers (sw_sgl w))"
proof -
  have s: "flat s = replicate n 0" "[] \<notin> set (sl_buffers s)" "sl_capacity s = int n"
    using NewScatterList_spec [of "min 1024 n" n] assms(2) by (metis (no_types, lifting) bot_nat_0.not_eq_extremum min_def option.inject zero_neq_numeral)+
  obtain k err w where w: "Write data (NewScatterListWriter s) = (k, err, w)" by (metis prod_cases3)
  from Write_spec [OF NewScatterListWriter_ok(1) [OF s(2)] w] s assms(1)
  have "err = None" "flat (sw_sgl w) = data" "same_shape s (sw_sgl w)" "writer_ok w"
    by (auto simp: NewScatterListWriter_ok [OF s(2)] overwrite_def)
  with that [of k w] w s(3) show ?thesis
    by (auto simp: sgl_Size_def same_shape_def cursor_ok_def)
qed

lemma handleRecv_data:
  assumes "h_input h = hdr_bytes x @ pack_or_nil TCPDataPDU_layout (to_TCPDataPDU p) @ data @ bs"
    and "ok_TCPDataPDU p" "unat (pdu_DataLength p) = length data" "length data + 24 < 2 ^ 32"
    and x: "x = zero_TCPHeaderType\<lparr> th_Type := nvme_tcp_c2h_data, th_Flags := 4, th_Hlen := 24, th_Pdo := d,
       th_Plen := int (length data + 24) \<rparr>"
    and "map_of (h_outstanding h) (pdu_CommandID p) = Some r" "Completion_of r = None"
  obtains s where "handleRecv h = (Idle,
      h\<lparr> h_input := bs, h_outstanding := AList.update (pdu_CommandID p) (SetData s r) (h_outstanding h) \<rparr>)"
    "flat s = data" "sgl_Size s = int (length data)"
proof -
  let ?b = "pack_or_nil TCPDataPDU_layout (to_TCPDataPDU p)"
  obtain s0 where s0: "NewScatterList (length data) (min 1024 (length data)) = Some s0"
    using NewScatterList_spec [of "min 1024 (length data)" "length data"] by auto
  from write_all [OF refl s0] obtain k w where w: "Write data (NewScatterListWriter s0) = (k, None, w)"
      "flat (sw_sgl w) = data" "sgl_Size (sw_sgl w) = int (length data)" by metis
  have hdr: "recvTCPHeader (hdr_bytes x @ ?b @ data @ bs) = Some (Inr (x, ?b @ data @ bs))"
    using assms(4) by (intro recv_header) (simp_all add: x ok_TCPHeaderType_def pduValid_def pduSize_def)
  have len: "nat (th_Plen x - 8) = length (?b @ data)"
    using data_pdu_bytes(1) [OF assms(2)] by (simp add: x)
  have "parseResponse (th_Type x) (?b @ data) (h\<lparr> h_input := bs \<rparr>) = (Inr (Some (SetData (sw_sgl w) r)),
      h\<lparr> h_input := bs, h_outstanding := AList.update (pdu_CommandID p) (SetData (sw_sgl w) r) (h_outstanding h) \<rparr>)"
    using assms(3,6) s0 w data_pdu_bytes(2) [OF assms(2), of data] by (simp add: x parseResponse_def Let_def)
  then have "handleRecv h = (Idle,
      h\<lparr> h_input := bs, h_outstanding := AList.update (pdu_CommandID p) (SetData (sw_sgl w) r) (h_outstanding h) \<rparr>)"
    using assms(1,7) hdr len by (simp add: handleRecv_def x)
  with that w show ?thesis by blast
qed

lemma next_completed_data:
  assumes "h_receiving h" "map_of (h_outstanding h) (CommandID r') = Some r" "\<not> is_aen r" "Completion_of r = None"
    and "Completion_of r' = Some c" "ok_Completion c" "cqe_CommandID c = CommandID r'"
    and "needsDataOut r'" "GetData r' = Some d" "length (flat d) = unat (dataLen r')" "length (flat d) + 24 < 2 ^ 32"
    and "send_response r' = Some (h_input h)"
  obtains s where "next_completed h = (Some (SetCompletion c (SetData s r)), h\<lparr> h_input := [],
      h_outstanding := AList.delete (CommandID r') (AList.update (CommandID r') (SetData s r) (h_outstanding h)) \<rparr>)"
    "flat s = flat d" "sgl_Size s = int (length (flat d))"
proof -
  let ?p = "zero_TCPDataPDU\<lparr> pdu_CommandID := CommandID r', pdu_DataLength := dataLen r', pdu_DataOffset := 0 \<rparr>"
  let ?x = "zero_TCPHeaderType\<lparr> th_Type := nvme_tcp_c2h_data, th_Flags := 4, th_Hlen := 24,
    th_Pdo := (if dataLen r' > 0 then 24 else 0), th_Plen := int (length (flat d) + 24) \<rparr>"
  have plen: "int (unat (24 + dataLen r')) = int (length (flat d) + 24)"
    using assms(10,11) by (simp add: unat_word_ariths)
  have inp: "h_input h = hdr_bytes ?x @ pack_or_nil TCPDataPDU_layout (to_TCPDataPDU ?p) @ flat d @ sendCqe c"
    using assms(5,8,9,12) plen by (simp add: send_response_def sendDataPdu_def hdr_bytes_def Let_def)
  have ok: "ok_TCPDataPDU ?p" by (simp add: ok_TCPDataPDU_def zero_TCPDataPDU_def)
  obtain s where s: "handleRecv h = (Idle, h\<lparr> h_input := sendCqe c,
      h_outstanding := AList.update (CommandID r') (SetData s r) (h_outstanding h) \<rparr>)"
    "flat s = flat d" "sgl_Size s = int (length (flat d))"
    using handleRecv_data [OF inp ok _ assms(11) refl] assms(2,4,10) by auto
  let ?h = "h\<lparr> h_input := sendCqe c, h_outstanding := AList.update (CommandID r') (SetData s r) (h_outstanding h) \<rparr>"
  have "is_aen (SetData s r) = is_aen r" by (cases r) (simp_all add: is_aen_def SetData_def)
  then have "handleRecv ?h = (Delivered (SetCompletion c (SetData s r)), ?h\<lparr> h_input := [],
      h_outstanding := AList.delete (CommandID r') (h_outstanding ?h) \<rparr>)"
    using handleRecv_cqe [of ?h c "[]" "SetData s r"] assms(3,6,7) by simp
  from receive_delivered [OF _ this]
  have del: "receive (Suc n) ?h = (Some (SetCompletion c (SetData s r)), ?h\<lparr> h_input := [],
      h_outstanding := AList.delete (CommandID r') (h_outstanding ?h) \<rparr>)" for n
    using assms(1) by simp
  have "length (hdr_bytes ?x) = 8"
    using assms(11) by (intro hdr_bytes(1)) (simp add: ok_TCPHeaderType_def)
  then obtain n where "length (h_input h) = Suc n"
    using arg_cong [OF inp, of length] by (metis Suc_pred add_gr_0 length_append zero_less_numeral)
  then have "next_completed h = (Some (SetCompletion c (SetData s r)), ?h\<lparr> h_input := [],
      h_outstanding := AList.delete (CommandID r') (h_outstanding ?h) \<rparr>)"
    using receive_idle [OF assms(1) s(1), of "Suc n"] del [of n] by (simp only:)
  with that s(2,3) show ?thesis by simp
qed

section \<open>Exchanges\<close>

definition wire_peer :: "fill_log_page \<Rightarrow> target_conn peer" where
  "wire_peer fill t bs = ioWork fill bs t"

text \<open>Between two commands: nothing is outstanding or unread on either side.\<close>

definition host_ready :: "target_conn hostQueue \<Rightarrow> nvmeQueue \<Rightarrow> bool" where
  "host_ready h q \<longleftrightarrow> h_receiving h \<and> h_input h = [] \<and> h_outstanding h = [] \<and> h_peer h = target_at q \<and> q_responses q = []"

text \<open>The target parses and executes the command \<open>r\<close> of the host in queue state \<open>q\<close> and answers with \<open>r'\<close>.\<close>

definition answers :: "fill_log_page \<Rightarrow> Request \<Rightarrow> bytes \<Rightarrow> nvmeQueue \<Rightarrow> nvmeQueue \<Rightarrow> Request \<Rightarrow> Completion \<Rightarrow> bool" where
  "answers fill r data q q' r' c \<longleftrightarrow>
     (\<exists>cmd rt. PackCmd r = Some cmd \<and> length cmd = 64 \<and> nvmetRequestInit cmd q = Some (q, Inr rt) \<and>
        handle_request fill rt data q = Some (Continue [] (q'\<lparr> q_responses := [r'] \<rparr>))) \<and>
     q_responses q' = [] \<and> Completion_of r' = Some c \<and> ok_Completion c \<and> cqe_CommandID c = CommandID r \<and>
     CommandID r' = CommandID r \<and> Completion_of r = None \<and> \<not> is_aen r"

lemma h_update_id [simp]: "h_input h = [] \<Longrightarrow> h\<lparr> h_input := [] \<rparr> = h" "h_outstanding h = [] \<Longrightarrow> h\<lparr> h_outstanding := [] \<rparr> = h"
  by (cases h; simp)+

lemma flush_command:
  assumes "host_ready h q" "answers fill r data q q' r' c" "send_response r' = Some out"
  obtains cmd where "PackCmd r = Some cmd"
    "flush (wire_peer fill) (hdr_bytes (createTCPHeader b) @ cmd @ data) (h\<lparr> h_outstanding := o' \<rparr>)
       = h\<lparr> h_outstanding := o', h_input := out, h_peer := target_at q' \<rparr>"
proof -
  from assms(2) obtain cmd rt where cmd: "PackCmd r = Some cmd" "length cmd = 64"
      "nvmetRequestInit cmd q = Some (q, Inr rt)"
      "handle_request fill rt data q = Some (Continue [] (q'\<lparr> q_responses := [r'] \<rparr>))" "q_responses q' = []"
    by (auto simp: answers_def)
  have "pollResponseChannel (q_responses (q'\<lparr> q_responses := [r'] \<rparr>)) = Some out"
    using assms(3) by simp
  moreover have "q'\<lparr> q_responses := [] \<rparr> = q'" using cmd(5) by (cases q') simp
  ultimately have "ioWork fill (hdr_bytes (createTCPHeader b) @ cmd @ data) (target_at q) = (target_at q', out)"
    using ioWork_command [OF cmd(2,3,4), of out b] by simp
  with that cmd(1) assms(1) show ?thesis
    by (simp add: flush_def wire_peer_def host_ready_def)
qed

lemma send_response_plain: "Completion_of r' = Some c \<Longrightarrow> \<not> needsDataOut r' \<Longrightarrow> send_response r' = Some (sendCqe c)"
  by (simp add: send_response_def)

lemma receive_plain:
  assumes "host_ready h q" "answers fill r data q q' r' c"
  shows "next_completed (h\<lparr> h_outstanding := [(CommandID r, r)], h_input := sendCqe c, h_peer := t \<rparr>)
    = (Some (SetCompletion c r), h\<lparr> h_peer := t \<rparr>)"
  using assms by (subst next_completed_cqe) (auto simp: host_ready_def answers_def)

lemma exchange_plain:
  assumes "host_ready h q" "answers fill r [] q q' r' c" "\<not> needsDataOut r'" "\<not> is_connect r"
  shows "send_and_wait (wire_peer fill) r h = (Inr (SetCompletion c r), h\<lparr> h_peer := target_at q' \<rparr>)"
    "host_ready (h\<lparr> h_peer := target_at q' \<rparr>) q'"
proof -
  have out: "send_response r' = Some (sendCqe c)"
    using assms(2,3) by (intro send_response_plain) (simp_all add: answers_def)
  obtain cmd where cmd: "PackCmd r = Some cmd"
      "flush (wire_peer fill) (hdr_bytes (createTCPHeader False) @ cmd @ []) (h\<lparr> h_outstanding := [(CommandID r, r)] \<rparr>)
       = h\<lparr> h_outstanding := [(CommandID r, r)], h_input := sendCqe c, h_peer := target_at q' \<rparr>"
    by (rule flush_command [OF assms(1,2) out, where b=False and o'="[(CommandID r, r)]"])
  then have "sendRequest (wire_peer fill) r h =
      (Inr (), h\<lparr> h_outstanding := [(CommandID r, r)], h_input := sendCqe c, h_peer := target_at q' \<rparr>)"
    using assms(1,4) by (simp add: sendRequest_def hdr_bytes_def host_ready_def)
  with receive_plain [OF assms(1,2), of "target_at q'"]
  show "send_and_wait (wire_peer fill) r h = (Inr (SetCompletion c r), h\<lparr> h_peer := target_at q' \<rparr>)"
    by (simp add: send_and_wait_def and_then_def waitForResponse_def del: receive.simps)
  show "host_ready (h\<lparr> h_peer := target_at q' \<rparr>) q'"
    using assms(1,2) by (simp add: host_ready_def answers_def)
qed

lemma exchange_data:
  assumes "host_ready h q" "answers fill r [] q q' r' c" "\<not> is_connect r"
    and "needsDataOut r'" "GetData r' = Some d" "length (flat d) = unat (dataLen r')" "length (flat d) + 24 < 2 ^ 32"
  obtains h1 s where "sendRequest (wire_peer fill) r h = (Inr (), h1)"
    "next_completed h1 = (Some (SetCompletion c (SetData s r)), h\<lparr> h_peer := target_at q' \<rparr>)"
    "flat s = flat d" "sgl_Size s = int (length (flat d))" "host_ready (h\<lparr> h_peer := target_at q' \<rparr>) q'"
proof -
  from assms(2,4,5) obtain out where out: "send_response r' = Some out"
    by (auto simp: answers_def send_response_def sendDataPdu_def Let_def)
  let ?h1 = "h\<lparr> h_outstanding := [(CommandID r, r)], h_input := out, h_peer := target_at q' \<rparr>"
  obtain cmd where cmd: "PackCmd r = Some cmd"
      "flush (wire_peer fill) (hdr_bytes (createTCPHeader False) @ cmd @ []) (h\<lparr> h_outstanding := [(CommandID r, r)] \<rparr>) = ?h1"
    by (rule flush_command [OF assms(1,2) out, where b=False and o'="[(CommandID r, r)]"])
  then have send: "sendRequest (wire_peer fill) r h = (Inr (), ?h1)"
    using assms(1,3) by (simp add: sendRequest_def hdr_bytes_def host_ready_def)
  obtain s where s: "next_completed ?h1 = (Some (SetCompletion c (SetData s r)), ?h1\<lparr> h_input := [],
      h_outstanding := AList.delete (CommandID r') (AList.update (CommandID r') (SetData s r) (h_outstanding ?h1)) \<rparr>)"
    "flat s = flat d" "sgl_Size s = int (length (flat d))"
    using assms(1,2,4-7) out
    by - (rule next_completed_data [of ?h1 r' r c d], auto simp: host_ready_def answers_def simp del: receive.simps)
  have "?h1\<lparr> h_input := [],
      h_outstanding := AList.delete (CommandID r') (AList.update (CommandID r') (SetData s r) (h_outstanding ?h1)) \<rparr>
      = h\<lparr> h_peer := target_at q' \<rparr>"
    using assms(1,2) by (simp add: host_ready_def answers_def)
  with send s that [of ?h1 s] assms(1,2) show ?thesis
    by (simp add: host_ready_def answers_def del: receive.simps)
qed

section \<open>Commands of the host, as the target reads them\<close>

lemma ok_Completion_simps [simp]:
  "ok_Completion (NewCompletion i q st)"
  "ok_Completion c \<Longrightarrow> ok_Completion (with_result (setU16Result v16) c)"
  "ok_Completion c \<Longrightarrow> ok_Completion (with_result (setU32Result v32) c)"
  "ok_Completion c \<Longrightarrow> ok_Completion (with_result (setU64Result v64) c)"
  by (simp_all add: ok_Completion_def ok_CompletionResult_def NewCompletion_def zero_Completion_def
      zero_CompletionResult_def setU16Result_def setU32Result_def setU64Result_def)

lemma command_bytes:
  assumes "wire_struct l tv ov ok nm" "ok x" "l = FInt 1 False # FInt 1 False # fs"
    and "tv x = I (unat (op :: u8)) # I (unat (fl :: u8)) # vs" "Sizeof l = 64"
  obtains cmd where "Pack l (tv x) = Some cmd" "length cmd = 64" "cmd ! 0 = op" "cmd ! 1 = fl"
    "decode l ov cmd = Some (nm x)" "cmd = op # fl # concat (map2 field_pack fs vs)"
proof -
  obtain cmd where cmd: "Pack l (tv x) = Some cmd" "length cmd = Sizeof l" "decode l ov cmd = Some (nm x)"
    using decode_Pack [OF assms(1,2)] by metis
  from Pack_fits [OF wire_struct.fits [OF assms(1,2)]] cmd(1) assms(3,4)
  have bs: "cmd = op # fl # concat (map2 field_pack fs vs)" by auto
  with cmd assms(5) that show ?thesis by simp
qed

lemma fabrics_bytes:
  assumes "wire_struct l tv ov ok nm" "ok x" "l = FInt 1 False # FInt 1 False # FInt 2 True # FInt 1 False # fs"
    and "tv x = I (unat (op :: u8)) # I (unat (fl :: u8)) # I i # I (unat (t :: u8)) # vs" "Sizeof l = 64"
  obtains cmd where "Pack l (tv x) = Some cmd" "length cmd = 64" "cmd ! 0 = op" "cmd ! 1 = fl" "cmd ! 4 = t"
    "decode l ov cmd = Some (nm x)"
proof -
  obtain cmd where cmd: "Pack l (tv x) = Some cmd" "length cmd = 64" "cmd ! 0 = op" "cmd ! 1 = fl"
      "decode l ov cmd = Some (nm x)"
      "cmd = op # fl # concat (map2 field_pack (FInt 2 True # FInt 1 False # fs) (I i # I (unat t) # vs))"
    using command_bytes [OF assms(1-5)] .
  moreover from cmd(6) have "cmd ! 4 = t" by (simp add: nth_append)
  ultimately show ?thesis using that by blast
qed

lemma sizeof_commands:
  "Sizeof PropertyGetCommand_layout = 64" "Sizeof PropertySetCommand_layout = 64" "Sizeof IdentifyCommand_layout = 64"
  "Sizeof CommonCommand_layout = 64" "Sizeof GetLogPageCommand_layout = 64" "Sizeof ConnectCommand_layout = 64"
  by (simp_all add: Sizeof_def field_size_def PropertyGetCommand_layout_def PropertySetCommand_layout_def
      IdentifyCommand_layout_def CommonCommand_layout_def GetLogPageCommand_layout_def ConnectCommand_layout_def
      DataPtr_layout_def)

lemma head_layouts:
  "CommonCommand_layout = FInt 1 False # FInt 1 False # tl (tl CommonCommand_layout)"
  "IdentifyCommand_layout = FInt 1 False # FInt 1 False # tl (tl IdentifyCommand_layout)"
  "GetLogPageCommand_layout = FInt 1 False # FInt 1 False # tl (tl GetLogPageCommand_layout)"
  "ConnectCommand_layout = FInt 1 False # FInt 1 False # tl (tl ConnectCommand_layout)"
  by (simp_all add: CommonCommand_layout_def IdentifyCommand_layout_def GetLogPageCommand_layout_def ConnectCommand_layout_def)

lemma head_vals:
  "to_CommonCommand x1 = I (unat (cmd_Opcode x1)) # I (unat (cmd_Flags x1)) # tl (tl (to_CommonCommand x1))"
  "to_IdentifyCommand x2 = I (unat (idc_Opcode x2)) # I (unat (idc_Flags x2)) # tl (tl (to_IdentifyCommand x2))"
  "to_GetLogPageCommand x3 = I (unat (lp_Opcode x3)) # I (unat (lp_Flags x3)) # tl (tl (to_GetLogPageCommand x3))"
  "to_ConnectCommand x4 = I (unat (con_Opcode x4)) # I (unat (con_Resv1 x4)) # tl (tl (to_ConnectCommand x4))"
  by (simp_all add: to_CommonCommand_def to_IdentifyCommand_def to_GetLogPageCommand_def to_ConnectCommand_def)

lemma PackCmd_simps [simp]:
  "PackCmd (AdminConnectRequest a c1) = Pack ConnectCommand_layout (to_ConnectCommand c1)"
  "PackCmd (NvmefPropertySetRequest a c2) = Pack PropertySetCommand_layout (to_PropertySetCommand c2)"
  "PackCmd (NvmefPropertyGetRequest a c3) = Pack PropertyGetCommand_layout (to_PropertyGetCommand c3)"
  "PackCmd (NvmeIdentifyDiscoveryRequest a c4) = Pack IdentifyCommand_layout (to_IdentifyCommand c4)"
  "PackCmd (NvmeGetDiscoveryLogPageRequest a c5 d) = Pack GetLogPageCommand_layout (to_GetLogPageCommand c5)"
  "PackCmd (FeaturesRequest a c6) = Pack CommonCommand_layout (to_CommonCommand c6)"
  by (simp_all add: PackCmd_def)

text \<open>Parsing a command that was sent with the flags the host uses.\<close>

lemma request_init_fabrics:
  assumes "length cmd = 64" "cmd ! 0 = nvme_fabrics_command" "cmd ! 1 = 0x40" "q_sq_ctrl q = Some ctrl"
    and "nvmetParseFabricsCommand cmd = Inr r"
  shows "nvmetRequestInit cmd q = Some (q, Inr r)"
  using assms by (simp add: nvmetRequestInit_def)

lemma request_init_discovery:
  assumes "length cmd = 64" "cmd ! 0 = op" "op \<noteq> nvme_fabrics_command" "cmd ! 1 = 0x40" "q_sq_ctrl q = Some ctrl"
    and "nvmetParseDiscoveryCommand ctrl op cmd = Inr r"
  shows "nvmetRequestInit cmd q = Some (q, Inr r)"
  using assms by (simp add: nvmetRequestInit_def)

lemma handle_request_no_data:
  assumes "dataLen r = 0" "\<not> isWrite r" "execute fill r q = Some q'"
  shows "handle_request fill r [] q = Some (Continue [] q')"
  using assms by (simp add: handle_request_def mapData_def NeedDataIn_def HasDataIn_def)

section \<open>Answers of the target\<close>

lemma is_simps [simp]:
  "is_aen (NewPropertyGetRequest i off) = False" "is_connect (NewPropertyGetRequest i off) = False"
  "is_aen (NewPropertySetRequest i off v) = False" "is_connect (NewPropertySetRequest i off v) = False"
  "is_aen (NewIdentifyRequest i) = False" "is_connect (NewIdentifyRequest i) = False"
  "is_aen (NewSetFeatureAsyncEventRequest i) = False" "is_connect (NewSetFeatureAsyncEventRequest i) = False"
  "is_aen (NewNvmeGetDiscoveryLogPageRequest i z off64 n) = False"
  "is_connect (NewNvmeGetDiscoveryLogPageRequest i z off64 n) = False"
  by (simp_all add: is_aen_def is_connect_def NewPropertyGetRequest_def NewPropertySetRequest_def NewIdentifyRequest_def
      NewSetFeatureAsyncEventRequest_def NewNvmeGetDiscoveryLogPageRequest_def Let_def)

lemma q_responses_update: "q_responses q = [] \<Longrightarrow> q\<lparr> q_responses := q_responses q @ [r] \<rparr> = q\<lparr> q_responses := [r] \<rparr>"
  by simp

lemma property_get_answers:
  assumes "q_sq_ctrl q = Some ctrl" "q_responses q = []"
  obtains r' c where "answers fill (NewPropertyGetRequest i off) [] q q r' c" "\<not> needsDataOut r'"
proof -
  obtain a x where r: "NewPropertyGetRequest i off = NvmefPropertyGetRequest a x" and x: "ok_PropertyGetCommand x"
      "pg_Opcode x = nvme_fabrics_command" "pg_Resv1 x = 0x40" "pg_FcType x = nvme_fabrics_type_property_get"
      "pg_CommandID x = i" "ar_CmdID a = i" "ar_Resp a = None"
    by (simp add: NewPropertyGetRequest_def ok_PropertyGetCommand_def zero_PropertyGetCommand_def zero_AbstractRequest_def)
  obtain cmd where cmd: "PackCmd (NvmefPropertyGetRequest a x) = Some cmd" "length cmd = 64" "cmd ! 0 = nvme_fabrics_command"
      "cmd ! 1 = 0x40" "cmd ! 4 = nvme_fabrics_type_property_get"
      "decode PropertyGetCommand_layout of_PropertyGetCommand cmd = Some x"
    using fabrics_bytes [OF w_PropertyGetCommand.wire_struct_axioms x(1) PropertyGetCommand_layout_def
        to_PropertyGetCommand_def sizeof_commands(1)] x(2-4)
    by (metis PackCmd_simps(3))
  let ?rt = "NvmefPropertyGetRequest (zero_AbstractRequest\<lparr> ar_CmdID := pg_CommandID x \<rparr>) x"
  have init: "nvmetRequestInit cmd q = Some (q, Inr ?rt)"
    using cmd by (intro request_init_fabrics [OF _ _ _ assms(1)]) (simp_all add: nvmetParseFabricsCommand_def)
  obtain v st where "property_value ctrl x = (v, st)" by fastforce
  then have ex: "execute fill ?rt q = Some (completeRequest ?rt
      (with_result (setU64Result v) (NewCompletion (CommandID ?rt) (q_sq_qID q) st)) q)"
    using assms(1) by (simp add: execute_def execute_property_get_def with_ctrl_def Let_def)
  let ?c = "with_result (setU64Result v) (NewCompletion (CommandID ?rt) (q_sq_qID q) st)"
  have "handle_request fill ?rt [] q = Some (Continue [] (q\<lparr> q_responses := [SetCompletion ?c ?rt] \<rparr>))"
    using handle_request_no_data [OF _ _ ex] assms(2)
    by (simp add: zero_AbstractRequest_def isWrite_def completeRequest_def)
  with init cmd(1,2) x assms(2) have "answers fill (NewPropertyGetRequest i off) [] q q (SetCompletion ?c ?rt) ?c"
    by (auto simp: answers_def r CommandID_def SetCompletion_def is_aen_def)
  moreover have "\<not> needsDataOut (SetCompletion ?c ?rt)"
    by (simp add: needsDataOut_def zero_AbstractRequest_def)
  ultimately show ?thesis using that by blast
qed

lemma property_set_answers:
  assumes "q_sq_ctrl q = Some ctrl" "q_responses q = []"
  obtains r' c where "answers fill (NewPropertySetRequest i NVME_REG_CC v) [] q
      (q\<lparr> q_sq_ctrl := Some (updateControllerConfiguration (ucast v) ctrl) \<rparr>) r' c" "\<not> needsDataOut r'"
proof -
  obtain a x where r: "NewPropertySetRequest i NVME_REG_CC v = NvmefPropertySetRequest a x" and x: "ok_PropertySetCommand x"
      "ps_Opcode x = nvme_fabrics_command" "ps_Resv1 x = 0x40" "ps_FcType x = nvme_fabrics_type_property_set"
      "ps_CommandID x = i" "ar_CmdID a = i" "ar_Resp a = None" "ps_Attrib x = 0" "ps_Offset x = NVME_REG_CC" "ps_Value x = v"
    by (simp add: NewPropertySetRequest_def ok_PropertySetCommand_def zero_PropertySetCommand_def zero_AbstractRequest_def)
  obtain cmd where cmd: "PackCmd (NvmefPropertySetRequest a x) = Some cmd" "length cmd = 64" "cmd ! 0 = nvme_fabrics_command"
      "cmd ! 1 = 0x40" "cmd ! 4 = nvme_fabrics_type_property_set"
      "decode PropertySetCommand_layout of_PropertySetCommand cmd = Some x"
    using fabrics_bytes [OF w_PropertySetCommand.wire_struct_axioms x(1) PropertySetCommand_layout_def
        to_PropertySetCommand_def sizeof_commands(2)] x(2-4)
    by (metis PackCmd_simps(2))
  let ?rt = "NvmefPropertySetRequest (zero_AbstractRequest\<lparr> ar_CmdID := ps_CommandID x \<rparr>) x"
  let ?q = "q\<lparr> q_sq_ctrl := Some (updateControllerConfiguration (ucast v) ctrl) \<rparr>"
  let ?c = "NewCompletion (CommandID ?rt) (q_sq_qID q) NVME_SC_SUCCESS"
  have init: "nvmetRequestInit cmd q = Some (q, Inr ?rt)"
    using cmd by (intro request_init_fabrics [OF _ _ _ assms(1)]) (simp_all add: nvmetParseFabricsCommand_def)
  have "execute fill ?rt q = Some (completeRequest ?rt ?c ?q)"
    using assms(1) x by (simp add: execute_def execute_property_set_def with_ctrl_def Let_def)
  then have "handle_request fill ?rt [] q = Some (Continue [] (?q\<lparr> q_responses := [SetCompletion ?c ?rt] \<rparr>))"
    using handle_request_no_data [of ?rt fill q] assms(2)
    by (simp add: zero_AbstractRequest_def isWrite_def completeRequest_def)
  with init cmd(1,2) x assms(2) have "answers fill (NewPropertySetRequest i NVME_REG_CC v) [] q ?q (SetCompletion ?c ?rt) ?c"
    by (auto simp: answers_def r CommandID_def SetCompletion_def is_aen_def)
  moreover have "\<not> needsDataOut (SetCompletion ?c ?rt)"
    by (simp add: needsDataOut_def zero_AbstractRequest_def)
  ultimately show ?thesis using that by blast
qed

lemma set_feature_answers:
  assumes "q_sq_ctrl q = Some ctrl" "q_responses q = []" "ct_csts ctrl AND NVME_CSTS_RDY \<noteq> 0"
  obtains r' c where "answers fill (NewSetFeatureAsyncEventRequest i) [] q
      (q\<lparr> q_sq_ctrl := Some (setAENValue 0x80000000 ctrl) \<rparr>) r' c" "\<not> needsDataOut r'"
proof -
  obtain a x where r: "NewSetFeatureAsyncEventRequest i = FeaturesRequest a x" and x: "ok_CommonCommand x"
      "cmd_Opcode x = nvme_admin_set_features" "cmd_Flags x = 0x40" "cmd_CommandID x = i" "ar_CmdID a = i"
      "ar_Resp a = None" "cmd_Cdw10 x = NVME_FEAT_ASYNC_EVENT" "cmd_Cdw11 x = 0x80000000"
    by (simp add: NewSetFeatureAsyncEventRequest_def ok_CommonCommand_def zero_CommonCommand_def zero_AbstractRequest_def
        ok_DataPtr_def zero_DataPtr_def)
  obtain cmd where cmd: "PackCmd (FeaturesRequest a x) = Some cmd" "length cmd = 64" "cmd ! 0 = nvme_admin_set_features"
      "cmd ! 1 = 0x40" "decode CommonCommand_layout of_CommonCommand cmd = Some x"
    using command_bytes [OF w_CommonCommand.wire_struct_axioms x(1) head_layouts(1) head_vals(1) sizeof_commands(4)] x(2,3)
    by (metis PackCmd_simps(6))
  let ?rt = "nvmeDiscoverySetFeaturesRequest (zero_AbstractRequest\<lparr> ar_CmdID := cmd_CommandID x \<rparr>) x"
  let ?q = "q\<lparr> q_sq_ctrl := Some (setAENValue 0x80000000 ctrl) \<rparr>"
  let ?c = "with_result (setU32Result 0x80000000) (NewCompletion (CommandID ?rt) (q_sq_qID q) NVME_SC_SUCCESS)"
  have init: "nvmetRequestInit cmd q = Some (q, Inr ?rt)"
    using cmd assms(3) by (intro request_init_discovery [of cmd nvme_admin_set_features, OF _ _ _ _ assms(1)])
      (simp_all add: nvmetParseDiscoveryCommand_def parse_common_as_def)
  have "execute fill ?rt q = Some (completeRequest ?rt ?c ?q)"
    using assms(1) x by (simp add: execute_def execute_set_features_def nvmetSetFeaturesAsyncEvent_def
        nvmeAENCfgDiscChange_def with_ctrl_def Let_def)
  then have "handle_request fill ?rt [] q = Some (Continue [] (?q\<lparr> q_responses := [SetCompletion ?c ?rt] \<rparr>))"
    using handle_request_no_data [of ?rt fill q] assms(2)
    by (simp add: zero_AbstractRequest_def isWrite_def completeRequest_def)
  with init cmd(1,2) x assms(2) have "answers fill (NewSetFeatureAsyncEventRequest i) [] q ?q (SetCompletion ?c ?rt) ?c"
    by (auto simp: answers_def r CommandID_def SetCompletion_def is_aen_def)
  moreover have "\<not> needsDataOut (SetCompletion ?c ?rt)"
    by (simp add: needsDataOut_def zero_AbstractRequest_def)
  ultimately show ?thesis using that by blast
qed

text \<open>A command that asks for data gets a fresh scatter list of the size it asked for.\<close>

lemma handle_request_data_in:
  assumes "dataLen r \<noteq> 0" "\<not> isWrite r" "dptr r = Some d" "sd_type (sgl d) \<noteq> sgl_inline"
  obtains s where "handle_request fill r [] q = map_option (Continue []) (execute fill (SetData s r) q)"
    "flat s = replicate (unat (dataLen r)) 0" "[] \<notin> set (sl_buffers s)"
proof -
  obtain s where s: "NewScatterList (unat (dataLen r)) 8192 = Some s" "flat s = replicate (unat (dataLen r)) 0"
      "[] \<notin> set (sl_buffers s)"
    using NewScatterList_spec [of 8192 "unat (dataLen r)"] by auto
  have "mapData \<lparr> tr_nvmeRequest = r, tr_pduLen = 0 \<rparr> = Some (NVME_SC_SUCCESS, \<lparr> tr_nvmeRequest = SetData s r, tr_pduLen = 0 \<rparr>)"
    using assms s(1) by (simp add: mapData_def Let_def)
  with that [OF _ s(2,3)] assms(2) show ?thesis
    by (simp add: handle_request_def NeedDataIn_def HasDataIn_def)
qed

lemma ok_identify_data: "ok_IDCtrl (identify_data ctrl)"
  by (simp add: ok_IDCtrl_def identify_data_def zero_IDCtrl_def DiscoverySubsysName_def Let_def)

lemma Sizeof_IDCtrl: "Sizeof IDCtrl_layout = 4096"
  by (simp add: Sizeof_def IDCtrl_layout_def field_size_def)

lemma TrimRightNul_pad:
  assumes "s = [] \<or> last s \<noteq> CHR 0x00" shows "TrimRightNul (s @ replicate n (CHR 0x00)) = s"
proof -
  have "TrimRightNul (s @ replicate n (CHR 0x00)) = TrimRightNul s"
    unfolding TrimRightNul_def by (rule TrimRightFunc_append_all) (simp add: list_all_iff)
  then show ?thesis using assms by (simp add: TrimRightNul_def TrimRightFunc_id)
qed

text \<open>The host accepts the identify data of the target.\<close>

lemma identify_data_accepted:
  obtains bs where "Pack IDCtrl_layout (to_IDCtrl (identify_data ctrl)) = Some bs" "length bs = 4096"
    "recvIdentifyDataPdu bs = Inr ()"
proof -
  obtain bs where bs: "Pack IDCtrl_layout (to_IDCtrl (identify_data ctrl)) = Some bs" "length bs = 4096"
      "decode IDCtrl_layout of_IDCtrl bs = Some (norm_IDCtrl (identify_data ctrl))"
    using decode_Pack [OF w_IDCtrl.wire_struct_axioms ok_identify_data] Sizeof_IDCtrl by metis
  have len: "length DiscoverySubsysName = 36" by (simp add: DiscoverySubsysName_def)
  have "bytes_string (id_SubNqn (norm_IDCtrl (identify_data ctrl))) = DiscoverySubsysName @ replicate 220 (CHR 0x00)"
    using len by (simp add: norm_IDCtrl_def identify_data_def overwrite_def)
  moreover have "TrimRightNul (DiscoverySubsysName @ replicate 220 (CHR 0x00)) = DiscoverySubsysName"
    by (rule TrimRightNul_pad) (simp add: DiscoverySubsysName_def)
  ultimately show ?thesis using that bs by (simp add: recvIdentifyDataPdu_def)
qed

lemma identify_answers:
  assumes "q_sq_ctrl q = Some ctrl" "q_responses q = []" "ct_csts ctrl AND NVME_CSTS_RDY \<noteq> 0"
  obtains r' c d where "answers fill (NewIdentifyRequest i) [] q q r' c" "needsDataOut r'" "GetData r' = Some d"
    "length (flat d) = unat (dataLen r')" "length (flat d) = 4096" "recvIdentifyDataPdu (flat d) = Inr ()"
proof -
  obtain a x where r: "NewIdentifyRequest i = NvmeIdentifyDiscoveryRequest a x" and x: "ok_IdentifyCommand x"
      "idc_Opcode x = nvme_admin_identify" "idc_Flags x = 0x40" "idc_CommandID x = i" "ar_Resp a = None"
      "sd_type (sgl (idc_Dptr x)) = 0"
    by (simp add: NewIdentifyRequest_def ok_IdentifyCommand_def zero_IdentifyCommand_def zero_AbstractRequest_def
        ok_DataPtr_def zero_DataPtr_def sgl_def)
  obtain cmd where cmd: "PackCmd (NvmeIdentifyDiscoveryRequest a x) = Some cmd" "length cmd = 64" "cmd ! 0 = nvme_admin_identify"
      "cmd ! 1 = 0x40" "decode IdentifyCommand_layout of_IdentifyCommand cmd = Some x"
    using command_bytes [OF w_IdentifyCommand.wire_struct_axioms x(1) head_layouts(2) head_vals(2) sizeof_commands(3)] x(2,3)
    by (metis PackCmd_simps(4))
  let ?a = "zero_AbstractRequest\<lparr> ar_CmdID := idc_CommandID x, ar_DataLength := 4096 \<rparr>"
  let ?rt = "NvmeIdentifyDiscoveryRequest ?a x"
  have init: "nvmetRequestInit cmd q = Some (q, Inr ?rt)"
    using cmd assms(3) by (intro request_init_discovery [of cmd nvme_admin_identify, OF _ _ _ _ assms(1)])
      (simp_all add: nvmetParseDiscoveryCommand_def)
  obtain s where s: "handle_request fill ?rt [] q = map_option (Continue []) (execute fill (SetData s ?rt) q)"
      "flat s = replicate 4096 0" "[] \<notin> set (sl_buffers s)"
    using handle_request_data_in [of ?rt "idc_Dptr x" fill q] x(6) by (auto simp: isWrite_def dptr_def)
  obtain bs where bs: "Pack IDCtrl_layout (to_IDCtrl (identify_data ctrl)) = Some bs" "length bs = 4096"
    "recvIdentifyDataPdu bs = Inr ()" by (rule identify_data_accepted)
  obtain n err w where w: "Write bs (NewScatterListWriter s) = (n, err, w)" by (metis prod_cases3)
  from Write_spec [OF NewScatterListWriter_ok(1) [OF s(3)] w] s(2) bs(2) NewScatterListWriter_ok [OF s(3)]
  have wr: "err = None" "flat (sw_sgl w) = bs" by (auto simp: overwrite_def)
  let ?rt' = "NvmeIdentifyDiscoveryRequest (?a\<lparr> ar_sgl := Some (sw_sgl w) \<rparr>) x"
  let ?c = "NewCompletion i (q_sq_qID q) NVME_SC_SUCCESS"
  have "execute fill (SetData s ?rt) q = Some (completeRequest ?rt' ?c q)"
    using assms(1) bs(1) w wr(1) x(4) by (simp add: execute_def execute_identify_def SetData_def CommandID_def)
  then have "handle_request fill ?rt [] q = Some (Continue [] (q\<lparr> q_responses := [SetCompletion ?c ?rt'] \<rparr>))"
    using s(1) assms(2) by (simp add: completeRequest_def)
  with init cmd(1,2) x assms(2) have "answers fill (NewIdentifyRequest i) [] q q (SetCompletion ?c ?rt') ?c"
    by (auto simp: answers_def r CommandID_def SetCompletion_def is_aen_def)
  moreover have "needsDataOut (SetCompletion ?c ?rt')"
    by (simp add: needsDataOut_def isWrite_def SetCompletion_def)
  ultimately show ?thesis using that [of "SetCompletion ?c ?rt'" ?c "sw_sgl w"] wr(2) bs by simp
qed

section \<open>Log pages\<close>

definition entry_bytes :: "NvmefDiscRspPageEntry \<Rightarrow> bytes" where
  "entry_bytes e = pack_or_nil NvmefDiscRspPageEntry_layout (to_NvmefDiscRspPageEntry e)"

definition header_bytes :: "u64 \<Rightarrow> u32 \<Rightarrow> bytes" where
  "header_bytes gen numRec = pack_or_nil DiscRspPageHdr_layout (to_DiscRspPageHdr
     (zero_DiscRspPageHdr\<lparr> dh_GenCtr := gen, dh_NumRec := ucast numRec, dh_RecFmt := 0 \<rparr>))"

lemma entry_bytes:
  assumes "ok_NvmefDiscRspPageEntry e"
  shows "Pack NvmefDiscRspPageEntry_layout (to_NvmefDiscRspPageEntry e) = Some (entry_bytes e)"
    "length (entry_bytes e) = 1024"
    "\<exists>vs. Unpack NvmefDiscRspPageEntry_layout (entry_bytes e @ rest) = Some (vs, rest) \<and>
       of_NvmefDiscRspPageEntry vs = norm_NvmefDiscRspPageEntry e"
proof -
  obtain bs where "Pack NvmefDiscRspPageEntry_layout (to_NvmefDiscRspPageEntry e) = Some bs"
      "length bs = Sizeof NvmefDiscRspPageEntry_layout"
      "\<And>rest. \<exists>vs. Unpack NvmefDiscRspPageEntry_layout (bs @ rest) = Some (vs, rest) \<and>
         of_NvmefDiscRspPageEntry vs = norm_NvmefDiscRspPageEntry e"
    using decode_Pack [OF w_NvmefDiscRspPageEntry.wire_struct_axioms assms] by metis
  then show "Pack NvmefDiscRspPageEntry_layout (to_NvmefDiscRspPageEntry e) = Some (entry_bytes e)"
    "length (entry_bytes e) = 1024"
    "\<exists>vs. Unpack NvmefDiscRspPageEntry_layout (entry_bytes e @ rest) = Some (vs, rest) \<and>
       of_NvmefDiscRspPageEntry vs = norm_NvmefDiscRspPageEntry e"
    by (auto simp: entry_bytes_def pack_or_nil_def Sizeof_def NvmefDiscRspPageEntry_layout_def field_size_def)
qed

lemma header_bytes:
  "Pack DiscRspPageHdr_layout (to_DiscRspPageHdr (zero_DiscRspPageHdr\<lparr> dh_GenCtr := gen, dh_NumRec := ucast numRec,
      dh_RecFmt := 0 \<rparr>)) = Some (header_bytes gen numRec)"
  "length (header_bytes gen numRec) = 1024"
  "parseDiscRspHeader (header_bytes gen numRec @ rest) = Inr ((gen, ucast numRec), rest)"
proof -
  let ?h = "zero_DiscRspPageHdr\<lparr> dh_GenCtr := gen, dh_NumRec := ucast numRec, dh_RecFmt := 0 \<rparr>"
  have ok: "ok_DiscRspPageHdr ?h" by (simp add: ok_DiscRspPageHdr_def zero_DiscRspPageHdr_def)
  obtain bs where "Pack DiscRspPageHdr_layout (to_DiscRspPageHdr ?h) = Some bs" "length bs = Sizeof DiscRspPageHdr_layout"
      "\<And>rest. \<exists>vs. Unpack DiscRspPageHdr_layout (bs @ rest) = Some (vs, rest) \<and> of_DiscRspPageHdr vs = ?h"
    using decode_Pack [OF w_DiscRspPageHdr.wire_struct_axioms ok] by metis
  then show "Pack DiscRspPageHdr_layout (to_DiscRspPageHdr ?h) = Some (header_bytes gen numRec)"
    "length (header_bytes gen numRec) = 1024"
    "parseDiscRspHeader (header_bytes gen numRec @ rest) = Inr ((gen, ucast numRec), rest)"
    by (auto simp: header_bytes_def pack_or_nil_def Sizeof_def DiscRspPageHdr_layout_def field_size_def
        parseDiscRspHeader_def Let_def)
qed

text \<open>A page that is no header parses as one too: any 1024 bytes do.\<close>

lemma parseDiscRspHeader_any: "length bs \<ge> 1024 \<Longrightarrow> \<exists>g n. parseDiscRspHeader bs = Inr ((g, n), drop 1024 bs)"
  using Unpack_long [of DiscRspPageHdr_layout bs]
  by (auto simp: parseDiscRspHeader_def Let_def Sizeof_def DiscRspPageHdr_layout_def field_size_def)

lemma length_concat_entries:
  "\<forall>e \<in> set es. ok_NvmefDiscRspPageEntry e \<Longrightarrow> length (concat (map entry_bytes es)) = 1024 * length es"
  by (induction es) (auto simp: entry_bytes)

lemma write_entries_Writes:
  "\<forall>e \<in> set es. ok_NvmefDiscRspPageEntry e \<Longrightarrow> write_entries es w = Some (Writes (map entry_bytes es) w)"
  by (induction es arbitrary: w) (auto simp: entry_bytes split: prod.splits)

text \<open>What the target writes: the header when the corrected offset is 0, then the entries.\<close>

definition page_bytes :: "u64 \<Rightarrow> u64 \<Rightarrow> u32 \<Rightarrow> NvmefDiscRspPageEntry list \<Rightarrow> bytes" where
  "page_bytes off gen numRec es = (if off = 0 then header_bytes gen numRec else []) @ concat (map entry_bytes es)"

lemma log_page_writes_spec:
  assumes "[] \<notin> set (sl_buffers s)" "flat s = replicate n 0" "\<forall>e \<in> set es. ok_NvmefDiscRspPageEntry e"
    and "length (page_bytes off gen numRec es) \<le> n"
  obtains w where "log_page_writes off (zero_DiscRspPageHdr\<lparr> dh_GenCtr := gen, dh_NumRec := ucast numRec, dh_RecFmt := 0 \<rparr>)
      es (NewScatterListWriter s) = Some (None, w)"
    "flat (sw_sgl w) = page_bytes off gen numRec es @ replicate (n - length (page_bytes off gen numRec es)) 0"
proof -
  note new = NewScatterListWriter_ok [OF assms(1)]
  let ?bufs = "(if off = 0 then [header_bytes gen numRec] else []) @ map entry_bytes es"
  have cat: "concat ?bufs = page_bytes off gen numRec es" by (simp add: page_bytes_def)
  obtain err w where w: "Writes ?bufs (NewScatterListWriter s) = (err, w)" by fastforce
  from Writes_fit [OF new(1) _ w, unfolded cat] new assms(2,4)
  have fit: "err = None" "flat (sw_sgl w) = page_bytes off gen numRec es @ replicate (n - length (page_bytes off gen numRec es)) 0"
    by (auto simp: overwrite_def)
  have "log_page_writes off (zero_DiscRspPageHdr\<lparr> dh_GenCtr := gen, dh_NumRec := ucast numRec, dh_RecFmt := 0 \<rparr>)
      es (NewScatterListWriter s) = Some (None, w)"
  proof (cases "off = 0")
    case True
    obtain k e w1 where w1: "Write (header_bytes gen numRec) (NewScatterListWriter s) = (k, e, w1)" by (metis prod_cases3)
    have "1024 \<le> n" using assms(4) True header_bytes(2) by (simp add: page_bytes_def)
    with Write_spec [OF new(1) w1] new assms(2) header_bytes(2) have "e = None" by auto
    with w w1 True fit(1) show ?thesis
      by (simp add: log_page_writes_def header_bytes(1) write_entries_Writes [OF assms(3)])
  next
    case False
    with w fit(1) show ?thesis by (simp add: log_page_writes_def write_entries_Writes [OF assms(3)])
  qed
  with that fit(2) show ?thesis by blast
qed

text \<open>
  A page size of \<open>k\<close> records at record offset \<open>m\<close>: what the target passes to the subsystem, and its answer.
\<close>

abbreviation recs :: "nat \<Rightarrow> ('a::len) word" where
  "recs k \<equiv> of_nat (1024 * k)"

lemma recs_u32:
  assumes "1024 * k < 2 ^ 32"
  shows "unat (recs k :: u32) = 1024 * k" "recs k AND NOT (mask 2) = (recs k :: u32)" "unat ((recs k :: u32) div 1024) = k"
proof -
  show u: "unat (recs k :: u32) = 1024 * k" using assms by (simp only: unat_of_nat take_bit_nat_eq_self_iff) simp
  have "(recs k :: u32) = push_bit 2 (of_nat (256 * k))" by (simp add: push_bit_eq_mult)
  also have "\<dots> AND NOT (mask 2) = push_bit 2 (of_nat (256 * k))"
    by (rule bit_word_eqI) (auto simp: bit_simps)
  finally show "recs k AND NOT (mask 2) = (recs k :: u32)" by (simp add: push_bit_eq_mult)
  show "unat ((recs k :: u32) div 1024) = k" using u by (simp add: unat_div)
qed

definition log_page_q :: "nvmeQueue \<Rightarrow> nvmeQueue \<Rightarrow> bool" where
  "log_page_q q q' \<longleftrightarrow> (\<exists>ctrl b. q_sq_ctrl q = Some ctrl \<and> q' = q\<lparr> q_sq_ctrl := Some (ctrl\<lparr> ct_rae := b \<rparr>) \<rparr>)"

lemma log_page_request_fields:
  assumes "1024 * k < 2 ^ 32"
  obtains a x e where "NewNvmeGetDiscoveryLogPageRequest i (recs k) off nsid = NvmeGetDiscoveryLogPageRequest a x e"
    "ok_GetLogPageCommand x" "lp_Opcode x = nvme_admin_get_log_page" "lp_Flags x = 0x40" "lp_CommandID x = i"
    "ar_Resp a = None" "sd_type (sgl (lp_Dptr x)) = 90" "lp_Lid x = NVME_LOG_DISC"
    "GetLogPageLen x = recs k" "GetLogPageOffset x = off"
  by (rule that, simp add: NewNvmeGetDiscoveryLogPageRequest_def Let_def)
    (simp_all add: ok_GetLogPageCommand_def zero_GetLogPageCommand_def zero_AbstractRequest_def ok_DataPtr_def sgl_def
      GetLogPageLen_numd [of _ "recs k", unfolded recs_u32(2) [OF assms]] GetLogPageOffset_halves)

lemma decode_any: "length cmd = Sizeof l \<Longrightarrow> \<exists>x. decode l f cmd = Some x"
  using Unpack_long [of l cmd] by (auto simp: decode_def)

lemma log_page_parsed:
  assumes "ok_GetLogPageCommand x" "lp_Opcode x = nvme_admin_get_log_page" "lp_Flags x = 0x40" "lp_Lid x = NVME_LOG_DISC"
    and "q_sq_ctrl q = Some ctrl" "ct_csts ctrl AND NVME_CSTS_RDY \<noteq> 0"
  obtains cmd common where "PackCmd (NvmeGetDiscoveryLogPageRequest a x e) = Some cmd" "length cmd = 64"
    "nvmetRequestInit cmd q = Some (q, Inr (NvmeGetDiscoveryLogPageRequest
       (zero_AbstractRequest\<lparr> ar_CmdID := lp_CommandID x, ar_DataLength := GetLogPageLen x \<rparr>) x common))"
proof -
  obtain cmd where cmd: "PackCmd (NvmeGetDiscoveryLogPageRequest a x e) = Some cmd" "length cmd = 64"
      "cmd ! 0 = nvme_admin_get_log_page" "cmd ! 1 = 0x40" "decode GetLogPageCommand_layout of_GetLogPageCommand cmd = Some x"
    using command_bytes [OF w_GetLogPageCommand.wire_struct_axioms assms(1) head_layouts(3) head_vals(3) sizeof_commands(5)]
      assms(2,3) by (metis PackCmd_simps(5))
  obtain common where "decode CommonCommand_layout of_CommonCommand cmd = Some common"
    using decode_any [of cmd CommonCommand_layout of_CommonCommand] cmd(2) sizeof_commands(4) by auto
  with that [OF cmd(1,2)] cmd assms(4-6) show ?thesis
    by (simp add: request_init_discovery [of cmd nvme_admin_get_log_page, OF _ _ _ _ assms(5)] nvmetParseDiscoveryCommand_def)
qed

lemma log_page_answers:
  assumes "q_sq_ctrl q = Some ctrl" "q_responses q = []" "ct_csts ctrl AND NVME_CSTS_RDY \<noteq> 0"
    and "k \<ge> 1" "1024 * k + 24 < 2 ^ 32"
    and "fill (data_offset off) (log_page_max_entries (recs k) off) (ct_hostNqn ctrl) = (es, numRec, gen)"
    and "\<forall>e \<in> set es. ok_NvmefDiscRspPageEntry e"
    and "length (page_bytes (data_offset off) gen numRec es) \<le> 1024 * k"
  obtains q' r' c d where "answers fill (NewNvmeGetDiscoveryLogPageRequest i (recs k) off nsid) [] q q' r' c" "log_page_q q q'"
    "needsDataOut r'" "GetData r' = Some d" "length (flat d) = unat (dataLen r')" "length (flat d) = 1024 * k"
    "\<exists>z. flat d = page_bytes (data_offset off) gen numRec es @ replicate z 0"
proof -
  let ?off = "data_offset off"
  have k32: "1024 * k < 2 ^ 32" using assms(5) by simp
  obtain a x e where r: "NewNvmeGetDiscoveryLogPageRequest i (recs k) off nsid = NvmeGetDiscoveryLogPageRequest a x e"
    and x: "ok_GetLogPageCommand x" "lp_Opcode x = nvme_admin_get_log_page" "lp_Flags x = 0x40" "lp_CommandID x = i"
      "ar_Resp a = None" "sd_type (sgl (lp_Dptr x)) = 90" "lp_Lid x = NVME_LOG_DISC"
      "GetLogPageLen x = recs k" "GetLogPageOffset x = off"
    by (rule log_page_request_fields [OF k32])
  obtain cmd common where cmd: "PackCmd (NvmeGetDiscoveryLogPageRequest a x e) = Some cmd" "length cmd = 64"
    "nvmetRequestInit cmd q = Some (q, Inr (NvmeGetDiscoveryLogPageRequest
       (zero_AbstractRequest\<lparr> ar_CmdID := lp_CommandID x, ar_DataLength := GetLogPageLen x \<rparr>) x common))"
    by (rule log_page_parsed [OF x(1,2,3,7) assms(1,3)])
  let ?a = "zero_AbstractRequest\<lparr> ar_CmdID := i, ar_DataLength := recs k \<rparr>"
  let ?rt = "NvmeGetDiscoveryLogPageRequest ?a x common"
  have len: "unat (dataLen ?rt) = 1024 * k" "dataLen ?rt \<noteq> 0" "maxUint32 (recs k) 1024 = recs k"
    using recs_u32(1) [OF k32] assms(4) unat_gt_0 [of "recs k :: u32"]
    by (auto simp: maxUint32_def word_less_nat_alt)
  obtain s where s: "handle_request fill ?rt [] q = map_option (Continue []) (execute fill (SetData s ?rt) q)"
      "flat s = replicate (1024 * k) 0" "[] \<notin> set (sl_buffers s)"
    using handle_request_data_in [of ?rt "lp_Dptr x" fill q] x(6) len by (auto simp: isWrite_def dptr_def)
  obtain w where w: "log_page_writes ?off (zero_DiscRspPageHdr\<lparr> dh_GenCtr := gen, dh_NumRec := ucast numRec, dh_RecFmt := 0 \<rparr>)
      es (NewScatterListWriter s) = Some (None, w)"
    "flat (sw_sgl w) = page_bytes ?off gen numRec es @ replicate (1024 * k - length (page_bytes ?off gen numRec es)) 0"
    by (rule log_page_writes_spec [OF s(3,2) assms(7,8)])
  let ?rt' = "NvmeGetDiscoveryLogPageRequest (?a\<lparr> ar_sgl := Some (sw_sgl w) \<rparr>) x common"
  let ?c = "NewCompletion i (q_sq_qID q) NVME_SC_SUCCESS"
  let ?q = "q\<lparr> q_sq_ctrl := Some (retainAsynchronousEvent common ctrl) \<rparr>"
  have "execute fill (SetData s ?rt) q = Some (completeRequest ?rt' ?c ?q)"
    using assms(1,6) w(1) x(4,8,9) len(3)
    by (simp add: execute_def execute_get_log_page_def SetData_def CommandID_def Let_def)
  then have "handle_request fill ?rt [] q = Some (Continue [] (?q\<lparr> q_responses := [SetCompletion ?c ?rt'] \<rparr>))"
    using s(1) assms(2) by (simp add: completeRequest_def)
  with cmd x r assms(2)
  have ans: "answers fill (NewNvmeGetDiscoveryLogPageRequest i (recs k) off nsid) [] q ?q (SetCompletion ?c ?rt') ?c"
    by (auto simp: answers_def CommandID_def SetCompletion_def is_aen_def)
  have dout: "needsDataOut (SetCompletion ?c ?rt')"
    using len(2) by (simp add: needsDataOut_def isWrite_def SetCompletion_def word_gt_0)
  have lq: "log_page_q q ?q"
    using assms(1) by (auto simp: log_page_q_def retainAsynchronousEvent_def setRetainAsynchronousEvent_def)
  have "length (flat (sw_sgl w)) = 1024 * k" using w(2) assms(8) by simp
  then show ?thesis
    by (intro that [OF ans lq dout]) (use w(2) len(1) in \<open>auto simp del: of_nat_mult\<close>)
qed

lemma log_page_q_same:
  assumes "log_page_q q q'"
  shows "\<exists>ctrl'. q_sq_ctrl q' = Some ctrl' \<and> (\<forall>ctrl. q_sq_ctrl q = Some ctrl \<longrightarrow>
    ct_csts ctrl' = ct_csts ctrl \<and> ct_hostNqn ctrl' = ct_hostNqn ctrl)"
  using assms by (auto simp: log_page_q_def)

section \<open>Log page requests of the host\<close>

definition ready_queue :: "nvmeQueue \<Rightarrow> string \<Rightarrow> bool" where
  "ready_queue q nqn \<longleftrightarrow> (\<exists>ctrl. q_sq_ctrl q = Some ctrl \<and> ct_csts ctrl AND NVME_CSTS_RDY \<noteq> 0 \<and> ct_hostNqn ctrl = nqn)"

lemma sendDiscLogPageRequest_page:
  assumes "host_ready h q" "ready_queue q nqn" "k \<ge> 1" "1024 * k + 24 < 2 ^ 32"
    and "fill (data_offset off) (log_page_max_entries (recs k) off) nqn = (es, numRec, gen)"
    and "\<forall>e \<in> set es. ok_NvmefDiscRspPageEntry e"
    and "length (page_bytes (data_offset off) gen numRec es) \<le> 1024 * k"
  obtains h' q' bs z where "host_ready h' q'" "ready_queue q' nqn" "length bs = 1024 * k"
    "bs = page_bytes (data_offset off) gen numRec es @ replicate z 0"
    "sendDiscLogPageRequest (wire_peer fill) (recs k) off nsid num h =
       (case parseDiscRspHeader bs of Inl e \<Rightarrow> Inl e
        | Inr ((g, n), bs') \<Rightarrow> Inr (n, g, recvLogPageDataPdu bs' off num), h')"
proof -
  let ?h = "h\<lparr> h_commandID := h_commandID h + 1 \<rparr>"
  have rd: "host_ready ?h q" using assms(1) by (simp add: host_ready_def)
  obtain ctrl where ctrl: "q_sq_ctrl q = Some ctrl" "ct_csts ctrl AND NVME_CSTS_RDY \<noteq> 0" "ct_hostNqn ctrl = nqn"
    using assms(2) by (auto simp: ready_queue_def)
  have resp: "q_responses q = []" using assms(1) by (simp add: host_ready_def)
  obtain q' r' c d z where ans: "answers fill (NewNvmeGetDiscoveryLogPageRequest (h_commandID h) (recs k) off nsid) [] q q' r' c"
      "log_page_q q q'" "needsDataOut r'" "GetData r' = Some d" "length (flat d) = unat (dataLen r')"
      "length (flat d) = 1024 * k" "flat d = page_bytes (data_offset off) gen numRec es @ replicate z 0"
    using log_page_answers [OF ctrl(1) resp ctrl(2) assms(3,4) _ assms(6,7), of fill "h_commandID h" nsid]
      assms(5) ctrl(3) by metis
  have "length (flat d) + 24 < 2 ^ 32" using ans(6) assms(4) by simp
  from exchange_data [OF rd ans(1) _ ans(3-5) this]
  obtain h1 s where ex: "sendRequest (wire_peer fill) (NewNvmeGetDiscoveryLogPageRequest (h_commandID h) (recs k) off nsid) ?h = (Inr (), h1)"
      "next_completed h1 = (Some (SetCompletion c (SetData s (NewNvmeGetDiscoveryLogPageRequest (h_commandID h) (recs k) off nsid))),
         ?h\<lparr> h_peer := target_at q' \<rparr>)"
      "flat s = flat d" "sgl_Size s = int (length (flat d))" "host_ready (?h\<lparr> h_peer := target_at q' \<rparr>) q'"
    by (auto simp del: receive.simps of_nat_mult)
  have "ready_queue q' nqn"
    using log_page_q_same [OF ans(2)] ctrl by (auto simp: ready_queue_def)
  moreover have "sgl_Size s \<noteq> 0" using ex(4) ans(6) assms(3) by simp
  then have "sendDiscLogPageRequest (wire_peer fill) (recs k) off nsid num h =
       (case parseDiscRspHeader (flat d) of Inl e \<Rightarrow> Inl e
        | Inr ((g, n), bs') \<Rightarrow> Inr (n, g, recvLogPageDataPdu bs' off num), ?h\<lparr> h_peer := target_at q' \<rparr>)"
    using ex(1-3) by (simp add: sendDiscLogPageRequest_def and_then_def nextCmdID_def log_page_reply_def
        del: receive.simps of_nat_mult)
  ultimately show ?thesis using that [OF ex(5)] ans(6,7) by blast
qed

section \<open>The whole log page\<close>

lemma log_page_entries_spec:
  assumes "\<forall>e \<in> set es. ok_NvmefDiscRspPageEntry e" "unat n - unat i \<le> length es \<or> length z < 1024"
  shows "log_page_entries i n (concat (map entry_bytes es) @ z) = map norm_NvmefDiscRspPageEntry (take (unat n - unat i) es)"
  using assms
proof (induction es arbitrary: i)
  case Nil
  then show ?case by (auto simp: log_page_entries.simps [of i] word_less_nat_alt)
next
  case (Cons e es)
  show ?case
  proof (cases "i < n")
    case True
    obtain vs where un: "Unpack NvmefDiscRspPageEntry_layout (entry_bytes e @ concat (map entry_bytes es) @ z)
        = Some (vs, concat (map entry_bytes es) @ z)" "of_NvmefDiscRspPageEntry vs = norm_NvmefDiscRspPageEntry e"
      using entry_bytes(3) Cons.prems(1) by (metis list.set_intros(1))
    have next': "unat (i + 1) = Suc (unat i)"
      using True unat_fits(4) [of n] by (simp add: unat_word_ariths word_less_nat_alt)
    have "log_page_entries (i + 1) n (concat (map entry_bytes es) @ z)
        = map norm_NvmefDiscRspPageEntry (take (unat n - unat (i + 1)) es)"
      using Cons.prems next' by (intro Cons.IH) auto
    moreover have "unat n - unat i = Suc (unat n - unat (i + 1))"
      using True next' by (simp add: word_less_nat_alt)
    ultimately show ?thesis
      using True un Cons.prems(1) entry_bytes(2) [of e] by (simp add: log_page_entries.simps [of i])
  qed (simp add: log_page_entries.simps [of i] word_less_nat_alt)
qed

text \<open>A subsystem that does not change and lists \<open>es\<close> to the host \<open>nqn\<close>, one record per 1024 bytes of offset.\<close>

definition lists :: "fill_log_page \<Rightarrow> string \<Rightarrow> NvmefDiscRspPageEntry list \<Rightarrow> u64 \<Rightarrow> bool" where
  "lists fill nqn es gen \<longleftrightarrow>
     (\<forall>off k. fill off k nqn = (take (unat k) (drop (unat off div 1024) es), of_nat (length es), gen))"

lemma max_entries:
  assumes "1024 * k < 2 ^ 32" "k \<ge> 1"
  shows "unat (log_page_max_entries (recs k) 0) = k - 1"
    "off \<noteq> 0 \<Longrightarrow> unat (log_page_max_entries (recs k) off) = k"
proof -
  have sub: "(recs k :: u32) - 1024 = recs (k - 1)"
    using assms(2) by (simp add: of_nat_diff algebra_simps)
  have lt: "(1024 < (recs k :: u32)) = (k > 1)"
    using recs_u32(1) [OF assms(1)] by (simp add: word_less_nat_alt del: of_nat_mult)
  have "1024 * (k - 1) < 2 ^ 32" using assms(1) by simp
  from recs_u32(3) [OF this] sub lt assms(2) show "unat (log_page_max_entries (recs k) 0) = k - 1"
    by (auto simp: log_page_max_entries_def simp del: of_nat_mult)
  show "off \<noteq> 0 \<Longrightarrow> unat (log_page_max_entries (recs k) off) = k"
    using recs_u32(3) [OF assms(1)] by (simp add: log_page_max_entries_def del: of_nat_mult)
qed

text \<open>A request at offset 0 for \<open>k\<close> records gives the header and the first \<open>k - 1\<close> entries.\<close>

lemma first_page:
  assumes "host_ready h q" "ready_queue q nqn" "lists fill nqn es gen" "\<forall>e \<in> set es. ok_NvmefDiscRspPageEntry e"
    and "k \<ge> 1" "1024 * k + 24 < 2 ^ 32" "length es < 2 ^ 32" "unat num \<le> length es"
  obtains h' q' where "host_ready h' q'" "ready_queue q' nqn"
    "sendDiscLogPageRequest (wire_peer fill) (recs k) 0 nsid num h =
       (Inr (of_nat (length es), gen, map norm_NvmefDiscRspPageEntry (take (unat num) (take (k - 1) es))), h')"
proof -
  have k32: "1024 * k < 2 ^ 32" using assms(6) by simp
  let ?es = "take (k - 1) es"
  have fill: "fill (data_offset 0) (log_page_max_entries (recs k) 0) nqn = (?es, of_nat (length es), gen)"
    using assms(3) max_entries(1) [OF k32 assms(5)] by (simp add: lists_def data_offset_def del: of_nat_mult)
  have ok: "\<forall>e \<in> set ?es. ok_NvmefDiscRspPageEntry e" using assms(4) by (meson in_set_takeD)
  have bs: "page_bytes (data_offset 0) gen n' ?es = header_bytes gen n' @ concat (map entry_bytes ?es)" for n'
    by (simp add: page_bytes_def data_offset_def)
  have lc: "length (concat (map entry_bytes ?es)) = 1024 * min (k - 1) (length es)"
    using length_concat_entries [OF ok] by simp
  have len: "length (page_bytes (data_offset 0) gen n' ?es) \<le> 1024 * k" for n'
    using lc assms(5) unfolding bs by (simp add: header_bytes(2))
  obtain h' q' b z where res: "host_ready h' q'" "ready_queue q' nqn" "length b = 1024 * k"
      "b = page_bytes (data_offset 0) gen (of_nat (length es)) ?es @ replicate z 0"
      "sendDiscLogPageRequest (wire_peer fill) (recs k) 0 nsid num h =
       (case parseDiscRspHeader b of Inl e \<Rightarrow> Inl e | Inr ((g, n), bs') \<Rightarrow> Inr (n, g, recvLogPageDataPdu bs' 0 num), h')"
    by (rule sendDiscLogPageRequest_page [where fill=fill and off=0, OF assms(1,2,5,6) fill ok len])
  have "z = 0 \<or> k - 1 \<ge> length es"
    using res(3,4) assms(5) lc unfolding bs by (auto simp: header_bytes(2))
  then have "recvLogPageDataPdu (concat (map entry_bytes ?es) @ replicate z 0) 0 num =
      map norm_NvmefDiscRspPageEntry (take (unat num) ?es)"
    unfolding recvLogPageDataPdu_def using log_page_entries_spec [OF ok, of num 0 "replicate z 0"] assms(8) by auto
  moreover have "parseDiscRspHeader b = Inr ((gen, of_nat (length es)), concat (map entry_bytes ?es) @ replicate z 0)"
    unfolding res(4) bs using assms(7) by (simp add: header_bytes(3) unsigned_of_nat take_bit_nat_eq_self)
  ultimately show ?thesis using that [OF res(1,2)] res(5) by simp
qed

lemma take_min_length: "take (min (length es - m) k) (drop m es) = take k (drop m es)"
  by (simp add: min_def)

lemma recs_u64:
  assumes "m < 2 ^ 32"
  shows "unat (recs m :: u64) = 1024 * m" "unat ((recs m :: u64) div 1024) = m"
proof -
  have "1024 * m < 2 ^ 64" using assms by simp
  then show u: "unat (recs m :: u64) = 1024 * m" by (simp only: unat_of_nat take_bit_nat_eq_self_iff) simp
  show "unat ((recs m :: u64) div 1024) = m" using u by (simp add: unat_div)
qed

lemma data_offset_recs:
  assumes "m \<ge> 2" "m < 2 ^ 32"
  shows "data_offset (recs m) = recs (m - 1)" "recs m \<noteq> (0 :: u64)" "data_offset (recs m) \<noteq> 0"
proof -
  have m1: "m - 1 < 2 ^ 32" using assms by simp
  show ne: "recs m \<noteq> (0 :: u64)"
    using recs_u64(1) [OF assms(2)] assms(1) by (metis mult_is_0 not_numeral_le_zero unat_0 zero_neq_numeral)
  then show d: "data_offset (recs m) = recs (m - 1)"
    using assms(1) by (simp add: data_offset_def word_gt_0 of_nat_diff algebra_simps)
  show "data_offset (recs m) \<noteq> 0"
    unfolding d using recs_u64(1) [OF m1] assms(1)
    by (metis One_nat_def Suc_1 Suc_le_lessD diff_is_0_eq mult_is_0 not_le unat_0 zero_neq_numeral)
qed

text \<open>
  A later request, at record \<open>m\<close>: the target goes back one record, the host drops the first 1024 bytes as if
  they were a header, and what is left starts at record \<open>m\<close> again.
\<close>

lemma later_page:
  assumes "host_ready h q" "ready_queue q nqn" "lists fill nqn es gen" "\<forall>e \<in> set es. ok_NvmefDiscRspPageEntry e"
    and "m \<ge> 2" "m < length es" "length es < 2 ^ 32"
  obtains h' q' g n where "host_ready h' q'" "ready_queue q' nqn"
    "sendDiscLogPageRequest (wire_peer fill) 4096 (recs m) nsid (of_nat (length es)) h =
       (Inr (n, g, map norm_NvmefDiscRspPageEntry (take 3 (drop m es))), h')"
proof -
  have m32: "m < 2 ^ 32" "m - 1 < 2 ^ 32" using assms(6,7) by simp_all
  note off = data_offset_recs [OF assms(5) m32(1)]
  let ?es = "take 4 (drop (m - 1) es)"
  have es: "?es = es ! (m - 1) # take 3 (drop m es)"
    using assms(5,6) by (cases m) (auto simp: Cons_nth_drop_Suc [symmetric] numeral_eq_Suc)
  have "unat (log_page_max_entries (recs 4) (recs m)) = 4"
    using max_entries(2) [of 4 "recs m"] off(2) by simp
  then have fill: "fill (data_offset (recs m)) (log_page_max_entries (recs 4) (recs m)) nqn = (?es, of_nat (length es), gen)"
    using assms(3) recs_u64(1) [OF m32(2)] unfolding lists_def off(1) by (simp del: of_nat_mult)
  have ok: "\<forall>e \<in> set ?es. ok_NvmefDiscRspPageEntry e" using assms(4) by (meson in_set_dropD in_set_takeD)
  have bs: "page_bytes (data_offset (recs m)) gen n' ?es = concat (map entry_bytes ?es)" for n'
    using off(3) by (simp add: page_bytes_def)
  have lc: "length (concat (map entry_bytes ?es)) = 1024 * min 4 (length es - (m - 1))"
    using length_concat_entries [OF ok] by (simp add: min.commute)
  have len: "length (page_bytes (data_offset (recs m)) gen n' ?es) \<le> 1024 * 4" for n'
    unfolding bs lc by simp
  obtain h' q' b z where res: "host_ready h' q'" "ready_queue q' nqn" "length b = 1024 * 4"
      "b = page_bytes (data_offset (recs m)) gen (of_nat (length es)) ?es @ replicate z 0"
      "sendDiscLogPageRequest (wire_peer fill) (recs 4) (recs m) nsid (of_nat (length es)) h =
       (case parseDiscRspHeader b of Inl e \<Rightarrow> Inl e
        | Inr ((g, n), bs') \<Rightarrow> Inr (n, g, recvLogPageDataPdu bs' (recs m) (of_nat (length es))), h')"
    by (rule sendDiscLogPageRequest_page [where fill=fill and off="recs m" and k=4, OF assms(1,2) _ _ fill ok len]) auto
  let ?tail = "concat (map entry_bytes (take 3 (drop m es))) @ replicate z 0"
  have ok3: "\<forall>e \<in> set (take 3 (drop m es)). ok_NvmefDiscRspPageEntry e"
    using assms(4) by (meson in_set_dropD in_set_takeD)
  have "b = concat (map entry_bytes ?es) @ replicate z 0" using res(4) by (simp only: bs)
  then have b: "b = entry_bytes (es ! (m - 1)) @ ?tail" unfolding es by simp
  moreover have "length (entry_bytes (es ! (m - 1))) = 1024"
    using ok es by (intro entry_bytes(2)) simp
  ultimately obtain g n where "parseDiscRspHeader b = Inr ((g, n), ?tail)"
    using parseDiscRspHeader_any [of b] res(3) by auto
  moreover have "recvLogPageDataPdu ?tail (recs m) (of_nat (length es)) = map norm_NvmefDiscRspPageEntry (take 3 (drop m es))"
  proof -
    have "unat (of_nat (length es) :: u64) = length es"
      using assms(7) by (simp add: unat_of_nat take_bit_nat_eq_self)
    moreover have "length es - m \<le> length (take 3 (drop m es)) \<or> length (replicate z (0 :: u8)) < 1024"
      using res(3) lc b unfolding res(4) bs by auto
    ultimately show ?thesis
      unfolding recvLogPageDataPdu_def using log_page_entries_spec [OF ok3] recs_u64(2) [OF m32(1)]
      by (simp add: take_min_length)
  qed
  ultimately show ?thesis using that [OF res(1,2)] res(5) by simp
qed

lemma paginate_from:
  assumes "lists fill nqn es gen" "\<forall>e \<in> set es. ok_NvmefDiscRspPageEntry e" "length es < 2 ^ 32"
  shows "host_ready h q \<Longrightarrow> ready_queue q nqn \<Longrightarrow> m \<le> length es \<Longrightarrow> m = 0 \<or> m \<ge> 3 \<or> m = length es \<Longrightarrow>
     \<exists>h' q'. paginate (wire_peer fill) (of_nat (length es)) (recs m) (map norm_NvmefDiscRspPageEntry (take m es)) h
        = Some (Inr (map norm_NvmefDiscRspPageEntry es), h') \<and> host_ready h' q' \<and> ready_queue q' nqn"
proof (induction "length es - m" arbitrary: m h q rule: less_induct)
  case less
  have u64: "unat (of_nat (length es) :: u64) = length es" "unat (of_nat m :: u64) = m"
    using assms(3) less.prems(3) by (simp_all add: unat_of_nat take_bit_nat_eq_self)
  show ?case
  proof (cases "m < length es")
    case False
    then show ?thesis
      using less.prems u64 by (auto simp: paginate.simps [of "wire_peer fill"] word_less_nat_alt)
  next
    case True
    let ?page = "map norm_NvmefDiscRspPageEntry (take 3 (drop m es))"
    let ?m = "min (m + 3) (length es)"
    obtain h1 q1 n g where pg: "host_ready h1 q1" "ready_queue q1 nqn"
      "sendDiscLogPageRequest (wire_peer fill) 4096 (recs m) 0 (of_nat (length es)) h = (Inr (n, g, ?page), h1)"
    proof (cases "m = 0")
      case True
      obtain h' q' where "host_ready h' q'" "ready_queue q' nqn"
          "sendDiscLogPageRequest (wire_peer fill) (recs 4) 0 0 (of_nat (length es)) h = (Inr (of_nat (length es), gen,
             map norm_NvmefDiscRspPageEntry (take (unat (of_nat (length es) :: u64)) (take (4 - 1) es))), h')"
        by (rule first_page [OF less.prems(1,2) assms(1,2), of 4 "of_nat (length es)" 0])
          (use assms(3) u64(1) in auto)
      with that True u64(1) show ?thesis by (simp add: take_min_length [of es 0, simplified])
    next
      case False
      then have "m \<ge> 2" using less.prems(4) True by auto
      with later_page [OF less.prems(1,2) assms(1,2) _ True assms(3)] that show ?thesis by metis
    qed
    have app: "map norm_NvmefDiscRspPageEntry (take m es) @ ?page = map norm_NvmefDiscRspPageEntry (take ?m es)"
      by (simp add: take_add min_def flip: map_append)
    have "length es - ?m < length es - m" "?m \<le> length es" "?m = 0 \<or> ?m \<ge> 3 \<or> ?m = length es"
      using True by auto
    note IH = less.hyps [OF this(1) pg(1,2) this(2,3)]
    have len: "length (map norm_NvmefDiscRspPageEntry (take ?m es)) * 1024 = 1024 * ?m" by simp
    have "paginate (wire_peer fill) (of_nat (length es)) (recs m) (map norm_NvmefDiscRspPageEntry (take m es)) h
        = paginate (wire_peer fill) (of_nat (length es)) (recs ?m) (map norm_NvmefDiscRspPageEntry (take ?m es)) h1"
      by (subst paginate.simps, unfold pg(3), unfold prod.case sum.case app len)
        (use True u64 in \<open>simp add: word_less_nat_alt min_absorb2\<close>)
    with IH show ?thesis by (simp only:)
  qed
qed

lemma read_entries_complete:
  assumes "lists fill nqn es gen" "\<forall>e \<in> set es. ok_NvmefDiscRspPageEntry e" "length es < 2 ^ 32"
    and "pagination \<or> 1024 * (length es + 1) + 24 < 2 ^ 32" "host_ready h q" "ready_queue q nqn"
  obtains h' q' where "read_entries (wire_peer fill) pagination (of_nat (length es)) h =
      Some (Inr (map norm_NvmefDiscRspPageEntry es), h')" "host_ready h' q'" "ready_queue q' nqn"
proof (cases pagination)
  case True
  with paginate_from [OF assms(1-3,5,6), of 0] that show ?thesis by (auto simp: read_entries_def)
next
  case False
  have u64: "unat (of_nat (length es) :: u64) = length es"
    using assms(3) by (simp add: unat_of_nat take_bit_nat_eq_self)
  have sz: "1024 + ucast (of_nat (length es) :: u64) * 1024 = (recs (length es + 1) :: u32)"
    using assms(3) by (simp add: unsigned_of_nat take_bit_nat_eq_self)
  obtain h' q' where "host_ready h' q'" "ready_queue q' nqn"
    "sendDiscLogPageRequest (wire_peer fill) (recs (length es + 1)) 0 0 (of_nat (length es)) h = (Inr (of_nat (length es), gen,
       map norm_NvmefDiscRspPageEntry (take (unat (of_nat (length es) :: u64)) (take (length es + 1 - 1) es))), h')"
    by (rule first_page [OF assms(5,6,1,2), of "length es + 1" "of_nat (length es)" 0]) (use assms(3,4) False u64 in auto)
  with that False sz u64 show ?thesis
    by (simp add: read_entries_def and_then_def return_def)
qed

lemma getLogPageEntries_complete:
  assumes "lists fill nqn es gen" "\<forall>e \<in> set es. ok_NvmefDiscRspPageEntry e" "length es < 2 ^ 32"
    and "pagination \<or> 1024 * (length es + 1) + 24 < 2 ^ 32" "host_ready h q" "ready_queue q nqn"
  obtains h' q' where "getLogPageEntries (wire_peer fill) pagination h = Some (Inr (map norm_NvmefDiscRspPageEntry es), h')"
    "host_ready h' q'" "ready_queue q' nqn"
proof -
  obtain h1 q1 where s1: "host_ready h1 q1" "ready_queue q1 nqn"
      "sendDiscLogPageRequest (wire_peer fill) 1024 0 0xffffffff 0 h = (Inr (of_nat (length es), gen, []), h1)"
    using first_page [OF assms(5,6,1,2), of 1 0 "0xffffffff"] assms(3) by auto
  obtain h2 q2 where s2: "host_ready h2 q2" "ready_queue q2 nqn"
      "read_entries (wire_peer fill) pagination (of_nat (length es)) h1 = Some (Inr (map norm_NvmefDiscRspPageEntry es), h2)"
    using read_entries_complete [OF assms(1-4) s1(1,2)] by metis
  obtain h3 q3 where s3: "host_ready h3 q3" "ready_queue q3 nqn"
      "sendDiscLogPageRequest (wire_peer fill) 1024 0 0 0 h2 = (Inr (of_nat (length es), gen, []), h3)"
    using first_page [OF s2(1,2) assms(1,2), of 1 0 0] assms(3) by auto
  from s1(3) s2(3) s3 that show ?thesis
    by (simp add: getLogPageEntries_def and_then_def return_def)
qed

end
