(* ===== verification/Session.thy ===== *)
theory Session
  imports Discovery
begin

text \<open>
  A whole discovery session: the connection initialisation, the connect command, the controller set-up and the log
  page, from a fresh host queue against a fresh target connection, and the entries the client returns.
\<close>

section \<open>Setting up a session\<close>

lemma icreq_accepted:
  "target_nvmeConnect (hdr_bytes (zero_TCPHeaderType\<lparr> th_Hlen := 128, th_Plen := 128, th_Pdo := 0, th_Type := nvme_tcp_icreq, th_Flags := 0 \<rparr>)
      @ pack_or_nil TCPIcReqPduType_layout (to_TCPIcReqPduType
          (zero_TCPIcReqPduType\<lparr> icq_Pfv := 0, icq_Hpda := 0, icq_Digest := 0, icq_Maxr2t := 0 \<rparr>)))
   = Inr (hdr_bytes (zero_TCPHeaderType\<lparr> th_Type := nvme_tcp_icresp, th_Hlen := 128, th_Plen := 128 \<rparr>)
      @ pack_or_nil TCPIcrespPdu_layout (to_TCPIcrespPdu (zero_TCPIcrespPdu\<lparr> icr_Pfv := 0, icr_Maxdata := 0x10000 \<rparr>)), [])"
proof -
  let ?x = "zero_TCPHeaderType\<lparr> th_Hlen := 128, th_Plen := 128, th_Pdo := 0, th_Type := nvme_tcp_icreq, th_Flags := 0 \<rparr>"
  let ?i = "zero_TCPIcReqPduType\<lparr> icq_Pfv := 0, icq_Hpda := 0, icq_Digest := 0, icq_Maxr2t := 0 \<rparr>"
  have "ok_TCPIcReqPduType ?i" by (simp add: ok_TCPIcReqPduType_def zero_TCPIcReqPduType_def)
  then obtain bs where bs: "Pack TCPIcReqPduType_layout (to_TCPIcReqPduType ?i) = Some bs"
      "\<And>rest. \<exists>vs. Unpack TCPIcReqPduType_layout (bs @ rest) = Some (vs, rest) \<and> of_TCPIcReqPduType vs = norm_TCPIcReqPduType ?i"
    using decode_Pack [OF w_TCPIcReqPduType.wire_struct_axioms] by metis
  obtain vs where un: "Unpack TCPIcReqPduType_layout bs = Some (vs, [])" "of_TCPIcReqPduType vs = norm_TCPIcReqPduType ?i"
    using bs(2) [of "[]"] by auto
  have "target_recvTCPHeader (hdr_bytes ?x @ bs) = Inr (?x, bs)"
    using hdr_bytes(2) [of ?x bs]
    by (auto simp: target_recvTCPHeader_def target_pduValid_def target_pduSize_def ok_TCPHeaderType_def)
  with bs(1) un show ?thesis
    by (simp add: target_nvmeConnect_def pack_or_nil_def norm_TCPIcReqPduType_def zero_TCPIcReqPduType_def hdr_bytes_def)
qed

definition icresp_bytes :: bytes where
  "icresp_bytes = hdr_bytes (zero_TCPHeaderType\<lparr> th_Type := nvme_tcp_icresp, th_Hlen := 128, th_Plen := 128 \<rparr>)
      @ pack_or_nil TCPIcrespPdu_layout (to_TCPIcrespPdu (zero_TCPIcrespPdu\<lparr> icr_Pfv := 0, icr_Maxdata := 0x10000 \<rparr>))"

lemma icresp_received:
  "length icresp_bytes = 128" "h_input h = icresp_bytes @ bs \<Longrightarrow> handleRecv h = (Idle, h\<lparr> h_input := bs \<rparr>)"
proof -
  let ?x = "zero_TCPHeaderType\<lparr> th_Type := nvme_tcp_icresp, th_Hlen := 128, th_Plen := 128 \<rparr>"
  let ?i = "zero_TCPIcrespPdu\<lparr> icr_Pfv := 0, icr_Maxdata := 0x10000 \<rparr>"
  have "ok_TCPIcrespPdu ?i" by (simp add: ok_TCPIcrespPdu_def zero_TCPIcrespPdu_def)
  then obtain b where b: "Pack TCPIcrespPdu_layout (to_TCPIcrespPdu ?i) = Some b" "length b = Sizeof TCPIcrespPdu_layout"
      "decode TCPIcrespPdu_layout of_TCPIcrespPdu b = Some (norm_TCPIcrespPdu ?i)"
    using decode_Pack [OF w_TCPIcrespPdu.wire_struct_axioms] by metis
  have lb: "length b = 120" using b(2) by (simp add: Sizeof_def TCPIcrespPdu_layout_def field_size_def)
  have ok: "ok_TCPHeaderType ?x" by (simp add: ok_TCPHeaderType_def)
  show "length icresp_bytes = 128"
    using lb b(1) hdr_bytes(1) [OF ok] by (simp add: icresp_bytes_def pack_or_nil_def)
  have "recvTCPHeader (hdr_bytes ?x @ b @ bs) = Some (Inr (?x, b @ bs))"
    by (rule recv_header [OF ok]) (simp_all add: pduValid_def pduSize_def)
  with b lb show "h_input h = icresp_bytes @ bs \<Longrightarrow> handleRecv h = (Idle, h\<lparr> h_input := bs \<rparr>)"
    by (simp add: handleRecv_def icresp_bytes_def pack_or_nil_def parseResponse_def recvNvmeInitConnResponse_def
        norm_TCPIcrespPdu_def zero_TCPIcrespPdu_def)
qed

lemma init_connection:
  assumes "h = newHostTCPQueue hid (new_target_conn qid svc cid)"
  shows "sendNvmeInitConnection (wire_peer fill) h =
    (Inr (), h\<lparr> h_peer := target_at (Target.newNvmeTCPQueue qid svc cid), h_input := icresp_bytes \<rparr>)"
  using icreq_accepted
  by (simp add: assms sendNvmeInitConnection_def flush_def wire_peer_def ioWork_def new_target_conn_def newHostTCPQueue_def
      serve_input_def serve_end target_at_def icresp_bytes_def newNvmeTCPQueue_def flip: hdr_bytes_def)

section \<open>The connect command\<close>

text \<open>The host names and host ids that a connect command can carry.\<close>

definition ok_host :: "string \<Rightarrow> string \<Rightarrow> bool" where
  "ok_host hostnqn hostID \<longleftrightarrow> length hostnqn \<le> 256 \<and> (hostnqn = [] \<or> last hostnqn \<noteq> CHR 0x00) \<and>
     length (hex_DecodeString hostID) \<le> 16"

lemma Sizeof_ConnectData: "Sizeof ConnectData_layout = 1024"
  by (simp add: Sizeof_def ConnectData_layout_def field_size_def)

lemma connect_data_bytes:
  assumes "ok_host nqn hid"
  obtains bs where "Pack ConnectData_layout (to_ConnectData (connect_data nqn hid)) = Some bs" "length bs = 1024"
    "decode ConnectData_layout of_ConnectData bs = Some (norm_ConnectData (connect_data nqn hid))"
proof -
  have "ok_ConnectData (connect_data nqn hid)"
    using assms by (simp add: ok_ConnectData_def connect_data_def zero_ConnectData_def ok_host_def DiscoverySubsysName_def
        bytes_string_def)
  from decode_Pack [OF w_ConnectData.wire_struct_axioms this] that Sizeof_ConnectData show ?thesis by metis
qed

lemma string_bytes_bytes_string [simp]: "string_bytes (bytes_string bs) = bs"
proof -
  have "of_nat (of_char (char_of (unat b) :: char)) = b" for b :: u8
    using unat_fits(1) [of b] by simp
  then show ?thesis by (simp add: string_bytes_def bytes_string_def comp_def)
qed

lemma TrimRightNul_pad_nul: "s = [] \<or> last s \<noteq> CHR 0x00 \<Longrightarrow> TrimRightNul (pad_nul n s) = s"
  by (simp add: pad_nul_def TrimRightNul_pad)

lemma last_DiscoverySubsysName: "last DiscoverySubsysName \<noteq> CHR 0x00"
  by (simp add: DiscoverySubsysName_def)

lemma string_bytes_pad_nul: "string_bytes (pad_nul n s) = pad_zero n (string_bytes s)"
  by (simp add: pad_nul_def pad_zero_def string_bytes_def)

lemma connect_accepted:
  assumes "ok_host nqn hid" "decode ConnectData_layout of_ConnectData (flat s) = Some (norm_ConnectData (connect_data nqn hid))"
    and "ar_sgl a = Some s" "con_RecFmt x = 0" "con_SqSize x \<noteq> 0" "q_responses q = []"
  obtains q' ctrl c where "execute_connect a x q = Some (q'\<lparr> q_responses := [SetCompletion c (AdminConnectRequest a x)] \<rparr>)"
    "q_responses q' = []" "q_sq_ctrl q' = Some ctrl" "ct_hostNqn ctrl = nqn" "ct_csts ctrl = 0" "ct_cc ctrl = 0"
    "ct_hostid ctrl = uuid_String (pad_zero 16 (hex_DecodeString hid))"
    "ok_Completion c" "cqe_CommandID c = ar_CmdID a"
proof -
  let ?cd = "norm_ConnectData (connect_data nqn hid)"
  have nqns: "TrimRightNul (cd_SubsysNqn ?cd) = DiscoverySubsysName" "TrimRightNul (cd_HostNqn ?cd) = nqn"
    using assms(1) by (simp_all add: norm_ConnectData_def connect_data_def ok_host_def TrimRightNul_pad_nul
        last_DiscoverySubsysName)
  have uid: "string_bytes (cd_HostID ?cd) = pad_zero 16 (hex_DecodeString hid)"
    "uuid_FromBytes (pad_zero 16 (hex_DecodeString hid)) = Some (pad_zero 16 (hex_DecodeString hid))"
    using assms(1) by (simp_all add: norm_ConnectData_def connect_data_def string_bytes_pad_nul uuid_FromBytes_def ok_host_def
        pad_zero_def)
  have cntl: "cd_CntlID ?cd = 0xffff" by (simp add: norm_ConnectData_def connect_data_def)
  let ?cd' = "?cd\<lparr> cd_SubsysNqn := DiscoverySubsysName, cd_HostNqn := nqn \<rparr>"
  obtain ctrl q1 where q1: "createNvmeController x ?cd' q = Inr (ctrl, q1)" "q_responses q1 = []" "q_sq_ctrl q1 = Some ctrl"
      "ct_hostNqn ctrl = nqn" "ct_csts ctrl = 0" "ct_cc ctrl = 0"
      "ct_hostid ctrl = uuid_String (pad_zero 16 (hex_DecodeString hid))"
    using assms(5,6) uid by (simp add: createNvmeController_def newController_def Let_def)
  let ?c = "with_result (setU16Result (ct_controllerID ctrl))
    (NewCompletion (CommandID (AdminConnectRequest a x)) (q_sq_qID q1) NVME_SC_SUCCESS)"
  have "execute_connect a x q = Some (q1\<lparr> q_responses := [SetCompletion ?c (AdminConnectRequest a x)] \<rparr>)"
    using assms(2-4) nqns uid cntl q1(1,2) by (simp add: execute_connect_def completeRequest_def Let_def)
  moreover have "ok_Completion ?c" by simp
  moreover have "cqe_CommandID ?c = ar_CmdID a" by (simp add: CommandID_def NewCompletion_def)
  ultimately show ?thesis using that q1(2-) by blast
qed

lemma fresh_queue_parses_connect:
  assumes "length cmd = 64" "cmd ! 0 = nvme_fabrics_command" "cmd ! 1 = 0x40" "q_sq_ctrl q = None"
    and "decode ConnectCommand_layout of_ConnectCommand cmd = Some x" "con_Opcode x = nvme_fabrics_command"
    and "con_FcType x = nvme_fabrics_type_connect"
  shows "nvmetRequestInit cmd q = Some (q, Inr (AdminConnectRequest
    (zero_AbstractRequest\<lparr> ar_CmdID := con_CommandID x, ar_DataLength := 1024 \<rparr>) x))"
  using assms by (simp add: nvmetRequestInit_def nvmetParseConnectCmd_def)

lemma handle_inline_data:
  assumes "r = AdminConnectRequest a x" "ar_DataLength a = 1024" "sd_type (sgl (con_Dptr x)) = sgl_inline"
    and "length data = 1024" "ar_Resp a = None"
  obtains s where "handle_request fill r data q = map_option (Continue []) (execute fill (SetData s r) q)" "flat s = data"
proof -
  obtain s0 where s0: "NewScatterList 1024 8192 = Some s0" "flat s0 = replicate 1024 0" "[] \<notin> set (sl_buffers s0)"
    using NewScatterList_spec [of 8192 1024] by auto
  obtain n err w where w: "Write data (NewScatterListWriter s0) = (n, err, w)" by (metis prod_cases3)
  from Write_spec [OF NewScatterListWriter_ok(1) [OF s0(3)] w] s0(2) assms(4) NewScatterListWriter_ok [OF s0(3)]
  have wr: "err = None" "flat (sw_sgl w) = data" by (auto simp: overwrite_def)
  have "mapData \<lparr> tr_nvmeRequest = r, tr_pduLen = 0 \<rparr> = Some (NVME_SC_SUCCESS, \<lparr> tr_nvmeRequest = SetData s0 r, tr_pduLen = 1024 \<rparr>)"
    using assms s0(1) by (simp add: mapData_def Let_def isWrite_def dptr_def inlineSize_def)
  then have "handle_request fill r data q = map_option (Continue []) (execute fill (SetData (sw_sgl w) (SetData s0 r)) q)"
    using assms w wr(1) by (simp add: handle_request_def NeedDataIn_def HasDataIn_def HasInlineData_def isWrite_def SetData_def)
  with that [of "sw_sgl w"] wr(2) assms(1) show ?thesis by (simp add: SetData_def)
qed

lemma connect_request:
  assumes "ok_host nqn hid"
  obtains r a x s where "NewAdminConnectRequest i 0 (connect_data nqn hid) = Some r" "r = AdminConnectRequest a x" "GetData r = Some s"
    "decode ConnectData_layout of_ConnectData (flat s) = Some (norm_ConnectData (connect_data nqn hid))" "length (flat s) = 1024"
    "ok_ConnectCommand x" "con_Opcode x = nvme_fabrics_command" "con_Resv1 x = 0x40" "con_FcType x = nvme_fabrics_type_connect"
    "con_CommandID x = i" "ar_CmdID a = i" "ar_Resp a = None" "sd_type (sgl (con_Dptr x)) = sgl_inline" "con_RecFmt x = 0"
    "con_SqSize x = 31"
proof -
  obtain bs where bs: "Pack ConnectData_layout (to_ConnectData (connect_data nqn hid)) = Some bs" "length bs = 1024"
    "decode ConnectData_layout of_ConnectData bs = Some (norm_ConnectData (connect_data nqn hid))"
    by (rule connect_data_bytes [OF assms])
  obtain s0 where s0: "NewScatterList 1024 1024 = Some s0" "flat s0 = replicate 1024 0" "[] \<notin> set (sl_buffers s0)"
    using NewScatterList_spec [of 1024 1024] by auto
  obtain n err w where w: "Write bs (NewScatterListWriter s0) = (n, err, w)" by (metis prod_cases3)
  from Write_spec [OF NewScatterListWriter_ok(1) [OF s0(3)] w] s0(2) bs(2) NewScatterListWriter_ok [OF s0(3)]
  have wr: "flat (sw_sgl w) = bs" by (auto simp: overwrite_def)
  from that [of "the (NewAdminConnectRequest i 0 (connect_data nqn hid))"] bs s0(1) w wr
  show ?thesis
    by (simp add: NewAdminConnectRequest_def Milliseconds_def go_div_def ok_ConnectCommand_def zero_ConnectCommand_def
        zero_AbstractRequest_def SetSgInline_def sgl_def ok_DataPtr_def zero_DataPtr_def overwrite_def)
qed

lemma connect_answers:
  assumes "ok_host nqn hid" "q_sq_ctrl q = None" "q_responses q = []"
  obtains r s q' ctrl r' c where "NewAdminConnectRequest i 0 (connect_data nqn hid) = Some r" "GetData r = Some s"
    "answers fill r (flat s) q q' r' c" "\<not> needsDataOut r'" "q_sq_ctrl q' = Some ctrl" "ct_hostNqn ctrl = nqn"
    "ct_csts ctrl = 0" "ct_cc ctrl = 0" "ct_hostid ctrl = uuid_String (pad_zero 16 (hex_DecodeString hid))" "CommandID r = i"
proof -
  obtain r a x s where r: "NewAdminConnectRequest i 0 (connect_data nqn hid) = Some r" "r = AdminConnectRequest a x" "GetData r = Some s"
    "decode ConnectData_layout of_ConnectData (flat s) = Some (norm_ConnectData (connect_data nqn hid))" "length (flat s) = 1024"
    "ok_ConnectCommand x" "con_Opcode x = nvme_fabrics_command" "con_Resv1 x = 0x40" "con_FcType x = nvme_fabrics_type_connect"
    "con_CommandID x = i" "ar_CmdID a = i" "ar_Resp a = None" "sd_type (sgl (con_Dptr x)) = sgl_inline" "con_RecFmt x = 0"
    "con_SqSize x = 31"
    by (rule connect_request [OF assms(1), where i=i])
  obtain cmd where cmd: "PackCmd r = Some cmd" "length cmd = 64" "cmd ! 0 = nvme_fabrics_command" "cmd ! 1 = 0x40"
      "decode ConnectCommand_layout of_ConnectCommand cmd = Some x"
    using command_bytes [OF w_ConnectCommand.wire_struct_axioms r(6) head_layouts(4) head_vals(4) sizeof_commands(6)] r(2,7,8)
    by (metis PackCmd_simps(1))
  let ?a = "zero_AbstractRequest\<lparr> ar_CmdID := i, ar_DataLength := 1024 \<rparr>"
  let ?rt = "AdminConnectRequest ?a x"
  have init: "nvmetRequestInit cmd q = Some (q, Inr ?rt)"
    using fresh_queue_parses_connect [OF cmd(2-4) assms(2) cmd(5) r(7,9)] r(10) by simp
  obtain s1 where s1: "handle_request fill ?rt (flat s) q = map_option (Continue []) (execute fill (SetData s1 ?rt) q)" "flat s1 = flat s"
    using handle_inline_data [OF refl _ r(13,5), of ?a fill q] by (auto simp: zero_AbstractRequest_def)
  let ?a1 = "?a\<lparr> ar_sgl := Some s1 \<rparr>"
  obtain q' ctrl c where q': "execute_connect ?a1 x q = Some (q'\<lparr> q_responses := [SetCompletion c (AdminConnectRequest ?a1 x)] \<rparr>)"
    "q_responses q' = []" "q_sq_ctrl q' = Some ctrl" "ct_hostNqn ctrl = nqn" "ct_csts ctrl = 0" "ct_cc ctrl = 0"
    "ct_hostid ctrl = uuid_String (pad_zero 16 (hex_DecodeString hid))" "ok_Completion c" "cqe_CommandID c = ar_CmdID ?a1"
    by (rule connect_accepted [OF assms(1) _ _ r(14) _ assms(3), of s1 ?a1]) (use r(4,15) s1(2) in auto)
  have "answers fill r (flat s) q q' (SetCompletion c (AdminConnectRequest ?a1 x)) c"
    using cmd(1,2) init s1(1) q' r(2,11,12)
    by (auto simp: answers_def execute_def SetData_def SetCompletion_def CommandID_def is_aen_def)
  moreover have "\<not> needsDataOut (SetCompletion c (AdminConnectRequest ?a1 x))"
    by (simp add: needsDataOut_def isWrite_def SetCompletion_def)
  ultimately show ?thesis using that r(1,2,3,11) q'(3-7) by (simp add: CommandID_def)
qed

section \<open>The set-up of a session\<close>

lemma connect_exchange:
  assumes "ok_host nqn hid" "q_sq_ctrl q = None" "q_responses q = []"
    and "h_receiving h" "h_outstanding h = []" "h_peer h = target_at q" "h_input h = icresp_bytes"
  obtains h' q' ctrl where "sendConnectRequest (wire_peer fill) nqn hid h = (Inr (), h')" "host_ready h' q'"
    "q_sq_ctrl q' = Some ctrl" "ct_hostNqn ctrl = nqn" "ct_csts ctrl = 0" "ct_cc ctrl = 0"
    "ct_hostid ctrl = uuid_String (pad_zero 16 (hex_DecodeString hid))"
proof -
  obtain r s q' ctrl r' c where r: "NewAdminConnectRequest (h_commandID h) 0 (connect_data nqn hid) = Some r" "GetData r = Some s"
    "answers fill r (flat s) q q' r' c" "\<not> needsDataOut r'" and ctrl: "q_sq_ctrl q' = Some ctrl" "ct_hostNqn ctrl = nqn"
    "ct_csts ctrl = 0" "ct_cc ctrl = 0" "ct_hostid ctrl = uuid_String (pad_zero 16 (hex_DecodeString hid))"
    by (rule connect_answers [OF assms(1-3), where i="h_commandID h" and fill=fill])
  let ?h = "h\<lparr> h_commandID := h_commandID h + 1, h_input := [] \<rparr>"
  have ready: "host_ready ?h q" using assms(3-6) by (simp add: host_ready_def)
  have out: "send_response r' = Some (sendCqe c)"
    using r(3,4) by (intro send_response_plain) (simp_all add: answers_def)
  obtain cmd where cmd: "PackCmd r = Some cmd"
      "flush (wire_peer fill) (hdr_bytes (createTCPHeader True) @ cmd @ flat s) (?h\<lparr> h_outstanding := [(CommandID r, r)] \<rparr>)
       = ?h\<lparr> h_outstanding := [(CommandID r, r)], h_input := sendCqe c, h_peer := target_at q' \<rparr>"
    by (rule flush_command [OF ready r(3) out, where b=True and o'="[(CommandID r, r)]"])
  let ?h1 = "?h\<lparr> h_outstanding := [(CommandID r, r)], h_input := icresp_bytes @ sendCqe c, h_peer := target_at q' \<rparr>"
  have fl: "flush (wire_peer fill) (hdr_bytes (createTCPHeader True) @ cmd @ flat s)
      (h\<lparr> h_commandID := h_commandID h + 1, h_outstanding := [(CommandID r, r)] \<rparr>) = ?h1"
    using cmd(2) assms(7) by (cases h) (auto simp: flush_def split: prod.splits)
  let ?h2 = "?h\<lparr> h_outstanding := [(CommandID r, r)], h_input := sendCqe c, h_peer := target_at q' \<rparr>"
  have idle: "handleRecv ?h1 = (Idle, ?h2)"
    using icresp_received(2) [of ?h1 "sendCqe c"] by simp
  have got: "handleRecv ?h2 = (Delivered (SetCompletion c r), ?h\<lparr> h_peer := target_at q' \<rparr>)"
    using handleRecv_cqe [of ?h2 c "[]" r] r(3) assms(5) by (simp add: answers_def)
  have rec: "h_receiving ?h1" "h_receiving ?h2" using assms(4) by simp_all
  obtain n where n: "length (h_input ?h1) = Suc n"
    using icresp_received(1) by (cases icresp_bytes) auto
  have "next_completed ?h1 = (Some (SetCompletion c r), ?h\<lparr> h_peer := target_at q' \<rparr>)"
    using receive_idle [OF rec(1) idle, of "Suc n"] receive_delivered [OF rec(2) got, of n] n by (simp only:)
  then have "sendConnectRequest (wire_peer fill) nqn hid h = (Inr (), ?h\<lparr> h_peer := target_at q' \<rparr>)"
    using r(1,2) cmd(1) fl assms(5)
    by (simp add: sendConnectRequest_def nextCmdID_def and_then_def waitForResponse_def return_def
        hdr_bytes_def [symmetric] del: receive.simps)
  moreover have "host_ready (?h\<lparr> h_peer := target_at q' \<rparr>) q'"
    using ready r(3) by (simp add: host_ready_def answers_def)
  ultimately show ?thesis using that ctrl by blast
qed

lemma host_ready_command: "host_ready h q \<Longrightarrow> host_ready (h\<lparr> h_commandID := i \<rparr>) q"
  by (simp add: host_ready_def)

lemma host_ready_responses: "host_ready h q \<Longrightarrow> q_responses q = []"
  by (simp add: host_ready_def)

lemma not_connect:
  "\<not> is_connect (NewPropertyGetRequest i off)" "\<not> is_connect (NewPropertySetRequest i off v)"
  "\<not> is_connect (NewIdentifyRequest i)" "\<not> is_connect (NewSetFeatureAsyncEventRequest i)"
  by simp_all

lemma GetData_delivered: "GetData (SetCompletion c (SetData s r)) = Some s"
  by (cases r) (simp_all add: SetCompletion_def SetData_def)

lemma get_property:
  assumes "host_ready h q" "q_sq_ctrl q = Some ctrl"
  obtains h' where "sendGetPropertyRequest (wire_peer fill) off h = (Inr (), h')" "host_ready h' q"
proof -
  let ?h = "h\<lparr> h_commandID := h_commandID h + 1 \<rparr>"
  obtain r' c where a: "answers fill (NewPropertyGetRequest (h_commandID h) off) [] q q r' c" "\<not> needsDataOut r'"
    by (rule property_get_answers [OF assms(2) host_ready_responses [OF assms(1)]])
  from exchange_plain [OF host_ready_command [OF assms(1), of "h_commandID h + 1"] a not_connect(1)] that show ?thesis
    by (simp add: sendGetPropertyRequest_def nextCmdID_def and_then_def return_def)
qed

lemma set_configuration:
  assumes "host_ready h q" "q_sq_ctrl q = Some ctrl"
  obtains h' where "setControllerConfiguration (wire_peer fill) v h = (Inr (), h')"
    "host_ready h' (q\<lparr> q_sq_ctrl := Some (updateControllerConfiguration (ucast v) ctrl) \<rparr>)"
proof -
  let ?h = "h\<lparr> h_commandID := h_commandID h + 1 \<rparr>"
  let ?q = "q\<lparr> q_sq_ctrl := Some (updateControllerConfiguration (ucast v) ctrl) \<rparr>"
  obtain r' c where a: "answers fill (NewPropertySetRequest (h_commandID h) NVME_REG_CC v) [] q ?q r' c" "\<not> needsDataOut r'"
    by (rule property_set_answers [OF assms(2) host_ready_responses [OF assms(1)]])
  note e = exchange_plain [OF host_ready_command [OF assms(1), of "h_commandID h + 1"] a not_connect(2)]
  obtain h' where "sendGetPropertyRequest (wire_peer fill) NVME_REG_CSTS (?h\<lparr> h_peer := target_at ?q \<rparr>) = (Inr (), h')" "host_ready h' ?q"
    by (rule get_property [OF e(2), where fill=fill and off=NVME_REG_CSTS]) simp_all
  with e that show ?thesis
    by (simp add: setControllerConfiguration_def sendSetPropertyRequest_def nextCmdID_def and_then_def return_def)
qed

lemma identify:
  assumes "host_ready h q" "q_sq_ctrl q = Some ctrl" "ct_csts ctrl AND NVME_CSTS_RDY \<noteq> 0"
  obtains h' where "sendIdentifyRequest (wire_peer fill) h = (Inr (), h')" "host_ready h' q"
proof -
  let ?h = "h\<lparr> h_commandID := h_commandID h + 1 \<rparr>"
  obtain r' c d where a: "answers fill (NewIdentifyRequest (h_commandID h)) [] q q r' c" "needsDataOut r'" "GetData r' = Some d"
    "length (flat d) = unat (dataLen r')" "length (flat d) = 4096" "recvIdentifyDataPdu (flat d) = Inr ()"
    by (rule identify_answers [OF assms(2) host_ready_responses [OF assms(1)] assms(3)])
  have len: "length (flat d) + 24 < 2 ^ 32" using a(5) by simp
  obtain h1 s where "sendRequest (wire_peer fill) (NewIdentifyRequest (h_commandID h)) ?h = (Inr (), h1)"
    "next_completed h1 = (Some (SetCompletion c (SetData s (NewIdentifyRequest (h_commandID h)))), ?h\<lparr> h_peer := target_at q \<rparr>)"
    "flat s = flat d" "host_ready (?h\<lparr> h_peer := target_at q \<rparr>) q"
    by (rule exchange_data [OF host_ready_command [OF assms(1)] a(1) not_connect(3) a(2-4) len])
  with a(6) that show ?thesis
    by (simp add: sendIdentifyRequest_def nextCmdID_def send_and_wait_def and_then_def waitForResponse_def
        GetData_delivered del: receive.simps)
qed

lemma async_event_feature:
  assumes "host_ready h q" "q_sq_ctrl q = Some ctrl" "ct_csts ctrl AND NVME_CSTS_RDY \<noteq> 0"
  obtains h' where "sendAsyncEventSetFeature (wire_peer fill) h = (Inr (), h')"
    "host_ready h' (q\<lparr> q_sq_ctrl := Some (setAENValue 0x80000000 ctrl) \<rparr>)"
proof -
  let ?h = "h\<lparr> h_commandID := h_commandID h + 1 \<rparr>"
  obtain r' c where a: "answers fill (NewSetFeatureAsyncEventRequest (h_commandID h)) [] q
      (q\<lparr> q_sq_ctrl := Some (setAENValue 0x80000000 ctrl) \<rparr>) r' c" "\<not> needsDataOut r'"
    by (rule set_feature_answers [OF assms(2) host_ready_responses [OF assms(1)] assms(3)])
  from exchange_plain [OF host_ready_command [OF assms(1), of "h_commandID h + 1"] a not_connect(4)] that show ?thesis
    by (simp add: sendAsyncEventSetFeature_def nextCmdID_def and_then_def return_def)
qed

lemma enable_ready:
  assumes "ct_csts ctrl = 0" "ct_cc ctrl = 0"
  shows "ct_csts (updateControllerConfiguration 0x460001 ctrl) = NVME_CSTS_RDY"
    "ct_hostNqn (updateControllerConfiguration 0x460001 ctrl) = ct_hostNqn ctrl"
    "ct_hostid (updateControllerConfiguration 0x460001 ctrl) = ct_hostid ctrl"
  using assms by (simp_all add: updateControllerConfiguration_def start_def nvmetCCEn_def nvmetCCShn_def nvmetCCIOSqes_def
      nvmetCCIOCqes_def nvmetCCMps_def nvmetCCAms_def nvmetCCcss_def Let_def drop_bit_eq_div)

lemma set_properties:
  assumes "host_ready h q" "q_sq_ctrl q = Some ctrl"
  obtains h' where "setProperties (wire_peer fill) h = (Inr (), h')"
    "host_ready h' (q\<lparr> q_sq_ctrl := Some (updateControllerConfiguration 0x460001 ctrl) \<rparr>)"
proof -
  let ?q = "q\<lparr> q_sq_ctrl := Some (updateControllerConfiguration 0x460001 ctrl) \<rparr>"
  have ctrl: "q_sq_ctrl ?q = Some (updateControllerConfiguration 0x460001 ctrl)" by simp
  obtain h1 where h1: "sendGetPropertyRequest (wire_peer fill) NVME_REG_CAP h = (Inr (), h1)" "host_ready h1 q"
    by (rule get_property [OF assms])
  obtain h2 where h2: "setControllerConfiguration (wire_peer fill) 0x460001 h1 = (Inr (), h2)"
      "host_ready h2 (q\<lparr> q_sq_ctrl := Some (updateControllerConfiguration (ucast (0x460001 :: u64)) ctrl) \<rparr>)"
    by (rule set_configuration [OF h1(2) assms(2)])
  have q2: "host_ready h2 ?q" using h2(2) by simp
  obtain h3 where h3: "sendGetPropertyRequest (wire_peer fill) NVME_REG_VS h2 = (Inr (), h3)" "host_ready h3 ?q"
    by (rule get_property [OF q2 ctrl])
  obtain h4 where h4: "sendGetPropertyRequest (wire_peer fill) NVME_REG_CAP h3 = (Inr (), h4)" "host_ready h4 ?q"
    by (rule get_property [OF h3(2) ctrl])
  from h1(1) h2(1) h3(1) h4 that show ?thesis by (simp add: setProperties_def and_then_def)
qed

lemma session_ready:
  assumes "ok_host nqn hid"
  obtains h q ctrl where "session_setup (wire_peer fill) nqn hid (newHostTCPQueue i (new_target_conn qid svc cid)) = (Inr (), h)"
    "host_ready h q" "ready_queue q nqn" "q_sq_ctrl q = Some ctrl" "ct_aenBitEnabled ctrl"
    "ct_hostid ctrl = uuid_String (pad_zero 16 (hex_DecodeString hid))"
proof -
  let ?h = "newHostTCPQueue i (new_target_conn qid svc cid)"
  let ?h1 = "?h\<lparr> h_peer := target_at (Target.newNvmeTCPQueue qid svc cid), h_input := icresp_bytes \<rparr>"
  have i: "sendNvmeInitConnection (wire_peer fill) ?h = (Inr (), ?h1)" by (rule init_connection [OF refl])
  have fresh: "q_sq_ctrl (Target.newNvmeTCPQueue qid svc cid) = None" "q_responses (Target.newNvmeTCPQueue qid svc cid) = []"
    "h_receiving ?h1" "h_outstanding ?h1 = []" "h_peer ?h1 = target_at (Target.newNvmeTCPQueue qid svc cid)" "h_input ?h1 = icresp_bytes"
    by (simp_all add: newNvmeTCPQueue_def newHostTCPQueue_def)
  obtain h2 q ctrl where h2: "sendConnectRequest (wire_peer fill) nqn hid ?h1 = (Inr (), h2)" "host_ready h2 q"
    "q_sq_ctrl q = Some ctrl" "ct_hostNqn ctrl = nqn" "ct_csts ctrl = 0" "ct_cc ctrl = 0"
    "ct_hostid ctrl = uuid_String (pad_zero 16 (hex_DecodeString hid))"
    by (rule connect_exchange [OF assms fresh, where fill=fill])
  let ?c = "updateControllerConfiguration 0x460001 ctrl" and ?q = "q\<lparr> q_sq_ctrl := Some (updateControllerConfiguration 0x460001 ctrl) \<rparr>"
  note rdy = enable_ready [OF h2(5,6)]
  obtain h3 where h3: "setProperties (wire_peer fill) h2 = (Inr (), h3)" "host_ready h3 ?q"
    by (rule set_properties [OF h2(2,3)])
  have c: "q_sq_ctrl ?q = Some ?c" "ct_csts ?c AND NVME_CSTS_RDY \<noteq> 0" using rdy(1) by simp_all
  obtain h4 where h4: "sendIdentifyRequest (wire_peer fill) h3 = (Inr (), h4)" "host_ready h4 ?q"
    by (rule identify [OF h3(2) c])
  obtain h5 where h5: "sendAsyncEventSetFeature (wire_peer fill) h4 = (Inr (), h5)"
      "host_ready h5 (?q\<lparr> q_sq_ctrl := Some (setAENValue 0x80000000 ?c) \<rparr>)"
    by (rule async_event_feature [OF h4(2) c])
  have "session_setup (wire_peer fill) nqn hid ?h = (Inr (), h5)"
    using i h2(1) h3(1) h4(1) h5(1) by (simp add: session_setup_def and_then_def)
  moreover have "ready_queue (?q\<lparr> q_sq_ctrl := Some (setAENValue 0x80000000 ?c) \<rparr>) nqn"
    using c(2) rdy(2) h2(4) by (simp add: ready_queue_def setAENValue_def)
  moreover have "ct_aenBitEnabled (setAENValue 0x80000000 ?c)" "ct_hostid (setAENValue 0x80000000 ?c) = ct_hostid ctrl"
    using rdy(3) by (simp_all add: setAENValue_def)
  ultimately show ?thesis using that [OF _ h5(2)] h2(7) by simp
qed

section \<open>What the client returns\<close>

lemma TrimRightNul_pad_any: "TrimRightNul (s @ replicate n (CHR 0x00)) = TrimRightNul s"
  unfolding TrimRightNul_def by (rule TrimRightFunc_append_all) (simp add: list_all_iff)

lemma convert_entry_norm: "convert_entry (norm_NvmefDiscRspPageEntry e) = convert_entry e"
  by (simp add: convert_entry_def norm_NvmefDiscRspPageEntry_def pad_nul_def pad_zero_def TrimRightNul_pad_any)

lemma session_entries:
  assumes "ok_host nqn hid" "lists fill nqn es gen" "\<forall>e \<in> set es. ok_NvmefDiscRspPageEntry e" "length es < 2 ^ 32"
    and "pagination \<or> 1024 * (length es + 1) + 24 < 2 ^ 32"
  obtains h where "discover_session (wire_peer fill) pagination nqn hid (newHostTCPQueue i (new_target_conn qid svc cid))
    = Some (Inr (map convert_entry es), h)"
proof -
  obtain h q where h: "session_setup (wire_peer fill) nqn hid (newHostTCPQueue i (new_target_conn qid svc cid)) = (Inr (), h)"
    "host_ready h q" "ready_queue q nqn"
    by (rule session_ready [OF assms(1)])
  obtain h' where "getLogPageEntries (wire_peer fill) pagination h = Some (Inr (map norm_NvmefDiscRspPageEntry es), h')"
    by (rule getLogPageEntries_complete [OF assms(2-5) h(2,3)])
  with h(1) that show ?thesis by (simp add: discover_session_def comp_def convert_entry_norm)
qed

lemma removeDash_uuid: "length u = 16 \<Longrightarrow> removeDash (uuid_String u) = hex u"
proof -
  assume u: "length u = 16"
  have "\<not> IsSpace c" if "c \<in> set (hex u)" for c
    using set_hex [OF that] by (auto simp: IsSpace_def)
  then show ?thesis using u by (simp add: removeDash_def uuid_String_no_dash TrimSpace_no_space)
qed

section \<open>Properties\<close>

text \<open>
  C1. A discovery is complete. The client of the host runs one discovery against the target of this repository, over
  the wire format, from a fresh connection: the connection initialisation, the connect command, the properties, the
  identify and set-features commands and the log page requests, with or without pagination. If the subsystem of
  the target has the entries \<open>es\<close> for this host at one generation, every command succeeds, the log page loop ends, and
  the client returns exactly those entries in their order. The host id can be any UUID in its usual form.
\<close>

theorem discovery_complete:
  assumes "GetOrCreateHostID (ce_hostid env) (cl_hostIDPath client) fs = (Inr (uuid_String u), fs')" "length u = 16"
    and "ce_dial env (hdr_Traddr req) (hdr_Trsvcid req) = Some (new_target_conn qid svc cid)" "ce_peer env = wire_peer fill"
    and "length (hdr_Hostnqn req) \<le> 256" "hdr_Hostnqn req = [] \<or> last (hdr_Hostnqn req) \<noteq> CHR 0x00"
    and "lists fill (hdr_Hostnqn req) es gen" "\<forall>e \<in> set es. ok_NvmefDiscRspPageEntry e" "length es < 2 ^ 32"
    and "cl_pagination client \<or> 1024 * (length es + 1) + 24 < 2 ^ 32"
  shows "\<exists>h. Discover env req fs client = Some (Inr (map convert_entry es), fs',
     client\<lparr> cl_queue := Some h, cl_running := (hdr_Kato req > 0) \<rparr>)"
proof -
  have "hex_DecodeString (removeDash (uuid_String u)) = u"
    using assms(2) by (simp add: removeDash_uuid hex_DecodeString_hex)
  then have "ok_host (hdr_Hostnqn req) (removeDash (uuid_String u))"
    using assms(2,5,6) by (simp add: ok_host_def)
  from session_entries [OF this assms(7-10)] obtain h where
    "discover_session (wire_peer fill) (cl_pagination client) (hdr_Hostnqn req) (removeDash (uuid_String u))
       (newHostTCPQueue 1 (new_target_conn qid svc cid)) = Some (Inr (map convert_entry es), h)" by metis
  with assms(1-4) show ?thesis by (intro exI [of _ h]) (simp add: Discover_def isValidUUID_def uuid_Parse_String)
qed

text \<open>
  C10. After the set-up of a session, host and target agree: the target has a controller for the host that
  connected, under the host name and with the host id that the host sent, it is ready (so it serves discovery
  commands), asynchronous discovery events are enabled, and neither side has unread bytes or open requests.
\<close>

theorem session_establishes_controller:
  assumes "length u = 16" "length hostnqn \<le> 256" "hostnqn = [] \<or> last hostnqn \<noteq> CHR 0x00"
  shows "\<exists>h q ctrl. session_setup (wire_peer fill) hostnqn (removeDash (uuid_String u))
       (newHostTCPQueue i (new_target_conn qid svc cid)) = (Inr (), h) \<and> host_ready h q \<and> q_sq_ctrl q = Some ctrl \<and>
       ct_csts ctrl AND NVME_CSTS_RDY \<noteq> 0 \<and> ct_hostNqn ctrl = hostnqn \<and> ct_hostid ctrl = uuid_String u \<and> ct_aenBitEnabled ctrl"
proof -
  have hid: "hex_DecodeString (removeDash (uuid_String u)) = u"
    using assms(1) by (simp add: removeDash_uuid hex_DecodeString_hex)
  have ok: "ok_host hostnqn (removeDash (uuid_String u))"
    using hid assms by (simp add: ok_host_def)
  obtain h q ctrl where "session_setup (wire_peer fill) hostnqn (removeDash (uuid_String u))
      (newHostTCPQueue i (new_target_conn qid svc cid)) = (Inr (), h)"
    "host_ready h q" "ready_queue q hostnqn" "q_sq_ctrl q = Some ctrl" "ct_aenBitEnabled ctrl"
    "ct_hostid ctrl = uuid_String (pad_zero 16 (hex_DecodeString (removeDash (uuid_String u))))"
    by (rule session_ready [OF ok])
  with hid assms(1) show ?thesis by (auto simp: ready_queue_def pad_zero_def)
qed

definition ex_port :: Port where
  "ex_port = \<lparr> port_TrAddr = ''10.0.0.1'', port_TrsvcID = ''4420'', port_TrType = 3, port_AdrFam = 1, port_Treq = 0, port_ID = 7,
     port_Tsas = replicate 256 0 \<rparr>"

definition ex_entries :: "NvmefDiscRspPageEntry list" where
  "ex_entries = [NewDiscoveryRspPageEntry ex_port ''nqn.a'' NVME_NQN_NVME, NewDiscoveryRspPageEntry ex_port ''nqn.b'' NVME_NQN_DISC]"

definition ex_fill :: fill_log_page where
  "ex_fill off k nqn = (take (unat k) (drop (unat off div 1024) ex_entries), 2, 5)"

lemma ex_entries_ok: "\<forall>e \<in> set ex_entries. ok_NvmefDiscRspPageEntry e"
  by (simp add: ex_entries_def NewDiscoveryRspPageEntry_def ok_NvmefDiscRspPageEntry_def zero_NvmefDiscRspPageEntry_def
      ex_port_def overwrite_def)

lemma ex_fill_lists: "lists ex_fill nqn ex_entries 5"
  by (simp add: lists_def ex_fill_def ex_entries_def)

lemma ex_hostid:
  "GetOrCreateHostID \<lparr> he_uuid = [], he_mkdir_ok = False, he_write_ok = False \<rparr> ''''
     [(''/etc/nvme/hostid'', uuid_String (replicate 16 0) @ [CHR 0x0A])]
   = (Inr (uuid_String (replicate 16 0)), [(''/etc/nvme/hostid'', uuid_String (replicate 16 0) @ [CHR 0x0A])])"
  by code_simp

lemma ex_converted:
  "map convert_entry ex_entries =
     [\<lparr> hpe_PortID = 7, hpe_CntlID = 0xffff, hpe_TrsvcID = 4420, hpe_Subnqn = ''nqn.a'', hpe_Traddr = ''10.0.0.1'', hpe_SubType = NVME_NQN_NVME \<rparr>,
      \<lparr> hpe_PortID = 7, hpe_CntlID = 0xffff, hpe_TrsvcID = 4420, hpe_Subnqn = ''nqn.b'', hpe_Traddr = ''10.0.0.1'', hpe_SubType = NVME_NQN_DISC \<rparr>]"
  by code_simp

theorem discovery_complete_witness:
  "\<exists>h. Discover
      \<lparr> ce_hostid = \<lparr> he_uuid = [], he_mkdir_ok = False, he_write_ok = False \<rparr>,
        ce_dial = (\<lambda>_ _. Some (new_target_conn 1 ''svc'' 1)), ce_peer = wire_peer ex_fill \<rparr>
      \<lparr> hdr_Transport = ''tcp'', hdr_Traddr = ''10.0.0.1'', hdr_Trsvcid = 8009, hdr_Hostnqn = ''host'', hdr_Hostaddr = [], hdr_Kato = 0 \<rparr>
      [(''/etc/nvme/hostid'', uuid_String (replicate 16 0) @ [CHR 0x0A])] (NewClient True '''') =
    Some (Inr
     [\<lparr> hpe_PortID = 7, hpe_CntlID = 0xffff, hpe_TrsvcID = 4420, hpe_Subnqn = ''nqn.a'', hpe_Traddr = ''10.0.0.1'', hpe_SubType = NVME_NQN_NVME \<rparr>,
      \<lparr> hpe_PortID = 7, hpe_CntlID = 0xffff, hpe_TrsvcID = 4420, hpe_Subnqn = ''nqn.b'', hpe_Traddr = ''10.0.0.1'', hpe_SubType = NVME_NQN_DISC \<rparr>],
     [(''/etc/nvme/hostid'', uuid_String (replicate 16 0) @ [CHR 0x0A])],
     (NewClient True '''')\<lparr> cl_queue := Some h, cl_running := False \<rparr>)"
  using discovery_complete [of "\<lparr> ce_hostid = \<lparr> he_uuid = [], he_mkdir_ok = False, he_write_ok = False \<rparr>,
        ce_dial = (\<lambda>_ _. Some (new_target_conn 1 ''svc'' 1)), ce_peer = wire_peer ex_fill \<rparr>" "NewClient True ''''"
      "[(''/etc/nvme/hostid'', uuid_String (replicate 16 0) @ [CHR 0x0A])]" "replicate 16 0" _
      "\<lparr> hdr_Transport = ''tcp'', hdr_Traddr = ''10.0.0.1'', hdr_Trsvcid = 8009, hdr_Hostnqn = ''host'', hdr_Hostaddr = [], hdr_Kato = 0 \<rparr>"
      1 "''svc''" 1 ex_fill ex_entries 5]
    ex_hostid ex_fill_lists ex_entries_ok
  unfolding ex_converted by (simp add: NewClient_def ex_entries_def)

theorem session_establishes_controller_witness:
  "\<exists>h q ctrl. session_setup (wire_peer ex_fill) ''host'' (removeDash (uuid_String (replicate 16 7)))
       (newHostTCPQueue 1 (new_target_conn 1 ''svc'' 1)) = (Inr (), h) \<and> host_ready h q \<and> q_sq_ctrl q = Some ctrl \<and>
       ct_csts ctrl AND NVME_CSTS_RDY \<noteq> 0 \<and> ct_hostNqn ctrl = ''host'' \<and> ct_hostid ctrl = uuid_String (replicate 16 7) \<and> ct_aenBitEnabled ctrl"
  by (rule session_establishes_controller) simp_all

end
