(* ===== verification/Host_Errors.thy ===== *)
theory Host_Errors
  imports Session
begin

text \<open>
  Error paths of the host client: what it does with a host name that does not fit the connect data, and with a log
  page command that the target refuses.
\<close>

text \<open>
  C26. A host name of more than 256 characters makes the connect command panic in the encoder, whatever the
  target does: the configuration parser does not bound the length, and the string moves the fields after it out of
  the buffer.
\<close>

theorem long_hostnqn_panics:
  assumes "256 < length hostnqn"
  shows "fst (sendConnectRequest peer hostnqn hostID h) = Inl Panic"
proof -
  have "Pack ConnectData_layout (to_ConnectData (connect_data hostnqn hostID)) = None"
    using assms by (simp add: Pack_def ConnectData_layout_def to_ConnectData_def connect_data_def zero_ConnectData_def
        Sizeof_def field_size_def is_FStr_def DiscoverySubsysName_def put_uint_def pad_zero_def bytes_string_def Let_def)
  then have "NewAdminConnectRequest cmdID 0 (connect_data hostnqn hostID) = None" for cmdID
    by (simp add: NewAdminConnectRequest_def)
  then show ?thesis by (simp add: sendConnectRequest_def nextCmdID_def and_then_def)
qed

theorem long_hostnqn_panics_witness:
  "fst (sendConnectRequest (\<lambda>t bs. (t, [])) (replicate 257 (CHR ''a'')) [] (newHostTCPQueue 1 ())) = Inl Panic"
  by (rule long_hostnqn_panics) simp

text \<open>
  C27. A log page command that the target completes with an error status and no data makes the host panic: the
  status is dropped on the way and the missing data is dereferenced.
\<close>

theorem refused_log_page_panics:
  assumes "h_receiving h" "h_input h = []" "\<And>bs. peer (h_peer h) bs = (p, sendCqe c)" "ok_Completion c"
    and "cqe_CommandID c = h_commandID h"
  shows "fst (sendDiscLogPageRequest peer sz offset nsid num h) = Inl Panic"
proof -
  let ?r = "NewNvmeGetDiscoveryLogPageRequest (h_commandID h) sz offset nsid"
  obtain a x d where r: "?r = NvmeGetDiscoveryLogPageRequest a x d" and x: "ok_GetLogPageCommand x" "ar_sgl a = None"
      "CommandID ?r = h_commandID h"
    by (simp add: NewNvmeGetDiscoveryLogPageRequest_def ok_GetLogPageCommand_def zero_GetLogPageCommand_def
        zero_AbstractRequest_def CommandID_def ok_DataPtr_def zero_DataPtr_def Let_def SetSgHostData_def overwrite_def)
  obtain cmd where cmd: "PackCmd ?r = Some cmd"
    using decode_Pack [OF w_GetLogPageCommand.wire_struct_axioms x(1)] by (metis PackCmd_simps(5) r)
  let ?h = "h\<lparr> h_commandID := h_commandID h + 1,
    h_outstanding := AList.update (h_commandID h) ?r (h_outstanding h), h_peer := p, h_input := sendCqe c \<rparr>"
  have send: "sendRequest peer ?r (h\<lparr> h_commandID := h_commandID h + 1 \<rparr>) = (Inr (), ?h)"
    using cmd assms(2,3) x(3) by (simp add: sendRequest_def flush_def)
  obtain h' where "next_completed ?h = (Some (SetCompletion c ?r), h')"
    using next_completed_cqe [of ?h c ?r] assms(1,4,5) by (auto simp: update_Some_unfold simp del: receive.simps)
  moreover have "GetData (SetCompletion c ?r) = None" using x(2) by (simp add: r SetCompletion_def)
  ultimately show ?thesis using send
    by (simp add: sendDiscLogPageRequest_def nextCmdID_def and_then_def log_page_reply_def del: receive.simps)
qed

theorem refused_log_page_panics_witness:
  "fst (sendDiscLogPageRequest (\<lambda>t bs. (t, sendCqe (NewCompletion 1 0 (NVME_SC_INVALID_OPCODE OR NVME_SC_DNR)))) 1024 0 0 0
     (newHostTCPQueue 1 ())) = Inl Panic"
proof (rule refused_log_page_panics [where p="()" and c="NewCompletion 1 0 (NVME_SC_INVALID_OPCODE OR NVME_SC_DNR)"])
  show "cqe_CommandID (NewCompletion 1 0 (NVME_SC_INVALID_OPCODE OR NVME_SC_DNR)) = h_commandID (newHostTCPQueue 1 ())"
    by (simp add: newHostTCPQueue_def NewCompletion_def)
qed (simp_all add: newHostTCPQueue_def)

end
