(* ===== verification/Host_Impl.thy ===== *)
theory Host_Impl
  imports Tcp_Client
begin

text \<open>
  The connection pool of the host, \<^verbatim>\<open>src/pkg/nvme/nvmehost/nvmehost_impl.go\<close>: it implements the interface
  \<^verbatim>\<open>HostAPI\<close> of the service with one client per discovery and a table of the clients that stay connected.

  A loop over the table visits it in the order \<open>ord\<close>. \<open>None\<close> is a discovery that never returns, or the panic of
  closing the channel of a client twice. The environment of a client (dialer, peers, host id file) is that of
  the client theory. The goroutine \<^verbatim>\<open>handleChannel\<close> is one step per event of its client.
\<close>

section \<open>Data\<close>

record 't connInfo =
  ci_request :: DiscoverRequest
  ci_client :: "'t tcpClient"

record 't hostApiImp =
  ha_ConnTbl :: "(ConnectionID, 't connInfo) gomap"
  ha_i :: int
  ha_pagination :: bool
  ha_hostIDPath :: string

definition NewHostApi :: "bool \<Rightarrow> string \<Rightarrow> 't hostApiImp" where
  "NewHostApi logPagePaginationEnabled nvmeHostIDPath =
     \<lparr> ha_ConnTbl = [], ha_i = 1, ha_pagination = logPagePaginationEnabled, ha_hostIDPath = nvmeHostIDPath \<rparr>"

definition createDiscoveryRequest :: "DiscoverRequest \<Rightarrow> HostDiscoverRequest" where
  "createDiscoveryRequest discoveryRequest =
     \<lparr> hdr_Transport = dr_Transport discoveryRequest, hdr_Traddr = dr_Traddr discoveryRequest,
       hdr_Trsvcid = dr_Trsvcid discoveryRequest, hdr_Hostnqn = dr_Hostnqn discoveryRequest,
       hdr_Hostaddr = dr_Hostaddr discoveryRequest, hdr_Kato = dr_Kato discoveryRequest \<rparr>"

definition createDiscoveryEntries :: "HostDiscPageEntry list \<Rightarrow> NvmeDiscPageEntry list" where
  "createDiscoveryEntries entries =
     map (\<lambda>entry. \<lparr> pe_PortID = hpe_PortID entry, pe_CntlID = hpe_CntlID entry, pe_TrsvcID = hpe_TrsvcID entry,
       pe_Subnqn = hpe_Subnqn entry, pe_Traddr = hpe_Traddr entry, pe_SubType = hpe_SubType entry \<rparr>) entries"

section \<open>Operations\<close>

definition nextConnectionID :: "'t hostApiImp \<Rightarrow> ConnectionID" where
  "nextConnectionID h = Itoa (ha_i h)"

definition same_request :: "DiscoverRequest \<Rightarrow> DiscoverRequest \<Rightarrow> bool" where
  "same_request s r \<longleftrightarrow> dr_Transport s = dr_Transport r \<and> dr_Traddr s = dr_Traddr r \<and> dr_Trsvcid s = dr_Trsvcid r \<and>
     dr_Hostnqn s = dr_Hostnqn r \<and> dr_Hostaddr s = dr_Hostaddr r \<and> dr_Kato s = dr_Kato r"

definition findClient ::
    "((ConnectionID, 't connInfo) gomap \<Rightarrow> (ConnectionID, 't connInfo) gomap) \<Rightarrow> DiscoverRequest \<Rightarrow> 't hostApiImp \<Rightarrow>
       ConnectionID \<times> bool" where
  "findClient ord r h =
     (case find (\<lambda>(_, c). same_request (ci_request c) r) (ord (ha_ConnTbl h)) of
        Some (cid, _) \<Rightarrow> (cid, True)
      | None \<Rightarrow> (nextConnectionID h, False))"

definition hostApi_Disconnect :: "'t peer \<Rightarrow> ConnectionID \<Rightarrow> 't hostApiImp \<Rightarrow> (bool \<times> 't hostApiImp) option" where
  "hostApi_Disconnect peer connectionID h =
     (case map_of (ha_ConnTbl h) connectionID of
        None \<Rightarrow> Some (False, h)
      | Some info \<Rightarrow>
          map_option (\<lambda>_. (True, h\<lparr> ha_ConnTbl := AList.delete connectionID (ha_ConnTbl h) \<rparr>))
            (Tcp_Client.Stop peer (ci_client info)))"

definition hostApi_Discover ::
    "'t client_env \<Rightarrow> ((ConnectionID, 't connInfo) gomap \<Rightarrow> (ConnectionID, 't connInfo) gomap) \<Rightarrow> DiscoverRequest \<Rightarrow>
       files \<times> 't hostApiImp \<Rightarrow> ((discover_error + NvmeDiscPageEntry list) \<times> ConnectionID \<times> files \<times> 't hostApiImp) option" where
  "hostApi_Discover env ord discoveryRequest st =
     (case st of (fs, h) \<Rightarrow>
      case Tcp_Client.Discover env (createDiscoveryRequest discoveryRequest) fs (NewClient (ha_pagination h) (ha_hostIDPath h)) of
        None \<Rightarrow> None
      | Some (Inl e, fs', _) \<Rightarrow> Some (Inl e, ''0'', fs', h)
      | Some (Inr response, fs', client) \<Rightarrow>
          if dr_Kato discoveryRequest = 0 then
            map_option (\<lambda>_. (Inr (createDiscoveryEntries response), ''0'', fs', h)) (Tcp_Client.Stop (ce_peer env) client)
          else
            (case findClient ord discoveryRequest h of (connection_id, found) \<Rightarrow>
             case hostApi_Disconnect (ce_peer env) connection_id h of
               None \<Rightarrow> None
             | Some (_, h1) \<Rightarrow>
                 let h2 = (if found then h1 else h1\<lparr> ha_i := ha_i h1 + 1 \<rparr>);
                     info = \<lparr> ci_request = discoveryRequest, ci_client = client \<rparr>
                 in Some (Inr (createDiscoveryEntries response), connection_id, fs',
                      h2\<lparr> ha_ConnTbl := AList.update connection_id info (ha_ConnTbl h2) \<rparr>)))"

text \<open>
  One event of the client of \<open>info\<close>: what is pushed on the channel of its request, if anything, and whether the
  goroutine goes on. A client that is closed ends it silently.
\<close>

datatype client_event = AenEvent | AenClosed | KeepAliveDone

definition handleChannel :: "'t connInfo \<Rightarrow> client_event \<Rightarrow> (nat \<times> AENStruct) option \<times> bool" where
  "handleChannel info ev = (case ev of
     AenClosed \<Rightarrow> (None, False)
   | AenEvent \<Rightarrow> (Some (dr_AENChan (ci_request info), \<lparr> aen_AenChange = True, aen_ServerChange = None \<rparr>), True)
   | KeepAliveDone \<Rightarrow>
       (Some (dr_AENChan (ci_request info), \<lparr> aen_AenChange = True, aen_ServerChange = Some ''keep alive died'' \<rparr>), False))"

section \<open>Invariant\<close>

text \<open>
  The ids of the table are numbers that were handed out, every client in it is open, and no two of them serve the
  same request.
\<close>

definition live_ids :: "'t hostApiImp \<Rightarrow> ConnectionID set" where
  "live_ids h = fst ` set (ha_ConnTbl h)"

definition api_inv :: "'t hostApiImp \<Rightarrow> bool" where
  "api_inv h \<longleftrightarrow> distinct (map fst (ha_ConnTbl h)) \<and> 1 \<le> ha_i h \<and>
     (\<forall>(cid, c) \<in> set (ha_ConnTbl h). (\<exists>k. 1 \<le> k \<and> k < ha_i h \<and> cid = Itoa k) \<and> \<not> cl_aenClosed (ci_client c)) \<and>
     (\<forall>(a, c) \<in> set (ha_ConnTbl h). \<forall>(b, d) \<in> set (ha_ConnTbl h). same_request (ci_request c) (ci_request d) \<longrightarrow> a = b)"

lemma api_invI:
  assumes "distinct (map fst (ha_ConnTbl h))" "1 \<le> ha_i h"
    and "\<And>cid c. (cid, c) \<in> set (ha_ConnTbl h) \<Longrightarrow> \<exists>k. 1 \<le> k \<and> k < ha_i h \<and> cid = Itoa k"
    and "\<And>cid c. (cid, c) \<in> set (ha_ConnTbl h) \<Longrightarrow> \<not> cl_aenClosed (ci_client c)"
    and "\<And>a b c d. (a, c) \<in> set (ha_ConnTbl h) \<Longrightarrow> (b, d) \<in> set (ha_ConnTbl h) \<Longrightarrow>
       same_request (ci_request c) (ci_request d) \<Longrightarrow> a = b"
  shows "api_inv h"
  unfolding api_inv_def using assms by blast

lemma api_invD:
  assumes "api_inv h"
  shows "distinct (map fst (ha_ConnTbl h))" "1 \<le> ha_i h"
    and "(cid, c) \<in> set (ha_ConnTbl h) \<Longrightarrow> \<exists>k. 1 \<le> k \<and> k < ha_i h \<and> cid = Itoa k"
    and "(cid, c) \<in> set (ha_ConnTbl h) \<Longrightarrow> \<not> cl_aenClosed (ci_client c)"
    and "(a, c) \<in> set (ha_ConnTbl h) \<Longrightarrow> (b, d) \<in> set (ha_ConnTbl h) \<Longrightarrow>
       same_request (ci_request c) (ci_request d) \<Longrightarrow> a = b"
  using assms unfolding api_inv_def by blast+

lemma Itoa_inj:
  assumes "Itoa i = Itoa j" "0 \<le> i" "0 \<le> j" shows "i = j"
proof -
  have "show_nat (nat i) = show_nat (nat j)" using assms by (simp add: Itoa_def)
  then have "digits (show_nat (nat i)) = digits (show_nat (nat j))" by simp
  then have "nat i = nat j" unfolding digits_show_nat by simp
  with assms(2,3) show ?thesis by simp
qed

lemma Stop_open: "\<not> cl_aenClosed client \<Longrightarrow> \<exists>client'. Tcp_Client.Stop peer client = Some client'"
  by (simp add: Stop_def Let_def)

lemma Discover_open:
  "Tcp_Client.Discover env req fs (NewClient p path) = Some (Inr response, fs', client) \<Longrightarrow> \<not> cl_aenClosed client"
  by (auto simp: Discover_def NewClient_def split: sum.splits prod.splits option.splits if_splits)

lemma live_ids_iff: "cid \<in> live_ids h \<longleftrightarrow> map_of (ha_ConnTbl h) cid \<noteq> None"
  by (simp add: live_ids_def map_of_eq_None_iff)

lemma Disconnect_spec:
  assumes "api_inv h"
  shows "hostApi_Disconnect peer cid h =
    Some (cid \<in> live_ids h, h\<lparr> ha_ConnTbl := AList.delete cid (ha_ConnTbl h) \<rparr>)"
proof (cases "map_of (ha_ConnTbl h) cid")
  case None
  then have "AList.delete cid (ha_ConnTbl h) = ha_ConnTbl h"
    by (simp add: delete_id map_of_eq_None_iff)
  with None show ?thesis by (simp add: hostApi_Disconnect_def live_ids_iff)
next
  case (Some info)
  then have "\<not> cl_aenClosed (ci_client info)"
    using assms map_of_SomeD [OF Some] unfolding api_inv_def by blast
  from Stop_open [OF this] Some show ?thesis by (auto simp: hostApi_Disconnect_def live_ids_iff)
qed

lemma api_inv_delete: "api_inv h \<Longrightarrow> api_inv (h\<lparr> ha_ConnTbl := AList.delete cid (ha_ConnTbl h) \<rparr>)"
  unfolding api_inv_def by (auto simp: set_delete_filter)

lemma live_ids_delete: "live_ids (h\<lparr> ha_ConnTbl := AList.delete cid (ha_ConnTbl h) \<rparr>) = live_ids h - {cid}"
  by (force simp: live_ids_def set_delete_filter)

lemma findClient_found:
  assumes "go_order ord" "findClient ord r h = (cid, True)"
  obtains c where "(cid, c) \<in> set (ha_ConnTbl h)" "same_request (ci_request c) r"
proof -
  from assms(2) obtain c where "find (\<lambda>(_, c). same_request (ci_request c) r) (ord (ha_ConnTbl h)) = Some (cid, c)"
    by (auto simp: findClient_def split: option.splits)
  then obtain i where "i < length (ord (ha_ConnTbl h))" "ord (ha_ConnTbl h) ! i = (cid, c)" "same_request (ci_request c) r"
    by (auto simp: find_Some_iff)
  with that assms(1) show ?thesis by (metis go_order_set nth_mem)
qed

lemma findClient_new:
  assumes "go_order ord" "findClient ord r h = (cid, False)"
  shows "cid = Itoa (ha_i h)" "\<And>a c. (a, c) \<in> set (ha_ConnTbl h) \<Longrightarrow> \<not> same_request (ci_request c) r"
  using assms by (auto simp: findClient_def find_None_iff nextConnectionID_def split: option.splits)

lemma next_id_fresh: "api_inv h \<Longrightarrow> Itoa (ha_i h) \<notin> live_ids h"
proof
  assume inv: "api_inv h" and "Itoa (ha_i h) \<in> live_ids h"
  then obtain c where "(Itoa (ha_i h), c) \<in> set (ha_ConnTbl h)" by (auto simp: live_ids_def)
  with inv obtain k where "1 \<le> k" "k < ha_i h" "Itoa (ha_i h) = Itoa k" unfolding api_inv_def by blast
  with Itoa_inj [of "ha_i h" k] show False by simp
qed

lemma same_request_trans:
  "same_request a b \<Longrightarrow> same_request c b \<Longrightarrow> same_request a c" "same_request a b \<Longrightarrow> same_request b a"
  by (simp_all add: same_request_def)

text \<open>Replacing or adding the client of a request.\<close>

lemma api_inv_store:
  assumes "api_inv h" "1 \<le> k" "k < ha_i h" "\<not> cl_aenClosed (ci_client info)"
    and "\<And>a c. (a, c) \<in> set (ha_ConnTbl h) \<Longrightarrow> same_request (ci_request c) (ci_request info) \<Longrightarrow> a = Itoa k"
  shows "api_inv (h\<lparr> ha_ConnTbl := AList.update (Itoa k) info (ha_ConnTbl h) \<rparr>)"
proof -
  have dist: "distinct (map fst (ha_ConnTbl h))" using assms(1) by (simp add: api_inv_def)
  have set: "(a, c) \<in> set (AList.update (Itoa k) info (ha_ConnTbl h)) \<longleftrightarrow>
      a = Itoa k \<and> c = info \<or> a \<noteq> Itoa k \<and> (a, c) \<in> set (ha_ConnTbl h)" for a c
    using set_update_distinct [OF dist, of "Itoa k" info] by auto
  show ?thesis
  proof (rule api_invI, goal_cases)
    case 1
    then show ?case using dist by simp
  next
    case 2
    then show ?case using api_invD(2) [OF assms(1)] by simp
  next
    case (3 cid c)
    then show ?case using api_invD(3) [OF assms(1), of cid c] assms(2,3) by (auto simp: set)
  next
    case (4 cid c)
    then show ?case using api_invD(4) [OF assms(1), of cid c] assms(4) by (auto simp: set)
  next
    case (5 a b c d)
    then show ?case
      using api_invD(5) [OF assms(1), of a c b d] assms(5) [of a c] assms(5) [of b d]
        same_request_trans(2) [of "ci_request c" "ci_request d"] by (auto simp: set)
  qed
qed

lemma live_ids_update: "live_ids (h\<lparr> ha_ConnTbl := AList.update cid info (ha_ConnTbl h) \<rparr>) = insert cid (live_ids h)"
  by (auto simp: live_ids_iff split: if_splits)

lemma live_ids_i [simp]: "live_ids (h\<lparr> ha_i := i \<rparr>) = live_ids h"
  by (simp add: live_ids_def)

text \<open>What a persistent discovery does to the table, after the client has connected.\<close>

lemma store_client:
  assumes "go_order ord" "api_inv h" "findClient ord r h = (cid, found)" "\<not> cl_aenClosed client"
  defines "h1 \<equiv> h\<lparr> ha_ConnTbl := AList.delete cid (ha_ConnTbl h) \<rparr>"
  defines "h2 \<equiv> (if found then h1 else h1\<lparr> ha_i := ha_i h1 + 1 \<rparr>)"
  defines "h3 \<equiv> h2\<lparr> ha_ConnTbl := AList.update cid \<lparr> ci_request = r, ci_client = client \<rparr> (ha_ConnTbl h2) \<rparr>"
  shows "api_inv h3" "live_ids h3 = insert cid (live_ids h)"
proof -
  have inv1: "api_inv h1" unfolding h1_def by (rule api_inv_delete [OF assms(2)])
  have inv2: "api_inv h2"
    using api_invD [OF inv1] inv1 unfolding h2_def by (cases found) (auto intro!: api_invI, force)
  obtain k where k: "cid = Itoa k" "1 \<le> k" "k < ha_i h2"
  proof (cases found)
    case True
    with assms(3) have f: "findClient ord r h = (cid, True)" by simp
    obtain c where "(cid, c) \<in> set (ha_ConnTbl h)" by (rule findClient_found [OF assms(1) f])
    with api_invD(3) [OF assms(2)] obtain k where "1 \<le> k" "k < ha_i h" "cid = Itoa k" by blast
    with that True show ?thesis by (simp add: h2_def h1_def)
  next
    case False
    with findClient_new(1) [OF assms(1)] api_invD(2) [OF assms(2)] assms(3) that [of "ha_i h"] show ?thesis
      by (auto simp: h2_def h1_def)
  qed
  have none: "\<not> same_request (ci_request c) r" if "(a, c) \<in> set (ha_ConnTbl h2)" for a c
  proof
    assume same: "same_request (ci_request c) r"
    from that have c: "(a, c) \<in> set (ha_ConnTbl h)" "a \<noteq> cid" by (auto simp: h2_def h1_def set_delete_filter split: if_splits)
    show False
    proof (cases found)
      case True
      with assms(3) have f: "findClient ord r h = (cid, True)" by simp
      obtain d where "(cid, d) \<in> set (ha_ConnTbl h)" "same_request (ci_request d) r"
        by (rule findClient_found [OF assms(1) f])
      with c same api_invD(5) [OF assms(2)] same_request_trans(1) show False by blast
    next
      case False
      with findClient_new(2) [OF assms(1)] assms(3) c(1) same show False by auto
    qed
  qed
  show "api_inv h3" unfolding h3_def k(1)
    by (rule api_inv_store [OF inv2 k(2,3)]) (use assms(4) none in auto)
  show "live_ids h3 = insert cid (live_ids h)"
    by (auto simp: h3_def live_ids_update h2_def h1_def live_ids_delete)
qed

lemma Discover_spec:
  assumes "go_order ord" "api_inv h" "hostApi_Discover env ord r (fs, h) = Some (res, cid, fs', h')"
  shows "api_inv h'" "live_ids h' = (if isl res \<or> dr_Kato r = 0 then live_ids h else insert cid (live_ids h))"
proof -
  let ?d = "Tcp_Client.Discover env (createDiscoveryRequest r) fs (NewClient (ha_pagination h) (ha_hostIDPath h))"
  obtain res0 fs0 client where d: "?d = Some (res0, fs0, client)"
    using assms(3) by (cases ?d) (auto simp: hostApi_Discover_def)
  have "api_inv h' \<and> live_ids h' = (if isl res \<or> dr_Kato r = 0 then live_ids h else insert cid (live_ids h))"
  proof (cases res0)
    case (Inl e)
    with assms(2,3) d show ?thesis by (auto simp: hostApi_Discover_def)
  next
    case (Inr response)
    show ?thesis
    proof (cases "dr_Kato r = 0")
      case True
      with assms(2,3) d Inr show ?thesis by (auto simp: hostApi_Discover_def)
    next
      case False
      obtain cid0 found where f: "findClient ord r h = (cid0, found)" by fastforce
      have "\<not> cl_aenClosed client" using d Inr by (intro Discover_open) auto
      note st = store_client [OF assms(1,2) f this]
      from assms(3) d Inr False f have "res = Inr (createDiscoveryEntries response)" "cid = cid0" "fs' = fs0"
        and h': "h' = (let h1 = h\<lparr> ha_ConnTbl := AList.delete cid0 (ha_ConnTbl h) \<rparr>;
           h2 = (if found then h1 else h1\<lparr> ha_i := ha_i h1 + 1 \<rparr>)
           in h2\<lparr> ha_ConnTbl := AList.update cid0 \<lparr> ci_request = r, ci_client = client \<rparr> (ha_ConnTbl h2) \<rparr>)"
        by (auto simp: hostApi_Discover_def Disconnect_spec [OF assms(2)] Let_def)
      with st False show ?thesis by (simp add: Let_def)
    qed
  qed
  then show "api_inv h'" "live_ids h' = (if isl res \<or> dr_Kato r = 0 then live_ids h else insert cid (live_ids h))"
    by simp_all
qed

lemma live_ids_numbers: "api_inv h \<Longrightarrow> '''' \<notin> live_ids h \<and> ''0'' \<notin> live_ids h"
proof -
  assume inv: "api_inv h"
  have z: "''0'' = Itoa 0" by code_simp
  have "cid \<noteq> [] \<and> cid \<noteq> ''0''" if "cid \<in> live_ids h" for cid
  proof -
    from that obtain c where "(cid, c) \<in> set (ha_ConnTbl h)" by (auto simp: live_ids_def)
    from api_invD(3) [OF inv this] obtain k where k: "1 \<le> k" "cid = Itoa k" by blast
    then show ?thesis using Itoa_inj [of k 0] unfolding z by auto
  qed
  then show ?thesis by blast
qed

text \<open>
  The pool implements the interface, for every iteration order of its table. The state of the interface is the pool
  with the files of the host.
\<close>

definition pool_disconnect :: "'t peer \<Rightarrow> ConnectionID \<Rightarrow> files \<times> 't hostApiImp \<Rightarrow> (bool \<times> files \<times> 't hostApiImp) option" where
  "pool_disconnect peer cid s = map_option (\<lambda>(ok, h). (ok, fst s, h)) (hostApi_Disconnect peer cid (snd s))"

abbreviation pool_live :: "files \<times> 't hostApiImp \<Rightarrow> ConnectionID set" where
  "pool_live s \<equiv> live_ids (snd s)"

abbreviation pool_inv :: "files \<times> 't hostApiImp \<Rightarrow> bool" where
  "pool_inv s \<equiv> api_inv (snd s)"

lemma pool_discover_spec:
  assumes "go_order ord" "pool_inv s" "hostApi_Discover env ord r s = Some (res, cid, s')"
  shows "pool_inv s'" "pool_live s' = (if isl res \<or> dr_Kato r = 0 then pool_live s else insert cid (pool_live s))"
  using Discover_spec [OF assms(1,2), of env r "fst s" res cid "fst s'" "snd s'"] assms(3) by simp_all

lemma pool_disconnect_spec:
  assumes "pool_inv s"
  shows "\<exists>s'. pool_disconnect peer cid s = Some (cid \<in> pool_live s, s') \<and> pool_inv s' \<and> pool_live s' = pool_live s - {cid}"
  using Disconnect_spec [OF assms, of peer cid] api_inv_delete [OF assms, of cid] live_ids_delete [of cid "snd s"]
  by (simp add: pool_disconnect_def)

locale host_pool =
  fixes env :: "'t client_env" and ord :: "(ConnectionID, 't connInfo) gomap \<Rightarrow> (ConnectionID, 't connInfo) gomap"
  assumes ord: "go_order ord"

sublocale host_pool \<subseteq> api: host_api "hostApi_Discover env ord" "pool_disconnect (ce_peer env)" pool_live pool_inv
proof (unfold_locales, goal_cases)
  case 1
  then show ?case using pool_discover_spec [OF ord 1(1,2)] by simp
next
  case 2
  then show ?case using pool_discover_spec [OF ord 2(1,3)] by simp
next
  case 3
  then show ?case using pool_discover_spec [OF ord 3(1,3)] by simp
next
  case 4
  then show ?case by (rule pool_disconnect_spec)
next
  case 5
  then show ?case by (rule live_ids_numbers)
qed

interpretation hp: host_pool env id for env :: "'t client_env"
  by unfold_locales simp

section \<open>Runs\<close>

text \<open>The states of a pool: any sequence of discoveries and disconnects, whatever they answer.\<close>

inductive pool_run :: "'t client_env \<Rightarrow> ((ConnectionID, 't connInfo) gomap \<Rightarrow> (ConnectionID, 't connInfo) gomap) \<Rightarrow>
    files \<times> 't hostApiImp \<Rightarrow> bool"
  for env :: "'t client_env" and ord :: "(ConnectionID, 't connInfo) gomap \<Rightarrow> (ConnectionID, 't connInfo) gomap" where
  pool_new: "pool_run env ord (fs, NewHostApi pagination path)"
| pool_discover: "pool_run env ord s \<Longrightarrow> hostApi_Discover env ord r s = Some (res, cid, s') \<Longrightarrow> pool_run env ord s'"
| pool_disconnected: "pool_run env ord s \<Longrightarrow> pool_disconnect (ce_peer env) cid s = Some (ok, s') \<Longrightarrow> pool_run env ord s'"

context host_pool begin

lemma run_inv: "pool_run env ord s \<Longrightarrow> pool_inv s"
proof (induction rule: pool_run.induct)
  case (pool_new fs pagination path)
  then show ?case by (simp add: NewHostApi_def api_inv_def)
qed (blast dest: api.discover_inv api.disconnect_total)+

end


text \<open>A host that cannot create its host id: the pool stays empty.\<close>

definition ex_env :: "unit client_env" where
  "ex_env = \<lparr> ce_hostid = \<lparr> he_uuid = ''u'', he_mkdir_ok = False, he_write_ok = True \<rparr>,
     ce_dial = (\<lambda>_ _. None), ce_peer = (\<lambda>t _. (t, [])) \<rparr>"

lemma ex_discover_fails:
  "hostApi_Discover ex_env id example_request ([], NewHostApi True ''p'') =
     Some (Inl (HostIDError MkdirFailed), ''0'', [], NewHostApi True ''p'')"
  by (simp add: hostApi_Discover_def Discover_def GetOrCreateHostID_def ex_env_def NewClient_def NewHostApi_def)


end
