(* ===== verification/App_Config.thy ===== *)
theory App_Config
  imports Collections Go_Std
begin

text \<open>
  The configuration of the application, \<^verbatim>\<open>src/model/app_config.go\<close>, with the logging configuration of
  \<^verbatim>\<open>src/pkg/logging/logging.go\<close> and the core list of \<^verbatim>\<open>src/pkg/processutil/taskset.go\<close>. Reading the file and the
  flags is viper's work; what it delivers is an \<open>AppConfig\<close>.
\<close>

record LoggingConfig =
  lc_Filename :: string
  lc_MaxAge :: int
  lc_MaxSize :: int
  lc_ReportCaller :: bool
  lc_Level :: string

record DebugInfo =
  dbg_Endpoint :: string
  dbg_Enablepprof :: bool
  dbg_Metrics :: bool

record AutoDetectEntries =
  ad_Enabled :: bool
  ad_Filename :: string
  ad_DiscoveryServicePort :: u32

record AppConfig =
  cfg_Cores :: "int list"
  cfg_Logging :: LoggingConfig
  cfg_ClientConfigDir :: string
  cfg_Debug :: DebugInfo
  cfg_ReconnectInterval :: int
  cfg_InternalDir :: string
  cfg_LogPagePaginationEnabled :: bool
  cfg_MaxIOQueues :: int
  cfg_AutoDetectEntries :: AutoDetectEntries
  cfg_NvmeHostIDPath :: string
  cfg_Kato :: int
  cfg_AuxSuffix :: string
  cfg_DhChapSecret :: string
  cfg_DhChapCtrlSecret :: string
  cfg_CtrlLossTMO :: int

datatype config_error = SameDirs string | SecretMissing | InvalidLevel string

definition validLevels :: "string list" where
  "validLevels = [''debug'', ''info'', ''warn'', ''warning'', ''error'', ''fatal'']"

definition IsValid :: "LoggingConfig \<Rightarrow> config_error option" where
  "IsValid c = (if \<not> Include validLevels (lc_Level c) then Some (InvalidLevel (lc_Level c)) else None)"

text \<open>The checks and the defaults, in order; the configuration is changed in place, also when a later check fails.\<close>

definition Second :: int where "Second = 1000000000"

definition verifyConfigurationIsValid :: "AppConfig \<Rightarrow> config_error option \<times> AppConfig" where
  "verifyConfigurationIsValid cfg =
     (if cfg_ClientConfigDir cfg = cfg_InternalDir cfg then (Some (SameDirs (cfg_ClientConfigDir cfg)), cfg)
      else
        let cfg1 = (if cfg_ReconnectInterval cfg = 0 then cfg\<lparr> cfg_ReconnectInterval := 5 * Second \<rparr> else cfg) in
        if cfg_DhChapSecret cfg1 = '''' \<and> cfg_DhChapCtrlSecret cfg1 \<noteq> '''' then (Some SecretMissing, cfg1)
        else
          let cfg2 = (if cfg_CtrlLossTMO cfg1 = 0 \<or> cfg_CtrlLossTMO cfg1 < -1 then cfg1\<lparr> cfg_CtrlLossTMO := 600 \<rparr> else cfg1)
          in (IsValid (cfg_Logging cfg2), cfg2))"

text \<open>\<^verbatim>\<open>LoadFromViper\<close> on what viper decoded (\<open>None\<close>: it could not).\<close>

definition LoadFromViper :: "AppConfig option \<Rightarrow> AppConfig option" where
  "LoadFromViper decoded = Option.bind decoded (\<lambda>cfg. case verifyConfigurationIsValid cfg of
     (Some _, _) \<Rightarrow> None | (None, cfg') \<Rightarrow> Some cfg')"

text \<open>The argument of \<^verbatim>\<open>taskset\<close>: the cores, separated by commas.\<close>

fun coreList :: "int list \<Rightarrow> string" where
  "coreList [] = ''''"
| "coreList [core] = Itoa core"
| "coreList (core # cores) = Itoa core @ '','' @ coreList cores"

section \<open>Properties\<close>


definition ex_config :: AppConfig where
  "ex_config = \<lparr> cfg_Cores = [], cfg_Logging = \<lparr> lc_Filename = '''', lc_MaxAge = 0, lc_MaxSize = 100, lc_ReportCaller = True, lc_Level = ''info'' \<rparr>,
     cfg_ClientConfigDir = ''/etc/dc/discovery.d'', cfg_Debug = \<lparr> dbg_Endpoint = '''', dbg_Enablepprof = False, dbg_Metrics = False \<rparr>,
     cfg_ReconnectInterval = 0, cfg_InternalDir = ''/etc/dc/internal'', cfg_LogPagePaginationEnabled = True, cfg_MaxIOQueues = 0,
     cfg_AutoDetectEntries = \<lparr> ad_Enabled = True, ad_Filename = ''detected'', ad_DiscoveryServicePort = 8009 \<rparr>, cfg_NvmeHostIDPath = '''',
     cfg_Kato = 10, cfg_AuxSuffix = '''', cfg_DhChapSecret = '''', cfg_DhChapCtrlSecret = '''', cfg_CtrlLossTMO = 0 \<rparr>"

lemma ex_config_loads:
  "LoadFromViper (Some ex_config) = Some (ex_config\<lparr> cfg_ReconnectInterval := 5 * Second, cfg_CtrlLossTMO := 600 \<rparr>)"
  by (simp add: LoadFromViper_def verifyConfigurationIsValid_def IsValid_def ex_config_def validLevels_def Let_def)


end
