(* ===== verification/Nvme_Client.thy ===== *)
theory Nvme_Client
  imports Requests Nvme_Utils App_Config
begin

text \<open>
  The client of the NVMe driver of the kernel, \<^verbatim>\<open>src/pkg/nvmeclient\<close> with \<^verbatim>\<open>src/pkg/ioctl\<close> and
  \<^verbatim>\<open>src/pkg/regexutil\<close>: connecting controllers through \<^verbatim>\<open>/dev/nvme-fabrics\<close>, reading the discovery log with
  ioctls, listing and removing controllers through sysfs.

  The kernel is an argument: what the fabrics device answers, whether a device can be opened, what an admin command
  returns, and what writing \<^verbatim>\<open>delete_controller\<close> does, each on a state \<open>'k\<close>. The global variable \<^verbatim>\<open>AuxSuffix\<close> is the
  argument \<open>aux\<close>. An error that the kernel or a library reports is its text.
\<close>

section \<open>Ioctl numbers\<close>

definition ioc :: "u64 \<Rightarrow> u64 \<Rightarrow> u64 \<Rightarrow> u64 \<Rightarrow> u64" where
  "ioc dir t nr sz = push_bit 30 dir OR push_bit 8 t OR push_bit 0 nr OR push_bit 16 sz"

definition Io :: "u64 \<Rightarrow> u64 \<Rightarrow> u64" where "Io t nr = ioc 0 t nr 0"
definition IoR :: "u64 \<Rightarrow> u64 \<Rightarrow> u64 \<Rightarrow> u64" where "IoR t nr sz = ioc 2 t nr sz"
definition IoW :: "u64 \<Rightarrow> u64 \<Rightarrow> u64 \<Rightarrow> u64" where "IoW t nr sz = ioc 1 t nr sz"
definition IoRW :: "u64 \<Rightarrow> u64 \<Rightarrow> u64 \<Rightarrow> u64" where "IoRW t nr sz = ioc (2 OR 1) t nr sz"

text \<open>An admin command without its buffer address: the buffer is the result of the ioctl.\<close>

record NvmeAdminCmd =
  ac_Opcode :: u8
  ac_Flags :: u8
  ac_Rsvd1 :: u16
  ac_Nsid :: u32
  ac_Cdw2 :: u32
  ac_Cdw3 :: u32
  ac_Metadata :: u64
  ac_MetadataLen :: u32
  ac_DataLen :: u32
  ac_Cdw10 :: u32
  ac_Cdw11 :: u32
  ac_Cdw12 :: u32
  ac_Cdw13 :: u32
  ac_Cdw14 :: u32
  ac_Cdw15 :: u32
  ac_TimeoutMS :: u32
  ac_Result :: u32

text \<open>The command struct has 72 bytes, a pointer 8. The last two numbers are computed from the size of a pointer.\<close>

definition NvmeIocMagic :: u64 where "NvmeIocMagic = 0x4e"

definition NvmeIoctlID :: u64 where "NvmeIoctlID = Io NvmeIocMagic 0x40"
definition NvmeIoctlAdminCmd :: u64 where "NvmeIoctlAdminCmd = IoRW NvmeIocMagic 0x41 72"
definition NvmeIoctlSubmitIO :: u64 where "NvmeIoctlSubmitIO = IoW NvmeIocMagic 0x42 8"
definition NvmeIoctlIoCmd :: u64 where "NvmeIoctlIoCmd = IoRW NvmeIocMagic 0x43 8"
definition NvmeIoctlReset :: u64 where "NvmeIoctlReset = Io NvmeIocMagic 0x44"
definition NvmeIoctlSubsysReset :: u64 where "NvmeIoctlSubsysReset = Io NvmeIocMagic 0x45"
definition NvmeIoctlRescan :: u64 where "NvmeIoctlRescan = Io NvmeIocMagic 0x46"

section \<open>Errors\<close>

record NvmeClientError =
  nce_Msg :: string
  nce_Status :: int
  nce_Err :: "string option"

abbreviation (input) DISC_NO_LOG :: int where "DISC_NO_LOG \<equiv> 2"
abbreviation (input) DISC_GET_LOG :: int where "DISC_GET_LOG \<equiv> 4"
abbreviation (input) DISC_RETRY_EXHAUSTED :: int where "DISC_RETRY_EXHAUSTED \<equiv> 5"
abbreviation (input) DISC_NOT_EQUAL :: int where "DISC_NOT_EQUAL \<equiv> 6"
abbreviation (input) DISC_FAILED :: int where "DISC_FAILED \<equiv> 7"
abbreviation (input) CONN_FAILED :: int where "CONN_FAILED \<equiv> 8"
abbreviation (input) CONN_ALREADY_CONNECTED :: int where "CONN_ALREADY_CONNECTED \<equiv> 9"
abbreviation (input) ADD_CTRL_FAILED :: int where "ADD_CTRL_FAILED \<equiv> 10"

definition NvmeClientError_Error :: "NvmeClientError \<Rightarrow> string" where
  "NvmeClientError_Error e = nce_Msg e @ ''. err: '' @ (case nce_Err e of None \<Rightarrow> ''<nil>'' | Some t \<Rightarrow> t)"

datatype go_error = ClientError NvmeClientError | PlainError string

primrec error_text :: "go_error \<Rightarrow> string" where
  "error_text (ClientError e) = NvmeClientError_Error e"
| "error_text (PlainError t) = t"

text \<open>The verb \<^verbatim>\<open>%q\<close> on printable text: quotes and backslashes are escaped.\<close>

definition escaped :: "string \<Rightarrow> string" where
  "escaped s = concat (map (\<lambda>c. if c = CHR 0x22 \<or> c = CHR 0x5C then [CHR 0x5C, c] else [c]) s)"

definition quote :: "string \<Rightarrow> string" where
  "quote s = [CHR 0x22] @ escaped s @ [CHR 0x22]"

section \<open>Requests\<close>

record NvmeControllerInfo =
  ni_Traddr :: string
  ni_Trsvcid :: int
  ni_Transport :: string
  ni_Subsysnqn :: string
  ni_HostTraddr :: string
  ni_Device :: string

record CtrlIdentifier =
  ctl_Instance :: int
  ctl_Cntlid :: int
  ctl_Device :: string

record ConnectRequest =
  creq_Transport :: string
  creq_Traddr :: string
  creq_Trsvcid :: int
  creq_Hostnqn :: string
  creq_Hostaddr :: string
  creq_Subsysnqn :: string
  creq_CtrlLossTMO :: int
  creq_MaxIOQueues :: int
  creq_Hostid :: string
  creq_Kato :: int
  creq_DhChapSecret :: string
  creq_DhChapControllerSecret :: string

text \<open>The options before the secrets are the same in \<^verbatim>\<open>ToOptions\<close> and in \<^verbatim>\<open>String\<close>.\<close>

definition plain_options :: "ConnectRequest \<Rightarrow> string" where
  "plain_options c =
     ''nqn='' @ creq_Subsysnqn c @
     opt (length (creq_Transport c) > 0) ''transport'' (creq_Transport c) @
     opt (length (creq_Traddr c) > 0) ''traddr'' (creq_Traddr c) @
     opt (creq_Trsvcid c > 0) ''trsvcid'' (Itoa (creq_Trsvcid c)) @
     opt (length (creq_Hostnqn c) > 0) ''hostnqn'' (creq_Hostnqn c) @
     opt (length (creq_Hostaddr c) > 0) ''host_traddr'' (creq_Hostaddr c) @
     opt (creq_CtrlLossTMO c \<ge> -1) ''ctrl_loss_tmo'' (Itoa (creq_CtrlLossTMO c)) @
     opt (creq_MaxIOQueues c > 0) ''nr_io_queues'' (Itoa (creq_MaxIOQueues c)) @
     opt (length (creq_Hostid c) > 0) ''hostid'' (creq_Hostid c) @
     opt (creq_Kato c > 0) ''keep_alive_tmo'' (Itoa (creq_Kato c))"

definition ConnectRequest_ToOptions :: "ConnectRequest \<Rightarrow> string" where
  "ConnectRequest_ToOptions c = plain_options c @
     opt (creq_DhChapSecret c \<noteq> '''') ''dhchap_secret'' (creq_DhChapSecret c) @
     opt (creq_DhChapSecret c \<noteq> '''' \<and> creq_DhChapControllerSecret c \<noteq> '''') ''dhchap_ctrl_secret'' (creq_DhChapControllerSecret c)"

definition ConnectRequest_String :: "ConnectRequest \<Rightarrow> string" where
  "ConnectRequest_String c = plain_options c @
     opt (creq_DhChapSecret c \<noteq> '''') ''dhchap_secret'' ''redacted'' @
     opt (creq_DhChapSecret c \<noteq> '''' \<and> creq_DhChapControllerSecret c \<noteq> '''') ''dhchap_ctrl_secret'' ''redacted''"

section \<open>Parameters in driver text\<close>

text \<open>
  \<^verbatim>\<open>connPattern\<close> is \<^verbatim>\<open>(?P<field>\w+)=(?P<value>[^,]+)\<close>. \<open>conn_match\<close> matches it at the start of a string, with the
  rest; \<open>FindAll\<close> finds the matches from left to right. The result of \<^verbatim>\<open>GetRepeatedParams\<close> is a Go map, so the callers
  visit the matches in an order \<open>ord\<close>.
\<close>

definition is_word :: "char \<Rightarrow> bool" where
  "is_word c = (let n = of_char c :: nat in
     48 \<le> n \<and> n < 58 \<or> 65 \<le> n \<and> n < 91 \<or> 97 \<le> n \<and> n < 123 \<or> n = 95)"

definition conn_match :: "string \<Rightarrow> (string \<times> string \<times> string) option" where
  "conn_match s =
     (let field = takeWhile is_word s in
      case dropWhile is_word s of
        [] \<Rightarrow> None
      | c # r \<Rightarrow>
          let val = takeWhile (\<lambda>c. c \<noteq> CHR '','') r in
          if field \<noteq> [] \<and> c = CHR ''='' \<and> val \<noteq> [] then Some (field, val, drop (length val) r) else None)"

lemma conn_match_shorter: "conn_match s = Some (f, v, r) \<Longrightarrow> length r < length s"
proof -
  assume m: "conn_match s = Some (f, v, r)"
  then obtain c r0 where "dropWhile is_word s = c # r0" "r = drop (length (takeWhile (\<lambda>c. c \<noteq> CHR '','') r0)) r0"
    by (auto simp: conn_match_def Let_def split: list.splits if_splits)
  then have "length r < length (dropWhile is_word s)" by simp
  also have "\<dots> \<le> length s" by (rule length_dropWhile_le)
  finally show ?thesis .
qed

function GetRepeatedParams :: "string \<Rightarrow> (string \<times> string) list" where
  "GetRepeatedParams [] = []"
| "GetRepeatedParams (c # cs) =
     (case conn_match (c # cs) of
        None \<Rightarrow> GetRepeatedParams cs
      | Some (field, val, r) \<Rightarrow> (field, val) # GetRepeatedParams r)"
  by pat_completeness auto

termination GetRepeatedParams
  by (relation "measure length") (auto dest: conn_match_shorter)

type_synonym param_order = "(string \<times> string) list \<Rightarrow> (string \<times> string) list"

definition conn_param :: "string \<times> string \<Rightarrow> CtrlIdentifier \<Rightarrow> CtrlIdentifier" where
  "conn_param p ctrlInfo =
     (let v = ParseInt 64 (TrimSpace (snd p)) in
      if fst p = ''instance'' then (if snd v = None then ctrlInfo\<lparr> ctl_Instance := fst v \<rparr> else ctrlInfo)
      else if fst p = ''cntlid'' then (if snd v = None then ctrlInfo\<lparr> ctl_Cntlid := fst v \<rparr> else ctrlInfo)
      else ctrlInfo)"

definition parseConnInfo :: "param_order \<Rightarrow> string \<Rightarrow> CtrlIdentifier" where
  "parseConnInfo ord conn =
     (let ctrlInfo = fold conn_param (ord (GetRepeatedParams (TrimSpace conn)))
            \<lparr> ctl_Instance = 0, ctl_Cntlid = 0, ctl_Device = '''' \<rparr>
      in ctrlInfo\<lparr> ctl_Device := ''/dev/nvme'' @ Itoa (ctl_Instance ctrlInfo) \<rparr>)"

section \<open>Sysfs\<close>

text \<open>
  \<^verbatim>\<open>path.Join\<close> of a rooted directory and a name, with the cleaning of \<^verbatim>\<open>path.Clean\<close>; \<^verbatim>\<open>path.Base\<close> is the last
  element.
\<close>

definition path_elems :: "string \<Rightarrow> string list" where
  "path_elems s = filter (\<lambda>e. e \<noteq> []) (split_on_acc (CHR 0x2F) s [])"

definition clean_elem :: "string \<Rightarrow> string list \<Rightarrow> string list" where
  "clean_elem e es = (if e = ''.'' then es else if e = ''..'' then butlast es else es @ [e])"

definition path_Join :: "string \<Rightarrow> string \<Rightarrow> string" where
  "path_Join d name =
     (let es = fold clean_elem (path_elems d @ path_elems name) [] in
      if es = [] then [CHR 0x2F] else concat (map (\<lambda>e. CHR 0x2F # e) es))"

definition path_Base :: "string \<Rightarrow> string" where
  "path_Base s = (if s = [] then ''.'' else case path_elems s of [] \<Rightarrow> [CHR 0x2F] | es \<Rightarrow> last es)"

definition SysNvme :: string where "SysNvme = ''/sys/class/nvme''"

definition PathNvmeFabrics :: string where "PathNvmeFabrics = ''/dev/nvme-fabrics''"

text \<open>
  A directory entry: its name, whether it is a directory, and whether it is a symbolic link (\<open>None\<close> when \<^verbatim>\<open>Info\<close>
  fails).
\<close>

record dir_entry =
  de_Name :: string
  de_IsDir :: bool
  de_Symlink :: "bool option"

fun list_entries :: "dir_entry list \<Rightarrow> string list option" where
  "list_entries [] = Some []"
| "list_entries (e # es) =
     (if de_IsDir e then list_entries es
      else case de_Symlink e of
          None \<Rightarrow> None
        | Some False \<Rightarrow> list_entries es
        | Some True \<Rightarrow> map_option (Cons (de_Name e)) (list_entries es))"

definition listNvmeControllers :: "dir_entry list option \<Rightarrow> string list option" where
  "listNvmeControllers dir = Option.bind dir list_entries"

definition addr_param :: "string \<times> string \<Rightarrow> NvmeControllerInfo \<Rightarrow> NvmeControllerInfo" where
  "addr_param p info =
     (let val = TrimSpace (snd p) in
      if fst p = ''traddr'' then info\<lparr> ni_Traddr := val \<rparr>
      else if fst p = ''trsvcid'' then info\<lparr> ni_Trsvcid := fst (ParseInt 64 val) \<rparr>
      else if fst p = ''host_traddr'' then info\<lparr> ni_HostTraddr := val \<rparr>
      else info)"

definition getNvmeControllerInfo :: "param_order \<Rightarrow> files \<Rightarrow> string \<Rightarrow> NvmeControllerInfo option" where
  "getNvmeControllerInfo ord fs ctrlName =
     (let ctrlPath = path_Join SysNvme ctrlName in
      do {
        subsysnqn \<leftarrow> map_of fs (path_Join ctrlPath ''subsysnqn'');
        transport \<leftarrow> map_of fs (path_Join ctrlPath ''transport'');
        address \<leftarrow> map_of fs (path_Join ctrlPath ''address'');
        let info = \<lparr> ni_Traddr = '''', ni_Trsvcid = 0, ni_Transport = TrimSpace transport, ni_Subsysnqn = TrimSpace subsysnqn,
              ni_HostTraddr = '''', ni_Device = '''' \<rparr>;
        let info' = fold addr_param (ord (GetRepeatedParams (TrimSpace address))) info;
        Some (info'\<lparr> ni_Device := ''/dev/'' @ ctrlName \<rparr>)
      })"

text \<open>A controller that cannot be read stays in the result, as a nil pointer.\<close>

definition ListNvmeControllersInfo ::
    "param_order \<Rightarrow> dir_entry list option \<Rightarrow> files \<Rightarrow> (string, NvmeControllerInfo option) gomap option" where
  "ListNvmeControllersInfo ord dir fs =
     map_option (\<lambda>names. fold (\<lambda>ctrlName res. AList.update ctrlName (getNvmeControllerInfo ord fs ctrlName) res) names [])
       (listNvmeControllers dir)"

datatype stat_result = StatOk | StatNotExist | StatError string

definition checkCtrlPathExists :: "(string \<Rightarrow> stat_result) \<Rightarrow> string \<Rightarrow> bool \<times> string option" where
  "checkCtrlPathExists stat sysPath = (case stat sysPath of
     StatNotExist \<Rightarrow> (False, None) | StatOk \<Rightarrow> (True, None) | StatError e \<Rightarrow> (True, Some e))"

definition delete_path :: "string \<Rightarrow> string" where
  "delete_path name = path_Join SysNvme (name @ ''/delete_controller'')"

definition CheckCtrlRemovePathExists :: "(string \<Rightarrow> stat_result) \<Rightarrow> string \<Rightarrow> bool \<times> string option" where
  "CheckCtrlRemovePathExists stat devicePath = checkCtrlPathExists stat (delete_path (path_Base devicePath))"

section \<open>The kernel\<close>

text \<open>
  Writing an option string to the fabrics device and reading the answer, up to the step that fails; opening a
  device; an admin command, whose buffer has the length the command asks for; writing to a \<^verbatim>\<open>delete_controller\<close> file.
\<close>

datatype fabrics_reply = FabOpenError string | FabWriteError string | FabReadError string | FabReply string

record 'k kernel =
  k_fabrics :: "string \<Rightarrow> 'k \<Rightarrow> fabrics_reply \<times> 'k"
  k_open :: "string \<Rightarrow> 'k \<Rightarrow> string option"
  k_ioctl :: "string \<Rightarrow> NvmeAdminCmd \<Rightarrow> 'k \<Rightarrow> (string + bytes) \<times> 'k"
  k_delete :: "string \<Rightarrow> 'k \<Rightarrow> string option \<times> 'k"

definition removeCtrlByPath :: "'k kernel \<Rightarrow> string \<Rightarrow> 'k \<Rightarrow> string option \<times> 'k" where
  "removeCtrlByPath K sysPath k = k_delete K sysPath k"

definition RemoveCtrl :: "'k kernel \<Rightarrow> int \<Rightarrow> 'k \<Rightarrow> string option \<times> 'k" where
  "RemoveCtrl K instanceID k = removeCtrlByPath K (delete_path (''nvme'' @ Itoa instanceID)) k"

definition RemoveCtrlByDevice :: "'k kernel \<Rightarrow> string \<Rightarrow> 'k \<Rightarrow> string option \<times> 'k" where
  "RemoveCtrlByDevice K devicePath k = removeCtrlByPath K (delete_path (path_Base devicePath)) k"

definition add_error :: "string \<Rightarrow> string \<Rightarrow> NvmeClientError" where
  "add_error msg err = \<lparr> nce_Msg = msg, nce_Status = ADD_CTRL_FAILED, nce_Err = Some err \<rparr>"

text \<open>The buffer that is read has 4096 bytes, the unread part zero.\<close>

definition addCtrl :: "'k kernel \<Rightarrow> param_order \<Rightarrow> string \<Rightarrow> 'k \<Rightarrow> (NvmeClientError + CtrlIdentifier) \<times> 'k" where
  "addCtrl K ord options k =
     (case k_fabrics K options k of
        (FabOpenError e, k') \<Rightarrow>
          (Inl (add_error (''something wrong happened. failed to open file: '' @ quote PathNvmeFabrics) e), k')
      | (FabWriteError e, k') \<Rightarrow> (Inl (add_error (''write failed: '' @ quote options) e), k')
      | (FabReadError e, k') \<Rightarrow> (Inl (add_error (''read failed: '' @ quote options) e), k')
      | (FabReply s, k') \<Rightarrow>
          let buf = take 4096 s @ replicate (4096 - length s) (CHR 0x00);
              conn = TrimSpace (TrimRightNul buf)
          in (Inr (parseConnInfo ord conn), k'))"

section \<open>Connecting\<close>

text \<open>What a call reads outside the kernel: the resolver, the host id file, the suffix, the parameter order.\<close>

record nvme_env =
  ne_lookup :: resolver
  ne_hostid :: hostid_env
  ne_aux :: string
  ne_ord :: param_order

definition addr_error_text :: "addr_error \<Rightarrow> string" where
  "addr_error_text e = (case e of LookupFailed a \<Rightarrow> ''lookup '' @ a | AddrIndexPanic \<Rightarrow> ''index out of range'')"

definition conn_error :: "int \<Rightarrow> string \<Rightarrow> string \<Rightarrow> NvmeClientError" where
  "conn_error status msg err = \<lparr> nce_Msg = msg, nce_Status = status, nce_Err = Some err \<rparr>"

definition hostid_error_text :: "hostid_error \<Rightarrow> string" where
  "hostid_error_text e = (case e of MkdirFailed \<Rightarrow> ''mkdir failed'' | hostid_error.WriteFailed \<Rightarrow> ''write failed'')"

definition with_suffix :: "string \<Rightarrow> string \<Rightarrow> string" where
  "with_suffix aux nqn = (if aux \<noteq> '''' \<and> \<not> HasSuffix nqn (''.'' @ aux) then nqn @ ''.'' @ aux else nqn)"

text \<open>The request is changed in place; the state is the files, the kernel and the request.\<close>

definition prepare ::
    "nvme_env \<Rightarrow> ConnectRequest \<Rightarrow> files \<Rightarrow> (NvmeClientError + unit) \<times> files \<times> ConnectRequest" where
  "prepare E request fs =
     (case AdjustTraddr (ne_lookup E) (creq_Traddr request) of
        Inl e \<Rightarrow> (Inl (conn_error CONN_FAILED (''invalid traddr '' @ creq_Traddr request) (addr_error_text e)), fs, request)
      | Inr traddr \<Rightarrow>
          let request = request\<lparr> creq_Traddr := traddr \<rparr> in
          (case (if creq_Hostid request = '''' then GetOrCreateHostID (ne_hostid E) DefaultHostIDPath fs
                 else (Inr (creq_Hostid request), fs)) of
             (Inl e, fs') \<Rightarrow> (Inl (conn_error CONN_FAILED ''failed to get hostid'' (hostid_error_text e)), fs', request\<lparr> creq_Hostid := '''' \<rparr>)
           | (Inr hostid, fs') \<Rightarrow>
               (Inr (), fs', request\<lparr> creq_Hostid := hostid, creq_Subsysnqn := with_suffix (ne_aux E) (creq_Subsysnqn request) \<rparr>)))"

definition Connect ::
    "'k kernel \<Rightarrow> nvme_env \<Rightarrow> ConnectRequest \<Rightarrow> files \<times> 'k \<Rightarrow>
       (NvmeClientError + CtrlIdentifier) \<times> ConnectRequest \<times> files \<times> 'k" where
  "Connect K E request st =
     (case st of (fs, k) \<Rightarrow>
      case prepare E request fs of
        (Inl e, fs', request') \<Rightarrow> (Inl e, request', fs', k)
      | (Inr _, fs', request') \<Rightarrow>
          (case addCtrl K (ne_ord E) (ConnectRequest_ToOptions request') k of
             (Inr ctrlID, k') \<Rightarrow> (Inr ctrlID, request', fs', k')
           | (Inl perr, k') \<Rightarrow>
               (Inl (if Contains (case nce_Err perr of Some t \<Rightarrow> t | None \<Rightarrow> '''') ''operation already in progress''
                     then conn_error CONN_ALREADY_CONNECTED ''controller already connected'' (NvmeClientError_Error perr)
                     else conn_error CONN_FAILED ''add controller failed'' (NvmeClientError_Error perr)), request', fs', k')))"

text \<open>
  \<^verbatim>\<open>retry.Do\<close> calls a function until it succeeds, \<open>n\<close> times at most; the result is that of the last call. The
  waiting between the calls is not modelled.
\<close>

fun connect_attempts ::
    "nat \<Rightarrow> 'k kernel \<Rightarrow> nvme_env \<Rightarrow> ConnectRequest \<Rightarrow> files \<times> 'k \<Rightarrow>
       (NvmeClientError + CtrlIdentifier) \<times> ConnectRequest \<times> files \<times> 'k" where
  "connect_attempts n K E request st =
     (case Connect K E request st of
        (Inr c, request', st') \<Rightarrow> (Inr c, request', st')
      | (Inl e, request', st') \<Rightarrow> if n \<le> 1 then (Inl e, request', st') else connect_attempts (n - 1) K E request' st')"

declare connect_attempts.simps [simp del]

definition connectNVMEDevicesWithRetry ::
    "'k kernel \<Rightarrow> nvme_env \<Rightarrow> ConnectRequest \<Rightarrow> files \<times> 'k \<Rightarrow>
       (NvmeClientError + CtrlIdentifier) \<times> ConnectRequest \<times> files \<times> 'k" where
  "connectNVMEDevicesWithRetry K E request st = connect_attempts 5 K E request st"

definition connect_request ::
    "string \<Rightarrow> string \<Rightarrow> string \<Rightarrow> int \<Rightarrow> int \<Rightarrow> int option \<Rightarrow> AppConfig option \<Rightarrow> NvmeDiscPageEntry \<Rightarrow> ConnectRequest" where
  "connect_request hostnqn hostid transport maxIOQueues kato ctrlLossTMO cfg entry =
     \<lparr> creq_Transport = transport, creq_Traddr = pe_Traddr entry, creq_Trsvcid = int (unat (pe_TrsvcID entry)),
       creq_Hostnqn = hostnqn, creq_Hostaddr = '''', creq_Subsysnqn = pe_Subnqn entry,
       creq_CtrlLossTMO = (case ctrlLossTMO of Some v \<Rightarrow> v | None \<Rightarrow> (case cfg of Some c \<Rightarrow> cfg_CtrlLossTMO c | None \<Rightarrow> -1)),
       creq_MaxIOQueues = maxIOQueues, creq_Hostid = hostid, creq_Kato = kato,
       creq_DhChapSecret = (case cfg of Some c \<Rightarrow> cfg_DhChapSecret c | None \<Rightarrow> ''''),
       creq_DhChapControllerSecret = (case cfg of Some c \<Rightarrow> cfg_DhChapCtrlSecret c | None \<Rightarrow> '''') \<rparr>"

text \<open>One entry: the controller it gives, if any. An error other than "already connected" is retried.\<close>

definition connect_device :: "'k kernel \<Rightarrow> nvme_env \<Rightarrow> ConnectRequest \<Rightarrow> files \<times> 'k \<Rightarrow> CtrlIdentifier option \<times> files \<times> 'k" where
  "connect_device K E request st =
     (case Connect K E request st of
        (Inr ctrlID, _, st') \<Rightarrow> (Some ctrlID, st')
      | (Inl perr, request', st') \<Rightarrow>
          if nce_Status perr = CONN_ALREADY_CONNECTED then (None, st')
          else (case connectNVMEDevicesWithRetry K E request' st' of
                  (Inr ctrlID, _, st'') \<Rightarrow> (Some ctrlID, st'')
                | (Inl _, _, st'') \<Rightarrow> (None, st'')))"

fun connect_devices :: "'k kernel \<Rightarrow> nvme_env \<Rightarrow> ConnectRequest list \<Rightarrow> files \<times> 'k \<Rightarrow> CtrlIdentifier list \<times> files \<times> 'k" where
  "connect_devices K E [] st = ([], st)"
| "connect_devices K E (r # rs) st =
     (case connect_device K E r st of (c, st1) \<Rightarrow>
      case connect_devices K E rs st1 of (ctrls, st2) \<Rightarrow> ((case c of None \<Rightarrow> ctrls | Some x \<Rightarrow> x # ctrls), st2))"

definition ConnectAllNVMEDevices ::
    "'k kernel \<Rightarrow> nvme_env \<Rightarrow> NvmeDiscPageEntry list \<Rightarrow> string \<Rightarrow> string \<Rightarrow> string \<Rightarrow> int \<Rightarrow> int \<Rightarrow> int option \<Rightarrow> AppConfig option \<Rightarrow>
       files \<times> 'k \<Rightarrow> CtrlIdentifier list \<times> files \<times> 'k" where
  "ConnectAllNVMEDevices K E logPageEntries hostnqn hostid transport maxIOQueues kato ctrlLossTMO cfg st =
     connect_devices K E
       (map (connect_request hostnqn hostid transport maxIOQueues kato ctrlLossTMO cfg)
          (filter (\<lambda>e. pe_SubType e = NVME_NQN_NVME) logPageEntries)) st"

section \<open>The discovery log\<close>

text \<open>The command of a log page read, and the read itself into a buffer of \<open>len\<close> bytes.\<close>

definition get_log_cmd :: "u32 \<Rightarrow> u32 \<Rightarrow> u8 \<Rightarrow> u64 \<Rightarrow> u16 \<Rightarrow> bool \<Rightarrow> nat \<Rightarrow> NvmeAdminCmd" where
  "get_log_cmd nsid logID lsp lpo lsi rae len =
     (let numd = of_nat (len div 4) - 1 :: u32;
          numdu = ucast (drop_bit 16 numd) :: u16;
          numdl = ucast (numd AND 0xffff) :: u16;
          cdw10 = (if rae then logID OR push_bit 16 (ucast numdl) OR push_bit 15 1 OR push_bit 8 (ucast lsp)
                   else logID OR push_bit 16 (ucast numdl) OR push_bit 8 (ucast lsp))
      in \<lparr> ac_Opcode = nvme_admin_get_log_page, ac_Flags = 0, ac_Rsvd1 = 0, ac_Nsid = nsid, ac_Cdw2 = 0, ac_Cdw3 = 0,
           ac_Metadata = 0, ac_MetadataLen = 0, ac_DataLen = of_nat len, ac_Cdw10 = cdw10,
           ac_Cdw11 = ucast numdu OR push_bit 16 (ucast lsi), ac_Cdw12 = ucast lpo AND 0xffffffff,
           ac_Cdw13 = ucast (drop_bit 32 lpo), ac_Cdw14 = 0, ac_Cdw15 = 0, ac_TimeoutMS = 0, ac_Result = 0 \<rparr>)"

definition nvmeDiscoveryLog :: "'k kernel \<Rightarrow> string \<Rightarrow> nat \<Rightarrow> 'k \<Rightarrow> (string + bytes) \<times> 'k" where
  "nvmeDiscoveryLog K f len k = k_ioctl K f (get_log_cmd 0 (ucast NVME_LOG_DISC) 0 0 0 False len) k"

definition discoveryHeaderSize :: u64 where "discoveryHeaderSize = of_nat (Sizeof DiscRspPageHdr_layout)"

definition nvmefDiscRspPageEntrySize :: u64 where "nvmefDiscRspPageEntrySize = of_nat (Sizeof NvmefDiscRspPageEntry_layout)"

definition readDiscoveryResponseHeader :: "'k kernel \<Rightarrow> string \<Rightarrow> 'k \<Rightarrow> (string + DiscRspPageHdr) \<times> 'k" where
  "readDiscoveryResponseHeader K f k =
     (case nvmeDiscoveryLog K f (unat (discoveryHeaderSize + 8)) k of
        (Inl e, k') \<Rightarrow> (Inl e, k')
      | (Inr buf, k') \<Rightarrow>
          (case Unpack DiscRspPageHdr_layout buf of
             None \<Rightarrow> (Inl ''EOF'', k')
           | Some (vs, _) \<Rightarrow> (Inr (of_DiscRspPageHdr vs), k')))"

text \<open>\<open>n\<close> entries from a buffer; \<open>None\<close> when it ends early. A buffer that ends cuts the loop, so it is bounded by its length.\<close>

lemma Sizeof_entry: "Sizeof NvmefDiscRspPageEntry_layout = 1024"
  by (simp add: Sizeof_def NvmefDiscRspPageEntry_layout_def field_size_def)

lemma unpack_entry_shorter: "Unpack NvmefDiscRspPageEntry_layout bs = Some (vs, bs') \<Longrightarrow> length bs' < length bs"
  using Unpack_length [of NvmefDiscRspPageEntry_layout bs vs bs'] Sizeof_entry by simp

function unpack_entries :: "u64 \<Rightarrow> bytes \<Rightarrow> NvmefDiscRspPageEntry list option" where
  "unpack_entries n bs =
     (if n = 0 then Some []
      else case Unpack NvmefDiscRspPageEntry_layout bs of
          None \<Rightarrow> None
        | Some (vs, bs') \<Rightarrow> map_option (Cons (of_NvmefDiscRspPageEntry vs)) (unpack_entries (n - 1) bs'))"
  by pat_completeness auto

termination unpack_entries
  by (relation "measure (\<lambda>(n, bs). length bs)") (auto dest: unpack_entry_shorter)

declare unpack_entries.simps [simp del]

text \<open>The allocation of the buffer panics beyond the address space, of 48 bits; the address of an empty buffer panics too.\<close>

definition max_alloc :: nat where "max_alloc = 2 ^ 48"

definition log_error :: "int \<Rightarrow> string \<Rightarrow> string \<Rightarrow> go_error" where
  "log_error status msg err = ClientError \<lparr> nce_Msg = msg, nce_Status = status, nce_Err = Some err \<rparr>"

definition nvmfDiscoveryGetLogPage ::
    "'k kernel \<Rightarrow> CtrlIdentifier \<Rightarrow> 'k \<Rightarrow> ((go_error + NvmefDiscRspPageEntry list) \<times> 'k) option" where
  "nvmfDiscoveryGetLogPage K ctrlInfo k0 =
     (let f = ctl_Device ctrlInfo in
      case k_open K f k0 of
        Some e \<Rightarrow> Some (Inl (log_error DISC_FAILED ''failed to open file'' e), k0)
      | None \<Rightarrow>
      (case readDiscoveryResponseHeader K f k0 of
        (Inl e, k1) \<Rightarrow> Some (Inl (log_error DISC_GET_LOG ''get discovery log failed'' e), k1)
      | (Inr hdr, k1) \<Rightarrow>
          if dh_NumRec hdr = 0 then
            Some (Inl (ClientError \<lparr> nce_Msg = ''no log entries'', nce_Status = DISC_NO_LOG, nce_Err = None \<rparr>), k1)
          else
            let logSize = unat (discoveryHeaderSize + nvmefDiscRspPageEntrySize * dh_NumRec hdr) in
            if logSize = 0 \<or> logSize > max_alloc then None
            else (case nvmeDiscoveryLog K f logSize k1 of
              (Inl e, k2) \<Rightarrow> Some (Inl (log_error DISC_GET_LOG ''get discovery log failed'' e), k2)
            | (Inr log, k2) \<Rightarrow>
                (case Unpack DiscRspPageHdr_layout log of
                   None \<Rightarrow> Some (Inl (log_error DISC_GET_LOG ''unpack discovery response header failed'' ''EOF''), k2)
                 | Some (vs, reader) \<Rightarrow>
                    let hdr2 = of_DiscRspPageHdr vs in
                    (case unpack_entries (dh_NumRec hdr2) reader of
                       None \<Rightarrow> Some (Inl (PlainError ''EOF''), k2)
                     | Some res \<Rightarrow>
                        (case readDiscoveryResponseHeader K f k2 of
                           (Inl e, k3) \<Rightarrow> Some (Inl (log_error DISC_GET_LOG ''get discovery log failed'' e), k3)
                         | (Inr current, k3) \<Rightarrow>
                            if dh_GenCtr hdr2 \<noteq> dh_GenCtr current then
                              Some (Inl (log_error DISC_RETRY_EXHAUSTED ''exhausted all retries'' ''exhausted all retries''), k3)
                            else if dh_NumRec hdr2 \<noteq> dh_NumRec current then
                              Some (Inl (log_error DISC_NOT_EQUAL (''got different record count: '' @ show_nat (unat (dh_NumRec hdr2))
                                @ '' != '' @ show_nat (unat (dh_NumRec current))) ''exhausted all retries''), k3)
                            else Some (Inr res, k3)))))))"

text \<open>An entry whose service id is not a number is skipped; the number is cut to 16 bits.\<close>

definition page_entry :: "NvmefDiscRspPageEntry \<Rightarrow> NvmeDiscPageEntry option" where
  "page_entry entry =
     (case ParseInt 64 (TrimRightNul (bytes_string (de_TrsvcID entry))) of
        (_, Some _) \<Rightarrow> None
      | (port, None) \<Rightarrow> Some \<lparr> pe_PortID = de_PortID entry, pe_CntlID = de_CntlID entry, pe_TrsvcID = of_int port,
          pe_Subnqn = TrimRightNul (de_Subnqn entry), pe_Traddr = TrimRightNul (de_Traddr entry), pe_SubType = de_SubType entry \<rparr>)"

text \<open>
  \<^verbatim>\<open>Discover\<close> through the kernel. The gauge of the log page count is a map from host names; the controller is
  removed again unless the request is persistent.
\<close>

type_synonym log_gauge = "(string, nat) gomap"

definition gauge_of :: "string \<Rightarrow> go_error + NvmefDiscRspPageEntry list \<Rightarrow> log_gauge \<Rightarrow> log_gauge" where
  "gauge_of hostnqn res g = (case res of
     Inr es \<Rightarrow> AList.update hostnqn (length es) g
   | Inl (ClientError perr) \<Rightarrow> if nce_Status perr = DISC_NO_LOG then AList.update hostnqn 0 g else AList.delete hostnqn g
   | Inl (PlainError _) \<Rightarrow> AList.delete hostnqn g)"

definition kernel_Discover ::
    "'k kernel \<Rightarrow> nvme_env \<Rightarrow> DiscoverRequest \<Rightarrow> files \<times> log_gauge \<times> 'k \<Rightarrow>
       ((go_error + NvmeDiscPageEntry list) \<times> DiscoverRequest \<times> files \<times> log_gauge \<times> 'k) option" where
  "kernel_Discover K E discoveryRequest st =
     (case st of (fs, g, k) \<Rightarrow>
      case AdjustTraddr (ne_lookup E) (dr_Traddr discoveryRequest) of
        Inl e \<Rightarrow> Some (Inl (ClientError (conn_error CONN_FAILED (''invalid traddr '' @ dr_Traddr discoveryRequest)
                   (addr_error_text e))), discoveryRequest, fs, g, k)
      | Inr traddr \<Rightarrow>
        let r1 = discoveryRequest\<lparr> dr_Traddr := traddr \<rparr> in
        (case (if dr_Hostid r1 = '''' then GetOrCreateHostID (ne_hostid E) DefaultHostIDPath fs else (Inr (dr_Hostid r1), fs)) of
           (Inl e, fs') \<Rightarrow>
             Some (Inl (ClientError (conn_error CONN_FAILED ''failed to get hostid'' (hostid_error_text e))), r1, fs', g, k)
         | (Inr hostid, fs') \<Rightarrow>
             let r2 = r1\<lparr> dr_Hostid := hostid \<rparr> in
             (case addCtrl K (ne_ord E) (ToOptions r2) k of
                (Inl e, k1) \<Rightarrow> Some (Inl (ClientError (conn_error DISC_FAILED ''discover failed'' (NvmeClientError_Error e))), r2, fs', g, k1)
              | (Inr ctrlID, k1) \<Rightarrow>
                  (case nvmfDiscoveryGetLogPage K ctrlID k1 of
                     None \<Rightarrow> None
                   | Some (res, k2) \<Rightarrow>
                       let k3 = (if dr_Kato r2 = 0 then snd (RemoveCtrl K (ctl_Instance ctrlID) k2) else k2)
                       in Some (map_sum id (List.map_filter page_entry) res, r2, fs', gauge_of (dr_Hostnqn r2) res g, k3)))))"

definition ConnectAll ::
    "'k kernel \<Rightarrow> nvme_env \<Rightarrow> DiscoverRequest \<Rightarrow> int \<Rightarrow> int \<Rightarrow> int option \<Rightarrow> files \<times> log_gauge \<times> 'k \<Rightarrow>
       ((go_error + CtrlIdentifier list) \<times> files \<times> log_gauge \<times> 'k) option" where
  "ConnectAll K E discoveryRequest maxIOQueues kato ctrlLossTMO st =
     (case kernel_Discover K E discoveryRequest st of
        None \<Rightarrow> None
      | Some (Inl e, _, st') \<Rightarrow> Some (Inl e, st')
      | Some (Inr entries, r, fs, g, k) \<Rightarrow>
          (case ConnectAllNVMEDevices K E entries (dr_Hostnqn r) (dr_Hostid r) (dr_Transport r) maxIOQueues kato ctrlLossTMO None (fs, k) of
             (ctrls, fs', k') \<Rightarrow> Some (Inr ctrls, fs', g, k')))"

end
