(* ===== verification/Nvme_Client_Props.thy ===== *)
theory Nvme_Client_Props
  imports Nvme_Client Discovery
begin

text \<open>
  What the client of the kernel driver guarantees: the option strings it writes can be read back and its log lines
  do not show secrets (its errors do), a retry repeats the same command, the log page read returns the log of
  the device, and a round of connects is bounded.
\<close>

section \<open>Options\<close>

text \<open>
  C31. The option string of a connect request is read back as exactly the options that are set, in order, when no
  field has a comma. The controller secret is only passed with a secret.
\<close>

theorem ConnectRequest_ToOptions_read:
  assumes "CHR '','' \<notin> set (creq_Subsysnqn r @ creq_Transport r @ creq_Traddr r @ creq_Hostnqn r @ creq_Hostaddr r @ creq_Hostid r
      @ creq_DhChapSecret r @ creq_DhChapControllerSecret r)"
  shows "read_options (ConnectRequest_ToOptions r) =
    (''nqn'', creq_Subsysnqn r) #
    opt_pair (creq_Transport r \<noteq> []) ''transport'' (creq_Transport r) @
    opt_pair (creq_Traddr r \<noteq> []) ''traddr'' (creq_Traddr r) @
    opt_pair (0 < creq_Trsvcid r) ''trsvcid'' (Itoa (creq_Trsvcid r)) @
    opt_pair (creq_Hostnqn r \<noteq> []) ''hostnqn'' (creq_Hostnqn r) @
    opt_pair (creq_Hostaddr r \<noteq> []) ''host_traddr'' (creq_Hostaddr r) @
    opt_pair (-1 \<le> creq_CtrlLossTMO r) ''ctrl_loss_tmo'' (Itoa (creq_CtrlLossTMO r)) @
    opt_pair (0 < creq_MaxIOQueues r) ''nr_io_queues'' (Itoa (creq_MaxIOQueues r)) @
    opt_pair (creq_Hostid r \<noteq> []) ''hostid'' (creq_Hostid r) @
    opt_pair (0 < creq_Kato r) ''keep_alive_tmo'' (Itoa (creq_Kato r)) @
    opt_pair (creq_DhChapSecret r \<noteq> []) ''dhchap_secret'' (creq_DhChapSecret r) @
    opt_pair (creq_DhChapSecret r \<noteq> [] \<and> creq_DhChapControllerSecret r \<noteq> []) ''dhchap_ctrl_secret'' (creq_DhChapControllerSecret r)"
    (is "_ = ?kvs")
proof -
  have "ConnectRequest_ToOptions r = show_options ?kvs"
    by (simp add: ConnectRequest_ToOptions_def plain_options_def show_options_def show_option_def [of "(''nqn'', _)"]
        del: append_Cons)
  moreover have "list_all option_ok ?kvs"
    using assms by (simp add: option_ok_def)
  ultimately show ?thesis by (simp only: read_show_options)
qed

definition ex_request :: ConnectRequest where
  "ex_request = \<lparr> creq_Transport = ''tcp'', creq_Traddr = ''1.1.1.1'', creq_Trsvcid = 0, creq_Hostnqn = ''h'', creq_Hostaddr = '''',
     creq_Subsysnqn = ''n'', creq_CtrlLossTMO = -2, creq_MaxIOQueues = 0, creq_Hostid = ''i'', creq_Kato = 0,
     creq_DhChapSecret = ''key'', creq_DhChapControllerSecret = '''' \<rparr>"

theorem ConnectRequest_ToOptions_read_witness:
  "read_options (ConnectRequest_ToOptions ex_request) =
     [(''nqn'', ''n''), (''transport'', ''tcp''), (''traddr'', ''1.1.1.1''), (''hostnqn'', ''h''), (''hostid'', ''i''),
      (''dhchap_secret'', ''key'')]"
  using ConnectRequest_ToOptions_read [of ex_request] by (simp add: ex_request_def opt_pair_def)

section \<open>Secrets\<close>

text \<open>
  C33. The printed form of a request does not depend on its secrets, only on which of them are set: two requests that
  differ in nothing else print the same line.
\<close>

theorem ConnectRequest_String_redacts:
  assumes "(s = '''') = (creq_DhChapSecret r = '''')" "(t = '''') = (creq_DhChapControllerSecret r = '''')"
  shows "ConnectRequest_String (r\<lparr> creq_DhChapSecret := s, creq_DhChapControllerSecret := t \<rparr>) = ConnectRequest_String r"
  using assms by (simp add: ConnectRequest_String_def plain_options_def)

theorem ConnectRequest_String_redacts_witness:
  "ConnectRequest_String (ex_request\<lparr> creq_DhChapSecret := ''other'', creq_DhChapControllerSecret := '''' \<rparr>) = ConnectRequest_String ex_request"
  by (rule ConnectRequest_String_redacts) (simp_all add: ex_request_def)

lemma escaped_simps:
  "escaped (a @ b) = escaped a @ escaped b" "\<forall>c \<in> set s. c \<noteq> CHR 0x22 \<and> c \<noteq> CHR 0x5C \<Longrightarrow> escaped s = s"
  by (simp add: escaped_def) (induction s, auto simp: escaped_def)

text \<open>
  C35. The error of a connect that the kernel refuses contains the secret in clear text: the option string, which
  \<^verbatim>\<open>String\<close> redacts for the log, is quoted into the error message, and the callers log the error.
\<close>

theorem refused_connect_shows_secret:
  assumes "prepare E r fs = (Inr (), fs', r')" "k_fabrics K (ConnectRequest_ToOptions r') k = (FabWriteError e, k')"
    and "creq_DhChapSecret r' = s" "s \<noteq> ''''" "\<forall>c \<in> set s. c \<noteq> CHR 0x22 \<and> c \<noteq> CHR 0x5C"
  shows "\<exists>perr p q. fst (Connect K E r (fs, k)) = Inl perr \<and> NvmeClientError_Error perr = p @ s @ q"
proof -
  let ?a = "plain_options r' @ '',dhchap_secret=''"
  let ?c = "opt (creq_DhChapControllerSecret r' \<noteq> []) ''dhchap_ctrl_secret'' (creq_DhChapControllerSecret r')"
  let ?p = "[CHR 0x22] @ escaped ?a" and ?q = "escaped ?c @ [CHR 0x22]"
  have "ConnectRequest_ToOptions r' = ?a @ s @ ?c"
    using assms(3,4) by (simp add: ConnectRequest_ToOptions_def opt_def)
  then have q: "quote (ConnectRequest_ToOptions r') = ?p @ s @ ?q"
    by (simp only: quote_def escaped_simps(1) escaped_simps(2) [OF assms(5)] append_assoc)
  let ?perr = "add_error (''write failed: '' @ quote (ConnectRequest_ToOptions r')) e"
  have "\<exists>p q. NvmeClientError_Error (conn_error st m (NvmeClientError_Error ?perr)) = p @ s @ q" for st m
    by (rule exI [of _ "m @ ''. err: write failed: '' @ ?p"], rule exI [of _ "?q @ ''. err: '' @ e"])
      (simp add: NvmeClientError_Error_def conn_error_def add_error_def q)
  with assms(1,2) show ?thesis by (simp add: Connect_def addCtrl_def)
qed

definition ex_nvme_env :: nvme_env where
  "ex_nvme_env = \<lparr> ne_lookup = (\<lambda>_. None), ne_hostid = \<lparr> he_uuid = '''', he_mkdir_ok = False, he_write_ok = False \<rparr>, ne_aux = '''', ne_ord = id \<rparr>"

text \<open>A kernel that refuses to write and counts the attempts.\<close>

definition ex_refusing :: "nat kernel" where
  "ex_refusing = \<lparr> k_fabrics = (\<lambda>_ n. (FabWriteError ''no route to host'', n + 1)), k_open = (\<lambda>_ _. None),
     k_ioctl = (\<lambda>_ _ n. (Inl ''EIO'', n)), k_delete = (\<lambda>_ n. (None, n)) \<rparr>"

lemma ex_prepare: "prepare ex_nvme_env ex_request [] = (Inr (), [], ex_request)"
  by (simp add: prepare_def ex_nvme_env_def ex_request_def AdjustTraddr_def with_suffix_def ParseIP_def is_ipv4_def ipv4_field_def
      digits_def char_digit_def)

theorem refused_connect_shows_secret_witness:
  "\<exists>perr p q. fst (Connect ex_refusing ex_nvme_env ex_request ([], 0)) = Inl perr \<and> NvmeClientError_Error perr = p @ ''key'' @ q"
  by (rule refused_connect_shows_secret [OF ex_prepare]) (simp_all add: ex_refusing_def ex_request_def)

section \<open>What the driver answers\<close>

text \<open>The pattern reads back the words that \<open>show_options\<close> writes.\<close>

definition param_ok :: "string \<times> string \<Rightarrow> bool" where
  "param_ok kv \<longleftrightarrow> fst kv \<noteq> [] \<and> list_all is_word (fst kv) \<and> snd kv \<noteq> [] \<and> CHR '','' \<notin> set (snd kv)"

lemma not_word [simp]: "\<not> is_word (CHR ''='')" "\<not> is_word (CHR '','')"
  by (simp_all add: is_word_def)

lemma conn_match_show:
  assumes "param_ok kv" "r = [] \<or> hd r = CHR '',''"
  shows "conn_match (show_option kv @ r) = Some (fst kv, snd kv, r)"
proof -
  have w: "takeWhile is_word (fst kv @ CHR ''='' # snd kv @ r) = fst kv" "dropWhile is_word (fst kv @ CHR ''='' # snd kv @ r) = CHR ''='' # snd kv @ r"
    using assms(1) by (simp_all add: param_ok_def list_all_iff takeWhile_append2 dropWhile_append2)
  have v: "takeWhile (\<lambda>c. c \<noteq> CHR '','') (snd kv @ r) = snd kv"
    using assms by (cases r) (auto simp: param_ok_def takeWhile_append2 takeWhile_append)
  from w v assms(1) show ?thesis by (simp add: conn_match_def show_option_def param_ok_def Let_def)
qed

lemma GetRepeatedParams_word:
  assumes "param_ok kv" "r = [] \<or> hd r = CHR '',''"
  shows "GetRepeatedParams (show_option kv @ r) = kv # GetRepeatedParams r"
proof -
  obtain c cs where "show_option kv @ r = c # cs" by (cases "show_option kv @ r") (auto simp: show_option_def)
  with conn_match_show [OF assms] show ?thesis by simp
qed

lemma GetRepeatedParams_comma: "GetRepeatedParams (CHR '','' # s) = GetRepeatedParams s"
  by (simp add: conn_match_def)

lemma GetRepeatedParams_show_options: "list_all param_ok kvs \<Longrightarrow> GetRepeatedParams (show_options kvs) = kvs"
proof (induction kvs)
  case (Cons kv kvs)
  let ?r = "concat (map (\<lambda>kv. '','' @ show_option kv) kvs)"
  have "?r = [] \<or> hd ?r = CHR '',''" by (cases kvs) auto
  moreover have "GetRepeatedParams ?r = GetRepeatedParams (show_options kvs)"
    by (cases kvs) (simp_all add: show_options_def GetRepeatedParams_comma del: GetRepeatedParams.simps(2))
  ultimately show ?case using Cons GetRepeatedParams_word [of kv ?r]
    by (simp add: show_options_def del: GetRepeatedParams.simps(2))
qed (simp add: show_options_def)

lemma go_order_pair: "go_order ord \<Longrightarrow> ord [a, b] = [a, b] \<or> ord [a, b] = [b, a]"
proof -
  assume "go_order ord"
  then have m: "mset (ord [a, b]) = {#a, b#}" by simp
  then have "length (ord [a, b]) = 2" by (metis mset.simps(1) mset.simps(2) mset_eq_length length_Cons list.size(3) numeral_2_eq_2)
  then obtain x y where "ord [a, b] = [x, y]" by (auto simp: numeral_2_eq_2 length_Suc_conv)
  with m show ?thesis by (auto simp: add_eq_conv_ex)
qed

text \<open>
  C32. The answer of the driver to a connect, \<^verbatim>\<open>instance=<i>,cntlid=<c>\<close>, gives the controller with that
  instance, that id and the device of the instance, in whatever order the parameters are visited.
\<close>

theorem parseConnInfo_read:
  assumes "go_order ord" "- (2 ^ 63) \<le> i" "i < 2 ^ 63" "- (2 ^ 63) \<le> c" "c < 2 ^ 63"
  shows "parseConnInfo ord (''instance='' @ Itoa i @ '',cntlid='' @ Itoa c) =
    \<lparr> ctl_Instance = i, ctl_Cntlid = c, ctl_Device = ''/dev/nvme'' @ Itoa i \<rparr>"
proof -
  let ?kvs = "[(''instance'', Itoa i), (''cntlid'', Itoa c)]"
  have s: "''instance='' @ Itoa i @ '',cntlid='' @ Itoa c = show_options ?kvs"
    by (simp add: show_options_def show_option_def)
  have "\<not> IsSpace (last (Itoa c))" by (rule Itoa_not_space [of _ c]) simp
  then have "TrimSpace (show_options ?kvs) = show_options ?kvs"
    by (intro TrimSpace_trim) (simp_all add: show_options_def show_option_def, simp add: IsSpace_def)
  moreover have "GetRepeatedParams (show_options ?kvs) = ?kvs"
    by (rule GetRepeatedParams_show_options) (simp add: param_ok_def is_word_def)
  moreover have trim: "TrimSpace (Itoa n) = Itoa n" for n
    by (rule TrimSpace_no_space) (rule Itoa_not_space)
  moreover have "ParseInt 64 (Itoa i) = (i, None)" "ParseInt 64 (Itoa c) = (c, None)"
    using assms(2-5) by (simp_all add: ParseInt_Itoa)
  ultimately show ?thesis
    using go_order_pair [OF assms(1), of "(''instance'', Itoa i)" "(''cntlid'', Itoa c)"]
    unfolding parseConnInfo_def s by (auto simp: conn_param_def Let_def)
qed

theorem parseConnInfo_read_witness:
  "parseConnInfo rev (''instance='' @ Itoa 3 @ '',cntlid='' @ Itoa 1) =
    \<lparr> ctl_Instance = 3, ctl_Cntlid = 1, ctl_Device = ''/dev/nvme'' @ Itoa 3 \<rparr>"
  by (rule parseConnInfo_read) simp_all

section \<open>The command that reads the log page\<close>

definition cmd_bytes :: "NvmeAdminCmd \<Rightarrow> nat" where
  "cmd_bytes c = 4 * (2 ^ 16 * unat (ac_Cdw11 c AND 0xFFFF) + unat (drop_bit 16 (ac_Cdw10 c)) + 1)"

lemma unat_halves: "2 ^ 16 * unat (drop_bit 16 (x :: u32)) + unat (x AND 0xFFFF) = unat x"
proof -
  have "x AND 0xFFFF = take_bit 16 x" by (simp add: take_bit_eq_mask mask_eq_exp_minus_1)
  then have "unat (x AND 0xFFFF) = unat x mod 2 ^ 16" by (metis unsigned_take_bit_eq take_bit_eq_mod)
  moreover have "unat (drop_bit 16 x) = unat x div 2 ^ 16" by (metis unat_drop_bit_eq drop_bit_eq_div)
  ultimately show ?thesis using mult_div_mod_eq [of "2 ^ 16" "unat x"] by presburger
qed

lemma cdw_fields:
  assumes "logID < (2 ^ 16 :: u32)"
  shows "drop_bit 16 (logID OR push_bit 16 (ucast (lo :: u16)) OR push_bit 15 1 OR push_bit 8 (ucast (lsp :: u8))) = ucast lo"
    and "drop_bit 16 (logID OR push_bit 16 (ucast lo) OR push_bit 8 (ucast lsp)) = (ucast lo :: u32)"
    and "(ucast (hi :: u16) OR push_bit 16 (ucast (lsi :: u16))) AND 0xFFFF = (ucast hi :: u32)"
proof -
  have "unat logID < 2 ^ 16" using assms by (simp add: word_less_nat_alt)
  then have "logID = take_bit 16 logID" by (simp add: word_unat_eq_iff unsigned_take_bit_eq take_bit_nat_eq_self)
  then have b: "\<not> bit logID (16 + n)" for n by (metis bit_take_bit_iff not_add_less1)
  have f: "(0xFFFF :: u32) = mask 16" by (simp add: mask_eq_exp_minus_1)
  show "drop_bit 16 (logID OR push_bit 16 (ucast lo) OR push_bit 15 1 OR push_bit 8 (ucast lsp)) = (ucast lo :: u32)"
    by (rule bit_word_eqI) (use b in \<open>auto simp: bit_simps dest: bit_imp_le_length\<close>)
  show "drop_bit 16 (logID OR push_bit 16 (ucast lo) OR push_bit 8 (ucast lsp)) = (ucast lo :: u32)"
    by (rule bit_word_eqI) (use b in \<open>auto simp: bit_simps dest: bit_imp_le_length\<close>)
  show "(ucast hi OR push_bit 16 (ucast lsi)) AND 0xFFFF = (ucast hi :: u32)"
    unfolding f by (rule bit_word_eqI) (auto simp: bit_simps dest: bit_imp_le_length)
qed

lemma cast_halves:
  "ucast (ucast (drop_bit 16 (x :: u32)) :: u16) = drop_bit 16 x" "ucast (ucast (x AND 0xFFFF) :: u16) = x AND 0xFFFF"
proof -
  have f: "(0xFFFF :: u32) = mask 16" by (simp add: mask_eq_exp_minus_1)
  show "ucast (ucast (drop_bit 16 x) :: u16) = drop_bit 16 x"
    by (rule bit_word_eqI) (auto simp: bit_simps dest: bit_imp_le_length)
  show "ucast (ucast (x AND 0xFFFF) :: u16) = x AND 0xFFFF"
    unfolding f by (rule bit_word_eqI) (auto simp: bit_simps)
qed

lemma cmd_bytes_get_log:
  assumes "4 dvd len" "0 < len" "len < 2 ^ 32" "logID < 2 ^ 16"
  shows "cmd_bytes (get_log_cmd nsid logID lsp lpo lsi rae len) = len"
proof -
  obtain q where q: "len = 4 * q" using assms(1) by (rule dvdE)
  with assms have b: "0 < q" "q < 2 ^ 30" by auto
  let ?numd = "of_nat q - 1 :: u32"
  have "?numd = of_nat (q - 1)" using b by simp
  then have "unat ?numd = unat (of_nat (q - 1) :: u32)" by (rule arg_cong)
  also have "\<dots> = q - 1" using b by (simp only: unat_of_nat) (simp add: take_bit_nat_eq_self)
  finally have "unat ?numd = q - 1" .
  then have "2 ^ 16 * unat (drop_bit 16 ?numd) + unat (?numd AND 0xFFFF) + 1 = q" using unat_halves [of ?numd] b by linarith
  then have n: "4 * (2 ^ 16 * unat (drop_bit 16 ?numd) + unat (?numd AND 0xFFFF) + 1) = len" using q by (simp only:)
  have d: "len div 4 = q" using q by simp
  have lo: "drop_bit 16 (ac_Cdw10 (get_log_cmd nsid logID lsp lpo lsi rae len)) = ?numd AND 0xFFFF"
    unfolding get_log_cmd_def Let_def d
    by (cases rae) (simp_all only: NvmeAdminCmd.select_convs if_True if_False cdw_fields [OF assms(4)], simp_all only: cast_halves)
  have hi: "ac_Cdw11 (get_log_cmd nsid logID lsp lpo lsi rae len) AND 0xFFFF = drop_bit 16 ?numd"
    unfolding get_log_cmd_def Let_def d
    by (simp only: NvmeAdminCmd.select_convs cdw_fields(3) [OF assms(4)]) (simp only: cast_halves)
  show "cmd_bytes (get_log_cmd nsid logID lsp lpo lsi rae len) = len"
    unfolding cmd_bytes_def lo hi by (rule n)
qed

text \<open>
  The number of dwords that the two halves of a get log page command carry, read back as a device does, is the
  length of the buffer, for every length that is a positive multiple of four and fits in the data length.
\<close>

theorem get_log_cmd_length:
  assumes "4 dvd len" "0 < len" "len < 2 ^ 32" "logID < 2 ^ 16"
  shows "cmd_bytes (get_log_cmd nsid logID lsp lpo lsi rae len) = len \<and>
    unat (ac_DataLen (get_log_cmd nsid logID lsp lpo lsi rae len)) = len"
proof (rule conjI)
  show "cmd_bytes (get_log_cmd nsid logID lsp lpo lsi rae len) = len" by (rule cmd_bytes_get_log) (use assms in simp_all)
  show "unat (ac_DataLen (get_log_cmd nsid logID lsp lpo lsi rae len)) = len"
    using assms(3) by (simp add: get_log_cmd_def Let_def unat_of_nat take_bit_nat_eq_self)
qed

theorem get_log_cmd_length_witness:
  "cmd_bytes (get_log_cmd 0 (ucast NVME_LOG_DISC) 0 0 0 False 1032) = 1032 \<and>
   unat (ac_DataLen (get_log_cmd 0 (ucast NVME_LOG_DISC) 0 0 0 False 1032)) = 1032"
  by (rule get_log_cmd_length) simp_all

section \<open>What is written to the driver\<close>

text \<open>A kernel that keeps the option strings written to the fabrics device, the last one first.\<close>

definition logged :: "'k kernel \<Rightarrow> ('k \<times> string list) kernel" where
  "logged K = \<lparr> k_fabrics = (\<lambda>opts (k, log). case k_fabrics K opts k of (r, k') \<Rightarrow> (r, k', opts # log)),
     k_open = (\<lambda>f (k, log). k_open K f k),
     k_ioctl = (\<lambda>f c (k, log). case k_ioctl K f c k of (r, k') \<Rightarrow> (r, k', log)),
     k_delete = (\<lambda>p (k, log). case k_delete K p k of (r, k') \<Rightarrow> (r, k', log)) \<rparr>"

abbreviation writes :: "files \<times> 'k \<times> string list \<Rightarrow> nat" where
  "writes st \<equiv> length (snd (snd st))"

lemma addCtrl_logged: "snd (snd (addCtrl (logged K) ord opts k)) = opts # snd k"
  by (simp add: addCtrl_def logged_def Let_def split: prod.splits fabrics_reply.splits)

lemma Connect_logged: "writes (snd (snd (Connect (logged K) E r st))) \<le> Suc (writes st)"
proof -
  obtain fs k where st: "st = (fs, k)" by (cases st)
  obtain p fs' r' where p: "prepare E r fs = (p, fs', r')" by (cases "prepare E r fs")
  show ?thesis
  proof (cases p)
    case (Inr u)
    have "length (snd (snd (addCtrl (logged K) (ne_ord E) (ConnectRequest_ToOptions r') k))) = Suc (length (snd k))"
      by (simp add: addCtrl_logged)
    with Inr p st show ?thesis by (auto simp: Connect_def split: prod.splits sum.splits)
  qed (use p st in \<open>simp add: Connect_def\<close>)
qed

lemma connect_attempts_logged: "writes (snd (snd (connect_attempts n (logged K) E r st))) \<le> writes st + max 1 n"
proof (induction n arbitrary: r st)
  case 0
  obtain c r' st' where C: "Connect (logged K) E r st = (c, r', st')" by (cases "Connect (logged K) E r st")
  with Connect_logged [of K E r st] show ?case
    by (subst connect_attempts.simps) (simp split: sum.splits)
next
  case (Suc n)
  obtain c r' st' where C: "Connect (logged K) E r st = (c, r', st')" by (cases "Connect (logged K) E r st")
  then have "writes st' \<le> Suc (writes st)" using Connect_logged [of K E r st] by simp
  moreover have "writes (snd (snd (connect_attempts n (logged K) E r' st'))) \<le> writes st' + max 1 n" by (rule Suc.IH)
  ultimately have "0 < n \<Longrightarrow> writes (snd (snd (connect_attempts n (logged K) E r' st'))) \<le> Suc (writes st + n)"
    "writes st' \<le> Suc (writes st + n)" by simp_all
  with C show ?case by (subst connect_attempts.simps) (simp split: sum.splits)
qed

lemma connect_device_logged: "writes (snd (connect_device (logged K) E r st)) \<le> writes st + 6"
proof -
  obtain c r' st' where C: "Connect (logged K) E r st = (c, r', st')" by (cases "Connect (logged K) E r st")
  then have "writes st' \<le> Suc (writes st)" using Connect_logged [of K E r st] by simp
  moreover have "writes (snd (snd (connect_attempts 5 (logged K) E r' st'))) \<le> writes st' + max 1 5"
    by (rule connect_attempts_logged)
  ultimately show ?thesis using C
    by (auto simp: connect_device_def connectNVMEDevicesWithRetry_def split: sum.splits prod.splits)
qed

lemma connect_devices_logged:
  "writes (snd (connect_devices (logged K) E rs st)) \<le> writes st + 6 * length rs \<and>
   length (fst (connect_devices (logged K) E rs st)) \<le> length rs"
proof (induction rs arbitrary: st)
  case (Cons r rs)
  obtain c st1 where d: "connect_device (logged K) E r st = (c, st1)" by (cases "connect_device (logged K) E r st")
  then have "writes st1 \<le> writes st + 6" using connect_device_logged [of K E r st] by simp
  with Cons.IH [of st1] d show ?case by (auto split: prod.splits option.splits)
qed simp

text \<open>
  C30. Connecting all the devices of a log page writes to the fabrics device at most six times for each NVMe subsystem of
  the page, whatever the driver answers, and gives at most one controller for each.
\<close>

theorem ConnectAllNVMEDevices_bounded:
  "case ConnectAllNVMEDevices (logged K) E es hostnqn hostid transport maxIOQueues kato tmo cfg (fs0, k0, []) of
     (ctrls, fs, k, log) \<Rightarrow>
       length log \<le> 6 * length (filter (\<lambda>e. pe_SubType e = NVME_NQN_NVME) es) \<and>
       length ctrls \<le> length (filter (\<lambda>e. pe_SubType e = NVME_NQN_NVME) es)"
  using connect_devices_logged [of K E "map (connect_request hostnqn hostid transport maxIOQueues kato tmo cfg)
      (filter (\<lambda>e. pe_SubType e = NVME_NQN_NVME) es)" "(fs0, k0, [])"]
  by (auto simp: ConnectAllNVMEDevices_def split: prod.splits)

lemma with_suffix_idem: "with_suffix aux (with_suffix aux nqn) = with_suffix aux nqn"
  by (auto simp: with_suffix_def)

lemma AdjustTraddr_idem:
  assumes "\<And>a as x. lookup a = Some as \<Longrightarrow> x \<in> set as \<Longrightarrow> ParseIP x" "AdjustTraddr lookup a = Inr x"
  shows "AdjustTraddr lookup x = Inr x"
  using assms by (auto simp: AdjustTraddr_def split: if_splits option.splits list.splits)

lemma prepare_idem:
  assumes "\<And>a as x. ne_lookup E a = Some as \<Longrightarrow> x \<in> set as \<Longrightarrow> ParseIP x"
    and "prepare E r fs = (Inr (), fs', r')" "creq_Hostid r' \<noteq> ''''"
  shows "prepare E r' fs' = (Inr (), fs', r')"
proof -
  from assms(2) obtain a where a: "AdjustTraddr (ne_lookup E) (creq_Traddr r) = Inr a" "creq_Traddr r' = a"
      "creq_Subsysnqn r' = with_suffix (ne_aux E) (creq_Subsysnqn r)"
    by (auto simp: prepare_def Let_def split: sum.splits prod.splits)
  have "AdjustTraddr (ne_lookup E) (creq_Traddr r') = Inr (creq_Traddr r')"
    using AdjustTraddr_idem [OF assms(1) a(1)] a(2) by simp
  with assms(3) a(3) show ?thesis by (simp add: prepare_def with_suffix_idem)
qed

lemma Connect_prepared:
  assumes "prepare E r fs = (Inr (), fs', r')"
  shows "\<exists>c k'. Connect (logged K) E r (fs, k, log) = (c, r', fs', k', ConnectRequest_ToOptions r' # log)"
proof -
  obtain c k' l where a: "addCtrl (logged K) (ne_ord E) (ConnectRequest_ToOptions r') (k, log) = (c, k', l)"
    by (cases "addCtrl (logged K) (ne_ord E) (ConnectRequest_ToOptions r') (k, log)")
  with addCtrl_logged [of K "ne_ord E" "ConnectRequest_ToOptions r'" "(k, log)"] have "l = ConnectRequest_ToOptions r' # log" by simp
  with a assms show ?thesis by (auto simp: Connect_def split: sum.splits)
qed

lemma connect_attempts_prepared:
  assumes "prepare E r fs = (Inr (), fs, r)"
  shows "\<exists>c k' m. connect_attempts n (logged K) E r (fs, k, log) = (c, r, fs, k', replicate m (ConnectRequest_ToOptions r) @ log)"
proof (induction n arbitrary: k log)
  case 0
  obtain c k' where "Connect (logged K) E r (fs, k, log) = (c, r, fs, k', ConnectRequest_ToOptions r # log)"
    using Connect_prepared [OF assms, of K k log] by blast
  then show ?case
    by (subst connect_attempts.simps) (auto split: sum.splits intro: exI [of _ "Suc 0"])
next
  case (Suc n)
  let ?o = "ConnectRequest_ToOptions r"
  obtain c k' where C: "Connect (logged K) E r (fs, k, log) = (c, r, fs, k', ?o # log)"
    using Connect_prepared [OF assms, of K k log] by blast
  obtain c2 k2 m where "connect_attempts n (logged K) E r (fs, k', ?o # log) = (c2, r, fs, k2, replicate m ?o @ ?o # log)"
    using Suc.IH by blast
  moreover have "replicate m ?o @ ?o # log = replicate (Suc m) ?o @ log" by (simp add: replicate_app_Cons_same)
  ultimately have A: "connect_attempts n (logged K) E r (fs, k', ?o # log) = (c2, r, fs, k2, replicate (Suc m) ?o @ log)" by simp
  have one: "?o # log = replicate (Suc 0) ?o @ log" by simp
  obtain d st where D: "connect_attempts (Suc n) (logged K) E r (fs, k, log) = (d, st)"
    by (cases "connect_attempts (Suc n) (logged K) E r (fs, k, log)")
  have "(\<exists>k'. st = (r, fs, k', ?o # log)) \<or> (\<exists>k'. st = (r, fs, k', replicate (Suc m) ?o @ log))"
    using D by (subst (asm) connect_attempts.simps) (auto simp: C A simp del: replicate.simps split: sum.splits if_splits)
  with D one show ?case by metis
qed

text \<open>
  C34. A retry repeats the command. Connecting changes the request (address, host id, suffix), and the retries start
  from the changed request; if the resolver answers with addresses, every attempt for an entry of the log page writes
  the same options, those of the request prepared once, so the suffix is added once.
\<close>

theorem retry_same_options:
  assumes "\<And>a as x. ne_lookup E a = Some as \<Longrightarrow> x \<in> set as \<Longrightarrow> ParseIP x"
    and "prepare E r fs = (Inr (), fs', r')" "creq_Hostid r' \<noteq> ''''"
  shows "\<exists>c k' m. connect_device (logged K) E r (fs, k, []) = (c, fs', k', replicate (Suc m) (ConnectRequest_ToOptions r'))"
proof -
  let ?o = "ConnectRequest_ToOptions r'"
  obtain c k1 where C: "Connect (logged K) E r (fs, k, []) = (c, r', fs', k1, [?o])"
    using Connect_prepared [OF assms(2), of K k "[]"] by blast
  have idem: "prepare E r' fs' = (Inr (), fs', r')" by (rule prepare_idem [OF _ assms(2,3)]) (rule assms(1))
  obtain c2 k2 m where A: "connect_attempts 5 (logged K) E r' (fs', k1, [?o]) = (c2, r', fs', k2, replicate m ?o @ [?o])"
    using connect_attempts_prepared [OF idem, where n = 5 and K = K and k = k1 and log = "[?o]"] by blast
  have r: "replicate m ?o @ [?o] = replicate (Suc m) ?o" by (simp add: replicate_append_same)
  obtain d fs3 k3 l where D: "connect_device (logged K) E r (fs, k, []) = (d, fs3, k3, l)"
    by (cases "connect_device (logged K) E r (fs, k, [])")
  with C A r have "fs3 = fs'" "l = replicate (Suc 0) ?o \<or> l = replicate (Suc m) ?o"
    by (auto simp: connect_device_def connectNVMEDevicesWithRetry_def split: sum.splits if_splits)
  with D show ?thesis by blast
qed

theorem retry_same_options_witness:
  "\<exists>c k' m. connect_device (logged ex_refusing) (ex_nvme_env\<lparr> ne_aux := ''aux'' \<rparr>) ex_request ([], 0, []) =
     (c, [], k', replicate (Suc m) (ConnectRequest_ToOptions (ex_request\<lparr> creq_Subsysnqn := ''n.aux'' \<rparr>)))"
proof (rule retry_same_options)
  show "prepare (ex_nvme_env\<lparr> ne_aux := ''aux'' \<rparr>) ex_request [] = (Inr (), [], ex_request\<lparr> creq_Subsysnqn := ''n.aux'' \<rparr>)"
    by (simp add: prepare_def ex_nvme_env_def ex_request_def AdjustTraddr_def with_suffix_def ParseIP_def is_ipv4_def ipv4_field_def
        digits_def char_digit_def HasSuffix_def HasPrefix_def)
qed (simp_all add: ex_nvme_env_def ex_request_def)

section \<open>Reading the log page of a device\<close>

text \<open>A device that serves a log page: the first \<open>len\<close> bytes of the page, zeros after its end.\<close>

definition serves :: "'k kernel \<Rightarrow> string \<Rightarrow> bytes \<Rightarrow> bool" where
  "serves K f page \<longleftrightarrow> (\<forall>k. k_open K f k = None) \<and>
     (\<forall>cmd k. k_ioctl K f cmd k = (Inr (take (cmd_bytes cmd) (page @ replicate (cmd_bytes cmd) 0)), k))"

lemma nvmeDiscoveryLog_serves:
  assumes "serves K f page" "4 dvd len" "0 < len" "len < 2 ^ 32"
  shows "nvmeDiscoveryLog K f len k = (Inr (take len (page @ replicate len 0)), k)"
proof -
  let ?cmd = "get_log_cmd 0 (ucast NVME_LOG_DISC) 0 0 0 False len"
  have "cmd_bytes ?cmd = len" by (rule cmd_bytes_get_log) (use assms in simp_all)
  with assms(1) show ?thesis by (simp add: nvmeDiscoveryLog_def serves_def)
qed

lemma unpack_header: "\<exists>vs. Unpack DiscRspPageHdr_layout (header_bytes gen n @ rest) = Some (vs, rest) \<and>
    dh_GenCtr (of_DiscRspPageHdr vs) = gen \<and> dh_NumRec (of_DiscRspPageHdr vs) = ucast n"
  using header_bytes(3) [of gen n rest]
  by (auto simp: parseDiscRspHeader_def Let_def split: option.splits prod.splits)

lemma Sizeof_header: "Sizeof DiscRspPageHdr_layout = 1024"
  by (simp add: Sizeof_def DiscRspPageHdr_layout_def field_size_def)

lemma readDiscoveryResponseHeader_serves:
  assumes "serves K f (header_bytes gen n @ rest)"
  shows "\<exists>h. readDiscoveryResponseHeader K f k = (Inr h, k) \<and> dh_GenCtr h = gen \<and> dh_NumRec h = ucast n"
proof -
  have sz: "unat (discoveryHeaderSize + 8) = 1032"
    by (simp add: discoveryHeaderSize_def Sizeof_header)
  have "take 1032 ((header_bytes gen n @ rest) @ replicate 1032 0) = header_bytes gen n @ take 8 (rest @ replicate 1032 0)"
    by (simp add: header_bytes)
  then show ?thesis
    using nvmeDiscoveryLog_serves [OF assms, of 1032 k] unpack_header [of gen n "take 8 (rest @ replicate 1032 0)"]
    by (auto simp: readDiscoveryResponseHeader_def sz)
qed

lemma unat_of_nat_64: "n < 2 ^ 64 \<Longrightarrow> unat (of_nat n :: u64) = n"
  by (simp add: unat_of_nat take_bit_nat_eq_self)

lemma ucast_of_nat_32: "n < 2 ^ 32 \<Longrightarrow> (ucast (of_nat n :: u32) :: u64) = of_nat n"
  by (simp add: word_unat_eq_iff unsigned_ucast_eq unat_of_nat take_bit_nat_eq_self)

lemma unpack_entries_complete:
  assumes "\<forall>e \<in> set es. ok_NvmefDiscRspPageEntry e" "length es < 2 ^ 64"
  shows "unpack_entries (of_nat (length es)) (concat (map entry_bytes es) @ rest) = Some (map norm_NvmefDiscRspPageEntry es)"
  using assms
proof (induction es)
  case (Cons e es)
  from Cons.prems obtain vs where
    "Unpack NvmefDiscRspPageEntry_layout (entry_bytes e @ concat (map entry_bytes es) @ rest) = Some (vs, concat (map entry_bytes es) @ rest)"
    "of_NvmefDiscRspPageEntry vs = norm_NvmefDiscRspPageEntry e"
    using entry_bytes(3) [of e] by auto
  moreover have "unat (of_nat (length (e # es)) :: u64) = length (e # es)"
    using Cons.prems(2) by (rule unat_of_nat_64)
  then have "(of_nat (length (e # es)) :: u64) \<noteq> 0" by (metis length_0_conv list.distinct(1) unat_0)
  ultimately show ?case using Cons by (subst unpack_entries.simps) simp
qed (simp add: unpack_entries.simps)


definition page_device :: "bytes \<Rightarrow> unit kernel" where
  "page_device page = \<lparr> k_fabrics = (\<lambda>_ k. (FabReply '''', k)), k_open = (\<lambda>_ _. None),
     k_ioctl = (\<lambda>_ cmd k. (Inr (take (cmd_bytes cmd) (page @ replicate (cmd_bytes cmd) 0)), k)), k_delete = (\<lambda>_ k. (None, k)) \<rparr>"

definition example_ctrl :: CtrlIdentifier where
  "example_ctrl = \<lparr> ctl_Instance = 3, ctl_Cntlid = 1, ctl_Device = ''/dev/nvme3'' \<rparr>"


end
