(* ===== verification/Service.thy ===== *)
theory Service
  imports Cache_Props Host_Impl Nvme_Client
begin

text \<open>
  The service, \<^verbatim>\<open>src/service/service.go\<close>: it keeps one persistent connection to each cluster, follows the
  cache, and on an event reads the log page, connects the devices and hands the referrals to the cache.

  The main loop and the goroutines around it share the record \<open>service\<close>. A case of the loop is one function, and
  \<open>service_step\<close> interleaves them with the goroutines: the watcher of the cache, the multiplexers that forward the events
  of a connection, the senders that wait to trigger a reconnect and the timers that wait to do so. The code takes no
  lock; a case of the loop is one step here. The host API is given by the functions of \<open>service_env\<close>.
  \<open>None\<close> is a panic, or a discovery that never returns. What the scheduler and the map loops choose is the
  record \<open>choice\<close>.
\<close>

section \<open>State\<close>

record ('e, 's, 'k) service_env =
  se_discover :: "DiscoverRequest \<Rightarrow> 's \<Rightarrow> (('e + NvmeDiscPageEntry list) \<times> ConnectionID \<times> 's) option"
  se_disconnect :: "ConnectionID \<Rightarrow> 's \<Rightarrow> (bool \<times> 's) option"
  se_status :: "'e \<Rightarrow> int option"
  se_files :: "'s \<Rightarrow> files"
  se_put :: "files \<Rightarrow> 's \<Rightarrow> 's"
  se_kernel :: "'k kernel"
  se_nvme :: nvme_env

text \<open>\<open>se_status\<close> is \<^verbatim>\<open>errors.As\<close> to an error of the kernel client, and its status.\<close>

record choice =
  ch_cache :: cache_env
  ch_shuffle :: "nat list \<Rightarrow> nat list"
  ch_pairs :: "ClientClusterPair list \<Rightarrow> ClientClusterPair list"
  ch_conns :: "(TKey, nat) gomap \<Rightarrow> (TKey, nat) gomap"
  ch_refs1 :: "ReferralMap \<Rightarrow> ReferralMap"
  ch_refs2 :: "ReferralMap \<Rightarrow> ReferralMap"
  ch_receiver :: "nat option"

text \<open>
  A timer goroutine evaluates the variable \<^verbatim>\<open>stopCh\<close>, which it shares with the loop, when it gets to its select:
  before that it is \<open>TimerNew\<close>, afterwards it holds the channel it read.
\<close>

datatype timer = TimerNew ClientClusterPair | TimerWait ClientClusterPair "nat option"

record ('s, 'k) service =
  sv_cache :: cache
  sv_connections :: ConnectionMap
  sv_api :: 's
  sv_kernel :: 'k
  sv_aggregate :: "(nat \<times> AENStruct) list"
  sv_aggClosed :: bool
  sv_muxes :: "(nat \<times> AENStruct option) list"
  sv_triggers :: "ClientClusterPair list"
  sv_timers :: "timer list"
  sv_stopCh :: "nat option"
  sv_nextCh :: nat
  sv_done :: bool
  sv_reconnectInterval :: int
  sv_maxIOQueues :: int
  sv_kato :: int
  sv_aux :: string
  sv_cfg :: AppConfig

text \<open>The stop channels are numbered; the loop closes one before it makes the next, so all but the current one are closed.\<close>

definition persistent_kato :: int where "persistent_kato = 30 * Second"

definition nvmeTCPDiscPort :: u16 where "nvmeTCPDiscPort = 8009"

definition zero_AppConfig :: AppConfig where
  "zero_AppConfig = \<lparr> cfg_Cores = [], cfg_Logging = \<lparr> lc_Filename = '''', lc_MaxAge = 0, lc_MaxSize = 0, lc_ReportCaller = False, lc_Level = '''' \<rparr>,
     cfg_ClientConfigDir = '''', cfg_Debug = \<lparr> dbg_Endpoint = '''', dbg_Enablepprof = False, dbg_Metrics = False \<rparr>,
     cfg_ReconnectInterval = 0, cfg_InternalDir = '''', cfg_LogPagePaginationEnabled = False, cfg_MaxIOQueues = 0,
     cfg_AutoDetectEntries = \<lparr> ad_Enabled = False, ad_Filename = '''', ad_DiscoveryServicePort = 0 \<rparr>, cfg_NvmeHostIDPath = '''',
     cfg_Kato = 0, cfg_AuxSuffix = '''', cfg_DhChapSecret = '''', cfg_DhChapCtrlSecret = '''', cfg_CtrlLossTMO = 0 \<rparr>"

text \<open>\<^verbatim>\<open>NewService\<close> leaves the configuration zero.\<close>

definition NewService :: "cache \<Rightarrow> 's \<Rightarrow> 'k \<Rightarrow> int \<Rightarrow> int \<Rightarrow> int \<Rightarrow> string \<Rightarrow> ('s, 'k) service" where
  "NewService c api k reconnectInterval maxIOQueues kato aux =
     \<lparr> sv_cache = c, sv_connections = [], sv_api = api, sv_kernel = k, sv_aggregate = [], sv_aggClosed = False,
       sv_muxes = [], sv_triggers = [], sv_timers = [], sv_stopCh = None, sv_nextCh = 0, sv_done = False,
       sv_reconnectInterval = reconnectInterval, sv_maxIOQueues = maxIOQueues, sv_kato = kato, sv_aux = aux, sv_cfg = zero_AppConfig \<rparr>"

definition NewServiceExtended :: "cache \<Rightarrow> 's \<Rightarrow> 'k \<Rightarrow> AppConfig \<Rightarrow> ('s, 'k) service" where
  "NewServiceExtended c api k cfg =
     \<lparr> sv_cache = c, sv_connections = [], sv_api = api, sv_kernel = k, sv_aggregate = [], sv_aggClosed = False,
       sv_muxes = [], sv_triggers = [], sv_timers = [], sv_stopCh = None, sv_nextCh = 0, sv_done = False,
       sv_reconnectInterval = cfg_ReconnectInterval cfg, sv_maxIOQueues = cfg_MaxIOQueues cfg, sv_kato = cfg_Kato cfg,
       sv_aux = cfg_AuxSuffix cfg, sv_cfg = cfg \<rparr>"

abbreviation sv_conns :: "('s, 'k) service \<Rightarrow> Connection list" where
  "sv_conns s \<equiv> conns (heap (sv_cache s))"

definition on_heap :: "(go_heap \<Rightarrow> go_heap) \<Rightarrow> ('s, 'k) service \<Rightarrow> ('s, 'k) service" where
  "on_heap f s = s\<lparr> sv_cache := (sv_cache s)\<lparr> heap := f (heap (sv_cache s)) \<rparr> \<rparr>"

definition pair_of_conn :: "Connection \<Rightarrow> ClientClusterPair" where
  "pair_of_conn c = \<lparr> ClusterNqn = tk_Nqn (conn_Key c), HostNqn = conn_Hostnqn c \<rparr>"

section \<open>Discovery\<close>

text \<open>A cluster without log page entries is no error.\<close>

definition service_Discover ::
    "('e, 's, 'k) service_env \<Rightarrow> DiscoverRequest \<Rightarrow> 's \<Rightarrow> (('e + NvmeDiscPageEntry list) \<times> ConnectionID \<times> 's) option" where
  "service_Discover E req api =
     (case se_discover E req api of
        None \<Rightarrow> None
      | Some (Inr logPageEntries, cid, api') \<Rightarrow> Some (Inr logPageEntries, cid, api')
      | Some (Inl err, cid, api') \<Rightarrow>
          if se_status E err = Some DISC_NO_LOG then Some (Inr [], cid, api') else Some (Inl err, cid, api'))"

definition selfReferral :: "Connection \<Rightarrow> NvmeDiscPageEntry" where
  "selfReferral c = \<lparr> pe_PortID = 0, pe_CntlID = 0, pe_TrsvcID = nvmeTCPDiscPort, pe_Subnqn = tk_Nqn (conn_Key c),
     pe_Traddr = tk_Ip (conn_Key c), pe_SubType = NVME_NQN_DISC \<rparr>"

definition set_active :: "nat \<Rightarrow> ClientClusterPair \<Rightarrow> ('s, 'k) service \<Rightarrow> ('s, 'k) service" where
  "set_active conn pair s = s\<lparr> sv_connections :=
     AList.update pair ((cm_get (sv_connections s) pair)\<lparr> ActiveConnection := Some conn \<rparr>) (sv_connections s) \<rparr>"

definition service_getLogPageEntries ::
    "('e, 's, 'k) service_env \<Rightarrow> nat \<Rightarrow> int \<Rightarrow> ('s, 'k) service \<Rightarrow>
       (('e + NvmeDiscPageEntry list \<times> NvmeDiscPageEntry list \<times> DiscoverRequest) \<times> ('s, 'k) service) option" where
  "service_getLogPageEntries E conn kato s =
     (let c = sv_conns s ! conn; request = GetDiscoveryRequest conn c kato in
      case service_Discover E request (sv_api s) of
        None \<Rightarrow> None
      | Some (Inl err, cid, api) \<Rightarrow> Some (Inl err, on_heap (SetState conn False) (s\<lparr> sv_api := api \<rparr>))
      | Some (Inr logPageEntries, cid, api) \<Rightarrow>
          let s1 = s\<lparr> sv_api := api \<rparr>;
              s2 = (if kato > 0 then on_heap (upd_conn conn (conn_ConnectionID_update (\<lambda>_. cid))) s1 else s1);
              s3 = set_active conn (pair_of_conn c) (on_heap (SetState conn True) s2);
              nvmeLogPageEntries = filter (\<lambda>e. pe_SubType e = NVME_NQN_NVME) logPageEntries;
              discLogPageEntries = filter (\<lambda>e. pe_SubType e = NVME_NQN_DISC) logPageEntries
          in Some (Inr (nvmeLogPageEntries, discLogPageEntries @ [selfReferral c], request), s3))"

fun getLiveConnection :: "('e, 's, 'k) service_env \<Rightarrow> nat list \<Rightarrow> ('s, 'k) service \<Rightarrow> (nat option \<times> ('s, 'k) service) option" where
  "getLiveConnection E [] s = Some (None, s)"
| "getLiveConnection E (conn # conns_left) s =
     (case service_getLogPageEntries E conn persistent_kato s of
        None \<Rightarrow> None
      | Some (Inr _, s') \<Rightarrow> Some (Some conn, s')
      | Some (Inl _, s') \<Rightarrow> getLiveConnection E conns_left s')"


section \<open>Reconnecting\<close>

text \<open>
  A push on the channel of a connection is taken by one of its multiplexers that waits, or dropped after five seconds;
  on a closed channel it panics. What a multiplexer does with an event: it notes a lost connection, and holds the event
  until there is room in the aggregate channel.
\<close>

definition mux_take :: "nat \<Rightarrow> AENStruct \<Rightarrow> ('s, 'k) service \<Rightarrow> ('s, 'k) service" where
  "mux_take i event s =
     (let conn = fst (sv_muxes s ! i);
          s1 = (if aen_ServerChange event \<noteq> None then on_heap (SetState conn False) s else s);
          aen = (if aen_ServerChange event \<noteq> None then event else \<lparr> aen_AenChange = True, aen_ServerChange = None \<rparr>)
      in s1\<lparr> sv_muxes := (sv_muxes s1)[i := (conn, Some aen)] \<rparr>)"

definition waits :: "nat \<Rightarrow> nat \<Rightarrow> ('s, 'k) service \<Rightarrow> bool" where
  "waits i conn s \<longleftrightarrow> i < length (sv_muxes s) \<and> sv_muxes s ! i = (conn, None)"

definition push_aen :: "choice \<Rightarrow> nat \<Rightarrow> AENStruct \<Rightarrow> ('s, 'k) service \<Rightarrow> ('s, 'k) service option" where
  "push_aen ch conn aen s =
     (if conn_closed (sv_conns s ! conn) then None
      else case ch_receiver ch of
          None \<Rightarrow> Some s
        | Some i \<Rightarrow> Some (if waits i conn s then mux_take i aen s else s))"

definition multiplexNewConnection :: "nat \<Rightarrow> ('s, 'k) service \<Rightarrow> ('s, 'k) service" where
  "multiplexNewConnection conn s = s\<lparr> sv_muxes := sv_muxes s @ [(conn, None)] \<rparr>"

text \<open>The boolean says whether it failed.\<close>

definition reconnectToCluster ::
    "('e, 's, 'k) service_env \<Rightarrow> choice \<Rightarrow> ClientClusterPair \<Rightarrow> ('s, 'k) service \<Rightarrow> (bool \<times> ('s, 'k) service) option" where
  "reconnectToCluster E ch clusterMapId s =
     (case map_of (sv_connections s) clusterMapId of
        None \<Rightarrow> Some (False, s)
      | Some cc \<Rightarrow>
          if ClusterConnectionsMap cc = [] then Some (False, s)
          else (case getLiveConnection E (GetRandomConnectionList (ch_shuffle ch) cc) s of
                  None \<Rightarrow> None
                | Some (None, s') \<Rightarrow> Some (True, s')
                | Some (Some conn, s') \<Rightarrow>
                    map_option (\<lambda>s''. (False, s''))
                      (push_aen ch conn \<lparr> aen_AenChange = True, aen_ServerChange = None \<rparr> (multiplexNewConnection conn s'))))"

text \<open>The first case of the main loop. A ticker with an interval that is not positive panics.\<close>

definition handle_trigger ::
    "('e, 's, 'k) service_env \<Rightarrow> choice \<Rightarrow> ClientClusterPair \<Rightarrow> ('s, 'k) service \<Rightarrow> ('s, 'k) service option" where
  "handle_trigger E ch clusterMapId s =
     (case reconnectToCluster E ch clusterMapId (s\<lparr> sv_stopCh := None \<rparr>) of
        None \<Rightarrow> None
      | Some (False, s') \<Rightarrow> Some s'
      | Some (True, s') \<Rightarrow>
          if sv_reconnectInterval s' \<le> 0 then None
          else Some (s'\<lparr> sv_stopCh := Some (sv_nextCh s'), sv_nextCh := sv_nextCh s' + 1,
                         sv_timers := sv_timers s' @ [TimerNew clusterMapId] \<rparr>))"

section \<open>Following the cache\<close>

text \<open>
  The loop over the connections of one pair works on a copy of the cluster connections: the map in it is shared, so a
  deletion is seen by the service, but the active connection is reset in the copy only (\<open>active\<close> below).
\<close>

fun remove_conns ::
    "('e, 's, 'k) service_env \<Rightarrow> ClientClusterPair \<Rightarrow> nat option \<Rightarrow> (TKey, nat) gomap \<Rightarrow> (ClientClusterPair, bool) gomap \<Rightarrow>
       ('s, 'k) service \<Rightarrow> ((ClientClusterPair, bool) gomap \<times> ('s, 'k) service) option" where
  "remove_conns E clusterMapId active [] modified s = Some (modified, s)"
| "remove_conns E clusterMapId active ((key, conn) # rest) modified s =
     (if Exists (cm_get (connections (sv_cache s)) clusterMapId) conn
      then remove_conns E clusterMapId active rest modified s
      else
        case (if active = Some conn then se_disconnect E (conn_ConnectionID (sv_conns s ! conn)) (sv_api s)
              else Some (True, sv_api s)) of
          None \<Rightarrow> None
        | Some (_, api) \<Rightarrow>
            (case Connection_Stop conn (heap (sv_cache s)) of
               None \<Rightarrow> None
             | Some h \<Rightarrow>
                 remove_conns E clusterMapId (if active = Some conn then None else active) rest
                   (AList.update clusterMapId True modified)
                   (s\<lparr> sv_api := api, sv_connections := DeleteConnection clusterMapId key (sv_connections s),
                       sv_cache := (sv_cache s)\<lparr> heap := h \<rparr> \<rparr>)))"

definition note_pair :: "ClientClusterPair \<Rightarrow> (ClientClusterPair, bool) gomap \<Rightarrow> (ClientClusterPair, bool) gomap" where
  "note_pair p modified = (if map_of modified p = None then AList.update p False modified else modified)"

fun removeConnections ::
    "('e, 's, 'k) service_env \<Rightarrow> choice \<Rightarrow> ClientClusterPair list \<Rightarrow> (ClientClusterPair, bool) gomap \<Rightarrow> ('s, 'k) service \<Rightarrow>
       ((ClientClusterPair, bool) gomap \<times> ('s, 'k) service) option" where
  "removeConnections E ch [] modified s = Some (modified, s)"
| "removeConnections E ch (clusterMapId # fromCache) modified s =
     (case map_of (sv_connections s) clusterMapId of
        None \<Rightarrow> removeConnections E ch fromCache (note_pair clusterMapId modified) s
      | Some cc \<Rightarrow>
          (case remove_conns E clusterMapId (ActiveConnection cc) (ch_conns ch (ClusterConnectionsMap cc)) modified s of
             None \<Rightarrow> None
           | Some (modified', s') \<Rightarrow> removeConnections E ch fromCache modified' s'))"

fun add_conns ::
    "ClientClusterPair \<Rightarrow> (TKey, nat) gomap \<Rightarrow> (ClientClusterPair, bool) gomap \<Rightarrow> ConnectionMap \<Rightarrow>
       (ClientClusterPair, bool) gomap \<times> ConnectionMap" where
  "add_conns clusterMapId [] modified cm = (modified, cm)"
| "add_conns clusterMapId ((key, conn) # rest) modified cm =
     (if Exists (cm_get cm clusterMapId) conn then add_conns clusterMapId rest modified cm
      else add_conns clusterMapId rest (AList.update clusterMapId True modified) (AddConnection key conn cm))"

fun addConnections ::
    "choice \<Rightarrow> ConnectionMap \<Rightarrow> ClientClusterPair list \<Rightarrow> (ClientClusterPair, bool) gomap \<Rightarrow> ConnectionMap \<Rightarrow>
       (ClientClusterPair, bool) gomap \<times> ConnectionMap" where
  "addConnections ch cached [] modified cm = (modified, cm)"
| "addConnections ch cached (clusterMapId # fromCache) modified cm =
     (case add_conns clusterMapId (ch_conns ch (ClusterConnectionsMap (cm_get cached clusterMapId)))
             (note_pair clusterMapId modified) cm of
        (modified', cm') \<Rightarrow> addConnections ch cached fromCache modified' cm')"

text \<open>The second case of the main loop: a notification that names the pairs \<open>fromCache\<close>.\<close>

definition handle_message ::
    "('e, 's, 'k) service_env \<Rightarrow> choice \<Rightarrow> ClientClusterPair list \<Rightarrow> ('s, 'k) service \<Rightarrow> ('s, 'k) service option" where
  "handle_message E ch fromCache s =
     (case removeConnections E ch (ch_pairs ch fromCache) [] s of
        None \<Rightarrow> None
      | Some (modified, s1) \<Rightarrow>
          (case addConnections ch (connections (sv_cache s1)) (ch_pairs ch fromCache) modified (sv_connections s1) of
             (modified', cm) \<Rightarrow>
               let reconnect = filter (\<lambda>p. map_of modified' p = Some True \<and> ActiveConnection (cm_get cm p) = None)
                     (ch_pairs ch (map fst cm))
               in Some (s1\<lparr> sv_connections := cm, sv_triggers := sv_triggers s1 @ reconnect \<rparr>)))"

section \<open>Events\<close>

text \<open>The third case of the main loop.\<close>

definition refMap_of :: "Connection \<Rightarrow> NvmeDiscPageEntry list \<Rightarrow> ReferralMap" where
  "refMap_of c discLogPageEntries =
     fold (\<lambda>referral refMap. AList.update \<lparr> rk_Ip = pe_Traddr referral, rk_Port = pe_TrsvcID referral,
         rk_DPSubNqn = tk_Nqn (conn_Key c), rk_Hostnqn = conn_Hostnqn c \<rparr> referral refMap) discLogPageEntries []"

definition connect_entries ::
    "('e, 's, 'k) service_env \<Rightarrow> Connection \<Rightarrow> NvmeDiscPageEntry list \<Rightarrow> DiscoverRequest \<Rightarrow> ('s, 'k) service \<Rightarrow> ('s, 'k) service" where
  "connect_entries E c nvmeLogPageEntries request s =
     (case ConnectAllNVMEDevices (se_kernel E) ((se_nvme E)\<lparr> ne_aux := sv_aux s \<rparr>) nvmeLogPageEntries (dr_Hostnqn request)
             (conn_Hostid c) (dr_Transport request) (sv_maxIOQueues s) (sv_kato s) (conn_CtrlLossTMO c) (Some (sv_cfg s))
             (se_files E (sv_api s), sv_kernel s) of
        (_, fs, k) \<Rightarrow> s\<lparr> sv_api := se_put E fs (sv_api s), sv_kernel := k \<rparr>)"

definition handle_aen ::
    "('e, 's, 'k) service_env \<Rightarrow> choice \<Rightarrow> nat \<times> AENStruct \<Rightarrow> ('s, 'k) service \<Rightarrow> ('s, 'k) service option" where
  "handle_aen E ch aenAlert s =
     (case aenAlert of (conn, aen) \<Rightarrow>
      let c = sv_conns s ! conn; clusterMapId = pair_of_conn c in
      if aen_ServerChange aen \<noteq> None then Some (s\<lparr> sv_triggers := sv_triggers s @ [clusterMapId] \<rparr>)
      else case service_getLogPageEntries E conn 0 s of
          None \<Rightarrow> None
        | Some (Inl _, s1) \<Rightarrow>
            let s2 = on_heap (SetState conn False) s1 in Some (s2\<lparr> sv_triggers := sv_triggers s2 @ [clusterMapId] \<rparr>)
        | Some (Inr (nvmeLogPageEntries, discLogPageEntries, request), s1) \<Rightarrow>
            let s2 = connect_entries E c nvmeLogPageEntries request s1;
                cache' = fst (HandleReferrals (ch_cache ch) (ch_refs1 ch) (ch_refs2 ch) (refMap_of c discLogPageEntries) (sv_cache s2))
            in Some (s2\<lparr> sv_cache := cache' \<rparr>))"

section \<open>Start and stop\<close>

definition service_Start ::
    "cache_env \<Rightarrow> (files \<Rightarrow> (string \<times> bool) list option) \<Rightarrow> ('s, 'k) service \<Rightarrow> cache_error option \<times> ('s, 'k) service" where
  "service_Start env readDir s = (case Run env readDir True (sv_cache s) of (c, err) \<Rightarrow> (err, s\<lparr> sv_cache := c \<rparr>))"

fun stop_conns ::
    "('e, 's, 'k) service_env \<Rightarrow> ClientClusterPair \<Rightarrow> (TKey, nat) gomap \<Rightarrow> ('s, 'k) service \<Rightarrow> ('s, 'k) service option" where
  "stop_conns E clientClusterPair [] s = Some s"
| "stop_conns E clientClusterPair ((key, conn) # rest) s =
     (case se_disconnect E (conn_ConnectionID (sv_conns s ! conn)) (sv_api s) of
        None \<Rightarrow> None
      | Some (_, api) \<Rightarrow>
          (case Connection_Stop conn (heap (sv_cache s)) of
             None \<Rightarrow> None
           | Some h \<Rightarrow>
               stop_conns E clientClusterPair rest
                 (s\<lparr> sv_api := api, sv_connections := DeleteConnection clientClusterPair key (sv_connections s),
                     sv_cache := (sv_cache s)\<lparr> heap := h \<rparr> \<rparr>)))"

fun stop_pairs ::
    "('e, 's, 'k) service_env \<Rightarrow> choice \<Rightarrow> ClientClusterPair list \<Rightarrow> ('s, 'k) service \<Rightarrow> ('s, 'k) service option" where
  "stop_pairs E ch [] s = Some s"
| "stop_pairs E ch (p # ps) s =
     (case stop_conns E p (ch_conns ch (ClusterConnectionsMap (cm_get (sv_connections s) p))) s of
        None \<Rightarrow> None
      | Some s' \<Rightarrow> stop_pairs E ch ps s')"

text \<open>
  \<^verbatim>\<open>Stop\<close> up to the wait for the multiplexers: it empties the aggregate channel by as many events as there are
  pairs and closes it, which panics if it is closed already.
\<close>

definition service_Stop :: "('e, 's, 'k) service_env \<Rightarrow> choice \<Rightarrow> ('s, 'k) service \<Rightarrow> ('s, 'k) service option" where
  "service_Stop E ch s =
     (case stop_pairs E ch (ch_pairs ch (map fst (sv_connections s))) (s\<lparr> sv_done := True \<rparr>) of
        None \<Rightarrow> None
      | Some s1 \<Rightarrow>
          if sv_aggClosed s1 then None
          else Some (s1\<lparr> sv_aggregate := drop (length (sv_connections s1)) (sv_aggregate s1), sv_aggClosed := True,
                         sv_cache := Cache_Stop (sv_cache s1) \<rparr>))"

section \<open>Interleaving\<close>

definition fair :: "choice \<Rightarrow> bool" where
  "fair ch \<longleftrightarrow> (\<forall>xs. mset (ch_shuffle ch xs) = mset xs) \<and> (\<forall>xs. mset (ch_pairs ch xs) = mset xs) \<and>
     (\<forall>xs. mset (ch_conns ch xs) = mset xs) \<and> (\<forall>xs. mset (ch_refs1 ch xs) = mset xs) \<and> (\<forall>xs. mset (ch_refs2 ch xs) = mset xs) \<and>
     (\<forall>xs. mset (ev_parseOrd (ch_cache ch) xs) = mset xs) \<and> (\<forall>xs. mset (ev_pairOrd (ch_cache ch) xs) = mset xs)"

definition remove_nth :: "nat \<Rightarrow> 'a list \<Rightarrow> 'a list" where
  "remove_nth i xs = take i xs @ drop (Suc i) xs"

text \<open>The room in the aggregate channel, and a multiplexer that sends; after a lost connection it returns.\<close>

definition aggregate_size :: nat where "aggregate_size = 16"

definition mux_send :: "nat \<Rightarrow> nat \<times> AENStruct \<Rightarrow> ('s, 'k) service \<Rightarrow> ('s, 'k) service" where
  "mux_send i a s = s\<lparr> sv_aggregate := sv_aggregate s @ [a],
     sv_muxes := (if aen_ServerChange (snd a) = None then (sv_muxes s)[i := (fst a, None)] else remove_nth i (sv_muxes s)) \<rparr>"

definition timer_pair :: "timer \<Rightarrow> ClientClusterPair" where
  "timer_pair t = (case t of TimerNew p \<Rightarrow> p | TimerWait p _ \<Rightarrow> p)"

definition stopped :: "timer \<Rightarrow> ('s, 'k) service \<Rightarrow> bool" where
  "stopped t s = (case t of TimerWait _ (Some n) \<Rightarrow> sv_stopCh s \<noteq> Some n | _ \<Rightarrow> False)"

inductive service_step :: "('e, 's, 'k) service_env \<Rightarrow> ('s, 'k) service \<Rightarrow> ('s, 'k) service \<Rightarrow> bool" for E where
  step_watch: "fair ch \<Longrightarrow> service_step E s (s\<lparr> sv_cache := handleEvent (ch_cache ch) event (sv_cache s) \<rparr>)"
| step_message: "fair ch \<Longrightarrow> pending (sv_cache s) = ms1 @ m # ms2 \<Longrightarrow>
    handle_message E ch m (s\<lparr> sv_cache := (sv_cache s)\<lparr> pending := ms1 @ ms2 \<rparr> \<rparr>) = Some s' \<Longrightarrow> service_step E s s'"
| step_trigger: "fair ch \<Longrightarrow> sv_triggers s = ts1 @ p # ts2 \<Longrightarrow>
    handle_trigger E ch p (s\<lparr> sv_triggers := ts1 @ ts2 \<rparr>) = Some s' \<Longrightarrow> service_step E s s'"
| step_aen: "fair ch \<Longrightarrow> sv_aggregate s = a # as \<Longrightarrow> handle_aen E ch a (s\<lparr> sv_aggregate := as \<rparr>) = Some s' \<Longrightarrow> service_step E s s'"
| step_mux_event: "waits i conn s \<Longrightarrow> \<not> conn_closed (sv_conns s ! conn) \<Longrightarrow> service_step E s (mux_take i event s)"
| step_mux_send: "i < length (sv_muxes s) \<Longrightarrow> sv_muxes s ! i = (conn, Some aen) \<Longrightarrow> length (sv_aggregate s) < aggregate_size \<Longrightarrow>
    service_step E s (mux_send i (conn, aen) s)"
| step_mux_done: "waits i conn s \<Longrightarrow> conn_done (sv_conns s ! conn) \<Longrightarrow>
    service_step E s (s\<lparr> sv_muxes := remove_nth i (sv_muxes s) \<rparr>)"
| step_mux_closed: "waits i conn s \<Longrightarrow> conn_closed (sv_conns s ! conn) \<Longrightarrow>
    service_step E s (on_heap (SetState conn False) (s\<lparr> sv_muxes := remove_nth i (sv_muxes s) \<rparr>))"
| step_timer_start: "sv_timers s = ts1 @ TimerNew p # ts2 \<Longrightarrow>
    service_step E s (s\<lparr> sv_timers := ts1 @ TimerWait p (sv_stopCh s) # ts2 \<rparr>)"
| step_timer_fire: "sv_timers s = ts1 @ TimerWait p n # ts2 \<Longrightarrow>
    service_step E s (s\<lparr> sv_timers := ts1 @ ts2, sv_triggers := sv_triggers s @ [p] \<rparr>)"
| step_timer_stop: "sv_timers s = ts1 @ t # ts2 \<Longrightarrow> stopped t s \<Longrightarrow> service_step E s (s\<lparr> sv_timers := ts1 @ ts2 \<rparr>)"

inductive_cases service_stepE: "service_step E s s'"

end
