(* ===== verification/Service_Inv.thy ===== *)
theory Service_Inv
  imports Service
begin

text \<open>
  The invariant of the service. First what the operations of the cache do to the connections, which the cache and the
  service share: they only add fresh, open ones. Then the invariant itself and that the steps which do not call the host
  API keep it, the runs of the service, and what happens to timers and triggers.
\<close>

section \<open>How the cache evolves\<close>

definition conn_good :: "Connection \<Rightarrow> bool" where
  "conn_good c \<longleftrightarrow> \<not> conn_closed c \<and> tk_Nqn (conn_Key c) \<noteq> [] \<and> conn_Hostnqn c = tk_hostnqn (conn_Key c)"

definition grown :: "cache \<Rightarrow> cache \<Rightarrow> bool" where
  "grown c c' \<longleftrightarrow> (\<exists>xs. conns (heap c') = conns (heap c) @ xs \<and> list_all conn_good xs) \<and>
     (\<forall>k a. conn_at (connections c') k = Some a \<longrightarrow> conn_at (connections c) k = Some a \<or> length (conns (heap c)) \<le> a)"

lemma grown_refl: "grown c c" by (simp add: grown_def)

lemma grown_trans: assumes "grown c c1" "grown c1 c2" shows "grown c c2"
proof -
  obtain xs ys where "conns (heap c1) = conns (heap c) @ xs" "list_all conn_good xs"
    "conns (heap c2) = conns (heap c1) @ ys" "list_all conn_good ys" using assms unfolding grown_def by blast
  moreover have "conn_at (connections c) k = Some a \<or> length (conns (heap c)) \<le> a" if "conn_at (connections c2) k = Some a" for k a
    using that assms calculation(1) unfolding grown_def by (metis le_add1 le_trans length_append)
  ultimately show ?thesis unfolding grown_def by (intro conjI exI [of _ "xs @ ys"]) auto
qed

lemma grown_frame: "conns (heap c') = conns (heap c) \<Longrightarrow> connections c' = connections c \<Longrightarrow> grown c c'"
  by (simp add: grown_def)

lemma addEntry_grown: assumes "Subsysnqn e \<noteq> []" shows "grown c (fst (addEntry e c))"
proof -
  define r where "r = resolved c e"
  have nqn: "tk_Nqn (key_of_Entry r) \<noteq> []" "Hostnqn r = tk_hostnqn (key_of_Entry r)"
    using assms by (simp_all add: r_def key_of_Entry_def)
  show ?thesis
    unfolding addEntry_def resolved_def [symmetric] r_def [symmetric] Let_def
    using nqn by (auto simp: grown_def newConnection_def SetState_def upd_conn_def conn_good_def Let_def list_update_append split: option.splits)
qed

lemma deleteEntry_grown: "grown c (fst (deleteEntry re c))"
proof -
  have "pair_of_Entry (snd re) = pair_of_key (key_of_Entry (snd re))" by simp
  then show ?thesis
    by (auto simp: deleteEntry_def Let_def grown_def conn_at_DeleteConnection split: option.splits if_splits)
qed

lemma fold_addEntry_grown: "\<forall>e \<in> set es. Subsysnqn e \<noteq> [] \<Longrightarrow> grown c (fold (\<lambda>e c. fst (addEntry e c)) es c)"
  by (induction es arbitrary: c) (auto intro: grown_refl grown_trans [OF addEntry_grown])

lemma fold_deleteEntry_grown: "grown c (fold (\<lambda>re c. fst (deleteEntry re c)) res c)"
  by (induction res arbitrary: c) (auto intro: grown_refl grown_trans [OF deleteEntry_grown])

lemma entry_ok_nqn: "list_all entry_ok es \<Longrightarrow> \<forall>e \<in> set es. Subsysnqn e \<noteq> []"
  by (auto simp: list_all_iff entry_ok_def)

text \<open>A step of the cache: it keeps the invariant, and notifies the service of every pair it changes.\<close>

definition evolves :: "cache \<Rightarrow> cache \<Rightarrow> bool" where
  "evolves c c' \<longleftrightarrow> cache_inv c' \<and> grown c c' \<and>
     (\<exists>ns. pending c' = pending c @ ns \<and>
       (\<forall>k. conn_at (connections c') k \<noteq> conn_at (connections c) k \<longrightarrow> (\<exists>n \<in> set ns. pair_of_key k \<in> set n)))"

lemma evolves_refl: "cache_inv c \<Longrightarrow> evolves c c" by (simp add: evolves_def grown_refl)

lemma notify_evolves:
  assumes "cache_inv c1" "grown c c1" "pending c1 = pending c"
    and "\<And>k. conn_at (connections c1) k \<noteq> conn_at (connections c) k \<Longrightarrow>
      pair_of_key k \<in> set ps \<and> map_of (connections c1) (pair_of_key k) \<noteq> None \<and> pair_of_key k \<noteq> empty_pair"
  shows "evolves c (if ps = [] then c1 else notifyChange ps c1)"
proof -
  let ?ns = "notify_pairs (connections c1) ps []"
  have k: "pair_of_key k \<in> set ?ns" if "conn_at (connections c1) k \<noteq> conn_at (connections c) k" for k
    using assms(4) [OF that] by (simp add: set_notify_pairs)
  have p: "\<exists>ns. pending (if ps = [] then c1 else notifyChange ps c1) = pending c @ ns \<and>
      (\<forall>k. conn_at (connections c1) k \<noteq> conn_at (connections c) k \<longrightarrow> (\<exists>n \<in> set ns. pair_of_key k \<in> set n))"
  proof (cases "?ns = []")
    case True
    with k assms(3) show ?thesis by (intro exI [of _ "[]"]) (auto simp: notifyChange_def Let_def)
  next
    case False
    then have "ps \<noteq> []" by auto
    with False k assms(3) show ?thesis by (intro exI [of _ "[?ns]"]) (auto simp: notifyChange_def Let_def)
  qed
  have "grown c (if ps = [] then c1 else notifyChange ps c1)"
    using grown_trans [OF assms(2) grown_frame] by (cases "ps = []") (simp_all add: assms(2))
  then show ?thesis unfolding evolves_def using assms(1) p by (cases "ps = []") simp_all
qed

lemma conn_at_keys: "cache_inv c \<Longrightarrow> conn_at (connections c) k \<noteq> None \<longleftrightarrow> k \<in> cache_keys c"
  by (auto simp: cache_inv_def)

lemma added_pairs:
  assumes "cache_inv c" "cache_inv c1" "cache_keys c \<subseteq> cache_keys c1"
    and "\<forall>k \<in> cache_keys c. conn_at (connections c1) k = conn_at (connections c) k"
    and "conn_at (connections c1) k \<noteq> conn_at (connections c) k"
  shows "k \<in> cache_keys c1 - cache_keys c \<and> map_of (connections c1) (pair_of_key k) \<noteq> None \<and> pair_of_key k \<noteq> empty_pair"
proof -
  have "k \<notin> cache_keys c" using assms(4,5) by blast
  moreover have "k \<in> cache_keys c1"
    using calculation assms(1,2,5) conn_at_keys [of c k] conn_at_keys [of c1 k] by auto
  ultimately show ?thesis using dom_connections_key [of k c1] key_pair_nonempty [of c1 k] assms(2) by simp
qed

text \<open>What a file or an internal file adds: the entries, and the pairs that are reported.\<close>

definition adds :: "cache \<Rightarrow> cache \<Rightarrow> ClientClusterPair set \<Rightarrow> bool" where
  "adds c c' ps \<longleftrightarrow> cache_inv c' \<and> grown c c' \<and> pending c' = pending c \<and> cache_keys c \<subseteq> cache_keys c' \<and>
     (\<forall>k \<in> cache_keys c. conn_at (connections c') k = conn_at (connections c) k) \<and>
     pair_of_key ` (cache_keys c' - cache_keys c) \<subseteq> ps"

lemma adds_refl: "cache_inv c \<Longrightarrow> adds c c ps" by (simp add: adds_def grown_refl)

lemma addsD:
  assumes "adds c c' ps"
  shows "cache_inv c'" "grown c c'" "pending c' = pending c" "cache_keys c \<subseteq> cache_keys c'"
    "k \<in> cache_keys c \<Longrightarrow> conn_at (connections c') k = conn_at (connections c) k"
    "pair_of_key ` (cache_keys c' - cache_keys c) \<subseteq> ps"
  using assms by (simp_all add: adds_def)

lemma adds_trans:
  assumes "adds c c1 ps" "adds c1 c2 qs" "ps \<subseteq> rs" "qs \<subseteq> rs"
  shows "adds c c2 rs"
  unfolding adds_def
proof (intro conjI ballI)
  note a = addsD [OF assms(1)] and b = addsD [OF assms(2)]
  show "cache_inv c2" "pending c2 = pending c" "cache_keys c \<subseteq> cache_keys c2" using a b by simp_all
  show "grown c c2" by (rule grown_trans [OF a(2) b(2)])
  have "cache_keys c2 - cache_keys c \<subseteq> (cache_keys c2 - cache_keys c1) \<union> (cache_keys c1 - cache_keys c)" by blast
  then show "pair_of_key ` (cache_keys c2 - cache_keys c) \<subseteq> rs" using a(6) b(6) assms(3,4) by blast
  fix k assume "k \<in> cache_keys c"
  then show "conn_at (connections c2) k = conn_at (connections c) k" using a(4) a(5) b(5) by (metis subsetD)
qed

lemma adds_evolves:
  assumes "cache_inv c" "adds c c1 (set ps)" "c2 = c1 \<or> c2 = fst (createReferralsFile env c1)"
  shows "evolves c (if ps = [] then c2 else notifyChange ps c2)"
proof (rule notify_evolves)
  have c2: "cache_inv c2 = cache_inv c1" "pending c2 = pending c1" "conns (heap c2) = conns (heap c1)"
    and same: "connections c2 = connections c1" using assms(3) by auto
  show "cache_inv c2" using assms(2) by (simp add: adds_def c2)
  have "grown c c1" using assms(2) by (simp add: adds_def)
  then show "grown c c2" by (rule grown_trans) (rule grown_frame [OF c2(3) same])
  show "pending c2 = pending c" using assms(2) by (simp add: adds_def c2)
  fix k assume "conn_at (connections c2) k \<noteq> conn_at (connections c) k"
  then show "pair_of_key k \<in> set ps \<and> map_of (connections c2) (pair_of_key k) \<noteq> None \<and> pair_of_key k \<noteq> empty_pair"
    using added_pairs [of c c1 k] assms(1,2) same unfolding adds_def by auto
qed

lemma fold_addEntry_adds:
  assumes "cache_inv c" "list_all entry_ok es"
  shows "adds c (fold (\<lambda>e c. fst (addEntry e c)) es c) (new_pairs c es)"
proof -
  let ?c = "fold (\<lambda>e c. fst (addEntry e c)) es c"
  note f = store.fold_add [OF assms]
  have "pair_of_key ` (cache_keys ?c - cache_keys c) \<subseteq> new_pairs c es"
    using f by (auto simp: new_pairs_def)
  moreover have "grown c ?c" by (rule fold_addEntry_grown [OF entry_ok_nqn [OF assms(2)]])
  ultimately show ?thesis using f fold_addEntry_frame [of es c] unfolding adds_def by simp
qed

lemma fileAdded_adds:
  assumes "cache_inv c" "go_order (ev_parseOrd env)" "go_order (ev_pairOrd env)" "fileAdded env f c = (c', res)"
  shows "adds c c' (case res of Inl _ \<Rightarrow> {} | Inr ps \<Rightarrow> set ps)"
proof (cases "parse (ev_net env) (ev_parseOrd env) (ev_files env) f")
  case (Inl err)
  with assms show ?thesis by (auto simp: fileAdded_def adds_refl)
next
  case (Inr es)
  let ?es = "map (Persistent_update (\<lambda>_. True)) es"
  obtain ps where "fileAdded env f c = (fold (\<lambda>e c. fst (addEntry e c)) ?es c, Inr ps)" "set ps = new_pairs c ?es"
    by (rule fileAdded_cases [OF assms(1-3) Inr])
  with fold_addEntry_adds [OF assms(1) parse_entry_ok [OF Inr assms(2)]] assms(4) show ?thesis by auto
qed

lemma fairD:
  assumes "fair ch"
  shows "go_order (ch_shuffle ch)" "go_order (ch_pairs ch)" "go_order (ch_conns ch)" "go_order (ch_refs1 ch)"
    "go_order (ch_refs2 ch)" "go_order (ev_parseOrd (ch_cache ch))" "go_order (ev_pairOrd (ch_cache ch))"
  using assms by (simp_all add: fair_def go_order_def)

lemma handleEvent_evolves: assumes "cache_inv c" "fair ch" shows "evolves c (handleEvent (ch_cache ch) event c)"
proof -
  obtain c1 res where f: "fileAdded (ch_cache ch) (evt_Name event) c = (c1, res)"
    by (cases "fileAdded (ch_cache ch) (evt_Name event) c")
  let ?ps = "case res of Inl _ \<Rightarrow> [] | Inr ps \<Rightarrow> ps"
  have "adds c c1 (set ?ps)" using fileAdded_adds [OF assms(1) fairD(6,7) [OF assms(2)] f] by (cases res) simp_all
  then have "evolves c (let c2 = fst (createReferralsFile (ch_cache ch) c1) in if ?ps = [] then c2 else notifyChange ?ps c2)"
    unfolding Let_def by (rule adds_evolves [OF assms(1), where env = "ch_cache ch"]) simp
  then show ?thesis using assms(1) unfolding handleEvent_def f prod.case Let_def by (simp only: evolves_refl split: if_split) simp
qed

text \<open>Referrals.\<close>

lemma addConnectionsFromReferrals_grown:
  assumes "\<forall>r \<in> set rs. rk_DPSubNqn (fst r) \<noteq> []"
  shows "grown c (fst (addConnectionsFromReferrals rs c))"
proof -
  have "grown c (fst (addConnectionsFromReferrals_loop rs ps c))" for ps
    using assms
  proof (induction rs arbitrary: ps c)
    case (Cons r rs)
    let ?e = "getEntryFromReferral (fst r) (snd r)"
    obtain c1 res where e: "addEntry ?e c = (c1, res)" by (cases "addEntry ?e c")
    have "Subsysnqn ?e \<noteq> []" using Cons.prems by (simp add: getEntryFromReferral_def)
    then have "grown c c1" using addEntry_grown [of ?e c] e by simp
    moreover have "grown c1 (fst (addConnectionsFromReferrals_loop rs qs c1))" for qs using Cons by simp
    ultimately show ?case using e by (cases res) (auto intro: grown_trans)
  qed (simp add: grown_refl)
  then show ?thesis by (simp add: addConnectionsFromReferrals_def grown_refl)
qed

lemma removeConnectionsNotInReferrals_grown:
  assumes "cache_inv c" "referrals_of_pair p rs"
  shows "grown c (fst (removeConnectionsNotInReferrals rs c))"
proof -
  obtain c' ps e where r: "removeConnectionsNotInReferrals rs c = (c', ps, e)" by (cases "removeConnectionsNotInReferrals rs c")
  show ?thesis using removeConnections_fold [OF assms r refl] fold_deleteEntry_grown [of c] r by simp
qed

lemma HandleReferrals_grown:
  assumes "cache_inv c" "referrals_of_pair p rs" "go_order ord1" "go_order ord2"
  shows "grown c (fst (HandleReferrals env ord1 ord2 rs c))"
proof -
  obtain c1 nps where a: "addConnectionsFromReferrals (ord1 rs) c = (c1, nps)"
    by (cases "addConnectionsFromReferrals (ord1 rs) c")
  obtain c2 rps e where r: "removeConnectionsNotInReferrals (ord2 rs) c1 = (c2, rps, e)"
    by (cases "removeConnectionsNotInReferrals (ord2 rs) c1")
  have refs: "referrals_of_pair p (ord1 rs)" "referrals_of_pair p (ord2 rs)" using assms(2-4) by simp_all
  have nqn: "\<forall>r \<in> set (ord1 rs). rk_DPSubNqn (fst r) \<noteq> []" using refs(1) by (auto simp: referrals_of_pair_def list_all_iff)
  have c1: "grown c c1" using addConnectionsFromReferrals_grown [OF nqn, of c] a by simp
  have "cache_inv c1" using addConnectionsFromReferrals_eq [OF assms(1) refs(1)] a by simp
  then have "grown c1 c2" using removeConnectionsNotInReferrals_grown [OF _ refs(2), of c1] r by simp
  with c1 have g: "grown c c2" by (rule grown_trans)
  moreover have "grown c (notifyChange (nps @ rps) (fst (createReferralsFile env c2)))"
    by (rule grown_trans [OF g grown_frame]) simp_all
  ultimately show ?thesis by (simp add: HandleReferrals_def a r Let_def grown_refl)
qed

lemma HandleReferrals_evolves:
  assumes "cache_inv c" "referrals_of_pair p rs" "go_order ord1" "go_order ord2"
  shows "evolves c (fst (HandleReferrals env ord1 ord2 rs c))"
proof -
  obtain c' err where h: "HandleReferrals env ord1 ord2 rs c = (c', err)" by (cases "HandleReferrals env ord1 ord2 rs c")
  obtain c1 nps c2 rps where
    A: "cache_keys c1 = cache_keys c \<union> referral_keys rs" "\<forall>k \<in> cache_keys c. conn_at (connections c1) k = conn_at (connections c) k"
      "set nps = (if referral_keys rs \<subseteq> cache_keys c then {} else {p})" and
    R: "cache_inv c2" "cache_keys c2 = {k \<in> cache_keys c1. pair_of_key k = p \<longrightarrow> k \<in> referral_keys rs}"
      "\<forall>k \<in> cache_keys c2. conn_at (connections c2) k = conn_at (connections c1) k"
      "set rps = (if cache_keys c2 = cache_keys c1 then {} else {p})" "pending c2 = pending c" and
    c': "c' = (if nps @ rps = [] then c2 else notifyChange (nps @ rps) (fst (createReferralsFile env c2)))"
    by (rule HandleReferrals_phases [OF assms h])
  obtain k0 where "k0 \<in> referral_keys rs"
    using assms(2) by (cases rs) (auto simp: referrals_of_pair_def referral_keys_def)
  then have dp: "map_of (connections c2) p \<noteq> None"
    using dom_connections_key [OF _ R(1), of k0] A(1) R(2) pair_of_key_referral [OF assms(2)] by auto
  have p: "p \<noteq> empty_pair" using assms(2) by (auto simp: referrals_of_pair_def empty_pair_def)
  have ch: "pair_of_key k = p \<and> p \<in> set (nps @ rps)" if "conn_at (connections c2) k \<noteq> conn_at (connections c) k" for k
  proof (cases "k \<in> cache_keys c")
    case True
    then have "k \<notin> cache_keys c2" using that A(2) R(3) by auto
    with True A(1) R(2,4) show ?thesis by auto
  next
    case False
    then have "k \<in> cache_keys c2" using that conn_at_keys [OF assms(1)] conn_at_keys [OF R(1)] by metis
    with False A R(2) have "k \<in> referral_keys rs" "k \<notin> cache_keys c" by auto
    with A(3) pair_of_key_referral [OF assms(2)] show ?thesis by auto
  qed
  have "grown c c'" using HandleReferrals_grown [OF assms] h by (metis fst_conv)
  show ?thesis
  proof (cases "nps @ rps = []")
    case True
    then have "conn_at (connections c2) k = conn_at (connections c) k" for k using ch by fastforce
    with True c' R \<open>grown c c'\<close> h show ?thesis by (simp add: evolves_def)
  next
    case False
    then obtain n where n: "pending c' = pending c @ [n]" "p \<in> set n"
      using notifyChange_pending [of p "nps @ rps" "fst (createReferralsFile env c2)"] A(3) R(4,5) c' dp p by (auto split: if_splits)
    have "connections c' = connections c2" "cache_inv c'" using c' R(1) False by simp_all
    with n ch \<open>grown c c'\<close> h show ?thesis unfolding evolves_def by auto
  qed
qed

text \<open>The start.\<close>

lemma sync_files_adds:
  assumes "cache_inv c" "go_order (ev_parseOrd env)" "go_order (ev_pairOrd env)"
  shows "adds c (fst (sync_files env fs ps c)) (set (snd (sync_files env fs ps c))) \<and> set ps \<subseteq> set (snd (sync_files env fs ps c))"
  using assms(1)
proof (induction fs arbitrary: ps c)
  case (Cons f fs)
  show ?case
  proof (cases "snd f")
    case False
    obtain c1 res where fa: "fileAdded env (filepath_Join (userDirPath c) (fst f)) c = (c1, res)"
      by (cases "fileAdded env (filepath_Join (userDirPath c) (fst f)) c")
    let ?qs = "case res of Inl _ \<Rightarrow> ps | Inr qs \<Rightarrow> ps @ qs"
    have eq: "sync_files env (f # fs) ps c = sync_files env fs ?qs c1" using False fa by (cases res) simp_all
    have a: "adds c c1 (case res of Inl _ \<Rightarrow> {} | Inr qs \<Rightarrow> set qs)" by (rule fileAdded_adds [OF Cons.prems assms(2,3) fa])
    have b: "adds c1 (fst (sync_files env fs ?qs c1)) (set (snd (sync_files env fs ?qs c1)))"
      "set ?qs \<subseteq> set (snd (sync_files env fs ?qs c1))"
      using Cons.IH [OF addsD(1) [OF a]] by blast+
    have "(case res of Inl _ \<Rightarrow> {} | Inr qs \<Rightarrow> set qs) \<subseteq> set ?qs" "set ps \<subseteq> set ?qs" by (cases res; simp)+
    then show ?thesis unfolding eq using adds_trans [OF a b(1)] b(2) by blast
  qed (use Cons in simp)
qed (simp add: adds_refl)

lemma sync_json_verified: "sync_json es ps c = (c', Inr ps') \<Longrightarrow> e \<in> set es \<Longrightarrow> verify e = None"
  by (induction es arbitrary: ps c) (auto split: option.splits prod.splits sum.splits)

definition persistent_file :: "cache_env \<Rightarrow> cache \<Rightarrow> bool" where
  "persistent_file env c \<longleftrightarrow> (case useInternalJson env c of Inr (True, es) \<Rightarrow> list_all Persistent es | _ \<Rightarrow> True)"

lemma sync_evolves:
  assumes "cache_inv c" "go_order (ev_parseOrd env)" "go_order (ev_pairOrd env)" "persistent_file env c" "sync env c = (c', None)"
  shows "evolves c c'"
proof -
  obtain json es where u: "useInternalJson env c = Inr (json, es)"
    using assms(5) by (cases "useInternalJson env c") (auto simp: sync_def)
  show ?thesis
  proof (cases json)
    case True
    obtain c1 ps where s: "sync_json es [] c = (c1, Inr ps)"
      using assms(5) u True by (auto simp: sync_def split: prod.splits sum.splits)
    have ok: "list_all (\<lambda>e. Persistent e \<and> verify e = None) es"
      using assms(4) u True sync_json_verified [OF s] by (auto simp: persistent_file_def list_all_iff)
    then have "list_all entry_ok es" by (rule list.pred_mono_strong) (simp add: verify_entry_ok)
    then have "adds c c1 (set ps)" using fold_addEntry_adds [OF assms(1)] sync_json_eq [OF assms(1) ok, of "[]"] s by auto
    from adds_evolves [OF assms(1) this disjI1 [OF refl]] show ?thesis using assms(5) u True s by (simp add: sync_def)
  next
    case False
    obtain fs where d: "ev_userDir env = Some fs" using assms(5) u False by (cases "ev_userDir env") (auto simp: sync_def)
    let ?r = "sync_files env fs [] c"
    have "adds c (fst ?r) (set (snd ?r))" using sync_files_adds [OF assms(1-3)] by blast
    from adds_evolves [OF assms(1) this disjI2 [OF refl]] show ?thesis
      using assms(5) u False d by (auto simp: sync_def Let_def split: prod.splits)
  qed
qed

section \<open>The invariant\<close>

definition conns_ok :: "Connection list \<Rightarrow> bool" where
  "conns_ok cs \<longleftrightarrow> list_all (\<lambda>c. tk_Nqn (conn_Key c) \<noteq> [] \<and> conn_Hostnqn c = tk_hostnqn (conn_Key c)) cs"

definition open_conns :: "ConnectionMap \<Rightarrow> Connection list \<Rightarrow> bool" where
  "open_conns cm cs \<longleftrightarrow> (\<forall>k a. conn_at cm k = Some a \<longrightarrow> \<not> conn_closed (cs ! a))"

definition svc_wf :: "('s, 'k) service \<Rightarrow> bool" where
  "svc_wf s \<longleftrightarrow> cache_inv (sv_cache s) \<and> conns_ok (sv_conns s) \<and> wf_cm (sv_conns s) (sv_connections s) \<and>
     open_conns (sv_connections s) (sv_conns s) \<and> open_conns (connections (sv_cache s)) (sv_conns s) \<and>
     (\<forall>m \<in> set (sv_muxes s). fst m < length (sv_conns s)) \<and> (\<forall>a \<in> set (sv_aggregate s). fst a < length (sv_conns s)) \<and>
     length (sv_aggregate s) \<le> aggregate_size"

text \<open>Every difference between the service and the cache is announced by a notification that is on its way.\<close>

definition synced :: "('s, 'k) service \<Rightarrow> bool" where
  "synced s \<longleftrightarrow> (\<forall>k. conn_at (sv_connections s) k = conn_at (connections (sv_cache s)) k \<or>
     (\<exists>n \<in> set (pending (sv_cache s)). pair_of_key k \<in> set n))"

lemma svc_wfD:
  assumes "svc_wf s"
  shows "cache_inv (sv_cache s)" "conns_ok (sv_conns s)" "wf_cm (sv_conns s) (sv_connections s)"
    "open_conns (sv_connections s) (sv_conns s)" "open_conns (connections (sv_cache s)) (sv_conns s)"
    "m \<in> set (sv_muxes s) \<Longrightarrow> fst m < length (sv_conns s)" "a \<in> set (sv_aggregate s) \<Longrightarrow> fst a < length (sv_conns s)"
    "length (sv_aggregate s) \<le> aggregate_size"
  using assms by (simp_all add: svc_wf_def)

lemma open_connsI: "(\<And>k a. conn_at cm k = Some a \<Longrightarrow> \<not> conn_closed (cs ! a)) \<Longrightarrow> open_conns cm cs"
  by (simp add: open_conns_def)

lemma open_connsD: "open_conns cm cs \<Longrightarrow> conn_at cm k = Some a \<Longrightarrow> \<not> conn_closed (cs ! a)"
  by (simp add: open_conns_def)

lemma svc_wfI:
  assumes "cache_inv (sv_cache s)" "conns_ok (sv_conns s)" "wf_cm (sv_conns s) (sv_connections s)"
    "open_conns (sv_connections s) (sv_conns s)" "open_conns (connections (sv_cache s)) (sv_conns s)"
    "\<And>m. m \<in> set (sv_muxes s) \<Longrightarrow> fst m < length (sv_conns s)" "\<And>a. a \<in> set (sv_aggregate s) \<Longrightarrow> fst a < length (sv_conns s)"
    "length (sv_aggregate s) \<le> aggregate_size"
  shows "svc_wf s"
  unfolding svc_wf_def using assms by blast

text \<open>Changes of the heap that touch neither keys nor channels.\<close>

definition harmless :: "go_heap \<Rightarrow> go_heap \<Rightarrow> bool" where
  "harmless h h' \<longleftrightarrow> m_EntriesTotal h' = m_EntriesTotal h \<and> length (conns h') = length (conns h) \<and>
     (\<forall>a < length (conns h). conn_Key (conns h' ! a) = conn_Key (conns h ! a) \<and> conn_Hostnqn (conns h' ! a) = conn_Hostnqn (conns h ! a) \<and>
        conn_closed (conns h' ! a) = conn_closed (conns h ! a))"

lemma harmless_refl: "harmless h h" by (simp add: harmless_def)

lemma harmless_trans: "harmless h h1 \<Longrightarrow> harmless h1 h2 \<Longrightarrow> harmless h h2"
  by (simp add: harmless_def)

lemma harmless_SetState: "harmless h (SetState c b h)"
  by (cases "c < length (conns h)") (auto simp: harmless_def SetState_def upd_conn_def Let_def nth_list_update)

lemma harmless_ConnectionID: "harmless h (upd_conn c (conn_ConnectionID_update f) h)"
  by (cases "c < length (conns h)") (auto simp: harmless_def upd_conn_def nth_list_update)

lemma wf_cm_same:
  assumes "wf_cm cs cm" "length cs' = length cs"
    and "\<And>a. a < length cs \<Longrightarrow> conn_Key (cs' ! a) = conn_Key (cs ! a) \<and> conn_Hostnqn (cs' ! a) = conn_Hostnqn (cs ! a)"
    and "\<And>p. ClusterConnectionsMap (cm_get cm' p) = ClusterConnectionsMap (cm_get cm p)" "distinct (map fst cm')"
  shows "wf_cm cs' cm'"
  using assms unfolding wf_cm_def by (simp only: assms(2,4)) (fastforce simp: assms(3))

lemma wf_cm_distinct: "wf_cm cs cm \<Longrightarrow> distinct (map fst cm)" by (simp add: wf_cm_def)

lemma wf_cm_heap:
  assumes "wf_cm cs cm" "length cs' = length cs"
    and "\<And>a. a < length cs \<Longrightarrow> conn_Key (cs' ! a) = conn_Key (cs ! a) \<and> conn_Hostnqn (cs' ! a) = conn_Hostnqn (cs ! a)"
  shows "wf_cm cs' cm"
  by (rule wf_cm_same [OF assms refl wf_cm_distinct [OF assms(1)]])

lemma conn_at_bound: "wf_cm cs cm \<Longrightarrow> conn_at cm k = Some a \<Longrightarrow> a < length cs \<and> conn_Key (cs ! a) = k"
  unfolding conn_at_def using wf_cmD(2) map_of_SomeD by fast

text \<open>A change that leaves alone what the invariant speaks of.\<close>

definition quiet :: "('s, 'k) service \<Rightarrow> ('s, 'k) service \<Rightarrow> bool" where
  "quiet s s' \<longleftrightarrow> (\<exists>h. harmless (heap (sv_cache s)) h \<and> sv_cache s' = (sv_cache s)\<lparr> heap := h \<rparr>) \<and>
     (\<forall>p. ClusterConnectionsMap (cm_get (sv_connections s') p) = ClusterConnectionsMap (cm_get (sv_connections s) p)) \<and>
     (distinct (map fst (sv_connections s)) \<longrightarrow> distinct (map fst (sv_connections s'))) \<and>
     sv_muxes s' = sv_muxes s \<and> sv_aggregate s' = sv_aggregate s"

lemma quiet_refl: "quiet s s" by (auto simp: quiet_def intro!: exI [of _ "heap (sv_cache s)"] harmless_refl)

lemma quiet_trans: assumes "quiet s s1" "quiet s1 s2" shows "quiet s s2"
proof -
  obtain h1 h2 where "harmless (heap (sv_cache s)) h1" "sv_cache s1 = (sv_cache s)\<lparr> heap := h1 \<rparr>"
    "harmless (heap (sv_cache s1)) h2" "sv_cache s2 = (sv_cache s1)\<lparr> heap := h2 \<rparr>" using assms unfolding quiet_def by blast
  then have "harmless (heap (sv_cache s)) h2" "sv_cache s2 = (sv_cache s)\<lparr> heap := h2 \<rparr>" using harmless_trans by auto
  with assms show ?thesis unfolding quiet_def by auto
qed

lemma quiet_on_heap: "harmless (heap (sv_cache s)) (f (heap (sv_cache s))) \<Longrightarrow> quiet s (on_heap f s)"
  by (auto simp: quiet_def on_heap_def)

lemma quiet_SetState: "quiet s (on_heap (SetState c b) s)"
  by (rule quiet_on_heap) (rule harmless_SetState)

lemma quiet_fields [simp]:
  "quiet s (s\<lparr> sv_api := x \<rparr>)" "quiet s (s\<lparr> sv_api := x, sv_kernel := k \<rparr>)" "quiet s (s\<lparr> sv_triggers := t \<rparr>)"
  "quiet s (s\<lparr> sv_stopCh := c \<rparr>)" "quiet s (s\<lparr> sv_timers := u \<rparr>)" "quiet s (s\<lparr> sv_stopCh := c, sv_nextCh := n, sv_timers := u \<rparr>)"
  "quiet s (s\<lparr> sv_timers := u, sv_triggers := t \<rparr>)"
  by (auto simp: quiet_def intro!: exI [of _ "heap (sv_cache s)"] harmless_refl)

lemma cm_get_update: "cm_get (AList.update p cc cm) q = (if q = p then cc else cm_get cm q)"
  by (simp add: cm_get_def update_conv')

lemma quiet_set_active: "quiet s (set_active conn p s)"
  by (auto simp: quiet_def set_active_def cm_get_update distinct_update intro!: exI [of _ "heap (sv_cache s)"] harmless_refl)

lemma quiet_conn_at: "quiet s s' \<Longrightarrow> conn_at (sv_connections s') = conn_at (sv_connections s)"
  by (rule ext) (simp add: quiet_def conn_at_def)

lemma quiet_synced: "quiet s s' \<Longrightarrow> synced s \<Longrightarrow> synced s'"
  using quiet_conn_at [of s s'] by (auto simp: synced_def quiet_def)

lemma quiet_length: "quiet s s' \<Longrightarrow> length (sv_conns s') = length (sv_conns s)"
  by (auto simp: quiet_def harmless_def)

lemma quiet_wf: assumes q: "quiet s s'" and w: "svc_wf s" shows "svc_wf s'"
proof -
  obtain h where h: "harmless (heap (sv_cache s)) h" "sv_cache s' = (sv_cache s)\<lparr> heap := h \<rparr>" using q by (auto simp: quiet_def)
  have len: "length (conns h) = length (sv_conns s)" using h(1) by (simp add: harmless_def)
  have same: "conn_Key (conns h ! a) = conn_Key (sv_conns s ! a)" "conn_Hostnqn (conns h ! a) = conn_Hostnqn (sv_conns s ! a)"
    "conn_closed (conns h ! a) = conn_closed (sv_conns s ! a)" if "a < length (sv_conns s)" for a
    using h(1) that by (auto simp: harmless_def)
  note W = svc_wfD [OF w]
  show ?thesis
  proof (rule svc_wfI)
    have "wf_cm (conns h) (connections (sv_cache s))"
      by (rule wf_cm_heap [OF _ len]) (use W(1) same in \<open>simp_all add: cache_inv_def\<close>)
    then show "cache_inv (sv_cache s')" using W(1) h by (simp add: cache_inv_def cache_keys_def harmless_def)
    show "conns_ok (sv_conns s')" using W(2) same len h(2) by (simp add: conns_ok_def list_all_length)
    show "wf_cm (sv_conns s') (sv_connections s')"
      by (rule wf_cm_same [OF W(3)]) (use q same len h(2) W(3) in \<open>auto simp: quiet_def wf_cm_def\<close>)
    show "open_conns (sv_connections s') (sv_conns s')"
      using W(4) same conn_at_bound [OF W(3)] h(2) quiet_conn_at [OF q] by (simp add: open_conns_def)
    have "wf_cm (sv_conns s) (connections (sv_cache s))" using W(1) by (simp add: cache_inv_def)
    then show "open_conns (connections (sv_cache s')) (sv_conns s')"
      using W(5) same conn_at_bound h(2) by (simp add: open_conns_def)
  qed (use W(6-8) q quiet_length [OF q] in \<open>auto simp: quiet_def\<close>)
qed

lemma quiet_getLogPageEntries:
  assumes "service_getLogPageEntries E conn t s = Some (r, s')"
  shows "quiet s s'"
proof -
  let ?c = "sv_conns s ! conn"
  obtain res cid api where d: "service_Discover E (GetDiscoveryRequest conn ?c t) (sv_api s) = Some (res, cid, api)"
    using assms by (auto simp: service_getLogPageEntries_def Let_def split: option.splits)
  let ?s1 = "s\<lparr> sv_api := api \<rparr>"
  let ?s2 = "if t > 0 then on_heap (upd_conn conn (conn_ConnectionID_update (\<lambda>_. cid))) ?s1 else ?s1"
  have q: "quiet s ?s1" "quiet ?s1 ?s2" by (simp_all add: quiet_on_heap harmless_ConnectionID quiet_refl)
  show ?thesis
  proof (cases res)
    case (Inl e)
    with assms d have "s' = on_heap (SetState conn False) ?s1" by (simp add: service_getLogPageEntries_def Let_def)
    with q(1) show ?thesis using quiet_trans quiet_SetState by blast
  next
    case (Inr es)
    with assms d have "s' = set_active conn (pair_of_conn ?c) (on_heap (SetState conn True) ?s2)"
      by (simp add: service_getLogPageEntries_def Let_def)
    moreover have "quiet ?s2 (on_heap (SetState conn True) ?s2)" by (rule quiet_SetState)
    ultimately show ?thesis using q quiet_trans quiet_set_active by meson
  qed
qed

lemma quiet_getLiveConnection: "getLiveConnection E cs s = Some (r, s') \<Longrightarrow> quiet s s'"
proof (induction cs arbitrary: s)
  case (Cons c cs)
  obtain r1 s1 where g: "service_getLogPageEntries E c persistent_kato s = Some (r1, s1)"
    using Cons.prems by (cases "service_getLogPageEntries E c persistent_kato s") auto
  have q: "quiet s s1" by (rule quiet_getLogPageEntries [OF g])
  show ?case using Cons.prems Cons.IH [of s1] g q by (cases r1) (auto intro: quiet_trans)
qed (simp add: quiet_refl)

lemma quiet_connect_entries: "quiet s (connect_entries E c es r s)"
  by (simp add: connect_entries_def split: prod.splits)

section \<open>Following the cache\<close>

lemma Exists_conn_at:
  assumes "wf_cm cs cm" "a < length cs" "conn_Key (cs ! a) = k" "pair_of_key k = p"
  shows "Exists (cm_get cm p) a \<longleftrightarrow> conn_at cm k = Some a"
proof
  assume "Exists (cm_get cm p) a"
  then obtain k' where m: "(k', a) \<in> set (ClusterConnectionsMap (cm_get cm p))" by (auto simp: Exists_iff)
  with wf_cmD(2) [OF assms(1) m] assms(3) have "k' = k" by simp
  with m wf_cmD(1) [OF assms(1), of p] assms(4) show "conn_at cm k = Some a" by (simp add: conn_at_def)
next
  assume "conn_at cm k = Some a"
  with assms(4) have "(k, a) \<in> set (ClusterConnectionsMap (cm_get cm p))" by (simp add: conn_at_def map_of_SomeD)
  then show "Exists (cm_get cm p) a" by (force simp: Exists_iff)
qed

lemma Connection_Stop_open:
  assumes "a < length (conns h)" "\<not> conn_closed (conns h ! a)"
  shows "\<exists>h'. Connection_Stop a h = Some h' \<and> m_EntriesTotal h' = m_EntriesTotal h \<and>
    conns h' = (conns h)[a := (conns h ! a)\<lparr> conn_done := True, conn_closed := True \<rparr>]"
  using assms by (simp add: Connection_Stop_def upd_conn_def Let_def)

text \<open>Closing a connection that is in the service and not in the cache, and forgetting it.\<close>

lemma close_wf:
  assumes w: "svc_wf s" and k: "conn_at (sv_connections s) k = Some a" "conn_at (connections (sv_cache s)) k \<noteq> Some a" "pair_of_key k = p"
    and h: "m_EntriesTotal h = m_EntriesTotal (heap (sv_cache s))"
      "conns h = (sv_conns s)[a := (sv_conns s ! a)\<lparr> conn_done := True, conn_closed := True \<rparr>]"
  shows "svc_wf (s\<lparr> sv_api := api, sv_connections := DeleteConnection p k (sv_connections s), sv_cache := (sv_cache s)\<lparr> heap := h \<rparr> \<rparr>)"
proof -
  note W = svc_wfD [OF w]
  have a: "a < length (sv_conns s)" "conn_Key (sv_conns s ! a) = k" using conn_at_bound [OF W(3) k(1)] by auto
  have same: "conn_Key (conns h ! b) = conn_Key (sv_conns s ! b)" "conn_Hostnqn (conns h ! b) = conn_Hostnqn (sv_conns s ! b)"
    "b \<noteq> a \<Longrightarrow> conns h ! b = sv_conns s ! b" for b
    unfolding h(2) using a(1) by (simp_all add: nth_list_update)
  have len: "length (conns h) = length (sv_conns s)" by (simp add: h(2))
  have wc: "wf_cm (sv_conns s) (connections (sv_cache s))" using W(1) by (simp add: cache_inv_def)
  have wf: "wf_cm (conns h) cm" if "wf_cm (sv_conns s) cm" for cm
    by (rule wf_cm_heap [OF that len]) (simp add: same)
  have del: "conn_at (DeleteConnection p k (sv_connections s)) = (conn_at (sv_connections s))(k := None)"
    by (rule conn_at_DeleteConnection [OF k(3)])
  let ?t = "s\<lparr> sv_api := api, sv_connections := DeleteConnection p k (sv_connections s), sv_cache := (sv_cache s)\<lparr> heap := h \<rparr> \<rparr>"
  have t: "sv_connections ?t = DeleteConnection p k (sv_connections s)" "sv_cache ?t = (sv_cache s)\<lparr> heap := h \<rparr>"
    "heap ((sv_cache s)\<lparr> heap := h \<rparr>) = h" "connections ((sv_cache s)\<lparr> heap := h \<rparr>) = connections (sv_cache s)"
    "sv_muxes ?t = sv_muxes s" "sv_aggregate ?t = sv_aggregate s" by simp_all
  show ?thesis
  proof (rule svc_wfI, unfold t len)
    show "cache_inv ((sv_cache s)\<lparr> heap := h \<rparr>)" using W(1) wf [OF wc] h(1) by (simp add: cache_inv_def cache_keys_def)
    show "conns_ok (conns h)" using W(2) same(1,2) len by (simp add: conns_ok_def list_all_length)
    show "wf_cm (conns h) (DeleteConnection p k (sv_connections s))" by (rule wf [OF wf_cm_DeleteConnection [OF W(3)]])
    show "open_conns (DeleteConnection p k (sv_connections s)) (conns h)"
    proof (rule open_connsI)
      fix k' b assume "conn_at (DeleteConnection p k (sv_connections s)) k' = Some b"
      then have b: "k' \<noteq> k" "conn_at (sv_connections s) k' = Some b" by (simp_all add: del split: if_splits)
      then have "b \<noteq> a" using conn_at_bound [OF W(3) b(2)] a(2) by blast
      then show "\<not> conn_closed (conns h ! b)" using same(3) open_connsD [OF W(4) b(2)] by simp
    qed
    show "open_conns (connections (sv_cache s)) (conns h)"
    proof (rule open_connsI)
      fix k' b assume b: "conn_at (connections (sv_cache s)) k' = Some b"
      then have "b \<noteq> a" using conn_at_bound [OF wc b] a(2) k(2) by blast
      then show "\<not> conn_closed (conns h ! b)" using same(3) open_connsD [OF W(5) b] by simp
    qed
  qed (rule W(6-8), assumption?)+
qed

definition removed :: "('s, 'k) service \<Rightarrow> ('s, 'k) service \<Rightarrow> TKey set \<Rightarrow> bool" where
  "removed s s' K \<longleftrightarrow> connections (sv_cache s') = connections (sv_cache s) \<and> pending (sv_cache s') = pending (sv_cache s) \<and>
     (\<forall>k. conn_at (sv_connections s') k =
        (if k \<in> K \<and> conn_at (connections (sv_cache s)) k \<noteq> conn_at (sv_connections s) k then None else conn_at (sv_connections s) k))"

lemma removed_empty: "removed s s {}" by (simp add: removed_def)

lemma removed_trans: "removed s s1 K \<Longrightarrow> removed s1 s2 L \<Longrightarrow> removed s s2 (K \<union> L)"
  by (auto simp: removed_def)

lemma removed_mono: "removed s s' K \<Longrightarrow> K \<subseteq> L \<Longrightarrow> (\<And>k. k \<in> L - K \<Longrightarrow> conn_at (sv_connections s) k = None) \<Longrightarrow> removed s s' L"
  by (auto simp: removed_def)

lemma conn_at_pair: "conn_at cm k = map_of (ClusterConnectionsMap (cm_get cm p)) k" if "pair_of_key k = p"
  using that by (simp add: conn_at_def)

lemma add_conns_spec:
  assumes "wf_cm cs cm" "wf_cm cs cached"
    and "\<And>k a. (k, a) \<in> set l \<Longrightarrow> conn_at cached k = Some a \<and> pair_of_key k = p"
  shows "wf_cm cs (snd (add_conns p l m cm)) \<and>
    (\<forall>k. conn_at (snd (add_conns p l m cm)) k = (if k \<in> fst ` set l then conn_at cached k else conn_at cm k))"
  using assms(1,3)
proof (induction l arbitrary: m cm)
  case (Cons x l)
  obtain k a where x: "x = (k, a)" by (cases x)
  have ka: "conn_at cached k = Some a" "pair_of_key k = p" using Cons.prems(2) [of k a] x by auto
  have b: "a < length cs" "conn_Key (cs ! a) = k" using conn_at_bound [OF assms(2) ka(1)] by auto
  have host: "conn_Hostnqn (cs ! a) = tk_hostnqn k"
    using ka wf_cmD(2) [OF assms(2)] map_of_SomeD unfolding conn_at_def by fast
  let ?cm = "if Exists (cm_get cm p) a then cm else AddConnection k a cm"
  have wf: "wf_cm cs ?cm" using Cons.prems(1) wf_cm_AddConnection [OF Cons.prems(1) b host] by simp
  have at: "conn_at ?cm = (conn_at cm)(k \<mapsto> a)"
    using Exists_conn_at [OF Cons.prems(1) b ka(2)] by auto
  define m' where "m' = (if Exists (cm_get cm p) a then m else AList.update p True m)"
  have eq: "add_conns p (x # l) m cm = add_conns p l m' ?cm" by (simp add: x m'_def)
  have tl: "\<And>k a. (k, a) \<in> set l \<Longrightarrow> conn_at cached k = Some a \<and> pair_of_key k = p" by (rule Cons.prems(2)) simp
  have "\<forall>k'. conn_at (snd (add_conns p l m' ?cm)) k' = (if k' \<in> fst ` set l then conn_at cached k' else conn_at ?cm k')"
    "wf_cm cs (snd (add_conns p l m' ?cm))"
    using Cons.IH [OF wf tl, of m'] by blast+
  then show ?case unfolding eq at using x ka by auto
qed simp

lemma map_entries:
  assumes "wf_cm cs cm" "go_order ord"
  shows "(k, a) \<in> set (ord (ClusterConnectionsMap (cm_get cm p))) \<longleftrightarrow> conn_at cm k = Some a \<and> pair_of_key k = p"
proof -
  have "(k, a) \<in> set (ClusterConnectionsMap (cm_get cm p)) \<longleftrightarrow> conn_at cm k = Some a \<and> pair_of_key k = p"
    using wf_cmD(1) [OF assms(1), of p] wf_cmD(2) [OF assms(1), of k a p] conn_at_pair [where k = k and p = p and cm = cm] by (metis map_of_SomeD map_of_is_SomeI)
  with assms(2) show ?thesis by simp
qed

lemma addConnections_spec:
  assumes "wf_cm cs cm" "wf_cm cs cached" "go_order (ch_conns ch)"
  shows "wf_cm cs (snd (addConnections ch cached ps m cm)) \<and>
    (\<forall>k. conn_at (snd (addConnections ch cached ps m cm)) k =
       (if pair_of_key k \<in> set ps \<and> conn_at cached k \<noteq> None then conn_at cached k else conn_at cm k))"
  using assms(1)
proof (induction ps arbitrary: m cm)
  case (Cons p ps)
  let ?l = "ch_conns ch (ClusterConnectionsMap (cm_get cached p))"
  obtain m' cm' where a: "add_conns p ?l (note_pair p m) cm = (m', cm')" by (cases "add_conns p ?l (note_pair p m) cm")
  have l: "(k, a) \<in> set ?l \<longleftrightarrow> conn_at cached k = Some a \<and> pair_of_key k = p" for k a
    by (rule map_entries [OF assms(2,3)])
  have K: "k \<in> fst ` set ?l \<longleftrightarrow> pair_of_key k = p \<and> conn_at cached k \<noteq> None" for k using l by force
  have "wf_cm cs cm'" "\<forall>k. conn_at cm' k = (if pair_of_key k = p \<and> conn_at cached k \<noteq> None then conn_at cached k else conn_at cm k)"
    using add_conns_spec [OF Cons.prems assms(2), of ?l p "note_pair p m"] a l K by simp_all
  with Cons.IH [of cm' m'] a show ?case by auto
qed simp

section \<open>Steps outside the loop\<close>

lemma svc_wf_muxes:
  "svc_wf s \<Longrightarrow> (\<And>m. m \<in> set ms \<Longrightarrow> fst m < length (sv_conns s)) \<Longrightarrow> svc_wf (s\<lparr> sv_muxes := ms \<rparr>) \<and> synced (s\<lparr> sv_muxes := ms \<rparr>) = synced s"
  by (simp add: svc_wf_def synced_def)

lemma set_remove_nth: "set (remove_nth i xs) \<subseteq> set xs"
  unfolding remove_nth_def using set_take_subset set_drop_subset by fastforce

lemma mux_take_wf:
  assumes "svc_wf s" "i < length (sv_muxes s)"
  shows "svc_wf (mux_take i ev s) \<and> (synced s \<longrightarrow> synced (mux_take i ev s)) \<and> sv_api (mux_take i ev s) = sv_api s"
proof -
  let ?conn = "fst (sv_muxes s ! i)"
  define s1 where "s1 = (if aen_ServerChange ev \<noteq> None then on_heap (SetState ?conn False) s else s)"
  define aen where "aen = (if aen_ServerChange ev \<noteq> None then ev else \<lparr> aen_AenChange = True, aen_ServerChange = None \<rparr>)"
  have q: "quiet s s1" by (simp add: s1_def quiet_SetState quiet_refl)
  have m: "sv_muxes s1 = sv_muxes s" "sv_api s1 = sv_api s" by (simp_all add: s1_def on_heap_def)
  have "mux_take i ev s = s1\<lparr> sv_muxes := (sv_muxes s1)[i := (?conn, Some aen)] \<rparr>" by (simp add: mux_take_def s1_def aen_def Let_def)
  moreover have "fst x < length (sv_conns s1)" if "x \<in> set ((sv_muxes s1)[i := (?conn, Some aen)])" for x
  proof -
    have "x = (?conn, Some aen) \<or> x \<in> set (sv_muxes s)" using that set_update_subset_insert [of "sv_muxes s" i] by (auto simp: m)
    then have "fst x < length (sv_conns s)"
      using svc_wfD(6) [OF assms(1), of x] svc_wfD(6) [OF assms(1) nth_mem [OF assms(2)]] by auto
    then show ?thesis using quiet_length [OF q] by simp
  qed
  ultimately show ?thesis using svc_wf_muxes [OF quiet_wf [OF q assms(1)]] quiet_synced [OF q] m by simp
qed

lemma push_aen_wf:
  assumes "svc_wf s" "push_aen ch conn aen s = Some s'"
  shows "svc_wf s' \<and> (synced s \<longrightarrow> synced s') \<and> sv_api s' = sv_api s"
  using assms mux_take_wf [OF assms(1)] by (auto simp: push_aen_def waits_def split: if_splits option.splits)

lemma mux_send_wf:
  assumes "svc_wf s" "i < length (sv_muxes s)" "sv_muxes s ! i = (conn, Some aen)" "length (sv_aggregate s) < aggregate_size"
  shows "svc_wf (mux_send i (conn, aen) s) \<and> (synced s \<longrightarrow> synced (mux_send i (conn, aen) s)) \<and> sv_api (mux_send i (conn, aen) s) = sv_api s"
proof -
  have c: "conn < length (sv_conns s)" using svc_wfD(6) [OF assms(1) nth_mem [OF assms(2)]] assms(3) by simp
  let ?ms = "if aen_ServerChange aen = None then (sv_muxes s)[i := (conn, None)] else remove_nth i (sv_muxes s)"
  have "set ?ms \<subseteq> insert (conn, None) (set (sv_muxes s))"
    using set_update_subset_insert [of "sv_muxes s" i] set_remove_nth [of i "sv_muxes s"] by auto
  then have "m = (conn, None) \<or> m \<in> set (sv_muxes s)" if "m \<in> set ?ms" for m using that by blast
  then have "fst m < length (sv_conns s)" if "m \<in> set ?ms" for m using that c svc_wfD(6) [OF assms(1), of m] by fastforce
  then have "\<forall>m \<in> set ?ms. fst m < length (sv_conns s)" by blast
  moreover have "mux_send i (conn, aen) s = s\<lparr> sv_aggregate := sv_aggregate s @ [(conn, aen)], sv_muxes := ?ms \<rparr>"
    by (simp add: mux_send_def)
  ultimately show ?thesis using assms(1,4) c by (simp add: svc_wf_def synced_def del: if_split)
qed

lemma evolves_svc:
  assumes w: "svc_wf s" and y: "synced s" and e: "evolves (sv_cache s) c'"
  shows "svc_wf (s\<lparr> sv_cache := c' \<rparr>) \<and> synced (s\<lparr> sv_cache := c' \<rparr>)"
proof -
  note W = svc_wfD [OF w]
  obtain xs where xs: "conns (heap c') = sv_conns s @ xs" "list_all conn_good xs"
    and at: "\<And>k a. conn_at (connections c') k = Some a \<Longrightarrow> conn_at (connections (sv_cache s)) k = Some a \<or> length (sv_conns s) \<le> a"
    and inv: "cache_inv c'" using e unfolding evolves_def grown_def by blast
  obtain ns where ns: "pending c' = pending (sv_cache s) @ ns"
    "\<And>k. conn_at (connections c') k \<noteq> conn_at (connections (sv_cache s)) k \<Longrightarrow> \<exists>n \<in> set ns. pair_of_key k \<in> set n"
    using e unfolding evolves_def by blast
  have wc: "wf_cm (sv_conns s) (connections (sv_cache s))" "wf_cm (conns (heap c')) (connections c')"
    using W(1) inv by (simp_all add: cache_inv_def)
  have old: "conns (heap c') ! a = sv_conns s ! a" if "a < length (sv_conns s)" for a using that xs(1) by (simp add: nth_append)
  let ?t = "s\<lparr> sv_cache := c' \<rparr>"
  have t: "sv_cache ?t = c'" "sv_connections ?t = sv_connections s" "sv_muxes ?t = sv_muxes s" "sv_aggregate ?t = sv_aggregate s" by simp_all
  have "svc_wf ?t"
  proof (rule svc_wfI, unfold t)
    show "cache_inv c'" by (rule inv)
    show "conns_ok (conns (heap c'))" using W(2) xs by (auto simp: conns_ok_def conn_good_def list_all_iff)
    show "wf_cm (conns (heap c')) (sv_connections s)" unfolding xs(1) by (rule wf_cm_append [OF W(3)])
    show "open_conns (sv_connections s) (conns (heap c'))"
    proof (rule open_connsI)
      fix k a assume a: "conn_at (sv_connections s) k = Some a"
      then show "\<not> conn_closed (conns (heap c') ! a)" using open_connsD [OF W(4) a] old conn_at_bound [OF W(3) a] by simp
    qed
    show "open_conns (connections c') (conns (heap c'))"
    proof (rule open_connsI)
      fix k a assume a: "conn_at (connections c') k = Some a"
      show "\<not> conn_closed (conns (heap c') ! a)"
      proof (cases "a < length (sv_conns s)")
        case True
        then have "conn_at (connections (sv_cache s)) k = Some a" using at [OF a] by simp
        with True show ?thesis using open_connsD [OF W(5)] old by simp
      next
        case False
        moreover have "a < length (sv_conns s) + length xs" using conn_at_bound [OF wc(2) a] xs(1) by simp
        ultimately have "conns (heap c') ! a \<in> set xs" unfolding xs(1) by (simp add: nth_append)
        with xs(2) show ?thesis by (simp add: list_all_iff conn_good_def)
      qed
    qed
  qed (use W(6,7) xs(1) W(8) in \<open>auto simp: trans_less_add1\<close>)
  moreover have "synced ?t"
    unfolding synced_def t
  proof
    fix k
    show "conn_at (sv_connections s) k = conn_at (connections c') k \<or> (\<exists>n \<in> set (pending c'). pair_of_key k \<in> set n)"
      using y [unfolded synced_def, rule_format, of k] ns(1) ns(2) [of k]
      by (cases "conn_at (connections c') k = conn_at (connections (sv_cache s)) k") auto
  qed
  ultimately show ?thesis by simp
qed

lemma getLiveConnection_mem: "getLiveConnection E cs s = Some (Some c, s') \<Longrightarrow> c \<in> set cs"
  by (induction cs arbitrary: s) (auto split: option.splits prod.splits sum.splits)

lemma refMap_of_pair:
  assumes "tk_Nqn (conn_Key c) \<noteq> []" "ds \<noteq> []"
  shows "referrals_of_pair (pair_of_conn c) (refMap_of c ds)"
proof -
  let ?key = "\<lambda>r. \<lparr> rk_Ip = pe_Traddr r, rk_Port = pe_TrsvcID r, rk_DPSubNqn = tk_Nqn (conn_Key c), rk_Hostnqn = conn_Hostnqn c \<rparr>"
  let ?P = "\<lambda>m. list_all (\<lambda>r. \<lparr> ClusterNqn = rk_DPSubNqn (fst r), HostNqn = rk_Hostnqn (fst r) \<rparr> = pair_of_conn c) m"
  have upd: "?P (AList.update (?key r) r m)" if "?P m" for r m
    using that by (induction m) (auto simp: pair_of_conn_def)
  have all: "?P (fold (\<lambda>r. AList.update (?key r) r) ds m)" if "?P m" for m
    using that upd by (induction ds arbitrary: m) auto
  have ne: "fold (\<lambda>r. AList.update (?key r) r) es m \<noteq> []" if "m \<noteq> []" for es m
    using that by (induction es arbitrary: m) (auto simp: update_nonempty)
  obtain d ds' where ds: "ds = d # ds'" using assms(2) by (cases ds) auto
  have "fold (\<lambda>r. AList.update (?key r) r) ds [] \<noteq> []" using ne [of "[(?key d, d)]" ds'] by (simp add: ds)
  with all [of "[]"] assms(1) show ?thesis by (simp add: referrals_of_pair_def refMap_of_def pair_of_conn_def)
qed

lemma multiplex_wf:
  "svc_wf s \<Longrightarrow> conn < length (sv_conns s) \<Longrightarrow> svc_wf (multiplexNewConnection conn s) \<and>
    synced (multiplexNewConnection conn s) = synced s \<and> sv_api (multiplexNewConnection conn s) = sv_api s"
  by (simp add: multiplexNewConnection_def svc_wf_def synced_def)

lemma mux_remove_wf:
  assumes "svc_wf s"
  shows "svc_wf (s\<lparr> sv_muxes := remove_nth i (sv_muxes s) \<rparr>) \<and> synced (s\<lparr> sv_muxes := remove_nth i (sv_muxes s) \<rparr>) = synced s"
proof (rule svc_wf_muxes [OF assms])
  fix m assume "m \<in> set (remove_nth i (sv_muxes s))"
  then have "m \<in> set (sv_muxes s)" using set_remove_nth [of i "sv_muxes s"] by (rule rev_subsetD)
  then show "fst m < length (sv_conns s)" by (rule svc_wfD(6) [OF assms])
qed

section \<open>Stopping\<close>

definition halted :: "('s \<Rightarrow> ConnectionID set) \<Rightarrow> ('s, 'k) service \<Rightarrow> ('s, 'k) service \<Rightarrow> nat set \<Rightarrow> bool" where
  "halted live s s' X \<longleftrightarrow> length (sv_conns s') = length (sv_conns s) \<and>
     (\<forall>b. b \<notin> X \<longrightarrow> sv_conns s' ! b = sv_conns s ! b) \<and>
     (\<forall>b \<in> X. conn_done (sv_conns s' ! b) \<and> conn_closed (sv_conns s' ! b) \<and> conn_ConnectionID (sv_conns s' ! b) = conn_ConnectionID (sv_conns s ! b)) \<and>
     live (sv_api s') = live (sv_api s) - (\<lambda>b. conn_ConnectionID (sv_conns s ! b)) ` X"

lemma halted_refl: "halted live s s {}" by (simp add: halted_def)

lemma halted_ids: "halted live s s' X \<Longrightarrow> conn_ConnectionID (sv_conns s' ! b) = conn_ConnectionID (sv_conns s ! b)"
  unfolding halted_def by (cases "b \<in> X") simp_all

lemma halted_trans:
  assumes "halted live s s1 X" "halted live s1 s2 Y"
  shows "halted live s s2 (X \<union> Y)"
  unfolding halted_def
proof (intro conjI allI impI ballI)
  note a = assms(1) [unfolded halted_def] and b = assms(2) [unfolded halted_def]
  show "length (sv_conns s2) = length (sv_conns s)" using a b by simp
  show "live (sv_api s2) = live (sv_api s) - (\<lambda>b. conn_ConnectionID (sv_conns s ! b)) ` (X \<union> Y)"
    using a b halted_ids [OF assms(1)] by (simp add: image_Un) blast
  fix c
  show "sv_conns s2 ! c = sv_conns s ! c" if "c \<notin> X \<union> Y" using that a b by simp
  assume c: "c \<in> X \<union> Y"
  then show "conn_done (sv_conns s2 ! c)" "conn_closed (sv_conns s2 ! c)" using a b by (cases "c \<in> Y"; simp)+
  show "conn_ConnectionID (sv_conns s2 ! c) = conn_ConnectionID (sv_conns s ! c)"
    using halted_ids [OF assms(1)] halted_ids [OF assms(2)] by simp
qed

section \<open>Runs\<close>

text \<open>A service that was started and took steps; \<open>api0\<close> is the host API at the start.\<close>

inductive service_run :: "('e, 's, 'k) service_env \<Rightarrow> 's \<Rightarrow> ('s, 'k) service \<Rightarrow> bool" for E api0 where
  run_start: "fair ch \<Longrightarrow> c = NewCache u i a hosts json \<Longrightarrow>
    (\<And>fs. persistent_file ((ch_cache ch)\<lparr> ev_files := fs, ev_userDir := readDir fs \<rparr>) c) \<Longrightarrow>
    service_Start (ch_cache ch) readDir (NewServiceExtended c api0 k cfg) = (None, s) \<Longrightarrow> service_run E api0 s"
| run_step: "service_run E api0 s \<Longrightarrow> service_step E s s' \<Longrightarrow> service_run E api0 s'"

lemma start_inv:
  assumes "fair ch" "c = NewCache u i a hosts json"
    and "\<And>fs. persistent_file ((ch_cache ch)\<lparr> ev_files := fs, ev_userDir := readDir fs \<rparr>) c"
    and "service_Start (ch_cache ch) readDir (NewServiceExtended c api0 k cfg) = (None, s)"
  shows "svc_wf s \<and> synced s \<and> sv_api s = api0"
proof -
  let ?s = "NewServiceExtended c api0 k cfg"
  have inv: "cache_inv c" by (simp add: assms(2))
  have c: "conns (heap c) = []" "connections c = []" by (simp_all add: assms(2) NewCache_def)
  have w: "svc_wf ?s" "synced ?s" "cache_inv c"
    using inv by (simp_all add: svc_wf_def synced_def NewServiceExtended_def c conns_ok_def open_conns_def wf_cm_def conn_at_def cm_get_def)
  obtain fs where sy: "sync ((ch_cache ch)\<lparr> ev_files := fs, ev_userDir := readDir fs \<rparr>) c = (sv_cache s, None)" "s = ?s\<lparr> sv_cache := sv_cache s \<rparr>"
    using assms(4) by (auto simp: service_Start_def Run_def NewServiceExtended_def split: prod.splits sum.splits)
  have "evolves c (sv_cache s)"
    by (rule sync_evolves [OF w(3) _ _ assms(3) sy(1)]) (use fairD(6,7) [OF assms(1)] in simp_all)
  moreover have "sv_cache ?s = c" "sv_api ?s = api0" by (simp_all add: NewServiceExtended_def)
  ultimately show ?thesis using evolves_svc [OF w(1,2), of "sv_cache s"] sy(2) by (metis service.simps(3) service.update_convs(1) service.surjective)
qed

lemma stop_conns_frame: "stop_conns E p l s = Some s' \<Longrightarrow> sv_aggClosed s' = sv_aggClosed s \<and> sv_done s' = sv_done s"
  by (induction E p l s rule: stop_conns.induct) (simp_all split: option.splits prod.splits)

lemma stop_pairs_frame: "stop_pairs E ch ps s = Some s' \<Longrightarrow> sv_aggClosed s' = sv_aggClosed s \<and> sv_done s' = sv_done s"
  by (induction ps arbitrary: s) (auto split: option.splits dest: stop_conns_frame)

section \<open>The retries\<close>

text \<open>A reconnect touches neither the timers nor the triggers.\<close>

definition same_loop :: "('s, 'k) service \<Rightarrow> ('s, 'k) service \<Rightarrow> bool" where
  "same_loop s s' \<longleftrightarrow> sv_timers s' = sv_timers s \<and> sv_triggers s' = sv_triggers s \<and> sv_stopCh s' = sv_stopCh s \<and>
     sv_nextCh s' = sv_nextCh s \<and> sv_reconnectInterval s' = sv_reconnectInterval s"

lemma same_loop_refl [simp]: "same_loop s s" by (simp add: same_loop_def)

lemma same_loop_trans: "same_loop s s1 \<Longrightarrow> same_loop s1 s2 \<Longrightarrow> same_loop s s2" by (simp add: same_loop_def)

lemma same_loop_getLogPageEntries:
  assumes "service_getLogPageEntries E conn t s = Some (r, s')"
  shows "same_loop s s'"
proof -
  obtain res cid api where d: "service_Discover E (GetDiscoveryRequest conn (sv_conns s ! conn) t) (sv_api s) = Some (res, cid, api)"
    using assms by (auto simp: service_getLogPageEntries_def Let_def split: option.splits)
  show ?thesis using assms d
    by (cases res) (auto simp: service_getLogPageEntries_def Let_def same_loop_def set_active_def on_heap_def split: if_splits)
qed

lemma same_loop_getLiveConnection: "getLiveConnection E cs s = Some (r, s') \<Longrightarrow> same_loop s s'"
proof (induction cs arbitrary: s)
  case (Cons c cs)
  obtain r1 s1 where g: "service_getLogPageEntries E c persistent_kato s = Some (r1, s1)"
    using Cons.prems by (cases "service_getLogPageEntries E c persistent_kato s") auto
  note q = same_loop_getLogPageEntries [OF g]
  show ?case using Cons.prems Cons.IH [of s1] g q by (cases r1) (auto intro: same_loop_trans)
qed simp

lemma same_loop_mux_take: "same_loop s (mux_take i ev s)"
  by (simp add: same_loop_def mux_take_def Let_def on_heap_def)

lemma same_loop_push_aen: "push_aen ch conn aen s = Some s' \<Longrightarrow> same_loop s s'"
  using same_loop_mux_take by (auto simp: push_aen_def split: if_splits option.splits)

lemma same_loop_reconnect:
  assumes "reconnectToCluster E ch p s = Some (err, s')"
  shows "same_loop s s'"
proof (cases "ClusterConnectionsMap (cm_get (sv_connections s) p) = []")
  case True
  then show ?thesis using assms by (auto simp: reconnectToCluster_def cm_get_def split: option.splits)
next
  case False
  then obtain cc where cc: "map_of (sv_connections s) p = Some cc" "ClusterConnectionsMap cc \<noteq> []"
    by (auto simp: cm_get_def split: option.splits)
  let ?cs = "GetRandomConnectionList (ch_shuffle ch) cc"
  obtain lc s1 where g: "getLiveConnection E ?cs s = Some (lc, s1)"
    using assms cc by (cases "getLiveConnection E ?cs s") (auto simp: reconnectToCluster_def)
  note q = same_loop_getLiveConnection [OF g]
  have m: "same_loop s1 (multiplexNewConnection conn s1)" for conn by (simp add: same_loop_def multiplexNewConnection_def)
  show ?thesis
  proof (cases lc)
    case None
    with assms cc g q show ?thesis by (simp add: reconnectToCluster_def)
  next
    case (Some conn)
    with assms cc g have "push_aen ch conn \<lparr> aen_AenChange = True, aen_ServerChange = None \<rparr> (multiplexNewConnection conn s1) = Some s'"
      by (auto simp: reconnectToCluster_def)
    from same_loop_push_aen [OF this] show ?thesis using same_loop_trans q m by blast
  qed
qed

lemma handle_trigger_loop:
  assumes "handle_trigger E ch q s = Some s'"
  shows "sv_triggers s' = sv_triggers s \<and>
    ((sv_stopCh s' = None \<and> sv_timers s' = sv_timers s) \<or>
     (sv_stopCh s' = Some (sv_nextCh s) \<and> sv_timers s' = sv_timers s @ [TimerNew q]))"
proof -
  obtain err s1 where r: "reconnectToCluster E ch q (s\<lparr> sv_stopCh := None \<rparr>) = Some (err, s1)"
    using assms by (cases "reconnectToCluster E ch q (s\<lparr> sv_stopCh := None \<rparr>)") (auto simp: handle_trigger_def)
  show ?thesis using same_loop_reconnect [OF r] assms r
    by (cases err) (auto simp: handle_trigger_def same_loop_def split: if_splits)
qed

lemma handle_aen_loop:
  assumes "handle_aen E ch a s = Some s'"
  shows "sv_timers s' = sv_timers s \<and> sv_stopCh s' = sv_stopCh s \<and> set (sv_triggers s) \<subseteq> set (sv_triggers s')"
proof -
  obtain conn aen where a: "a = (conn, aen)" by (cases a)
  show ?thesis
  proof (cases "aen_ServerChange aen = None")
    case True
    obtain r s1 where g: "service_getLogPageEntries E conn 0 s = Some (r, s1)"
      using assms a True by (cases "service_getLogPageEntries E conn 0 s") (auto simp: handle_aen_def Let_def)
    show ?thesis using same_loop_getLogPageEntries [OF g] assms a True g
      by (cases r) (auto simp: handle_aen_def Let_def same_loop_def on_heap_def connect_entries_def split: prod.splits)
  qed (use assms a in \<open>auto simp: handle_aen_def Let_def\<close>)
qed

text \<open>A notification neither changes the active connection of a pair nor stops a retry.\<close>

lemma remove_conns_active:
  "remove_conns E q act l m s = Some (m', s') \<Longrightarrow>
     ActiveConnection (cm_get (sv_connections s') p) = ActiveConnection (cm_get (sv_connections s) p) \<and> same_loop s s'"
proof (induction E q act l m s rule: remove_conns.induct)
  case (2 E q act key conn rest m s)
  show ?case
  proof (cases "Exists (cm_get (connections (sv_cache s)) q) conn")
    case True
    with 2 show ?thesis by simp
  next
    case False
    let ?d = "if act = Some conn then se_disconnect E (conn_ConnectionID (sv_conns s ! conn)) (sv_api s) else Some (True, sv_api s)"
    obtain b api where d: "?d = Some (b, api)" using "2.prems" False by (cases ?d) auto
    obtain h where h: "Connection_Stop conn (heap (sv_cache s)) = Some h"
      using "2.prems" False d by (cases "Connection_Stop conn (heap (sv_cache s))") (auto split: if_splits)
    have "ActiveConnection (cm_get (DeleteConnection q key (sv_connections s)) p) = ActiveConnection (cm_get (sv_connections s) p)"
      by (simp add: cm_get_DeleteConnection)
    then show ?thesis using "2.IH"(2) [OF False d refl h] "2.prems" False d h by (simp add: same_loop_def)
  qed
qed simp

lemma removeConnections_active:
  "removeConnections E ch ps m s = Some (m', s') \<Longrightarrow>
     ActiveConnection (cm_get (sv_connections s') p) = ActiveConnection (cm_get (sv_connections s) p) \<and> same_loop s s'"
proof (induction ps arbitrary: m s)
  case (Cons q ps)
  show ?case
  proof (cases "map_of (sv_connections s) q")
    case None
    with Cons show ?thesis by simp
  next
    case (Some cc)
    let ?r = "remove_conns E q (ActiveConnection cc) (ch_conns ch (ClusterConnectionsMap cc)) m s"
    obtain m1 s1 where r: "?r = Some (m1, s1)" using Cons.prems Some by (cases ?r) auto
    from remove_conns_active [OF r, of p] Cons.IH [of m1 s1] Cons.prems Some r show ?thesis
      by (auto intro: same_loop_trans)
  qed
qed simp

lemma add_conns_active: "ActiveConnection (cm_get (snd (add_conns q l m cm)) p) = ActiveConnection (cm_get cm p)"
  by (induction q l m cm rule: add_conns.induct) (simp_all add: cm_get_AddConnection)

lemma addConnections_active: "ActiveConnection (cm_get (snd (addConnections ch cached ps m cm)) p) = ActiveConnection (cm_get cm p)"
proof (induction ps arbitrary: m cm)
  case (Cons q ps)
  let ?a = "add_conns q (ch_conns ch (ClusterConnectionsMap (cm_get cached q))) (note_pair q m) cm"
  show ?case using add_conns_active [of q "ch_conns ch (ClusterConnectionsMap (cm_get cached q))" "note_pair q m" cm p]
    Cons.IH [of "fst ?a" "snd ?a"] by (simp add: case_prod_beta)
qed simp

lemma handle_message_active:
  assumes "handle_message E ch n s = Some s'"
  shows "ActiveConnection (cm_get (sv_connections s') p) = ActiveConnection (cm_get (sv_connections s) p) \<and>
    sv_timers s' = sv_timers s \<and> sv_stopCh s' = sv_stopCh s \<and>
    (\<exists>ts. sv_triggers s' = sv_triggers s @ ts \<and> (\<forall>q \<in> set ts. ActiveConnection (cm_get (sv_connections s') q) = None))"
proof -
  let ?r = "removeConnections E ch (ch_pairs ch n) [] s"
  obtain m1 s1 where r: "?r = Some (m1, s1)" using assms by (cases ?r) (auto simp: handle_message_def)
  obtain m2 cm where a: "addConnections ch (connections (sv_cache s1)) (ch_pairs ch n) m1 (sv_connections s1) = (m2, cm)"
    by (cases "addConnections ch (connections (sv_cache s1)) (ch_pairs ch n) m1 (sv_connections s1)")
  let ?ts = "filter (\<lambda>p. map_of m2 p = Some True \<and> ActiveConnection (cm_get cm p) = None) (ch_pairs ch (map fst cm))"
  have s': "s' = s1\<lparr> sv_connections := cm, sv_triggers := sv_triggers s1 @ ?ts \<rparr>"
    using assms by (simp add: handle_message_def r a Let_def)
  have "ActiveConnection (cm_get cm p) = ActiveConnection (cm_get (sv_connections s1) p)"
    using addConnections_active [of ch "connections (sv_cache s1)" "ch_pairs ch n" m1 "sv_connections s1" p] a by simp
  with removeConnections_active [OF r, of p] show ?thesis by (auto simp: s' same_loop_def)
qed

end
