(* ===== verification/Service_Run.thy ===== *)
theory Service_Run
  imports Service_Inv
begin

text \<open>
  Every step of the service keeps the invariant. The host API is the locale \<open>host_api\<close>, extended by the files that
  connecting the devices shares with it; the connection pool of the host is an instance.
\<close>

locale service_host = host_api "se_discover E" "se_disconnect E" live inv
  for E :: "('e, 's, 'k) service_env" and live :: "'s \<Rightarrow> ConnectionID set" and inv :: "'s \<Rightarrow> bool" +
  assumes put_inv: "inv api \<Longrightarrow> inv (se_put E fs api) \<and> live (se_put E fs api) = live api"
begin

lemma Discover_inv: "inv api \<Longrightarrow> service_Discover E r api = Some (res, cid, api') \<Longrightarrow> inv api'"
  unfolding service_Discover_def using discover_inv by (auto split: option.splits sum.splits if_splits)

lemma getLogPageEntries_inv: "inv (sv_api s) \<Longrightarrow> service_getLogPageEntries E c t s = Some (r, s') \<Longrightarrow> inv (sv_api s')"
  using Discover_inv
  by (auto simp: service_getLogPageEntries_def Let_def on_heap_def set_active_def split: option.splits prod.splits sum.splits if_splits)

lemma getLiveConnection_inv: "inv (sv_api s) \<Longrightarrow> getLiveConnection E cs s = Some (r, s') \<Longrightarrow> inv (sv_api s')"
proof (induction cs arbitrary: s)
  case (Cons c cs)
  obtain r1 s1 where g: "service_getLogPageEntries E c persistent_kato s = Some (r1, s1)"
    using Cons.prems by (cases "service_getLogPageEntries E c persistent_kato s") auto
  have "inv (sv_api s1)" by (rule getLogPageEntries_inv [OF Cons.prems(1) g])
  then show ?case using Cons.prems(2) Cons.IH [of s1] g by (cases r1) auto
qed simp

text \<open>The loop of one pair: it never closes a connection twice, and disconnects what it closes if that is active.\<close>

lemma remove_conns_spec:
  assumes "svc_wf s" "inv (sv_api s)" "distinct (map fst l)"
    and "\<And>k a. (k, a) \<in> set l \<Longrightarrow> conn_at (sv_connections s) k = Some a \<and> pair_of_key k = p"
  shows "\<exists>m' s'. remove_conns E p act l m s = Some (m', s') \<and> svc_wf s' \<and> inv (sv_api s') \<and> removed s s' (fst ` set l)"
  using assms
proof (induction l arbitrary: act m s)
  case (Cons x l)
  obtain k a where x: "x = (k, a)" by (cases x)
  have ka: "conn_at (sv_connections s) k = Some a" "pair_of_key k = p" using Cons.prems(4) [of k a] x by auto
  note W = svc_wfD [OF Cons.prems(1)]
  have b: "a < length (sv_conns s)" "conn_Key (sv_conns s ! a) = k" using conn_at_bound [OF W(3) ka(1)] by auto
  have wc: "wf_cm (sv_conns s) (connections (sv_cache s))" using W(1) by (simp add: cache_inv_def)
  note ex = Exists_conn_at [OF wc b ka(2)]
  show ?case
  proof (cases "Exists (cm_get (connections (sv_cache s)) p) a")
    case True
    obtain m' s' where r: "remove_conns E p act l m s = Some (m', s')" "svc_wf s'" "inv (sv_api s')" "removed s s' (fst ` set l)"
      using Cons.IH [OF Cons.prems(1,2), of act m] Cons.prems(3,4) by auto
    moreover have "conn_at (connections (sv_cache s)) k = conn_at (sv_connections s) k" using True ex ka by simp
    ultimately have "removed s s' (fst ` set (x # l))" by (auto simp: removed_def x)
    with r True show ?thesis by (simp add: x)
  next
    case False
    let ?cid = "conn_ConnectionID (sv_conns s ! a)"
    obtain ok api where d: "(if act = Some a then se_disconnect E ?cid (sv_api s) else Some (True, sv_api s)) = Some (ok, api)" "inv api"
      using disconnect_closes [OF Cons.prems(2), of ?cid] Cons.prems(2) by (cases "act = Some a") auto
    obtain h where h: "Connection_Stop a (heap (sv_cache s)) = Some h" "m_EntriesTotal h = m_EntriesTotal (heap (sv_cache s))"
      "conns h = (sv_conns s)[a := (sv_conns s ! a)\<lparr> conn_done := True, conn_closed := True \<rparr>]"
      using Connection_Stop_open [OF b(1) open_connsD [OF W(4) ka(1)]] by auto
    let ?s = "s\<lparr> sv_api := api, sv_connections := DeleteConnection p k (sv_connections s), sv_cache := (sv_cache s)\<lparr> heap := h \<rparr> \<rparr>"
    let ?act = "if act = Some a then None else act" and ?m = "AList.update p True m"
    have nc: "conn_at (connections (sv_cache s)) k \<noteq> Some a" using False ex by simp
    have w: "svc_wf ?s" by (rule close_wf [OF Cons.prems(1) ka(1) nc ka(2) h(2,3)])
    have at: "conn_at (sv_connections ?s) = (conn_at (sv_connections s))(k := None)"
      using conn_at_DeleteConnection [OF ka(2)] by simp
    have rm: "removed s ?s {k}" using nc ka(1) unfolding removed_def at by auto
    have "\<exists>m' s'. remove_conns E p ?act l ?m ?s = Some (m', s') \<and> svc_wf s' \<and> inv (sv_api s') \<and> removed ?s s' (fst ` set l)"
    proof (rule Cons.IH [OF w])
      show "inv (sv_api ?s)" using d(2) by simp
      show "distinct (map fst l)" using Cons.prems(3) by simp
      fix k' a' assume m: "(k', a') \<in> set l"
      then have "k' \<noteq> k" using Cons.prems(3) x by force
      with Cons.prems(4) [of k' a'] m show "conn_at (sv_connections ?s) k' = Some a' \<and> pair_of_key k' = p" unfolding at by simp
    qed
    then obtain m' s' where r: "remove_conns E p ?act l ?m ?s = Some (m', s')" "svc_wf s'" "inv (sv_api s')" "removed ?s s' (fst ` set l)"
      by blast
    have "removed s s' (fst ` set (x # l))" using removed_trans [OF rm r(4)] by (simp add: x)
    moreover have "remove_conns E p act (x # l) m s = Some (m', s')" using False d(1) h(1) r(1) by (simp add: x)
    ultimately show ?thesis using r(2,3) by blast
  qed
qed (simp add: removed_empty)

lemma removeConnections_spec:
  assumes "svc_wf s" "inv (sv_api s)" "go_order (ch_conns ch)"
  shows "\<exists>m' s'. removeConnections E ch ps m s = Some (m', s') \<and> svc_wf s' \<and> inv (sv_api s') \<and> removed s s' {k. pair_of_key k \<in> set ps}"
  using assms(1,2)
proof (induction ps arbitrary: m s)
  case (Cons p ps)
  have keys: "{k. pair_of_key k \<in> set (p # ps)} = {k. pair_of_key k = p} \<union> {k. pair_of_key k \<in> set ps}" by auto
  note W = svc_wfD(3) [OF Cons.prems(1)]
  show ?case
  proof (cases "map_of (sv_connections s) p")
    case None
    then have "conn_at (sv_connections s) k = None" if "pair_of_key k = p" for k using that by (simp add: conn_at_def cm_get_def)
    then have rm: "removed s s {k. pair_of_key k = p}" by (simp add: removed_def)
    obtain m' s' where r: "removeConnections E ch ps (note_pair p m) s = Some (m', s')" "svc_wf s'" "inv (sv_api s')"
      "removed s s' {k. pair_of_key k \<in> set ps}" using Cons.IH [OF Cons.prems, of "note_pair p m"] by blast
    have "removed s s' {k. pair_of_key k \<in> set (p # ps)}" unfolding keys by (rule removed_trans [OF rm r(4)])
    moreover have "removeConnections E ch (p # ps) m s = Some (m', s')" using None r(1) by simp
    ultimately show ?thesis using r(2,3) by blast
  next
    case (Some cc)
    then have cc: "cm_get (sv_connections s) p = cc" by (simp add: cm_get_def)
    let ?l = "ch_conns ch (ClusterConnectionsMap cc)"
    have l: "(k, a) \<in> set ?l \<longleftrightarrow> conn_at (sv_connections s) k = Some a \<and> pair_of_key k = p" for k a
      using map_entries [OF W assms(3), of k a p] cc by simp
    have d: "distinct (map fst ?l)" using wf_cmD(1) [OF W, of p] cc assms(3) by (simp add: go_order_distinct_fst)
    have "\<exists>m1 s1. remove_conns E p (ActiveConnection cc) ?l m s = Some (m1, s1) \<and> svc_wf s1 \<and> inv (sv_api s1) \<and>
        removed s s1 (fst ` set ?l)"
      by (rule remove_conns_spec [OF Cons.prems d]) (simp only: l)
    then obtain m1 s1 where r: "remove_conns E p (ActiveConnection cc) ?l m s = Some (m1, s1)" "svc_wf s1" "inv (sv_api s1)"
      "removed s s1 (fst ` set ?l)" by blast
    have none: "conn_at (sv_connections s) k = None" if "k \<in> {k. pair_of_key k = p} - fst ` set ?l" for k
    proof (rule ccontr)
      assume "conn_at (sv_connections s) k \<noteq> None"
      then obtain a where "conn_at (sv_connections s) k = Some a" by (cases "conn_at (sv_connections s) k") simp_all
      then have "(k, a) \<in> set ?l" unfolding l using that by simp
      then have "fst (k, a) \<in> fst ` set ?l" by (rule imageI)
      with that show False by simp
    qed
    have sub: "fst ` set ?l \<subseteq> {k. pair_of_key k = p}" using l by force
    have rm: "removed s s1 {k. pair_of_key k = p}" by (rule removed_mono [OF r(4) sub none])
    obtain m' s' where r': "removeConnections E ch ps m1 s1 = Some (m', s')" "svc_wf s'" "inv (sv_api s')"
      "removed s1 s' {k. pair_of_key k \<in> set ps}" using Cons.IH [OF r(2,3), of m1] by blast
    have "removed s s' {k. pair_of_key k \<in> set (p # ps)}" unfolding keys by (rule removed_trans [OF rm r'(4)])
    moreover have "removeConnections E ch (p # ps) m s = Some (m', s')" using Some r(1) r'(1) by simp
    ultimately show ?thesis using r'(2,3) by blast
  qed
qed (simp add: removed_empty)

text \<open>A notification brings the service in line with the cache for the pairs it names, and never panics.\<close>

lemma handle_message_spec:
  assumes "svc_wf s" "inv (sv_api s)" "fair ch"
  shows "\<exists>s'. handle_message E ch n s = Some s' \<and> svc_wf s' \<and> inv (sv_api s') \<and>
    connections (sv_cache s') = connections (sv_cache s) \<and> pending (sv_cache s') = pending (sv_cache s) \<and>
    (\<forall>k. conn_at (sv_connections s') k =
       (if pair_of_key k \<in> set n then conn_at (connections (sv_cache s)) k else conn_at (sv_connections s) k))"
proof -
  have n: "set (ch_pairs ch n) = set n" using fairD(2) [OF assms(3)] by simp
  obtain m1 s1 where r: "removeConnections E ch (ch_pairs ch n) [] s = Some (m1, s1)" "svc_wf s1" "inv (sv_api s1)"
    "removed s s1 {k. pair_of_key k \<in> set n}"
    using removeConnections_spec [OF assms(1,2) fairD(3) [OF assms(3)], of "ch_pairs ch n" "[]"] n by auto
  note W = svc_wfD [OF r(2)]
  have wc: "wf_cm (sv_conns s1) (connections (sv_cache s1))" using W(1) by (simp add: cache_inv_def)
  obtain m2 cm where a: "addConnections ch (connections (sv_cache s1)) (ch_pairs ch n) m1 (sv_connections s1) = (m2, cm)"
    by (cases "addConnections ch (connections (sv_cache s1)) (ch_pairs ch n) m1 (sv_connections s1)")
  have cm: "wf_cm (sv_conns s1) cm" "conn_at cm k = (if pair_of_key k \<in> set n \<and> conn_at (connections (sv_cache s1)) k \<noteq> None
      then conn_at (connections (sv_cache s1)) k else conn_at (sv_connections s1) k)" for k
    using addConnections_spec [OF W(3) wc fairD(3) [OF assms(3)], of "ch_pairs ch n" m1] a n by simp_all
  obtain ts where h: "handle_message E ch n s = Some (s1\<lparr> sv_connections := cm, sv_triggers := ts \<rparr>)"
    by (simp add: handle_message_def r(1) a Let_def)
  have "open_conns cm (sv_conns s1)"
    by (rule open_connsI) (use open_connsD [OF W(4)] open_connsD [OF W(5)] cm(2) in \<open>auto split: if_splits\<close>)
  then have "svc_wf (s1\<lparr> sv_connections := cm, sv_triggers := ts \<rparr>)" using r(2) cm(1) by (simp add: svc_wf_def)
  moreover have "conn_at cm k = (if pair_of_key k \<in> set n then conn_at (connections (sv_cache s)) k else conn_at (sv_connections s) k)" for k
    using r(4) cm(2) [of k] by (auto simp: removed_def split: if_splits)
  ultimately show ?thesis using h r(3,4) by (simp add: removed_def)
qed

lemma handle_trigger_inv:
  assumes "svc_wf s" "inv (sv_api s)" "synced s" "fair ch" "handle_trigger E ch p s = Some s'"
  shows "svc_wf s' \<and> inv (sv_api s') \<and> synced s'"
proof -
  let ?s0 = "s\<lparr> sv_stopCh := None \<rparr>"
  have s0: "svc_wf ?s0" "synced ?s0" "inv (sv_api ?s0)" 
    using quiet_wf [OF quiet_fields(4) assms(1)] quiet_synced [OF quiet_fields(4) assms(3)] assms(2) by simp_all
  obtain err s1 where r: "reconnectToCluster E ch p ?s0 = Some (err, s1)"
    using assms(5) by (cases "reconnectToCluster E ch p ?s0") (auto simp: handle_trigger_def)
  have s1: "svc_wf s1 \<and> inv (sv_api s1) \<and> synced s1"
  proof (cases "ClusterConnectionsMap (cm_get (sv_connections s) p) = []")
    case True
    then have "s1 = ?s0" using r by (auto simp: reconnectToCluster_def cm_get_def split: option.splits)
    with s0 show ?thesis by simp
  next
    case False
    let ?cs = "GetRandomConnectionList (ch_shuffle ch) (cm_get (sv_connections s) p)"
    have rec: "reconnectToCluster E ch p ?s0 = (case getLiveConnection E ?cs ?s0 of
        None \<Rightarrow> None | Some (None, s') \<Rightarrow> Some (True, s')
      | Some (Some conn, s') \<Rightarrow> map_option (\<lambda>s''. (False, s''))
          (push_aen ch conn \<lparr> aen_AenChange = True, aen_ServerChange = None \<rparr> (multiplexNewConnection conn s')))"
      using False by (auto simp: reconnectToCluster_def cm_get_def split: option.splits)
    then obtain lc s2 where g: "getLiveConnection E ?cs ?s0 = Some (lc, s2)"
      using r by (cases "getLiveConnection E ?cs ?s0") auto
    have q: "quiet ?s0 s2" by (rule quiet_getLiveConnection [OF g])
    have s2: "svc_wf s2" "synced s2" "inv (sv_api s2)"
      using quiet_wf [OF q s0(1)] quiet_synced [OF q s0(2)] getLiveConnection_inv [OF s0(3) g] by auto
    show ?thesis
    proof (cases lc)
      case None
      with r rec g s2 show ?thesis by simp
    next
      case (Some conn)
      have "conn \<in> set ?cs" using g Some by (auto intro: getLiveConnection_mem)
      then have "conn < length (sv_conns s)"
        using wf_cmD(2) [OF svc_wfD(3) [OF assms(1)], of _ conn p] fairD(1) [OF assms(4)] by (auto simp: GetRandomConnectionList_def)
      then have c: "conn < length (sv_conns s2)" using quiet_length [OF q] by simp
      have m: "svc_wf (multiplexNewConnection conn s2)" "synced (multiplexNewConnection conn s2)"
        "sv_api (multiplexNewConnection conn s2) = sv_api s2"
        using multiplex_wf [OF s2(1) c] s2(2) by simp_all
      from r rec g Some have "push_aen ch conn \<lparr> aen_AenChange = True, aen_ServerChange = None \<rparr> (multiplexNewConnection conn s2) = Some s1"
        by auto
      from push_aen_wf [OF m(1) this] m(2,3) s2(3) show ?thesis by simp
    qed
  qed
  have "quiet s1 s'" using assms(5) r by (cases err) (auto simp: handle_trigger_def quiet_refl split: if_splits)
  moreover have "sv_api s' = sv_api s1" using assms(5) r by (cases err) (auto simp: handle_trigger_def split: if_splits)
  ultimately show ?thesis using s1 quiet_wf quiet_synced by metis
qed

lemma handle_aen_inv:
  assumes "svc_wf s" "inv (sv_api s)" "synced s" "fair ch" "fst a < length (sv_conns s)" "handle_aen E ch a s = Some s'"
  shows "svc_wf s' \<and> inv (sv_api s') \<and> synced s'"
proof (cases "aen_ServerChange (snd a) = None")
  case False
  then have "quiet s s'" "sv_api s' = sv_api s" using assms(6) by (auto simp: handle_aen_def Let_def split: prod.splits)
  then show ?thesis using assms(1-3) quiet_wf quiet_synced by metis
next
  case True
  let ?c = "sv_conns s ! fst a"
  obtain r s1 where g: "service_getLogPageEntries E (fst a) 0 s = Some (r, s1)"
    using assms(6) True by (cases "service_getLogPageEntries E (fst a) 0 s") (auto simp: handle_aen_def Let_def split: prod.splits)
  have q: "quiet s s1" by (rule quiet_getLogPageEntries [OF g])
  have i: "inv (sv_api s1)" by (rule getLogPageEntries_inv [OF assms(2) g])
  show ?thesis
  proof (cases r)
    case (Inl e)
    let ?s2 = "on_heap (SetState (fst a) False) s1"
    have s': "s' = ?s2\<lparr> sv_triggers := sv_triggers ?s2 @ [pair_of_conn ?c] \<rparr>"
      using assms(6) True g Inl by (simp add: handle_aen_def Let_def case_prod_beta)
    have "quiet s s'" unfolding s' by (rule quiet_trans [OF q quiet_trans [OF quiet_SetState quiet_fields(3)]])
    moreover have "sv_api s' = sv_api s1" by (simp add: s' on_heap_def)
    ultimately show ?thesis using assms(1,3) i quiet_wf quiet_synced by metis
  next
    case (Inr x)
    obtain es ds req where x: "x = (es, ds, req)" by (cases x)
    let ?s2 = "connect_entries E ?c es req s1"
    let ?refs = "refMap_of ?c ds"
    have s': "s' = ?s2\<lparr> sv_cache := fst (HandleReferrals (ch_cache ch) (ch_refs1 ch) (ch_refs2 ch) ?refs (sv_cache ?s2)) \<rparr>"
      using assms(6) True g Inr x by (simp add: handle_aen_def Let_def case_prod_beta)
    have q2: "quiet s ?s2" by (rule quiet_trans [OF q quiet_connect_entries])
    have w2: "svc_wf ?s2" "synced ?s2" using quiet_wf [OF q2 assms(1)] quiet_synced [OF q2 assms(3)] by auto
    have i2: "inv (sv_api ?s2)" using put_inv [OF i] by (simp add: connect_entries_def split: prod.splits)
    have "referrals_of_pair (pair_of_conn ?c) ?refs"
    proof (rule refMap_of_pair)
      show "tk_Nqn (conn_Key ?c) \<noteq> []" using svc_wfD(2) [OF assms(1)] assms(5) by (simp add: conns_ok_def list_all_length)
      show "ds \<noteq> []" using g Inr x by (auto simp: service_getLogPageEntries_def Let_def split: option.splits prod.splits sum.splits)
    qed
    from evolves_svc [OF w2 HandleReferrals_evolves [OF svc_wfD(1) [OF w2(1)] this fairD(4,5) [OF assms(4)]]] i2
    show ?thesis unfolding s' by simp
  qed
qed

lemma step_inv:
  assumes "service_step E s s'" "svc_wf s" "inv (sv_api s)" "synced s"
  shows "svc_wf s' \<and> inv (sv_api s') \<and> synced s'"
  using assms
proof (cases rule: service_step.cases)
  case (step_watch ch event)
  show ?thesis using evolves_svc [OF assms(2,4) handleEvent_evolves [OF svc_wfD(1) [OF assms(2)] step_watch(2)]] assms(3) step_watch(1) by simp
next
  case (step_message ch ms1 m ms2)
  let ?s = "s\<lparr> sv_cache := (sv_cache s)\<lparr> pending := ms1 @ ms2 \<rparr> \<rparr>"
  have w: "svc_wf ?s" using assms(2) by (simp add: svc_wf_def cache_inv_def cache_keys_def)
  obtain t where t: "handle_message E ch m ?s = Some t" "svc_wf t" "inv (sv_api t)" "connections (sv_cache t) = connections (sv_cache ?s)"
    "pending (sv_cache t) = pending (sv_cache ?s)"
    "\<And>k. conn_at (sv_connections t) k = (if pair_of_key k \<in> set m then conn_at (connections (sv_cache ?s)) k else conn_at (sv_connections ?s) k)"
    using handle_message_spec [OF w _ step_message(1), of m] assms(3) by auto
  have "synced t"
    unfolding synced_def
  proof
    fix k
    show "conn_at (sv_connections t) k = conn_at (connections (sv_cache t)) k \<or> (\<exists>n \<in> set (pending (sv_cache t)). pair_of_key k \<in> set n)"
      using assms(4) [unfolded synced_def, rule_format, of k] t(4,5) t(6) [of k] step_message(2)
      by (cases "pair_of_key k \<in> set m") auto
  qed
  with t step_message(3) show ?thesis by simp
next
  case (step_trigger ch ts1 p ts2)
  have q: "quiet s (s\<lparr> sv_triggers := ts1 @ ts2 \<rparr>)" by simp
  from handle_trigger_inv [OF quiet_wf [OF q assms(2)] _ quiet_synced [OF q assms(4)] step_trigger(1,3)] assms(3)
  show ?thesis by simp
next
  case (step_aen ch a as)
  let ?s = "s\<lparr> sv_aggregate := as \<rparr>"
  have "svc_wf ?s" "synced ?s" "fst a < length (sv_conns ?s)" using assms(2,4) step_aen(2) by (auto simp: svc_wf_def synced_def)
  from handle_aen_inv [OF this(1) _ this(2) step_aen(1) this(3) step_aen(3)] assms(3) show ?thesis by simp
next
  case (step_mux_event i conn event)
  then show ?thesis using mux_take_wf [OF assms(2), of i event] assms(3,4) by (simp add: waits_def)
next
  case (step_mux_send i conn aen)
  then show ?thesis using mux_send_wf [OF assms(2), of i conn aen] assms(3,4) by simp
next
  case (step_mux_done i conn)
  have "svc_wf s' \<and> synced s' = synced s"
    unfolding step_mux_done(1) by (rule mux_remove_wf [OF assms(2)])
  then show ?thesis using assms(3,4) step_mux_done(1) by simp
next
  case (step_mux_closed i conn)
  let ?s = "s\<lparr> sv_muxes := remove_nth i (sv_muxes s) \<rparr>"
  have "svc_wf ?s \<and> synced ?s = synced s"
    by (rule mux_remove_wf [OF assms(2)])
  then show ?thesis unfolding step_mux_closed(1)
    using quiet_wf [OF quiet_SetState, of ?s] quiet_synced [OF quiet_SetState, of ?s] assms(3,4) by (simp add: on_heap_def)
next
  case (step_timer_start ts1 p ts2)
  then show ?thesis using quiet_wf [OF quiet_fields(5) assms(2)] quiet_synced [OF quiet_fields(5) assms(4)] assms(3) by simp
next
  case (step_timer_fire ts1 p n ts2)
  then show ?thesis using quiet_wf [OF quiet_fields(7) assms(2)] quiet_synced [OF quiet_fields(7) assms(4)] assms(3) by simp
next
  case (step_timer_stop ts1 t ts2)
  then show ?thesis using quiet_wf [OF quiet_fields(5) assms(2)] quiet_synced [OF quiet_fields(5) assms(4)] assms(3) by simp
qed

text \<open>If every discovery returns, so does every case of the main loop.\<close>

lemma getLogPageEntries_returns:
  assumes "\<And>r api. inv api \<Longrightarrow> se_discover E r api \<noteq> None" "inv (sv_api s)"
  shows "\<exists>r s'. service_getLogPageEntries E c t s = Some (r, s')"
proof -
  obtain res cid api where "se_discover E (GetDiscoveryRequest c (sv_conns s ! c) t) (sv_api s) = Some (res, cid, api)"
    using assms(1) [OF assms(2), of "GetDiscoveryRequest c (sv_conns s ! c) t"] by auto
  then show ?thesis by (auto simp: service_getLogPageEntries_def service_Discover_def Let_def split: sum.splits)
qed

lemma getLiveConnection_returns:
  assumes "\<And>r api. inv api \<Longrightarrow> se_discover E r api \<noteq> None" "inv (sv_api s)"
  shows "\<exists>c s'. getLiveConnection E cs s = Some (c, s')"
  using assms(2)
proof (induction cs arbitrary: s)
  case (Cons c cs)
  obtain r s1 where g: "service_getLogPageEntries E c persistent_kato s = Some (r, s1)"
    using getLogPageEntries_returns [OF assms(1) Cons.prems] by blast
  show ?case using Cons.IH [OF getLogPageEntries_inv [OF Cons.prems g]] g by (cases r) auto
qed simp

lemma handle_trigger_returns:
  assumes "\<And>r api. inv api \<Longrightarrow> se_discover E r api \<noteq> None" "svc_wf s" "inv (sv_api s)" "fair ch" "0 < sv_reconnectInterval s"
  shows "handle_trigger E ch p s \<noteq> None"
proof -
  let ?s0 = "s\<lparr> sv_stopCh := None \<rparr>" and ?cs = "GetRandomConnectionList (ch_shuffle ch) (cm_get (sv_connections s) p)"
  obtain lc s2 where g: "getLiveConnection E ?cs ?s0 = Some (lc, s2)"
    using getLiveConnection_returns [OF assms(1), of ?s0 ?cs] assms(3) by auto
  have q: "quiet ?s0 s2" by (rule quiet_getLiveConnection [OF g])
  have "push_aen ch conn aen (multiplexNewConnection conn s2) \<noteq> None" if "lc = Some conn" for conn aen
  proof -
    have "conn \<in> set ?cs" using g that by (auto intro: getLiveConnection_mem)
    then obtain k where "(k, conn) \<in> set (id (ClusterConnectionsMap (cm_get (sv_connections s) p)))"
      using fairD(1) [OF assms(4)] by (auto simp: GetRandomConnectionList_def)
    then have k: "conn_at (sv_connections s) k = Some conn"
      using map_entries [OF svc_wfD(3) [OF assms(2)] go_order_id(1)] by blast
    have "conn < length (sv_conns s)" using conn_at_bound [OF svc_wfD(3) [OF assms(2)] k] by simp
    then have "conn_closed (sv_conns s2 ! conn) = conn_closed (sv_conns s ! conn)"
      using q by (auto simp: quiet_def harmless_def)
    then show ?thesis using open_connsD [OF svc_wfD(4) [OF assms(2)] k]
      by (simp add: push_aen_def multiplexNewConnection_def split: option.splits)
  qed
  then have "reconnectToCluster E ch p ?s0 \<noteq> None"
    using g by (auto simp: reconnectToCluster_def cm_get_def split: option.splits)
  then obtain err s1 where r: "reconnectToCluster E ch p ?s0 = Some (err, s1)" by auto
  have "sv_reconnectInterval s1 = sv_reconnectInterval s" using same_loop_reconnect [OF r] by (simp add: same_loop_def)
  with r assms(5) show ?thesis by (cases err) (simp_all add: handle_trigger_def)
qed

lemma handle_aen_returns:
  assumes "\<And>r api. inv api \<Longrightarrow> se_discover E r api \<noteq> None" "inv (sv_api s)"
  shows "handle_aen E ch a s \<noteq> None"
proof -
  obtain r s1 where g: "service_getLogPageEntries E (fst a) 0 s = Some (r, s1)"
    using getLogPageEntries_returns [OF assms] by blast
  then show ?thesis by (cases a; cases r) (auto simp: handle_aen_def Let_def split: prod.splits)
qed

text \<open>Stopping: the connections of a list are closed and disconnected, and nothing else happens to the connections.\<close>

lemma stop_conns_spec:
  assumes "wf_cm (sv_conns s) (sv_connections s)" "open_conns (sv_connections s) (sv_conns s)" "inv (sv_api s)" "distinct (map fst l)"
    and "\<And>k a. (k, a) \<in> set l \<Longrightarrow> conn_at (sv_connections s) k = Some a \<and> pair_of_key k = p"
  shows "\<exists>s'. stop_conns E p l s = Some s' \<and> halted live s s' (snd ` set l) \<and> inv (sv_api s') \<and>
    wf_cm (sv_conns s') (sv_connections s') \<and> open_conns (sv_connections s') (sv_conns s') \<and>
    (\<forall>k. conn_at (sv_connections s') k = (if k \<in> fst ` set l then None else conn_at (sv_connections s) k))"
  using assms
proof (induction l arbitrary: s)
  case (Cons x l)
  obtain k a where x: "x = (k, a)" by (cases x)
  have ka: "conn_at (sv_connections s) k = Some a" "pair_of_key k = p" using Cons.prems(5) [of k a] x by auto
  have b: "a < length (sv_conns s)" "conn_Key (sv_conns s ! a) = k" using conn_at_bound [OF Cons.prems(1) ka(1)] by auto
  let ?cid = "conn_ConnectionID (sv_conns s ! a)"
  obtain ok api where d: "se_disconnect E ?cid (sv_api s) = Some (ok, api)" "inv api" "live api = live (sv_api s) - {?cid}"
    using disconnect_closes [OF Cons.prems(3), of ?cid] by auto
  obtain h where h: "Connection_Stop a (heap (sv_cache s)) = Some h"
    "conns h = (sv_conns s)[a := (sv_conns s ! a)\<lparr> conn_done := True, conn_closed := True \<rparr>]"
    using Connection_Stop_open [OF b(1) open_connsD [OF Cons.prems(2) ka(1)]] by auto
  let ?s = "s\<lparr> sv_api := api, sv_connections := DeleteConnection p k (sv_connections s), sv_cache := (sv_cache s)\<lparr> heap := h \<rparr> \<rparr>"
  have t: "sv_connections ?s = DeleteConnection p k (sv_connections s)" "sv_conns ?s = conns h" "sv_api ?s = api" by simp_all
  have at: "conn_at (sv_connections ?s) = (conn_at (sv_connections s))(k := None)"
    unfolding t by (rule conn_at_DeleteConnection [OF ka(2)])
  have hl: "halted live s ?s {a}" unfolding halted_def t using b(1) d(3) by (auto simp: h(2) nth_list_update)
  have wf: "wf_cm (sv_conns ?s) (sv_connections ?s)"
    unfolding t by (rule wf_cm_heap [OF wf_cm_DeleteConnection [OF Cons.prems(1)]]) (use b(1) in \<open>simp_all add: h(2) nth_list_update\<close>)
  have op: "open_conns (sv_connections ?s) (sv_conns ?s)"
  proof (rule open_connsI)
    fix k' c assume c: "conn_at (sv_connections ?s) k' = Some c"
    then have c': "k' \<noteq> k" "conn_at (sv_connections s) k' = Some c" unfolding at by (simp_all split: if_splits)
    then have "c \<noteq> a" using conn_at_bound [OF Cons.prems(1) c'(2)] b(2) by blast
    then show "\<not> conn_closed (sv_conns ?s ! c)" using open_connsD [OF Cons.prems(2) c'(2)] by (simp add: h(2))
  qed
  have "\<exists>s'. stop_conns E p l ?s = Some s' \<and> halted live ?s s' (snd ` set l) \<and> inv (sv_api s') \<and>
    wf_cm (sv_conns s') (sv_connections s') \<and> open_conns (sv_connections s') (sv_conns s') \<and>
    (\<forall>k. conn_at (sv_connections s') k = (if k \<in> fst ` set l then None else conn_at (sv_connections ?s) k))"
  proof (rule Cons.IH [OF wf op])
    show "inv (sv_api ?s)" using d(2) by simp
    show "distinct (map fst l)" using Cons.prems(4) by simp
    fix k' a' assume m: "(k', a') \<in> set l"
    then have "k' \<noteq> k" using Cons.prems(4) x by force
    with Cons.prems(5) [of k' a'] m show "conn_at (sv_connections ?s) k' = Some a' \<and> pair_of_key k' = p" unfolding at by simp
  qed
  then obtain s' where r: "stop_conns E p l ?s = Some s'" "halted live ?s s' (snd ` set l)" "inv (sv_api s')"
    "wf_cm (sv_conns s') (sv_connections s')" "open_conns (sv_connections s') (sv_conns s')"
    "\<forall>k. conn_at (sv_connections s') k = (if k \<in> fst ` set l then None else conn_at (sv_connections ?s) k)" by blast
  have "stop_conns E p (x # l) s = Some s'" using d(1) h(1) r(1) by (simp add: x)
  moreover have "halted live s s' (snd ` set (x # l))" using halted_trans [OF hl r(2)] by (simp add: x)
  moreover have "\<forall>k'. conn_at (sv_connections s') k' = (if k' \<in> fst ` set (x # l) then None else conn_at (sv_connections s) k')"
    unfolding r(6) [rule_format] at by (simp add: x)
  ultimately show ?case using r(3-5) by blast
qed (simp add: halted_refl)

lemma stop_pairs_spec:
  assumes "wf_cm (sv_conns s) (sv_connections s)" "open_conns (sv_connections s) (sv_conns s)" "inv (sv_api s)" "go_order (ch_conns ch)"
  shows "\<exists>s'. stop_pairs E ch ps s = Some s' \<and> inv (sv_api s') \<and>
    halted live s s' {a. \<exists>k. conn_at (sv_connections s) k = Some a \<and> pair_of_key k \<in> set ps} \<and>
    (\<forall>k. conn_at (sv_connections s') k = (if pair_of_key k \<in> set ps then None else conn_at (sv_connections s) k))"
  using assms(1-3)
proof (induction ps arbitrary: s)
  case (Cons p ps)
  let ?l = "ch_conns ch (ClusterConnectionsMap (cm_get (sv_connections s) p))"
  have l: "(k, a) \<in> set ?l \<longleftrightarrow> conn_at (sv_connections s) k = Some a \<and> pair_of_key k = p" for k a
    by (rule map_entries [OF Cons.prems(1) assms(4)])
  have d: "distinct (map fst ?l)" using wf_cmD(1) [OF Cons.prems(1), of p] assms(4) by (simp add: go_order_distinct_fst)
  have "\<exists>s'. stop_conns E p ?l s = Some s' \<and> halted live s s' (snd ` set ?l) \<and> inv (sv_api s') \<and>
    wf_cm (sv_conns s') (sv_connections s') \<and> open_conns (sv_connections s') (sv_conns s') \<and>
    (\<forall>k. conn_at (sv_connections s') k = (if k \<in> fst ` set ?l then None else conn_at (sv_connections s) k))"
    by (rule stop_conns_spec [OF Cons.prems d]) (simp only: l)
  then obtain s1 where r: "stop_conns E p ?l s = Some s1" "halted live s s1 (snd ` set ?l)" "inv (sv_api s1)"
    "wf_cm (sv_conns s1) (sv_connections s1)" "open_conns (sv_connections s1) (sv_conns s1)"
    "\<And>k. conn_at (sv_connections s1) k = (if k \<in> fst ` set ?l then None else conn_at (sv_connections s) k)" by blast
  have K: "k \<in> fst ` set ?l \<longleftrightarrow> pair_of_key k = p \<and> conn_at (sv_connections s) k \<noteq> None" for k
    unfolding image_iff using l by (metis fst_conv not_Some_eq prod.collapse)
  have at: "conn_at (sv_connections s1) k = (if pair_of_key k = p then None else conn_at (sv_connections s) k)" for k
    using r(6) [of k] K [of k] by auto
  obtain s2 where r2: "stop_pairs E ch ps s1 = Some s2" "inv (sv_api s2)"
    "halted live s1 s2 {a. \<exists>k. conn_at (sv_connections s1) k = Some a \<and> pair_of_key k \<in> set ps}"
    "\<And>k. conn_at (sv_connections s2) k = (if pair_of_key k \<in> set ps then None else conn_at (sv_connections s1) k)"
    using Cons.IH [OF r(4,5,3)] by blast
  have snd: "snd ` set ?l = {a. \<exists>k. conn_at (sv_connections s) k = Some a \<and> pair_of_key k = p}"
    using l by force
  have "snd ` set ?l \<union> {a. \<exists>k. conn_at (sv_connections s1) k = Some a \<and> pair_of_key k \<in> set ps} =
      {a. \<exists>k. conn_at (sv_connections s) k = Some a \<and> pair_of_key k \<in> set (p # ps)}"
    unfolding snd at by (auto split: if_splits)
  then have "halted live s s2 {a. \<exists>k. conn_at (sv_connections s) k = Some a \<and> pair_of_key k \<in> set (p # ps)}"
    using halted_trans [OF r(2) r2(3)] by (simp only:)
  moreover have "\<forall>k. conn_at (sv_connections s2) k = (if pair_of_key k \<in> set (p # ps) then None else conn_at (sv_connections s) k)"
    using r2(4) at by simp
  moreover have "stop_pairs E ch (p # ps) s = Some s2" using r(1) r2(1) by simp
  ultimately show ?case using r2(2) by blast
qed (simp add: halted_refl)

lemma run_inv: "service_run E api0 s \<Longrightarrow> inv api0 \<Longrightarrow> svc_wf s \<and> inv (sv_api s) \<and> synced s"
proof (induction rule: service_run.induct)
  case (run_start ch c u i a hosts json readDir k cfg s)
  then show ?case using start_inv [OF run_start(1-4)] by simp
next
  case (run_step s s')
  then show ?case using step_inv by blast
qed

lemma Stop_spec:
  assumes "svc_wf s" "inv (sv_api s)" "fair ch" "\<not> sv_aggClosed s"
  shows "\<exists>s'. service_Stop E ch s = Some s' \<and> sv_done s' \<and> sv_aggClosed s' \<and> cache_stopped (sv_cache s') \<and>
    (\<forall>k. conn_at (sv_connections s') k = None) \<and>
    (\<forall>k a. conn_at (sv_connections s) k = Some a \<longrightarrow> conn_done (sv_conns s' ! a) \<and> conn_closed (sv_conns s' ! a) \<and>
       conn_ConnectionID (sv_conns s ! a) \<notin> live (sv_api s'))"
proof -
  let ?s = "s\<lparr> sv_done := True \<rparr>" and ?ps = "ch_pairs ch (map fst (sv_connections s))"
  note W = svc_wfD [OF assms(1)]
  have "\<exists>s'. stop_pairs E ch ?ps ?s = Some s' \<and> inv (sv_api s') \<and>
    halted live ?s s' {a. \<exists>k. conn_at (sv_connections ?s) k = Some a \<and> pair_of_key k \<in> set ?ps} \<and>
    (\<forall>k. conn_at (sv_connections s') k = (if pair_of_key k \<in> set ?ps then None else conn_at (sv_connections ?s) k))"
    by (rule stop_pairs_spec) (use W(3,4) assms(2) fairD(3) [OF assms(3)] in simp_all)
  then obtain s1 where r: "stop_pairs E ch ?ps ?s = Some s1"
    "halted live ?s s1 {a. \<exists>k. conn_at (sv_connections s) k = Some a \<and> pair_of_key k \<in> set ?ps}"
    "\<And>k. conn_at (sv_connections s1) k = (if pair_of_key k \<in> set ?ps then None else conn_at (sv_connections s) k)" by auto
  have dom: "pair_of_key k \<in> set ?ps" if "conn_at (sv_connections s) k = Some a" for k a
    using that fairD(2) [OF assms(3)] by (auto simp: conn_at_def cm_get_def dest: map_of_SomeD split: option.splits intro: rev_image_eqI)
  have none: "conn_at (sv_connections s1) k = None" for k using r(3) [of k] dom [of k] by (cases "conn_at (sv_connections s) k") auto
  have cl: "conn_done (sv_conns s1 ! a) \<and> conn_closed (sv_conns s1 ! a) \<and> conn_ConnectionID (sv_conns s ! a) \<notin> live (sv_api s1)"
    if "conn_at (sv_connections s) k = Some a" for k a
  proof -
    have "a \<in> {a. \<exists>k. conn_at (sv_connections s) k = Some a \<and> pair_of_key k \<in> set ?ps}" using that dom [OF that] by blast
    then show ?thesis using r(2) unfolding halted_def by simp
  qed
  have f: "sv_aggClosed s1 = sv_aggClosed s" "sv_done s1" using stop_pairs_frame [OF r(1)] by simp_all
  show ?thesis using r(1) f assms(4) none cl by (simp add: service_Stop_def Cache_Stop_def)
qed

end

section \<open>The connection pool as the host API\<close>

definition pool_env ::
    "'t client_env \<Rightarrow> ((ConnectionID, 't connInfo) gomap \<Rightarrow> (ConnectionID, 't connInfo) gomap) \<Rightarrow> 'k kernel \<Rightarrow> nvme_env \<Rightarrow>
       (discover_error, files \<times> 't hostApiImp, 'k) service_env" where
  "pool_env env ord K ne = \<lparr> se_discover = hostApi_Discover env ord, se_disconnect = pool_disconnect (ce_peer env),
     se_status = (\<lambda>_. None), se_files = fst, se_put = (\<lambda>fs s. (fs, snd s)), se_kernel = K, se_nvme = ne \<rparr>"

sublocale host_pool \<subseteq> svc: service_host "pool_env env ord K ne" pool_live pool_inv for K ne
proof (unfold_locales, unfold pool_env_def service_env.select_convs, goal_cases)
  case 1
  then show ?case by (rule api.discover_failed)
next
  case 2
  then show ?case by (rule api.discover_once)
next
  case 3
  then show ?case by (rule api.discover_persistent)
next
  case 4
  then show ?case by (rule api.disconnect_closes)
next
  case 5
  then show ?case by (rule api.never_live)
qed simp

context host_pool begin

lemma is_service_host: "service_host (pool_env env ord K ne) pool_live pool_inv"
  by unfold_locales

lemma pool_run_wf:
  assumes "service_run (pool_env env ord K ne) (fs, NewHostApi pagination path) s"
  shows "svc_wf s \<and> pool_inv (sv_api s) \<and> synced s"
proof (rule svc.run_inv [OF assms])
  show "pool_inv (fs, NewHostApi pagination path)" by (simp add: NewHostApi_def api_inv_def)
qed

end

interpretation ps: service_host "pool_env env id K ne" pool_live pool_inv
  for env :: "'t client_env" and K :: "'k kernel" and ne
  by (rule host_pool.is_service_host) unfold_locales

end
