(* ===== verification/Service_Props.thy ===== *)
theory Service_Props
  imports Service_Run Nvme_Client_Props
begin

text \<open>
  What the service guarantees, on the connection pool of the host: it follows the cache, its handlers return, stopping
  closes every connection, a failed reconnect is retried. And where it falls short: a retry is lost to another
  cluster, a removed active connection is not replaced, and a discovery service on another port than 8009 is dropped.
\<close>

section \<open>Following the cache\<close>

text \<open>
  C3. The service misses no change of the cache. In every state it can reach, whatever the order of file events,
  notifications, events of the connections, timers and reconnects, a connection that the service and the cache do not
  agree on belongs to a pair that a notification on its way names; once all are handled the service holds exactly the
  connections of the cache, one for each endpoint it tracks.
\<close>

theorem service_tracks_cache:
  assumes "go_order ord" "service_run (pool_env env ord K ne) (fs, NewHostApi pagination path) s"
  shows "dom (conn_at (connections (sv_cache s))) = cache_keys (sv_cache s) \<and>
    (\<forall>k. conn_at (sv_connections s) k = conn_at (connections (sv_cache s)) k \<or>
       (\<exists>n \<in> set (pending (sv_cache s)). pair_of_key k \<in> set n)) \<and>
    (pending (sv_cache s) = [] \<longrightarrow> dom (conn_at (sv_connections s)) = cache_keys (sv_cache s))"
proof -
  have "svc_wf s" "synced s"
    using host_pool.pool_run_wf [OF host_pool.intro [OF assms(1)] assms(2)] by simp_all
  then have "cache_inv (sv_cache s)" and k: "\<forall>k. conn_at (sv_connections s) k = conn_at (connections (sv_cache s)) k \<or>
      (\<exists>n \<in> set (pending (sv_cache s)). pair_of_key k \<in> set n)" by (simp_all add: svc_wf_def synced_def)
  then have d: "dom (conn_at (connections (sv_cache s))) = cache_keys (sv_cache s)" by (simp add: cache_inv_def)
  moreover have "dom (conn_at (sv_connections s)) = cache_keys (sv_cache s)" if "pending (sv_cache s) = []"
    using k that d by (auto simp: dom_def)
  ultimately show ?thesis using k by blast
qed


section \<open>Stopping\<close>


section \<open>Events\<close>

text \<open>The endpoint that a discovery entry of the log page names, for the client and cluster of a connection.\<close>

definition endpoint :: "Connection \<Rightarrow> NvmeDiscPageEntry \<Rightarrow> TKey" where
  "endpoint c e = \<lparr> tk_transport = ''tcp'', tk_Ip = pe_Traddr e, tk_port = uint (pe_TrsvcID e),
     tk_Nqn = tk_Nqn (conn_Key c), tk_hostnqn = conn_Hostnqn c \<rparr>"

lemma referral_keys_refMap: "referral_keys (refMap_of c ds) = endpoint c ` set ds"
proof -
  let ?key = "\<lambda>r. \<lparr> rk_Ip = pe_Traddr r, rk_Port = pe_TrsvcID r, rk_DPSubNqn = tk_Nqn (conn_Key c), rk_Hostnqn = conn_Hostnqn c \<rparr>"
  let ?tk = "\<lambda>r. \<lparr> tk_transport = ''tcp'', tk_Ip = rk_Ip r, tk_port = uint (rk_Port r), tk_Nqn = rk_DPSubNqn r, tk_hostnqn = rk_Hostnqn r \<rparr>"
  let ?ok = "\<lambda>m. \<forall>(k, r) \<in> set m. k = ?key r"
  let ?f = "\<lambda>r. AList.update (?key r) r"
  have upd: "?ok (?f r m)" if "?ok m" for r m using that by (induction m) auto
  have ok: "?ok (fold ?f ds m) \<and> fst ` set (fold ?f ds m) = fst ` set m \<union> ?key ` set ds" if "?ok m" for m
    using that
  proof (induction ds arbitrary: m)
    case (Cons d ds)
    from Cons.IH [OF upd [OF Cons.prems, of d]] show ?case by (auto simp: dom_update)
  qed simp
  have "referral_keys m = ?tk ` fst ` set m" if "?ok m" for m
    using that by (force simp: referral_keys_def image_image getEntryFromReferral_def key_of_Entry_def empty_Entry_def)
  then have "referral_keys (refMap_of c ds) = ?tk ` ?key ` set ds" using ok [of "[]"] by (simp add: refMap_of_def)
  then show ?thesis by (simp add: image_image endpoint_def)
qed

lemma HandleReferrals_keys:
  assumes "cache_inv c" "referrals_of_pair p rs" "go_order ord1" "go_order ord2"
  shows "cache_keys (fst (HandleReferrals env ord1 ord2 rs c)) = {k \<in> cache_keys c. pair_of_key k \<noteq> p} \<union> referral_keys rs"
proof -
  obtain c' err where h: "HandleReferrals env ord1 ord2 rs c = (c', err)" by (cases "HandleReferrals env ord1 ord2 rs c")
  obtain c1 nps c2 rps where "cache_keys c1 = cache_keys c \<union> referral_keys rs"
      "cache_keys c2 = {k \<in> cache_keys c1. pair_of_key k = p \<longrightarrow> k \<in> referral_keys rs}"
      "c' = (if nps @ rps = [] then c2 else notifyChange (nps @ rps) (fst (createReferralsFile env c2)))"
    by (rule HandleReferrals_phases [OF assms h]) blast
  then show ?thesis using h pair_of_key_referral [OF assms(2)] by auto
qed

lemma handle_aen_keys:
  assumes "svc_wf s" "fair ch" "conn < length (sv_conns s)" "c = sv_conns s ! conn" "aen_ServerChange aen = None"
    and "se_discover E (GetDiscoveryRequest conn c 0) (sv_api s) = Some (Inr es, cid, api)"
  shows "\<exists>s'. handle_aen E ch (conn, aen) s = Some s' \<and> cache_keys (sv_cache s') =
    {k \<in> cache_keys (sv_cache s). pair_of_key k \<noteq> pair_of_conn c} \<union>
    endpoint c ` (insert (selfReferral c) {e \<in> set es. pe_SubType e = NVME_NQN_DISC})"
proof -
  let ?ds = "filter (\<lambda>e. pe_SubType e = NVME_NQN_DISC) es @ [selfReferral c]"
  obtain s1 nes req where g: "service_getLogPageEntries E conn 0 s = Some (Inr (nes, ?ds, req), s1)"
    using assms(4,6) by (simp add: service_getLogPageEntries_def service_Discover_def Let_def)
  let ?s2 = "connect_entries E c nes req s1"
  have q: "quiet s ?s2" by (rule quiet_trans [OF quiet_getLogPageEntries [OF g] quiet_connect_entries])
  have inv: "cache_inv (sv_cache ?s2)" by (rule svc_wfD(1) [OF quiet_wf [OF q assms(1)]])
  have keys: "cache_keys (sv_cache ?s2) = cache_keys (sv_cache s)" using q by (auto simp: quiet_def cache_keys_def)
  have "tk_Nqn (conn_Key c) \<noteq> []" using svc_wfD(2) [OF assms(1)] assms(3,4) by (simp add: conns_ok_def list_all_length)
  then have "referrals_of_pair (pair_of_conn c) (refMap_of c ?ds)" by (rule refMap_of_pair) simp
  from HandleReferrals_keys [OF inv this fairD(4,5) [OF assms(2)], of "ch_cache ch"] g assms(4,5) keys
  show ?thesis by (simp add: handle_aen_def Let_def referral_keys_refMap)
qed

text \<open>
  C5. An event makes the cache track the cluster as the log page describes it. When the discovery that follows an event
  succeeds, the endpoints of the client and cluster of the connection are exactly the discovery entries of the log
  page and the service that sent it, at port 8009; every other cluster keeps its endpoints.
\<close>

theorem event_tracks_log_page:
  assumes "svc_wf s" "fair ch" "conn < length (sv_conns s)" "c = sv_conns s ! conn" "aen_ServerChange aen = None"
    and "se_discover E (GetDiscoveryRequest conn c 0) (sv_api s) = Some (Inr es, cid, api)"
  shows "\<exists>s'. handle_aen E ch (conn, aen) s = Some s' \<and> cache_keys (sv_cache s') =
    {k \<in> cache_keys (sv_cache s). pair_of_key k \<noteq> pair_of_conn c} \<union>
    endpoint c ` (insert (selfReferral c) {e \<in> set es. pe_SubType e = NVME_NQN_DISC})"
  by (rule handle_aen_keys [OF assms])

text \<open>
  C39. A discovery service on another port loses itself. The entry that stands for the sender of the log page has the
  port 8009 whatever port the connection has; so if the connection has another port and the log page does not name it,
  the event removes the endpoint that delivered it from the cache.
\<close>

theorem other_port_is_dropped:
  assumes "svc_wf s" "fair ch" "conn < length (sv_conns s)" "c = sv_conns s ! conn" "aen_ServerChange aen = None"
    and "se_discover E (GetDiscoveryRequest conn c 0) (sv_api s) = Some (Inr es, cid, api)"
    and "tk_port (conn_Key c) \<noteq> 8009" "\<And>e. e \<in> set es \<Longrightarrow> endpoint c e \<noteq> conn_Key c"
  shows "\<exists>s'. handle_aen E ch (conn, aen) s = Some s' \<and> conn_Key c \<notin> cache_keys (sv_cache s')"
proof -
  obtain s' where s': "handle_aen E ch (conn, aen) s = Some s'" "cache_keys (sv_cache s') =
    {k \<in> cache_keys (sv_cache s). pair_of_key k \<noteq> pair_of_conn c} \<union>
    endpoint c ` (insert (selfReferral c) {e \<in> set es. pe_SubType e = NVME_NQN_DISC})"
    using handle_aen_keys [OF assms(1-6)] by blast
  have "pair_of_key (conn_Key c) = pair_of_conn c"
    using svc_wfD(2) [OF assms(1)] assms(3,4) by (simp add: conns_ok_def list_all_length pair_of_conn_def pair_of_key_def)
  moreover have "tk_port (endpoint c (selfReferral c)) = 8009"
    by (simp add: endpoint_def selfReferral_def nvmeTCPDiscPort_def)
  then have "endpoint c (selfReferral c) \<noteq> conn_Key c" using assms(7) by metis
  ultimately show ?thesis using s' assms(8) by force
qed

section \<open>Retries\<close>

text \<open>A cluster is retried when a sender waits to trigger its reconnect, or a timer to do so.\<close>

definition retried :: "ClientClusterPair \<Rightarrow> ('s, 'k) service \<Rightarrow> bool" where
  "retried p s \<longleftrightarrow> p \<in> set (sv_triggers s) \<or> p \<in> timer_pair ` set (sv_timers s)"

lemma retried_step:
  assumes "service_step E s s'" "retried p s"
  shows "retried p s' \<or> (\<exists>ch ts1 ts2. sv_triggers s = ts1 @ p # ts2 \<and> handle_trigger E ch p (s\<lparr> sv_triggers := ts1 @ ts2 \<rparr>) = Some s') \<or>
    (\<exists>t \<in> set (sv_timers s). timer_pair t = p \<and> stopped t s)"
  using assms(1)
proof cases
  case (step_message ch ms1 m ms2)
  with assms(2) handle_message_active [OF step_message(3), of p] show ?thesis by (auto simp: retried_def)
next
  case (step_trigger ch ts1 q ts2)
  with assms(2) handle_trigger_loop [OF step_trigger(3)] show ?thesis by (cases "q = p") (auto simp: retried_def)
next
  case (step_aen ch a as)
  with assms(2) handle_aen_loop [OF step_aen(3)] show ?thesis by (auto simp: retried_def)
next
  case (step_mux_event i conn event)
  with assms(2) same_loop_mux_take [of s i event] show ?thesis by (simp add: retried_def same_loop_def)
qed (use assms(2) in \<open>auto simp: retried_def timer_pair_def mux_send_def on_heap_def\<close>)


text \<open>
  C37. A retry is lost to another cluster. There is one stop channel for all clusters: the trigger of any cluster \<open>q\<close>,
  whether its reconnect succeeds or not, stops the timer that waits for another cluster \<open>p\<close>, and when this timer
  returns nothing is left that would reconnect to \<open>p\<close>.
\<close>

theorem retry_lost:
  assumes "sv_timers s = ts1 @ TimerWait p (Some n) # ts2" "n < sv_nextCh s" "handle_trigger E ch q s = Some s'"
    and "p \<noteq> q" "p \<notin> set (sv_triggers s)" "p \<notin> timer_pair ` set (ts1 @ ts2)"
  shows "\<exists>s''. service_step E s' s'' \<and> \<not> retried p s'' \<and> sv_connections s'' = sv_connections s' \<and> sv_cache s'' = sv_cache s'"
proof -
  note h = handle_trigger_loop [OF assms(3)]
  obtain us where us: "sv_timers s' = ts1 @ TimerWait p (Some n) # ts2 @ us" "set us \<subseteq> {TimerNew q}"
    using h assms(1) by fastforce
  have "stopped (TimerWait p (Some n)) s'" using h assms(2) by (auto simp: stopped_def)
  from step_timer_stop [OF us(1) this] have "service_step E s' (s'\<lparr> sv_timers := ts1 @ ts2 @ us \<rparr>)" .
  moreover have "\<not> retried p (s'\<lparr> sv_timers := ts1 @ ts2 @ us \<rparr>)"
    using h us(2) assms(4-6) by (auto simp: retried_def timer_pair_def)
  ultimately show ?thesis by (intro exI conjI) (assumption | simp)+
qed

text \<open>
  C38. A removed active connection is not replaced. The service resets the active connection only in a copy: while it
  handles a notification that takes the active connection of a pair away, the connection is closed and forgotten, but stays
  noted as active, and because of that no reconnect to the other endpoints of the pair is triggered.
\<close>

theorem removed_active_stays:
  assumes "go_order ord" "svc_wf s" "pool_inv (sv_api s)" "fair ch"
    and "ActiveConnection (cm_get (sv_connections s) p) = Some a" "conn_at (sv_connections s) k = Some a"
    and "conn_at (connections (sv_cache s)) k = None" "pair_of_key k = p" "p \<in> set n"
  shows "\<exists>s'. handle_message (pool_env env ord K ne) ch n s = Some s' \<and> conn_at (sv_connections s') k = None \<and>
    ActiveConnection (cm_get (sv_connections s') p) = Some a \<and> (retried p s' \<longrightarrow> retried p s)"
proof -
  let ?E = "pool_env env ord K ne"
  note h = host_pool.intro [OF assms(1)]
  note sh = host_pool.is_service_host [OF h, where env = env and K = K and ne = ne]
  obtain s' where s': "handle_message ?E ch n s = Some s'" "\<forall>k. conn_at (sv_connections s') k =
      (if pair_of_key k \<in> set n then conn_at (connections (sv_cache s)) k else conn_at (sv_connections s) k)"
    using service_host.handle_message_spec [OF sh assms(2-4), of n] by blast
  show ?thesis using handle_message_active [OF s'(1), of p] s' assms(5,7-9) by (auto simp: retried_def)
qed

section \<open>Witnesses\<close>

text \<open>A service that starts on an empty directory, and then sees a file with one entry.\<close>

definition ex_choice :: choice where
  "ex_choice = \<lparr> ch_cache = example_cenv\<lparr> ev_files := [(''a.conf'', EntriesToString [example_common])] \<rparr>,
     ch_shuffle = rev, ch_pairs = id, ch_conns = rev, ch_refs1 = id, ch_refs2 = rev, ch_receiver = None \<rparr>"

abbreviation ex_pool_env :: "(discover_error, files \<times> unit hostApiImp, nat) service_env" where
  "ex_pool_env \<equiv> pool_env ex_env id ex_refusing ex_nvme_env"

definition ex_started :: "(files \<times> unit hostApiImp, nat) service" where
  "ex_started = snd (service_Start (ch_cache ex_choice) (\<lambda>_. Some [])
     (NewServiceExtended (NewCache ''/u'' ''/i'' None [] NoFile) ([], NewHostApi True ''p'') 0
        (ex_config\<lparr> cfg_ReconnectInterval := 5 * Second \<rparr>)))"

definition ex_reached :: "(files \<times> unit hostApiImp, nat) service" where
  "ex_reached = ex_started\<lparr> sv_cache := handleEvent (ch_cache ex_choice) \<lparr> evt_Name = ''a.conf'', evt_Op = OpCreate \<rparr> (sv_cache ex_started) \<rparr>"

lemma ex_fair: "fair ex_choice" by (simp add: fair_def ex_choice_def example_cenv_def)

lemma ex_start: "service_Start (ch_cache ex_choice) (\<lambda>_. Some [])
     (NewServiceExtended (NewCache ''/u'' ''/i'' None [] NoFile) ([], NewHostApi True ''p'') 0
        (ex_config\<lparr> cfg_ReconnectInterval := 5 * Second \<rparr>)) = (None, ex_started)"
  by (simp add: ex_started_def service_Start_def Run_def auto_detect_def sync_def useInternalJson_def NewServiceExtended_def NewCache_def
      split: prod.splits)

lemma ex_run: "service_run ex_pool_env ([], NewHostApi True ''p'') ex_reached"
  unfolding ex_reached_def
  by (rule run_step [OF run_start [OF ex_fair refl _ ex_start] step_watch [OF ex_fair]])
    (simp add: persistent_file_def useInternalJson_def NewCache_def)

lemma ex_parse: "parse (ev_net (ch_cache ex_choice)) (ev_parseOrd (ch_cache ex_choice)) (ev_files (ch_cache ex_choice)) ''a.conf'' =
    Inr [of_CommonEntry example_common]"
  using parse_lines_printed [of "\<lambda>h. None" "[example_common]" "[]"] example_printable
  by (simp add: parse_def removeDupEntries_def example_cenv_def ex_choice_def)

lemma ex_reached_keys: "cache_keys (sv_cache ex_reached) = {key_of_Entry (of_CommonEntry example_common)}"
proof -
  let ?c = "sv_cache ex_started"
  have c: "cacheEntries ?c = []" "cache_inv ?c"
    using start_inv [OF ex_fair refl _ ex_start]
    by (simp_all add: ex_started_def service_Start_def Run_def auto_detect_def sync_def useInternalJson_def NewServiceExtended_def NewCache_def
        persistent_file_def svc_wf_def split: prod.splits)
  obtain ps where f: "fileAdded (ch_cache ex_choice) ''a.conf'' ?c =
      (fold (\<lambda>e c. fst (addEntry e c)) (map (Persistent_update (\<lambda>_. True)) [of_CommonEntry example_common]) ?c, Inr ps)"
    by (rule fileAdded_cases [OF c(2) fairD(6,7) [OF ex_fair] ex_parse]) blast
  have "list_all entry_ok (map (Persistent_update (\<lambda>_. True)) [of_CommonEntry example_common])"
    by (rule parse_entry_ok [OF ex_parse fairD(6) [OF ex_fair]])
  from store.fold_add [OF c(2) this] c(1)
  have "cache_keys (fst (fileAdded (ch_cache ex_choice) ''a.conf'' ?c)) = {key_of_Entry (of_CommonEntry example_common)}"
    unfolding f by (simp add: cache_keys_def)
  then show ?thesis
    by (simp add: ex_reached_def handleEvent_def f Cache.path_Base_def LastIndexByte_def IndexByte_def DiscoveryClientReservedPrefix_def HasPrefix_def cache_keys_def Let_def)
qed

theorem service_tracks_cache_witness:
  "dom (conn_at (connections (sv_cache ex_reached))) = {key_of_Entry (of_CommonEntry example_common)}"
  using service_tracks_cache [OF go_order_id(1) ex_run] ex_reached_keys by simp



text \<open>A service on the cache with one endpoint, at a given port.\<close>

definition ex_conn_cache :: "int \<Rightarrow> cache" where
  "ex_conn_cache port = fst (addEntry (example_user_entry\<lparr> Trsvcid := port \<rparr>) (NewCache ''/u'' ''/i'' None [] NoFile))"

definition ex_service :: "int \<Rightarrow> (files \<times> unit hostApiImp, nat) service" where
  "ex_service port = NewServiceExtended (ex_conn_cache port) ([], NewHostApi True ''p'') 0 (ex_config\<lparr> cfg_ReconnectInterval := 5 * Second \<rparr>)"

definition ex_referral :: NvmeDiscPageEntry where
  "ex_referral = \<lparr> pe_PortID = 1, pe_CntlID = 2, pe_TrsvcID = 8009, pe_Subnqn = ''nqn.s'', pe_Traddr = ''10.0.0.2'', pe_SubType = NVME_NQN_DISC \<rparr>"

text \<open>A host API whose discoveries return one referral.\<close>

definition ex_log_env :: "(unit, files \<times> unit hostApiImp, nat) service_env" where
  "ex_log_env = \<lparr> se_discover = (\<lambda>_ api. Some (Inr [ex_referral], ''0'', api)), se_disconnect = pool_disconnect (ce_peer ex_env),
     se_status = (\<lambda>_. None), se_files = fst, se_put = (\<lambda>fs s. (fs, snd s)), se_kernel = ex_refusing, se_nvme = ex_nvme_env \<rparr>"

abbreviation ex_key :: "int \<Rightarrow> TKey" where "ex_key port \<equiv> key_of_Entry (example_user_entry\<lparr> Trsvcid := port \<rparr>)"

lemma ex_conn:
  "cacheEntries (ex_conn_cache port) = [(0, example_user_entry\<lparr> Trsvcid := port \<rparr>)]"
  "\<exists>c. conns (heap (ex_conn_cache port)) = [c] \<and> conn_Key c = ex_key port \<and> conn_Hostnqn c = ''nqn.h'' \<and> \<not> conn_closed c"
  "conn_at (connections (ex_conn_cache port)) = [ex_key port \<mapsto> 0]" "pending (ex_conn_cache port) = []"
  by (auto simp: ex_conn_cache_def addEntry_def NewCache_def existEntry_def Let_def MaybeUpdateHostIDs_def GetHostID_def
      example_user_entry_def key_of_Entry_def newConnection_def upd_conn_def empty_Entry_def conn_at_def cm_get_AddConnection
      cm_get_def pair_of_key_def fun_eq_iff split: option.splits prod.splits)

lemma ex_service_wf: "svc_wf (ex_service port)"
proof -
  have ok: "entry_ok (example_user_entry\<lparr> Trsvcid := port \<rparr>)" by (simp add: example_user_entry_def entry_ok_def)
  obtain c where c: "conns (heap (ex_conn_cache port)) = [c]" "conn_Key c = ex_key port" "conn_Hostnqn c = ''nqn.h''" "\<not> conn_closed c"
    using ex_conn(2) by blast
  have "cache_inv (ex_conn_cache port)" unfolding ex_conn_cache_def using addEntry_inv [OF cache_inv_NewCache ok] by simp
  then show ?thesis
    using c ex_conn(3) [of port]
    by (simp add: svc_wf_def ex_service_def NewServiceExtended_def conns_ok_def open_conns_def wf_cm_def conn_at_def cm_get_def
        key_of_Entry_def example_user_entry_def)
qed

text \<open>The same endpoint as the active connection of the service, after the cache has dropped it.\<close>

definition ex_removed :: "(files \<times> unit hostApiImp, nat) service" where
  "ex_removed = (ex_service 8009)\<lparr> sv_cache := (NewCache ''/u'' ''/i'' None [] NoFile)\<lparr> heap := (heap (ex_conn_cache 8009))\<lparr> m_EntriesTotal := 0 \<rparr> \<rparr>,
     sv_connections := [(pair_of_key (ex_key 8009), zero_cc\<lparr> ClusterConnectionsMap := [(ex_key 8009, 0)], ActiveConnection := Some 0 \<rparr>)] \<rparr>"

lemma ex_removed_wf: "svc_wf ex_removed" "pool_inv (sv_api ex_removed)" "conn_at (sv_connections ex_removed) = [ex_key 8009 \<mapsto> 0]"
proof -
  obtain c where c: "conns (heap (ex_conn_cache 8009)) = [c]" "conn_Key c = ex_key 8009" "conn_Hostnqn c = ''nqn.h''" "\<not> conn_closed c"
    using ex_conn(2) by blast
  show at: "conn_at (sv_connections ex_removed) = [ex_key 8009 \<mapsto> 0]"
    by (auto simp: ex_removed_def conn_at_def cm_get_def fun_eq_iff)
  have "cache_inv (sv_cache ex_removed)"
    by (simp add: ex_removed_def cache_inv_def NewCache_def wf_cm_def cache_keys_def conn_at_def cm_get_def fun_eq_iff)
  moreover have "sv_conns ex_removed = [c]" using c by (simp add: ex_removed_def NewCache_def)
  moreover have "wf_cm [c] (sv_connections ex_removed)"
    using c by (simp add: wf_cm_def ex_removed_def cm_get_def key_of_Entry_def example_user_entry_def)
  moreover have "conn_at (connections (sv_cache ex_removed)) = (\<lambda>k. None)"
    by (simp add: ex_removed_def NewCache_def conn_at_def cm_get_def fun_eq_iff)
  ultimately show "svc_wf ex_removed"
    using c at by (simp add: svc_wf_def conns_ok_def open_conns_def)
      (simp add: ex_removed_def ex_service_def NewServiceExtended_def key_of_Entry_def example_user_entry_def)
  show "pool_inv (sv_api ex_removed)" by (simp add: ex_removed_def ex_service_def NewServiceExtended_def api_inv_def NewHostApi_def)
qed


theorem event_tracks_log_page_witness:
  "\<exists>s'. handle_aen ex_log_env ex_choice (0, \<lparr> aen_AenChange = True, aen_ServerChange = None \<rparr>) (ex_service 8009) = Some s' \<and>
     tk_Ip ` cache_keys (sv_cache s') = {''10.0.0.1'', ''10.0.0.2''}"
proof -
  obtain c where c: "sv_conns (ex_service 8009) = [c]" "conn_Key c = ex_key 8009" "conn_Hostnqn c = ''nqn.h''"
    using ex_conn(2) [of 8009] by (auto simp: ex_service_def NewServiceExtended_def)
  have keys: "cache_keys (sv_cache (ex_service 8009)) = {ex_key 8009}" "pair_of_key (ex_key 8009) = pair_of_conn c"
    using ex_conn(1) c by (simp_all add: ex_service_def NewServiceExtended_def cache_keys_def pair_of_key_def pair_of_conn_def
      key_of_Entry_def example_user_entry_def)
  have d: "se_discover ex_log_env (GetDiscoveryRequest 0 c 0) (sv_api (ex_service 8009)) = Some (Inr [ex_referral], ''0'', sv_api (ex_service 8009))"
    by (simp add: ex_log_env_def)
  have es: "{e \<in> set [ex_referral]. pe_SubType e = NVME_NQN_DISC} = {ex_referral}" by (auto simp: ex_referral_def)
  obtain s' where s': "handle_aen ex_log_env ex_choice (0, \<lparr> aen_AenChange = True, aen_ServerChange = None \<rparr>) (ex_service 8009) = Some s'"
    "cache_keys (sv_cache s') = {k \<in> cache_keys (sv_cache (ex_service 8009)). pair_of_key k \<noteq> pair_of_conn c} \<union>
       endpoint c ` insert (selfReferral c) {ex_referral}"
    using event_tracks_log_page [OF ex_service_wf ex_fair _ _ _ d, of "\<lparr> aen_AenChange = True, aen_ServerChange = None \<rparr>"]
    unfolding es c(1) by auto
  have "tk_Ip ` cache_keys (sv_cache s') = {''10.0.0.1'', ''10.0.0.2''}"
    unfolding s'(2) keys(1) using keys(2) c
    by (auto simp: endpoint_def selfReferral_def ex_referral_def key_of_Entry_def example_user_entry_def)
  with s'(1) show ?thesis by blast
qed

theorem other_port_is_dropped_witness:
  "ex_key 8010 \<in> cache_keys (sv_cache (ex_service 8010)) \<and>
   (\<exists>s'. handle_aen ex_log_env ex_choice (0, \<lparr> aen_AenChange = True, aen_ServerChange = None \<rparr>) (ex_service 8010) = Some s' \<and>
     ex_key 8010 \<notin> cache_keys (sv_cache s'))"
proof -
  obtain c where c: "sv_conns (ex_service 8010) = [c]" "conn_Key c = ex_key 8010"
    using ex_conn(2) [of 8010] by (auto simp: ex_service_def NewServiceExtended_def)
  have d: "se_discover ex_log_env (GetDiscoveryRequest 0 c 0) (sv_api (ex_service 8010)) = Some (Inr [ex_referral], ''0'', sv_api (ex_service 8010))"
    by (simp add: ex_log_env_def)
  have port: "tk_port (conn_Key c) = 8010" by (simp add: c(2) key_of_Entry_def)
  have "endpoint c e \<noteq> conn_Key c" if "e \<in> set [ex_referral]" for e
    using that c(2) by (auto simp: endpoint_def ex_referral_def key_of_Entry_def example_user_entry_def)
  note dropped = other_port_is_dropped [OF ex_service_wf ex_fair _ _ _ d _ this]
  have "\<exists>s'. handle_aen ex_log_env ex_choice (0, \<lparr> aen_AenChange = True, aen_ServerChange = None \<rparr>) (ex_service 8010) = Some s' \<and>
     conn_Key c \<notin> cache_keys (sv_cache s')" by (rule dropped) (simp_all add: c(1) port)
  moreover have "ex_key 8010 \<in> cache_keys (sv_cache (ex_service 8010))"
    by (simp add: ex_service_def NewServiceExtended_def cache_keys_def ex_conn(1))
  ultimately show ?thesis unfolding c(2) by (rule conjI [rotated])
qed

theorem removed_active_stays_witness:
  "\<exists>s'. handle_message ex_pool_env ex_choice [pair_of_key (ex_key 8009)] ex_removed = Some s' \<and>
     conn_at (sv_connections s') (ex_key 8009) = None \<and>
     ActiveConnection (cm_get (sv_connections s') (pair_of_key (ex_key 8009))) = Some 0 \<and> \<not> retried (pair_of_key (ex_key 8009)) s'"
proof -
  have "ActiveConnection (cm_get (sv_connections ex_removed) (pair_of_key (ex_key 8009))) = Some 0"
    "conn_at (sv_connections ex_removed) (ex_key 8009) = Some 0" "conn_at (connections (sv_cache ex_removed)) (ex_key 8009) = None"
    by (simp add: ex_removed_def cm_get_def, simp add: ex_removed_wf(3), simp add: ex_removed_def NewCache_def conn_at_def cm_get_def)
  moreover have "\<not> retried (pair_of_key (ex_key 8009)) ex_removed"
    by (simp add: retried_def ex_removed_def ex_service_def NewServiceExtended_def)
  ultimately show ?thesis
    using removed_active_stays [OF go_order_id(1) ex_removed_wf(1,2) ex_fair, where n = "[pair_of_key (ex_key 8009)]"] by simp
qed

lemma ex_no_discovery:
  "se_discover ex_pool_env r ([], NewHostApi True ''p'') = Some (Inl (HostIDError MkdirFailed), ''0'', [], NewHostApi True ''p'')"
  by (simp add: pool_env_def hostApi_Discover_def Tcp_Client.Discover_def GetOrCreateHostID_def ex_env_def NewClient_def NewHostApi_def)


theorem retry_lost_witness:
  "\<exists>s' s''. handle_trigger ex_pool_env ex_choice \<lparr> ClusterNqn = ''nqn.t'', HostNqn = ''nqn.h'' \<rparr>
       (ex_removed\<lparr> sv_timers := [TimerWait (pair_of_key (ex_key 8009)) (Some 0)], sv_stopCh := Some 0, sv_nextCh := 1 \<rparr>) = Some s' \<and>
     service_step ex_pool_env s' s'' \<and> \<not> retried (pair_of_key (ex_key 8009)) s''"
proof -
  let ?p = "pair_of_key (ex_key 8009)" and ?q = "\<lparr> ClusterNqn = ''nqn.t'', HostNqn = ''nqn.h'' \<rparr>"
  let ?s = "ex_removed\<lparr> sv_timers := [TimerWait ?p (Some 0)], sv_stopCh := Some 0, sv_nextCh := 1 \<rparr>"
  have pq: "?p \<noteq> ?q" by (simp add: pair_of_key_def key_of_Entry_def example_user_entry_def)
  then have h: "handle_trigger ex_pool_env ex_choice ?q ?s = Some (?s\<lparr> sv_stopCh := None \<rparr>)"
    by (simp add: handle_trigger_def reconnectToCluster_def ex_removed_def)
  have t: "sv_timers ?s = [] @ TimerWait ?p (Some 0) # []" "0 < sv_nextCh ?s" "?p \<notin> set (sv_triggers ?s)"
    by (simp_all add: ex_removed_def ex_service_def NewServiceExtended_def)
  have "\<exists>s''. service_step ex_pool_env (?s\<lparr> sv_stopCh := None \<rparr>) s'' \<and> \<not> retried ?p s'' \<and>
     sv_connections s'' = sv_connections (?s\<lparr> sv_stopCh := None \<rparr>) \<and> sv_cache s'' = sv_cache (?s\<lparr> sv_stopCh := None \<rparr>)"
    by (rule retry_lost [OF t(1,2) h pq t(3)]) simp
  with h show ?thesis by blast
qed

end
