(* ===== verification/Commands.thy ===== *)
theory Commands
  imports Service Nvme_Client_Props
begin

text \<open>
  The commands of \<^verbatim>\<open>src/cmd\<close> and the application of \<^verbatim>\<open>src/application/app.go\<close>, over the components they call. The
  flags of cobra and the settings of viper are parameters: what has been set, and the value of each key; a flag is read
  with the type it was defined with, so reading it does not fail. The result of a command is an error or what it prints.
\<close>

section \<open>Settings\<close>

record flags =
  fl_changed :: "string \<Rightarrow> bool"
  fl_string :: "string \<Rightarrow> string"
  fl_slice :: "string \<Rightarrow> string list"

record viper =
  vp_set :: "string \<Rightarrow> bool"
  vp_string :: "string \<Rightarrow> string"
  vp_int :: "string \<Rightarrow> int"
  vp_bool :: "string \<Rightarrow> bool"

datatype cmd_error =
    ConfigInvalid
  | MustBeSet string
  | SecretMustBeSet
  | MkdirError string
  | ReservedName string
  | NoHostID hostid_error
  | EntriesRefused create_error
  | FileFailed file_error
  | RemoveFailed string
  | ConnectFailed NvmeClientError
  | ConnectAllFailed go_error
  | DiscoverFailed discover_error
  | ListFailed
  | DisconnectFailed string string

text \<open>The command line tool uses no persistent connections.\<close>

definition cmd_kato :: int where "cmd_kato = 0"

section \<open>Configuration files\<close>

text \<open>
  What the system answers: whether a directory is missing and whether it can be made, the host id, the resolver, the
  outcome of the system calls that create a file, and whether a path can be removed.
\<close>

record cmd_env =
  cv_missing :: "string \<Rightarrow> bool"
  cv_mkdir_ok :: "string \<Rightarrow> bool"
  cv_hostid :: hostid_env
  cv_net :: resolver
  cv_create :: create_env
  cv_remove_ok :: bool

definition addHostNqnCmdFunc :: "cmd_env \<Rightarrow> AppConfig option \<Rightarrow> flags \<Rightarrow> files \<Rightarrow> (cmd_error + string) \<times> files" where
  "addHostNqnCmdFunc env decoded flags fs =
     (case LoadFromViper decoded of
        None \<Rightarrow> (Inl ConfigInvalid, fs)
      | Some appConfig \<Rightarrow>
          if \<not> fl_changed flags ''name'' then (Inl (MustBeSet ''name''), fs)
          else if \<not> fl_changed flags ''addresses'' then (Inl (MustBeSet ''addresses''), fs)
          else if \<not> fl_changed flags ''hostnqn'' then (Inl (MustBeSet ''hostnqn''), fs)
          else if \<not> fl_changed flags ''nqn'' then (Inl (MustBeSet ''nqn''), fs)
          else if cv_missing env (cfg_ClientConfigDir appConfig) \<and> \<not> cv_mkdir_ok env (cfg_ClientConfigDir appConfig)
          then (Inl (MkdirError (cfg_ClientConfigDir appConfig)), fs)
          else if HasPrefix (fl_string flags ''name'') DiscoveryClientReservedPrefix
          then (Inl (ReservedName (fl_string flags ''name'')), fs)
          else
            (case (if fl_changed flags ''hostid'' then (Inr (fl_string flags ''hostid''), fs)
                   else GetOrCreateHostID (cv_hostid env) (cfg_NvmeHostIDPath appConfig) fs) of
               (Inl err, fs1) \<Rightarrow> (Inl (NoHostID err), fs1)
             | (Inr hostid, fs1) \<Rightarrow>
                 (case CreateEntries (cv_net env) (fl_slice flags ''addresses'') (fl_string flags ''hostnqn'')
                         (fl_string flags ''nqn'') (fl_string flags ''transport'') hostid of
                    Inl err \<Rightarrow> (Inl (EntriesRefused err), fs1)
                  | Inr entries \<Rightarrow>
                      let filename = path_Join (cfg_ClientConfigDir appConfig) (fl_string flags ''name'') in
                      (case CreateFile (cv_create env) filename entries fs1 of
                         (states, Some err) \<Rightarrow> (Inl (FileFailed err), last states)
                       | (states, None) \<Rightarrow> (Inr filename, last states)))))"

text \<open>
  The files of the host are paths with contents, so a directory exists when a file is below it; \<^verbatim>\<open>os.RemoveAll\<close> removes
  the path and everything below it.
\<close>

definition at_or_below :: "string \<Rightarrow> string \<Rightarrow> bool" where
  "at_or_below path file \<longleftrightarrow> file = path \<or> HasPrefix file (path @ ''/'')"

definition removeHostNqnCmdFunc :: "cmd_env \<Rightarrow> AppConfig option \<Rightarrow> flags \<Rightarrow> files \<Rightarrow> (cmd_error + string option) \<times> files" where
  "removeHostNqnCmdFunc env decoded flags fs =
     (case LoadFromViper decoded of
        None \<Rightarrow> (Inl ConfigInvalid, fs)
      | Some appConfig \<Rightarrow>
          if \<not> fl_changed flags ''name'' then (Inl (MustBeSet ''name''), fs)
          else
            let filename = path_Join (cfg_ClientConfigDir appConfig) (fl_string flags ''name'') in
            if \<not> list_ex (\<lambda>f. at_or_below filename (fst f)) fs then (Inr None, fs)
            else if \<not> cv_remove_ok env then (Inl (RemoveFailed filename), fs)
            else (Inr (Some filename), filter (\<lambda>f. \<not> at_or_below filename (fst f)) fs))"

section \<open>Controllers\<close>

definition connectCmdFunc :: "'k kernel \<Rightarrow> nvme_env \<Rightarrow> viper \<Rightarrow> files \<times> 'k \<Rightarrow> (cmd_error + CtrlIdentifier) \<times> files \<times> 'k" where
  "connectCmdFunc K E v st =
     (if \<not> vp_set v ''connect.traddr'' then (Inl (MustBeSet ''traddr''), st)
      else if \<not> vp_set v ''connect.nqn'' then (Inl (MustBeSet ''nqn''), st)
      else if vp_set v ''connect.dhchap-ctrl-secret'' \<and> \<not> vp_set v ''connect.dhchap-secret'' then (Inl SecretMustBeSet, st)
      else
        (case Connect K E
           \<lparr> creq_Transport = vp_string v ''connect.transport'', creq_Traddr = vp_string v ''connect.traddr'',
             creq_Trsvcid = vp_int v ''connect.trsvcid'', creq_Hostnqn = vp_string v ''connect.hostnqn'', creq_Hostaddr = '''',
             creq_Subsysnqn = vp_string v ''connect.nqn'', creq_CtrlLossTMO = vp_int v ''connect.ctrl-loss-tmo'',
             creq_MaxIOQueues = 0, creq_Hostid = vp_string v ''connect.hostid'', creq_Kato = 0,
             creq_DhChapSecret = vp_string v ''connect.dhchap-secret'',
             creq_DhChapControllerSecret = vp_string v ''connect.dhchap-ctrl-secret'' \<rparr> st of
           (Inl err, _, st') \<Rightarrow> (Inl (ConnectFailed err), st')
         | (Inr ctrlID, _, st') \<Rightarrow> (Inr ctrlID, st')))"

definition connectAllCmdFunc ::
    "'k kernel \<Rightarrow> nvme_env \<Rightarrow> viper \<Rightarrow> files \<times> log_gauge \<times> 'k \<Rightarrow> ((cmd_error + CtrlIdentifier list) \<times> files \<times> log_gauge \<times> 'k) option" where
  "connectAllCmdFunc K E v st =
     (if \<not> vp_set v ''connect-all.traddr'' then Some (Inl (MustBeSet ''traddr''), st)
      else
        (case ConnectAll K E
           \<lparr> dr_Transport = vp_string v ''connect-all.transport'', dr_Traddr = vp_string v ''connect-all.traddr'',
             dr_Trsvcid = vp_int v ''connect-all.trsvcid'', dr_Hostnqn = vp_string v ''connect-all.hostnqn'', dr_Hostaddr = '''',
             dr_Kato = cmd_kato, dr_AENChan = 0, dr_Hostid = '''' \<rparr>
           (vp_int v ''connect-all.max-queues'') (vp_int v ''connect-all.kato'') (Some (vp_int v ''connect-all.ctrl-loss-tmo'')) st of
           None \<Rightarrow> None
         | Some (Inl err, st') \<Rightarrow> Some (Inl (ConnectAllFailed err), st')
         | Some (Inr ctrls, st') \<Rightarrow> Some (Inr ctrls, st')))"

definition disconnectCmdFunc :: "'k kernel \<Rightarrow> viper \<Rightarrow> 'k \<Rightarrow> (cmd_error + unit) \<times> 'k" where
  "disconnectCmdFunc K v k =
     (if \<not> vp_set v ''device'' then (Inl (MustBeSet ''device''), k)
      else
        (case RemoveCtrlByDevice K (vp_string v ''device'') k of
           (Some err, k') \<Rightarrow> (Inl (DisconnectFailed (vp_string v ''device'') err), k')
         | (None, k') \<Rightarrow> (Inr (), k')))"

text \<open>A controller that could not be read is a nil pointer, and reading its device a panic (\<open>None\<close>).\<close>

fun disconnect_ctrls ::
    "('k \<Rightarrow> string \<Rightarrow> stat_result) \<Rightarrow> 'k kernel \<Rightarrow> (string, NvmeControllerInfo option) gomap \<Rightarrow> 'k \<Rightarrow> 'k option" where
  "disconnect_ctrls stat K [] k = Some k"
| "disconnect_ctrls stat K ((name, None) # rest) k = None"
| "disconnect_ctrls stat K ((name, Some info) # rest) k =
     (case CheckCtrlRemovePathExists (stat k) (ni_Device info) of
        (exists, err) \<Rightarrow>
          if err \<noteq> None \<or> \<not> exists then disconnect_ctrls stat K rest k
          else disconnect_ctrls stat K rest (snd (RemoveCtrlByDevice K (ni_Device info) k)))"

definition disconnectAllCmdFunc ::
    "param_order \<Rightarrow> ((string, NvmeControllerInfo option) gomap \<Rightarrow> (string, NvmeControllerInfo option) gomap) \<Rightarrow>
       ('k \<Rightarrow> string \<Rightarrow> stat_result) \<Rightarrow> 'k kernel \<Rightarrow> dir_entry list option \<Rightarrow> files \<Rightarrow> 'k \<Rightarrow> ((cmd_error + unit) \<times> 'k) option" where
  "disconnectAllCmdFunc ord ctrlOrd stat K dir fs k =
     (case ListNvmeControllersInfo ord dir fs of
        None \<Rightarrow> Some (Inl ListFailed, k)
      | Some controllerIdentifiers \<Rightarrow> map_option (Pair (Inr ())) (disconnect_ctrls stat K (ctrlOrd controllerIdentifiers) k))"

definition listCtrlCmdFunc :: "param_order \<Rightarrow> dir_entry list option \<Rightarrow> files \<Rightarrow> cmd_error + (string, NvmeControllerInfo option) gomap" where
  "listCtrlCmdFunc ord dir fs = (case ListNvmeControllersInfo ord dir fs of None \<Rightarrow> Inl ListFailed | Some info \<Rightarrow> Inr info)"

section \<open>Discovery\<close>

definition discoverCmdFunc ::
    "'t client_env \<Rightarrow> ((ConnectionID, 't connInfo) gomap \<Rightarrow> (ConnectionID, 't connInfo) gomap) \<Rightarrow> viper \<Rightarrow> files \<Rightarrow>
       ((cmd_error + NvmeDiscPageEntry list) \<times> files) option" where
  "discoverCmdFunc env ord v fs =
     (if \<not> vp_set v ''discover.traddr'' then Some (Inl (MustBeSet ''traddr''), fs)
      else if \<not> vp_set v ''discover.hostnqn'' then Some (Inl (MustBeSet ''hostnqn''), fs)
      else
        let katoValue = (if \<not> vp_bool v ''discover.persistent'' then 0 else cmd_kato) in
        (case hostApi_Discover env ord
           \<lparr> dr_Transport = vp_string v ''discover.transport'', dr_Traddr = vp_string v ''discover.traddr'',
             dr_Trsvcid = vp_int v ''discover.trsvcid'', dr_Hostnqn = vp_string v ''discover.hostnqn'', dr_Hostaddr = '''',
             dr_Kato = katoValue, dr_AENChan = 0, dr_Hostid = vp_string v ''discover.hostid'' \<rparr>
           (fs, NewHostApi True DefaultHostIDPath) of
           None \<Rightarrow> None
         | Some (Inl err, _, fs', _) \<Rightarrow> Some (Inl (DiscoverFailed err), fs')
         | Some (Inr logPageEntries, _, fs', _) \<Rightarrow> Some (Inr logPageEntries, fs')))"

section \<open>The application\<close>

text \<open>
  The application holds the cache and the service; both are nil until \<^verbatim>\<open>Start\<close> has made them. The cancelled context stops
  the main loop of the service.
\<close>

datatype app_error = AppMkdirError string | NoFabrics | AppCacheError cache_error

record 'k app =
  app_cfg :: AppConfig
  app_svc :: "(files \<times> unit hostApiImp, 'k) service option"
  app_cancelled :: bool
  app_signalled :: bool

definition NewApp :: "AppConfig \<Rightarrow> 'k app" where
  "NewApp cfg = \<lparr> app_cfg = cfg, app_svc = None, app_cancelled = False, app_signalled = False \<rparr>"

fun make_dirs :: "cmd_env \<Rightarrow> string list \<Rightarrow> app_error option" where
  "make_dirs env [] = None"
| "make_dirs env (dir # dirs) = (if cv_missing env dir \<and> \<not> cv_mkdir_ok env dir then Some (AppMkdirError dir) else make_dirs env dirs)"

text \<open>\<open>env\<close> is what the cache sees once the directories are there, and \<open>json\<close> the internal file.\<close>

definition App_Start ::
    "cmd_env \<Rightarrow> cache_env \<Rightarrow> (files \<Rightarrow> (string \<times> bool) list option) \<Rightarrow> internal_file \<Rightarrow> 'k \<Rightarrow> 'k app \<Rightarrow> app_error option \<times> 'k app" where
  "App_Start cv env readDir json k app =
     (let cfg = app_cfg app in
      case make_dirs cv [cfg_ClientConfigDir cfg, cfg_InternalDir cfg] of
        Some err \<Rightarrow> (Some err, app)
      | None \<Rightarrow>
          if cv_missing cv ''/dev/nvme-fabrics'' then (Some NoFabrics, app)
          else
            let ad = cfg_AutoDetectEntries cfg;
                cache = NewCache (cfg_ClientConfigDir cfg) (cfg_InternalDir cfg)
                  (Some (ad_Enabled ad, ad_Filename ad, ad_DiscoveryServicePort ad)) (GetNvmfHosts (ev_glob env) (ev_files env)) json;
                hostAPI = NewHostApi (cfg_LogPagePaginationEnabled cfg) (cfg_NvmeHostIDPath cfg)
            in (case service_Start env readDir (NewServiceExtended cache (ev_files env, hostAPI) k cfg) of
                  (err, svc) \<Rightarrow> (map_option AppCacheError err, app\<lparr> app_svc := Some svc \<rparr>)))"

text \<open>\<^verbatim>\<open>Stop\<close> calls the cache, which is nil (\<open>None\<close>) when a signal comes before \<^verbatim>\<open>Start\<close> has made it.\<close>

definition App_Stop :: "'k app \<Rightarrow> 'k app option" where
  "App_Stop app =
     (case app_svc app of
        None \<Rightarrow> None
      | Some svc \<Rightarrow> Some (app\<lparr> app_cancelled := True, app_svc := Some (svc\<lparr> sv_done := True, sv_cache := Cache_Stop (sv_cache svc) \<rparr>) \<rparr>))"

text \<open>The goroutine takes one signal, acts on it and ends; the signals after it are not handled.\<close>

datatype signal = SIGINT | SIGTERM | SIGQUIT | SIGHUP | SIGKILL

definition handle_signal :: "signal \<Rightarrow> 'k app \<Rightarrow> 'k app option" where
  "handle_signal sig app =
     (if app_signalled app then Some app
      else let app' = app\<lparr> app_signalled := True \<rparr> in if sig \<in> {SIGTERM, SIGQUIT, SIGINT} then App_Stop app' else Some app')"

definition serveCmdFunc ::
    "cmd_env \<Rightarrow> (int list \<Rightarrow> bool) \<Rightarrow> cache_env \<Rightarrow> (files \<Rightarrow> (string \<times> bool) list option) \<Rightarrow> internal_file \<Rightarrow> 'k \<Rightarrow> AppConfig option \<Rightarrow>
       (app_error option \<times> 'k app) option" where
  "serveCmdFunc cv affinity_ok env readDir json k decoded =
     (case LoadFromViper decoded of
        None \<Rightarrow> None
      | Some appConfig \<Rightarrow> if \<not> affinity_ok (cfg_Cores appConfig) then None else Some (App_Start cv env readDir json k (NewApp appConfig)))"

end
