(* ===== verification/Spec2Isabelle.thy ===== *)
theory Spec2Isabelle
  imports Collections Nvme_Utils Conf_Parser Config_Gen Host_Api Connections Cache_Inv Cache_Props Host_Errors Host_Impl Nvme_Client_Props Service_Props
    Commands
begin

text \<open>
  Verification of the discovery client, the host side of NVMe/TCP discovery in \<^verbatim>\<open>src/\<close>.

  The program. A daemon (\<^verbatim>\<open>cmd/serve.go\<close>, \<^verbatim>\<open>application/app.go\<close>) watches a directory of configuration files, each
  line of which names a discovery service. The cache (\<^verbatim>\<open>pkg/clientconfig\<close>) parses the files and keeps one
  entry and one connection for each endpoint; it tells the service (\<^verbatim>\<open>service/service.go\<close>) which pairs of a client and a
  cluster changed. The service keeps one persistent connection to each cluster through the host API
  (\<^verbatim>\<open>pkg/hostapi\<close>, implemented by \<^verbatim>\<open>pkg/nvme/nvmehost\<close>), which speaks NVMe/TCP: it connects, enables the controller, reads the
  discovery log page and waits for asynchronous events. On an event the service reads the log page again, connects the
  subsystems it lists through the kernel (\<^verbatim>\<open>pkg/nvmeclient\<close>), and hands the referrals in it to the cache, which stores
  them in an internal file for the next start. \<^verbatim>\<open>pkg/nvme\<close> holds the wire format and the target side of discovery. The other
  commands of \<^verbatim>\<open>cmd\<close> run one of these operations once.

  \<^bold>\<open>Conventions.\<close> A fallible function returns \<open>'e + 'a\<close>, \<open>Inl\<close> the error; where a panic or a loop that never ends is
  possible the result is an option, \<open>None\<close> the panic. A Go map is an association list with distinct keys, and a loop over it
  takes the order as an argument; \<open>go_order\<close> and \<open>fair\<close> say that it is a permutation. Machine integers are words of
  their width (\<open>u8\<close> to \<open>u64\<close>), \<^verbatim>\<open>int\<close> and durations are \<^typ>\<open>int\<close>. Pointers to connections are indexes into a heap, pointers
  to entries are numbers. Files are an association list from paths to contents. What the operating system, the
  network, the kernel driver and the libraries outside the source decide is a parameter: the resolver, the dialer and the
  peer, the outcome of system calls, \<open>kernel\<close>, \<open>flags\<close>, \<open>viper\<close>.

  \<^bold>\<open>Theories\<close>, in the order of the layers:

  \<^item> \<open>Prelude\<close>, \<open>Go_Std\<close>, \<open>Hex\<close>: shared types and lemmas, and the part of the Go library that is used
    (\<^verbatim>\<open>strings\<close>, \<^verbatim>\<open>strconv\<close>, \<^verbatim>\<open>bufio\<close>, \<^verbatim>\<open>net\<close>, \<^verbatim>\<open>encoding/hex\<close>, UUIDs).
  \<^item> \<open>Collections\<close>, \<open>Nvme_Utils\<close>: \<^verbatim>\<open>pkg/collections\<close>, \<^verbatim>\<open>pkg/nvme/utils.go\<close>. Specifications of the slice functions, and
    the stability of the host id.
  \<^item> \<open>Conf_Parser\<close>, \<open>Config_Gen\<close>: \<^verbatim>\<open>conf_parser.go\<close>, \<^verbatim>\<open>configgen.go\<close>, \<^verbatim>\<open>pkg/commonstructs\<close>. What is parsed is complete and
    unique, printing and parsing are inverse, a file is replaced atomically, detected controllers survive the round trip.
  \<^item> \<open>Host_Api\<close>: \<^verbatim>\<open>host_api.go\<close>, the interface of the service as the locale \<open>host_api\<close>.
  \<^item> \<open>Connections\<close>, \<open>Cache\<close>, \<open>Cache_Inv\<close>, \<open>Cache_Props\<close>: \<^verbatim>\<open>cache.go\<close>, \<^verbatim>\<open>watcher.go\<close>. The abstract state of the cache is the set of
    its endpoints; the invariant ties entries, connections and gauge together, and each operation refines one on the
    set. The locales \<open>entry_store\<close> and \<open>deletable_store\<close> are the contract of adding and deleting one entry.
  \<^item> \<open>Struc\<close>, \<open>Nvme_Types\<close>, \<open>Nvme_Id\<close>, \<open>Sgl\<close>, \<open>Requests\<close>: the wire format. \<open>wire_struct\<close> is the contract of a Go struct with struc tags
    and is interpreted for each of them; scatter lists behave as one byte array.
  \<^item> \<open>Controller\<close>, \<open>Target\<close>: \<^verbatim>\<open>controller.go\<close>, \<^verbatim>\<open>nvme_queue.go\<close>, \<^verbatim>\<open>fabrics.go\<close>, \<^verbatim>\<open>discovery.go\<close>, \<^verbatim>\<open>pkg/nvme/tcp_queue.go\<close>. Registers and event
    requests over every run of the controller, the handlers and the receive loop of the target.
  \<^item> \<open>Host_Queue\<close>, \<open>Tcp_Client\<close>, \<open>Discovery\<close>, \<open>Session\<close>, \<open>Host_Errors\<close>: \<^verbatim>\<open>nvmehost/tcp_queue.go\<close>, \<^verbatim>\<open>nvmehost/tcp_client.go\<close>. A host
    and a target joined byte by byte: each command is answered as it should be, the session sets the controller up, a
    discovery returns exactly the entries of the subsystem. Where the host panics on what a peer or a user may send.
  \<^item> \<open>Host_Impl\<close>: \<^verbatim>\<open>nvmehost_impl.go\<close>, the pool of connections; an instance of \<open>host_api\<close>.
  \<^item> \<open>Nvme_Client\<close>, \<open>Nvme_Client_Props\<close>: \<^verbatim>\<open>pkg/nvmeclient\<close>, \<^verbatim>\<open>pkg/ioctl\<close>, \<^verbatim>\<open>pkg/regexutil\<close>.
  \<^item> \<open>App_Config\<close>: \<^verbatim>\<open>model/app_config.go\<close>, with the checked part of \<^verbatim>\<open>pkg/logging\<close> and \<^verbatim>\<open>pkg/processutil\<close>.
  \<^item> \<open>Service\<close>, \<open>Service_Inv\<close>, \<open>Service_Run\<close>, \<open>Service_Props\<close>: \<^verbatim>\<open>service.go\<close>. The cases of the main loop are functions, and \<open>service_step\<close>
    interleaves them with every goroutine around it. The invariant holds in every state of \<open>service_run\<close>, for every host
    API that satisfies \<open>service_host\<close>, and the pool does. From it: the service follows the cache, its handlers return,
    stopping cleans up, failed reconnects are retried; and where the code falls short of that.
  \<^item> \<open>Commands\<close>: \<^verbatim>\<open>cmd\<close> and \<^verbatim>\<open>application/app.go\<close>.
  \<^item> This theory: the properties that span the layers, from the command line to the cache and from the configuration to the
    service.

  \<^bold>\<open>Bounds and fuel.\<close> Loops are structural or have a measure: the receive loops of both queues consume bytes, the decoders of
  pages consume entries. The receive loop of the host has the number of bytes that arrived as fuel; each PDU
  consumes at least its header, so the fuel is never the reason it ends. The pagination of the log page is a
  \<^theory_text>\<open>partial_function\<close>, because a target that returns no entry keeps it running; that it returns against the target of the
  source is part of the completeness theorem. The loops of the scatter lists that may not end on a buffer size of zero are
  partial functions too, and shown to return for every other size. Retries of a connect are bounded by the six attempts of the source.

  \<^bold>\<open>Not modelled.\<close> The keep alive ticker, the goroutine that polls events and the stop timer of the host client
  (\<^verbatim>\<open>keepAlive\<close>, \<^verbatim>\<open>handleAEN\<close>, \<^verbatim>\<open>pollAEN\<close>, \<^verbatim>\<open>startStopTimer\<close>): they only wait for time and channels around commands that are
  modelled; what they deliver to the service is \<open>handleChannel\<close> and the events of \<open>service_step\<close>. \<^verbatim>\<open>Clear\<close> of the cache, which sends
  on a channel that is never made. The lock-free sharing of maps between the loops of the cache and of the service: a case of a
  loop is one step. Logging and the \<^verbatim>\<open>String\<close> methods that only logging uses, the registration of metrics
  (\<^verbatim>\<open>metrics\<close>, \<^verbatim>\<open>pkg/metrics\<close>; the gauges that the cache updates are modelled), the generation of documentation and completions
  (\<^verbatim>\<open>pkg/docutils\<close>), the declaration of flags, reading the configuration file and printing JSON: calls of libraries
  without state of their own. The vendored packages are not modelled, but for the codec \<^verbatim>\<open>struc\<close> and UUIDs.
\<close>

section \<open>From the command line to the cache\<close>

lemma CreateFile_written:
  assumes "CreateFile env filename entries fs = (states, None)" "\<And>t. tmpName env = Some t \<Longrightarrow> t \<noteq> filename"
  shows "map_of (last states) filename = Some (EntriesToString entries)"
proof -
  obtain t where t: "tmpName env = Some t" "writeFault env = None"
    and st: "last states = AList.delete t (os_Rename t filename (AList.update t (EntriesToString entries) (AList.update t [] fs)))"
    using assms(1) by (auto simp: CreateFile_def Let_def split: option.splits if_splits)
  show ?thesis using st assms(2) [OF t(1)] by (auto simp: map_of_os_Rename)
qed

text \<open>The endpoint of an address on the command line.\<close>

definition address_key :: "flags \<Rightarrow> string \<Rightarrow> TKey set" where
  "address_key flags a = {\<lparr> tk_transport = ''tcp'', tk_Ip = host, tk_port = n, tk_Nqn = fl_string flags ''nqn'', tk_hostnqn = fl_string flags ''hostnqn'' \<rparr> |
     host port n. SplitHostPort a = Inr (host, port) \<and> ParseUint 16 port = (n, None)}"

lemma CreateEntries_keys:
  assumes "CreateEntries net addresses (fl_string flags ''hostnqn'') (fl_string flags ''nqn'') ''tcp'' hostid = Inr entries"
  shows "(\<lambda>e. key_of_Entry (of_CommonEntry e)) ` set entries = (\<Union>a \<in> set addresses. address_key flags a)"
proof -
  have "CreateEntries_loop net addresses (fl_string flags ''hostnqn'') (fl_string flags ''nqn'') ''tcp'' hostid [] = Inr entries"
    using assms by (auto simp: CreateEntries_def split: if_splits)
  from CreateEntries_loop_props [OF this]
  have len: "length entries = length addresses" and p: "\<And>i. i < length addresses \<Longrightarrow> \<exists>port.
      SplitHostPort (addresses ! i) = Inr (ce_Traddr (entries ! i), port) \<and> ParseUint 16 port = (ce_Trsvcid (entries ! i), None) \<and>
      ce_Transport (entries ! i) = ''tcp'' \<and> ce_Hostnqn (entries ! i) = fl_string flags ''hostnqn'' \<and> ce_Nqn (entries ! i) = fl_string flags ''nqn''"
    by auto
  have "{key_of_Entry (of_CommonEntry (entries ! i))} = address_key flags (addresses ! i)" if "i < length addresses" for i
    using p [OF that] by (auto simp: address_key_def key_of_Entry_def of_CommonEntry_def)
  then have "(\<Union>i \<in> {..<length entries}. {key_of_Entry (of_CommonEntry (entries ! i))}) = (\<Union>i \<in> {..<length addresses}. address_key flags (addresses ! i))"
    using len by simp
  moreover have "set entries = (!) entries ` {..<length entries}" "set addresses = (!) addresses ` {..<length addresses}"
    by (auto simp: set_conv_nth)
  ultimately show ?thesis by (simp add: image_image UNION_singleton_eq_range)
qed

text \<open>
  C8. What is added on the command line is tracked. When \<^verbatim>\<open>add-hostnqn\<close> succeeds, the file it prints is complete, and
  the event of its creation makes the cache track exactly the addresses of the command in addition to what it had.
\<close>

theorem added_hostnqn_is_tracked:
  assumes "addHostNqnCmdFunc cv decoded flags fs = (Inr filename, fs')" "fl_changed flags ''hostid''"
    and "fl_string flags ''transport'' = ''tcp''" "\<And>t. tmpName (cv_create cv) = Some t \<Longrightarrow> t \<noteq> filename"
    and "\<And>entries. CreateEntries (cv_net cv) (fl_slice flags ''addresses'') (fl_string flags ''hostnqn'') (fl_string flags ''nqn'') ''tcp''
      (fl_string flags ''hostid'') = Inr entries \<Longrightarrow> list_all (printable (cv_net cv)) entries"
    and "cache_inv c" "fair ch" "env = (ch_cache ch)\<lparr> ev_files := fs', ev_net := cv_net cv \<rparr>"
    and "\<not> HasPrefix (Cache.path_Base filename) DiscoveryClientReservedPrefix"
  shows "cache_keys (handleEvent env \<lparr> evt_Name = filename, evt_Op = OpCreate \<rparr> c) =
    cache_keys c \<union> (\<Union>a \<in> set (fl_slice flags ''addresses''). address_key flags a)"
proof -
  obtain entries states where e: "CreateEntries (cv_net cv) (fl_slice flags ''addresses'') (fl_string flags ''hostnqn'') (fl_string flags ''nqn'') ''tcp''
      (fl_string flags ''hostid'') = Inr entries" "CreateFile (cv_create cv) filename entries fs = (states, None)" "fs' = last states"
    using assms(1-3) by (auto simp: addHostNqnCmdFunc_def Let_def split: option.splits if_splits sum.splits prod.splits)
  have f: "map_of fs' filename = Some (EntriesToString entries)" unfolding e(3) by (rule CreateFile_written [OF e(2) assms(4)])
  have ord: "go_order (ev_parseOrd env)" "go_order (ev_pairOrd env)" using fairD(6,7) [OF assms(7)] assms(8) by simp_all
  have parse: "parse (ev_net env) (ev_parseOrd env) (ev_files env) filename = Inr (removeDupEntries (ev_parseOrd env) (map of_CommonEntry entries))"
    using parse_lines_printed [OF assms(5) [OF e(1)], of "[]"] f assms(8) by (simp add: parse_def)
  let ?es = "map (Persistent_update (\<lambda>_. True)) (removeDupEntries (ev_parseOrd env) (map of_CommonEntry entries))"
  obtain ps where fa: "fileAdded env filename c = (fold (\<lambda>e c. fst (addEntry e c)) ?es c, Inr ps)"
    by (rule fileAdded_cases [OF assms(6) ord parse]) blast
  have "cache_keys (fold (\<lambda>e c. fst (addEntry e c)) ?es c) = cache_keys c \<union> key_of_Entry ` set ?es"
    using store.fold_add [OF assms(6) parse_entry_ok [OF parse ord(1)]] by blast
  also have "key_of_Entry ` set ?es = (\<lambda>e. key_of_Entry (of_CommonEntry e)) ` set entries" using ord(1) by (simp add: image_image)
  also have "\<dots> = (\<Union>a \<in> set (fl_slice flags ''addresses''). address_key flags a)" by (rule CreateEntries_keys [OF e(1)])
  finally show ?thesis using assms(9) by (simp add: handleEvent_def fa Let_def cache_keys_def)
qed

text \<open>
  C40. Removing an empty name removes every configuration. The name is not checked, and an empty one stands for the
  directory itself: \<^verbatim>\<open>remove-hostnqn\<close> then deletes all files of the configuration directory.
\<close>

theorem empty_name_removes_directory:
  assumes "LoadFromViper decoded = Some cfg" "fl_changed flags ''name''" "fl_string flags ''name'' = ''''" "cv_remove_ok env"
    and "path_Join (cfg_ClientConfigDir cfg) '''' = cfg_ClientConfigDir cfg"
    and "map_of fs (cfg_ClientConfigDir cfg @ ''/'' @ name) \<noteq> None"
  shows "\<exists>fs'. removeHostNqnCmdFunc env decoded flags fs = (Inr (Some (cfg_ClientConfigDir cfg)), fs') \<and>
    (\<forall>name. map_of fs' (cfg_ClientConfigDir cfg @ ''/'' @ name) = None)"
proof -
  let ?d = "cfg_ClientConfigDir cfg"
  have b: "at_or_below ?d (?d @ ''/'' @ name)" for name by (simp add: at_or_below_def HasPrefix_def)
  obtain content where "(?d @ ''/'' @ name, content) \<in> set fs" using assms(6) by (metis map_of_SomeD not_Some_eq)
  then have "list_ex (\<lambda>f. at_or_below ?d (fst f)) fs" using b [of name] by (force simp: list_ex_iff)
  moreover have "map_of (filter (\<lambda>f. \<not> at_or_below ?d (fst f)) fs) (?d @ ''/'' @ name) = None" for name
    using b [of name] by (auto simp: map_of_eq_None_iff)
  ultimately show ?thesis using assms(1-5) by (simp add: removeHostNqnCmdFunc_def Let_def)
qed

section \<open>From the configuration to the service\<close>


section \<open>Witnesses\<close>

definition ex_cmd_env :: cmd_env where
  "ex_cmd_env = \<lparr> cv_missing = (\<lambda>p. p = ''/dc/internal''), cv_mkdir_ok = (\<lambda>_. True), cv_hostid = ce_hostid ex_env, cv_net = (\<lambda>_. None),
     cv_create = \<lparr> tmpName = Some ''/dc/conf/tmp.dc.1'', writeFault = None, closeOk = True, renameOk = True \<rparr>, cv_remove_ok = True \<rparr>"

definition ex_flags :: "string \<Rightarrow> flags" where
  "ex_flags name = \<lparr> fl_changed = (\<lambda>_. True),
     fl_string = (\<lambda>f. if f = ''name'' then name else if f = ''hostnqn'' then ''nqn.h'' else if f = ''nqn'' then ''nqn.s''
       else if f = ''transport'' then ''tcp'' else ''id1''),
     fl_slice = (\<lambda>_. [''10.0.0.1:8009'']) \<rparr>"

abbreviation ex_decoded :: "AppConfig option" where
  "ex_decoded \<equiv> Some (ex_config\<lparr> cfg_ClientConfigDir := ''/dc/conf'', cfg_InternalDir := ''/dc/internal'' \<rparr>)"

lemma ex_loaded: "LoadFromViper ex_decoded = Some (ex_config\<lparr> cfg_ClientConfigDir := ''/dc/conf'', cfg_InternalDir := ''/dc/internal'',
    cfg_ReconnectInterval := 5 * Second, cfg_CtrlLossTMO := 600 \<rparr>)"
  by (simp add: LoadFromViper_def verifyConfigurationIsValid_def Let_def ex_config_def IsValid_def Include_iff validLevels_def)

lemma ex_address: "SplitHostPort ''10.0.0.1:8009'' = Inr (''10.0.0.1'', ''8009'')" "ParseUint 16 ''8009'' = (8009, None)"
  "\<exists>a. AdjustTraddr (\<lambda>_. None) ''10.0.0.1'' = Inr a"
proof -
  show "SplitHostPort ''10.0.0.1:8009'' = Inr (''10.0.0.1'', ''8009'')" by code_simp
  show "ParseUint 16 ''8009'' = (8009, None)" by code_simp
  show "\<exists>a. AdjustTraddr (\<lambda>_. None) ''10.0.0.1'' = Inr a" using example_printable by (simp add: printable_def example_common_def)
qed

lemma ex_created: "CreateEntries (\<lambda>_. None) [''10.0.0.1:8009''] ''nqn.h'' ''nqn.s'' ''tcp'' ''id1'' = Inr [example_common]"
  using ex_address by (auto simp: CreateEntries_def example_common_def)

lemma ex_joined: "path_Join ''/dc/conf'' ''a.conf'' = ''/dc/conf/a.conf''" "path_Join ''/dc/conf'' '''' = ''/dc/conf''"
  by code_simp+

theorem added_hostnqn_is_tracked_witness:
  "\<exists>fs'. addHostNqnCmdFunc ex_cmd_env ex_decoded (ex_flags ''a.conf'') [] = (Inr ''/dc/conf/a.conf'', fs') \<and>
     cache_keys (handleEvent ((ch_cache ex_choice)\<lparr> ev_files := fs', ev_net := (\<lambda>_. None) \<rparr>) \<lparr> evt_Name = ''/dc/conf/a.conf'', evt_Op = OpCreate \<rparr>
       (NewCache ''/dc/conf'' ''/dc/internal'' None [] NoFile)) = address_key (ex_flags ''a.conf'') ''10.0.0.1:8009''"
proof -
  let ?c = "NewCache ''/dc/conf'' ''/dc/internal'' None [] NoFile" and ?f = "''/dc/conf/a.conf''"
  obtain fs' where a: "addHostNqnCmdFunc ex_cmd_env ex_decoded (ex_flags ''a.conf'') [] = (Inr ?f, fs')"
    using ex_created ex_joined(1)
    by (simp add: addHostNqnCmdFunc_def ex_loaded ex_flags_def ex_cmd_env_def CreateFile_def Let_def HasPrefix_def DiscoveryClientReservedPrefix_def)
  have p: "list_all (printable (cv_net ex_cmd_env)) entries" if "CreateEntries (cv_net ex_cmd_env) (fl_slice (ex_flags ''a.conf'') ''addresses'')
      (fl_string (ex_flags ''a.conf'') ''hostnqn'') (fl_string (ex_flags ''a.conf'') ''nqn'') ''tcp'' (fl_string (ex_flags ''a.conf'') ''hostid'') = Inr entries"
    for entries using that ex_created example_printable by (auto simp: ex_flags_def ex_cmd_env_def)
  have b: "\<not> HasPrefix (Cache.path_Base ?f) DiscoveryClientReservedPrefix" by code_simp
  have x: "fl_changed (ex_flags ''a.conf'') ''hostid''" "fl_string (ex_flags ''a.conf'') ''transport'' = ''tcp''"
    "fl_slice (ex_flags ''a.conf'') ''addresses'' = [''10.0.0.1:8009'']" "cv_net ex_cmd_env = (\<lambda>_. None)" "cache_keys ?c = {}"
    by (simp_all add: ex_flags_def ex_cmd_env_def cache_keys_def NewCache_def)
  have t: "t \<noteq> ?f" if "tmpName (cv_create ex_cmd_env) = Some t" for t using that by (auto simp: ex_cmd_env_def)
  from added_hostnqn_is_tracked [OF a x(1,2) t p cache_inv_NewCache ex_fair refl b] a
  show ?thesis unfolding x(3,4) by (intro exI conjI) (assumption, simp add: x(5))
qed

theorem empty_name_removes_directory_witness:
  "\<exists>fs'. removeHostNqnCmdFunc ex_cmd_env ex_decoded (ex_flags '''') [(''/dc/conf/a.conf'', ''-t tcp'')] = (Inr (Some ''/dc/conf''), fs') \<and>
     map_of fs' ''/dc/conf/a.conf'' = None"
proof -
  let ?cfg = "ex_config\<lparr> cfg_ClientConfigDir := ''/dc/conf'', cfg_InternalDir := ''/dc/internal'', cfg_ReconnectInterval := 5 * Second, cfg_CtrlLossTMO := 600 \<rparr>"
  have d: "cfg_ClientConfigDir ?cfg = ''/dc/conf''" by simp
  have "map_of [(''/dc/conf/a.conf'', ''-t tcp'')] (cfg_ClientConfigDir ?cfg @ ''/'' @ ''a.conf'') \<noteq> None" by simp
  from empty_name_removes_directory [OF ex_loaded _ _ _ _ this, of "ex_flags ''''" ex_cmd_env] ex_joined(2)
  obtain fs' where "removeHostNqnCmdFunc ex_cmd_env ex_decoded (ex_flags '''') [(''/dc/conf/a.conf'', ''-t tcp'')] = (Inr (Some ''/dc/conf''), fs')"
    and n: "\<forall>name. map_of fs' (''/dc/conf'' @ ''/'' @ name) = None"
    unfolding d by (auto simp: ex_flags_def ex_cmd_env_def)
  with n [rule_format, of "''a.conf''"] show ?thesis by auto
qed

lemma ex_starts:
  assumes "internalJson (sv_cache s) = NoFile"
  shows "fst (service_Start (ch_cache ex_choice) (\<lambda>_. Some []) s) = None"
proof -
  have "DetectEntriesByIOControllers (ev_glob (ch_cache ex_choice)) net fs path port = Some []" for net fs path port
    by (simp add: DetectEntriesByIOControllers_def ex_choice_def example_cenv_def)
  then have "\<exists>fs. auto_detect (ch_cache ex_choice) (sv_cache s) = Inr fs"
    unfolding auto_detect_def by (auto split: option.splits prod.splits if_splits)
  then obtain fs where "auto_detect (ch_cache ex_choice) (sv_cache s) = Inr fs" by blast
  with assms show ?thesis by (simp add: service_Start_def Run_def sync_def useInternalJson_def Let_def split: prod.splits)
qed


end
